(* ===== verification/Prelude.thy ===== *)
theory Prelude
  imports Main "HOL-Library.Word"
begin

text \<open>
  What every other theory of the development shares: the type of a Rust
  computation with effects (\<open>prog\<close>), its combinators, a small
  weakest-precondition calculus over them (\<open>post\<close>), and the frame predicate
  \<open>within\<close> for the relations that operations never leave.

  A Rust function with effects is a function of the state it runs in.  It gives
  the state it leaves and one of three outcomes: \<open>Ok\<close> and \<open>Err\<close> are the
  constructors of the Rust type \<open>Result\<close>, and \<open>Panic\<close> stands for a panic
  (a failed \<open>unwrap\<close>, an index out of range, \<open>unreachable!()\<close>).  A
  \<open>Result\<close> that the code keeps as a value, instead of returning it, is a value
  of the sum type \<open>'e + 'a\<close>.
\<close>

named_theorems prog_defs \<open>the definitions of the effect combinators\<close>
named_theorems wp \<open>equations that compute the weakest precondition of a combinator\<close>

type_synonym u32 = "32 word"
type_synonym u64 = "64 word"
type_synonym i32 = "32 word"

section \<open>Outcomes and programs\<close>

datatype ('e, 'a) outcome = Ok 'a | Err 'e | Panic

type_synonym ('s, 'e, 'a) prog = "'s \<Rightarrow> ('e, 'a) outcome \<times> 's"

fun outcome_of :: "'e + 'a \<Rightarrow> ('e, 'a) outcome" where
  "outcome_of (Inl e) = Err e"
| "outcome_of (Inr a) = Ok a"

definition ret :: "'a \<Rightarrow> ('s, 'e, 'a) prog" where
  "ret a = (\<lambda>s. (Ok a, s))"

definition throw :: "'e \<Rightarrow> ('s, 'e, 'a) prog" where
  "throw e = (\<lambda>s. (Err e, s))"

definition panic :: "('s, 'e, 'a) prog" where
  "panic = (\<lambda>s. (Panic, s))"

text \<open>\<open>from_result r\<close> is Rust's \<open>r?\<close> for a \<open>Result\<close> that is already a value.\<close>

definition from_result :: "'e + 'a \<Rightarrow> ('s, 'e, 'a) prog" where
  "from_result r = (\<lambda>s. (outcome_of r, s))"

text \<open>A call that gives its \<open>Result\<close> as a value, run as a program.\<close>

definition run_result :: "('s \<Rightarrow> ('e + 'a) \<times> 's) \<Rightarrow> ('s, 'e, 'a) prog" where
  "run_result m = (\<lambda>s. case m s of (r, s') \<Rightarrow> (outcome_of r, s'))"

text \<open>\<open>andthen m f\<close> is \<open>let x = m?; f(x)\<close>.\<close>

definition andthen :: "('s, 'e, 'a) prog \<Rightarrow> ('a \<Rightarrow> ('s, 'e, 'b) prog) \<Rightarrow> ('s, 'e, 'b) prog" where
  "andthen m f = (\<lambda>s. case m s of
      (Ok a, s') \<Rightarrow> f a s'
    | (Err e, s') \<Rightarrow> (Err e, s')
    | (Panic, s') \<Rightarrow> (Panic, s'))"

text \<open>\<open>attempt m f\<close> is \<open>let x = m; f(x)\<close>: the \<open>Result\<close> itself is the value.\<close>

definition attempt :: "('s, 'e, 'a) prog \<Rightarrow> ('e + 'a \<Rightarrow> ('s, 'f, 'b) prog) \<Rightarrow> ('s, 'f, 'b) prog" where
  "attempt m f = (\<lambda>s. case m s of
      (Ok a, s') \<Rightarrow> f (Inr a) s'
    | (Err e, s') \<Rightarrow> f (Inl e) s'
    | (Panic, s') \<Rightarrow> (Panic, s'))"

definition map_err :: "('e \<Rightarrow> 'f) \<Rightarrow> ('s, 'e, 'a) prog \<Rightarrow> ('s, 'f, 'a) prog" where
  "map_err h m = attempt m (\<lambda>r. case r of Inl e \<Rightarrow> throw (h e) | Inr a \<Rightarrow> ret a)"

definition get_state :: "('s, 'e, 's) prog" where
  "get_state = (\<lambda>s. (Ok s, s))"

definition modify :: "('s \<Rightarrow> 's) \<Rightarrow> ('s, 'e, unit) prog" where
  "modify h = (\<lambda>s. (Ok (), h s))"

lemmas prog_unfold [prog_defs] =
  ret_def throw_def panic_def from_result_def run_result_def andthen_def attempt_def map_err_def
  get_state_def modify_def

lemma andthen_step: "m s = (Ok a, s') \<Longrightarrow> andthen m f s = f a s'"
  by (simp add: andthen_def)

lemma andthen_stop: "m s = (Err e, s') \<Longrightarrow> andthen m f s = (Err e, s')"
  by (simp add: andthen_def)

lemma andthen_Ok:
  "andthen m f s = (Ok b, t) \<longleftrightarrow> (\<exists>a s'. m s = (Ok a, s') \<and> f a s' = (Ok b, t))"
  by (auto simp: andthen_def split: prod.splits outcome.splits)

lemma andthen_Err:
  "andthen m f s = (Err e, t) \<longleftrightarrow>
     m s = (Err e, t) \<or> (\<exists>a s'. m s = (Ok a, s') \<and> f a s' = (Err e, t))"
  by (auto simp: andthen_def split: prod.splits outcome.splits)

lemma andthen_Panic:
  "andthen m f s = (Panic, t) \<longleftrightarrow>
     m s = (Panic, t) \<or> (\<exists>a s'. m s = (Ok a, s') \<and> f a s' = (Panic, t))"
  by (auto simp: andthen_def split: prod.splits outcome.splits)

lemma attempt_Ok:
  "attempt m f s = (Ok b, t) \<longleftrightarrow> (\<exists>a s'. m s = (Ok a, s') \<and> f (Inr a) s' = (Ok b, t))
     \<or> (\<exists>e s'. m s = (Err e, s') \<and> f (Inl e) s' = (Ok b, t))"
  by (auto simp: attempt_def split: prod.splits outcome.splits)

lemma attempt_Err:
  "attempt m f s = (Err e, t) \<longleftrightarrow> (\<exists>a s'. m s = (Ok a, s') \<and> f (Inr a) s' = (Err e, t))
     \<or> (\<exists>e' s'. m s = (Err e', s') \<and> f (Inl e') s' = (Err e, t))"
  by (auto simp: attempt_def split: prod.splits outcome.splits)

lemma from_result_Ok: "from_result r s = (Ok a, t) \<longleftrightarrow> r = Inr a \<and> t = s"
  by (cases r) (auto simp: from_result_def)

lemma from_result_Err: "from_result r s = (Err e, t) \<longleftrightarrow> r = Inl e \<and> t = s"
  by (cases r) (auto simp: from_result_def)

lemma run_result_Ok: "run_result m s = (Ok a, t) \<longleftrightarrow> m s = (Inr a, t)"
  by (auto simp: run_result_def split: prod.splits elim: outcome_of.elims)

lemma run_result_Err: "run_result m s = (Err e, t) \<longleftrightarrow> m s = (Inl e, t)"
  by (auto simp: run_result_def split: prod.splits elim: outcome_of.elims)

lemma run_result_Panic: "run_result m s \<noteq> (Panic, t)"
  by (auto simp: run_result_def split: prod.splits elim: outcome_of.elims)

lemmas prog_cases = run_result_Ok run_result_Err andthen_Ok andthen_Err andthen_Panic from_result_Ok from_result_Err

section \<open>Weakest preconditions\<close>

text \<open>The simplifier rewrites inside the branches of a case distinction on an outcome.\<close>

declare outcome.case_cong [cong]

definition post :: "('s, 'e, 'a) prog \<Rightarrow> 's \<Rightarrow> (('e, 'a) outcome \<Rightarrow> 's \<Rightarrow> bool) \<Rightarrow> bool" where
  "post m s Q = Q (fst (m s)) (snd (m s))"

lemma post_ret [wp]: "post (ret a) s Q = Q (Ok a) s"
  by (simp add: post_def ret_def)

lemma post_throw [wp]: "post (throw e) s Q = Q (Err e) s"
  by (simp add: post_def throw_def)

lemma post_panic [wp]: "post panic s Q = Q Panic s"
  by (simp add: post_def panic_def)

lemma post_from_result [wp]:
  "post (from_result r) s Q = Q (outcome_of r) s"
  by (simp add: post_def from_result_def)

lemma post_run_result [wp]:
  "post (run_result m) s Q = Q (outcome_of (fst (m s))) (snd (m s))"
  by (simp add: post_def run_result_def split: prod.split)

lemma post_get_state [wp]: "post get_state s Q = Q (Ok s) s"
  by (simp add: post_def get_state_def)

lemma post_modify [wp]: "post (modify h) s Q = Q (Ok ()) (h s)"
  by (simp add: post_def modify_def)

lemma post_andthen [wp]:
  "post (andthen m f) s Q = post m s (\<lambda>r s'. case r of
      Ok a \<Rightarrow> post (f a) s' Q | Err e \<Rightarrow> Q (Err e) s' | Panic \<Rightarrow> Q Panic s')"
  by (auto simp: post_def andthen_def split: prod.splits outcome.splits)

lemma post_attempt [wp]:
  "post (attempt m f) s Q = post m s (\<lambda>r s'. case r of
      Ok a \<Rightarrow> post (f (Inr a)) s' Q | Err e \<Rightarrow> post (f (Inl e)) s' Q | Panic \<Rightarrow> Q Panic s')"
  by (auto simp: post_def attempt_def split: prod.splits outcome.splits)

lemma post_map_err [wp]:
  "post (map_err h m) s Q = post m s (\<lambda>r s'. case r of
      Ok a \<Rightarrow> Q (Ok a) s' | Err e \<Rightarrow> Q (Err (h e)) s' | Panic \<Rightarrow> Q Panic s')"
  by (simp add: map_err_def wp)

text \<open>A call whose specification is known is stepped over with the consequence rule.\<close>

lemma post_mono:
  assumes "post m s Q" and "\<And>r s'. Q r s' \<Longrightarrow> Q' r s'"
  shows "post m s Q'"
  using assms by (simp add: post_def)

lemma post_conj: "post m s Q \<Longrightarrow> post m s Q' \<Longrightarrow> post m s (\<lambda>r s'. Q r s' \<and> Q' r s')"
  by (simp add: post_def)

lemma postD: "post m s Q \<Longrightarrow> m s = (r, s') \<Longrightarrow> Q r s'"
  by (simp add: post_def)

lemma postI: "(\<And>r s'. m s = (r, s') \<Longrightarrow> Q r s') \<Longrightarrow> post m s Q"
  by (simp add: post_def prod.collapse)

lemma post_True [simp]: "post m s (\<lambda>r s'. True)"
  by (simp add: post_def)

section \<open>Frames: the relation between the states before and after\<close>

text \<open>
  \<open>step_order\<close> is the contract of a relation that a sequence of operations stays
  inside: reflexive, so that an operation without effect respects it, and
  transitive, so that a sequence does.
\<close>

definition within :: "('s \<Rightarrow> 's \<Rightarrow> bool) \<Rightarrow> ('s, 'e, 'a) prog \<Rightarrow> bool" where
  "within R m \<longleftrightarrow> (\<forall>s. R s (snd (m s)))"

locale step_order =
  fixes R :: "'s \<Rightarrow> 's \<Rightarrow> bool"
  assumes step_refl: "R s s"
    and step_trans: "R s t \<Longrightarrow> R t u \<Longrightarrow> R s u"
begin

lemma within_ret: "within R (ret a)"
  by (simp add: within_def ret_def step_refl)

lemma within_throw: "within R (throw e)"
  by (simp add: within_def throw_def step_refl)

lemma within_panic: "within R panic"
  by (simp add: within_def panic_def step_refl)

lemma within_from_result: "within R (from_result r)"
  by (simp add: within_def from_result_def step_refl)

lemma within_get_state: "within R get_state"
  by (simp add: within_def get_state_def step_refl)

lemma within_andthen:
  assumes "within R m" and "\<And>a. within R (f a)"
  shows "within R (andthen m f)"
proof (unfold within_def, rule allI)
  fix s
  obtain r s' where m: "m s = (r, s')" by (cases "m s")
  with assms(1) have s: "R s s'" by (metis within_def snd_conv)
  show "R s (snd (andthen m f s))"
  proof (cases r)
    case (Ok a)
    from assms(2) have "R s' (snd (f a s'))" by (simp add: within_def)
    with s show ?thesis by (auto simp: andthen_def m Ok intro: step_trans)
  qed (simp_all add: andthen_def m s)
qed

lemma within_attempt:
  assumes "within R m" and "\<And>a. within R (f a)"
  shows "within R (attempt m f)"
proof (unfold within_def, rule allI)
  fix s
  obtain r s' where m: "m s = (r, s')" by (cases "m s")
  with assms(1) have s: "R s s'" by (metis within_def snd_conv)
  show "R s (snd (attempt m f s))"
  proof -
    from assms(2) have "R s' (snd (f x s'))" for x by (simp add: within_def)
    with s show ?thesis by (auto simp: attempt_def m split: outcome.split intro: step_trans)
  qed
qed

lemma within_map_err: "within R m \<Longrightarrow> within R (map_err h m)"
  unfolding map_err_def
  by (rule within_attempt) (auto split: sum.split intro: within_ret within_throw)

lemmas within_rules =
  within_ret within_throw within_panic within_from_result within_get_state
  within_andthen within_attempt within_map_err

end

section \<open>Programs that never panic\<close>

definition returns :: "('s, 'e, 'a) prog \<Rightarrow> bool" where
  "returns m \<longleftrightarrow> (\<forall>s. fst (m s) \<noteq> Panic)"

lemma returnsD: "returns m \<Longrightarrow> m s \<noteq> (Panic, t)"
  by (metis returns_def fst_conv)

lemma returnsI: "(\<And>s t. m s \<noteq> (Panic, t)) \<Longrightarrow> returns m"
  by (metis returns_def prod.collapse)

lemma outcome_of_not_panic [simp]: "outcome_of r \<noteq> Panic"
  by (cases r) simp_all

lemma returns_rules:
  "returns (ret a)" "returns (throw e)" "returns (from_result r)" "returns (run_result m)"
  "returns get_state" "returns (modify h)"
  by (simp_all add: returns_def prog_defs split: prod.split)

lemma returns_andthen: "returns m \<Longrightarrow> (\<And>a. returns (f a)) \<Longrightarrow> returns (andthen m f)"
  by (auto simp: returns_def andthen_def split: prod.splits outcome.splits) (metis fst_conv)

lemma returns_attempt: "returns m \<Longrightarrow> (\<And>a. returns (f a)) \<Longrightarrow> returns (attempt m f)"
  by (auto simp: returns_def attempt_def split: prod.splits outcome.splits) (metis fst_conv)

lemmas returns_intros = returns_rules returns_andthen returns_attempt

end
