(* ===== verification/RustStr.thy ===== *)
theory RustStr
  imports Prelude
begin

text \<open>
  The part of Rust's standard library on strings and integers that the code uses.
  A Rust \<open>str\<close> is its UTF-8 encoding, so a string is modelled as the list of its
  bytes: a HOL \<open>char\<close> is one byte, \<open>length\<close> is \<open>str::len\<close>, and comparing with
  a literal, splitting at an ASCII character or stripping a prefix act on bytes.
  \<open>trim\<close> knows every white space character of Unicode by its encoding.  The two
  operations that would need the Unicode tables for letters (\<open>to_lowercase\<close> and
  \<open>to_uppercase\<close>) change ASCII letters and leave every other byte alone.
\<close>

section \<open>Characters\<close>

abbreviation nl :: char where "nl \<equiv> CHR 0x0A"
abbreviation cr :: char where "cr \<equiv> CHR 0x0D"

definition byte :: "char \<Rightarrow> nat" where
  "byte c = of_char c"

definition digit_char :: "nat \<Rightarrow> char" where
  "digit_char d = char_of (48 + d)"

definition digit_val :: "char \<Rightarrow> nat option" where
  "digit_val c = (if 48 \<le> byte c \<and> byte c \<le> 57 then Some (byte c - 48) else None)"

definition lower_char :: "char \<Rightarrow> char" where
  "lower_char c = (if 65 \<le> byte c \<and> byte c \<le> 90 then char_of (byte c + 32) else c)"

definition upper_char :: "char \<Rightarrow> char" where
  "upper_char c = (if 97 \<le> byte c \<and> byte c \<le> 122 then char_of (byte c - 32) else c)"

definition to_lowercase :: "string \<Rightarrow> string" where
  "to_lowercase s = map lower_char s"

definition to_uppercase :: "string \<Rightarrow> string" where
  "to_uppercase s = map upper_char s"

definition eq_ignore_ascii_case :: "string \<Rightarrow> string \<Rightarrow> bool" where
  "eq_ignore_ascii_case s t \<longleftrightarrow> map lower_char s = map lower_char t"

section \<open>White space\<close>

text \<open>
  \<open>ws_len\<close> is the number of bytes of the white space character at the front of a
  byte sequence, 0 when there is none: U+0009 to U+000D, U+0020, U+0085, U+00A0,
  U+1680, U+2000 to U+200A, U+2028, U+2029, U+202F, U+205F and U+3000.
\<close>

fun ws_len :: "nat list \<Rightarrow> nat" where
  "ws_len [] = 0"
| "ws_len (a # bs) =
     (if (9 \<le> a \<and> a \<le> 13) \<or> a = 32 then 1
      else case bs of
        [] \<Rightarrow> 0
      | b # cs \<Rightarrow>
          if a = 0xC2 \<and> (b = 0x85 \<or> b = 0xA0) then 2
          else case cs of
            [] \<Rightarrow> 0
          | c # _ \<Rightarrow>
              if (a = 0xE1 \<and> b = 0x9A \<and> c = 0x80)
                \<or> (a = 0xE2 \<and> b = 0x80 \<and>
                     ((0x80 \<le> c \<and> c \<le> 0x8A) \<or> c = 0xA8 \<or> c = 0xA9 \<or> c = 0xAF))
                \<or> (a = 0xE2 \<and> b = 0x81 \<and> c = 0x9F)
                \<or> (a = 0xE3 \<and> b = 0x80 \<and> c = 0x80)
              then 3 else 0)"

text \<open>The same test on the reversed sequence, for a white space character at its end.\<close>

definition ws_len_rev :: "nat list \<Rightarrow> nat" where
  "ws_len_rev bs =
     (if ws_len (take 1 bs) = 1 then 1
      else if ws_len (rev (take 2 bs)) = 2 then 2
      else if ws_len (rev (take 3 bs)) = 3 then 3 else 0)"

function drop_ws :: "(nat list \<Rightarrow> nat) \<Rightarrow> string \<Rightarrow> string" where
  "drop_ws w s =
     (if s = [] \<or> w (map byte s) = 0 then s else drop_ws w (drop (w (map byte s)) s))"
  by pat_completeness auto
termination
  by (relation "measure (\<lambda>(w, s). length s)") auto

declare drop_ws.simps [simp del]

definition trim_start :: "string \<Rightarrow> string" where
  "trim_start s = drop_ws ws_len s"

definition trim_end :: "string \<Rightarrow> string" where
  "trim_end s = rev (drop_ws ws_len_rev (rev s))"

definition trim :: "string \<Rightarrow> string" where
  "trim s = trim_end (trim_start s)"

text \<open>A byte that is neither white space nor part of a longer encoding.\<close>

definition graphic :: "char \<Rightarrow> bool" where
  "graphic c \<longleftrightarrow> 33 \<le> byte c \<and> byte c \<le> 126"

lemma ws_len_graphic: "graphic c \<Longrightarrow> ws_len (byte c # bs) = 0"
  by (auto simp: graphic_def split: list.split)

lemma ws_len_le: "ws_len bs \<le> length bs"
  by (cases bs rule: ws_len.cases) (auto split: list.splits)

lemma ws_len_no_ascii: "ws_len bs = n \<Longrightarrow> 1 < n \<Longrightarrow> b \<in> set (take n bs) \<Longrightarrow> 127 < b"
  by (cases bs rule: ws_len.cases)
    (auto simp: take_Suc_conv_app_nth numeral_2_eq_2 numeral_3_eq_3 split: list.splits if_splits)

declare ws_len.simps [simp del]

lemma ws_len_rev_graphic:
  assumes "graphic c" shows "ws_len_rev (byte c # bs) = 0"
proof -
  have "ws_len (rev (take k (byte c # bs))) \<noteq> k" if "1 < k" "k \<le> 3" for k
  proof
    assume w: "ws_len (rev (take k (byte c # bs))) = k"
    with ws_len_le [of "rev (take k (byte c # bs))"] have "k \<le> length (rev (take k (byte c # bs)))"
      by simp
    then have "byte c \<in> set (take k (rev (take k (byte c # bs))))"
      using that by (cases k) auto
    from ws_len_no_ascii [OF w \<open>1 < k\<close> this] assms show False
      by (simp add: graphic_def)
  qed
  from this [of 2] this [of 3] assms show ?thesis
    by (simp add: ws_len_rev_def ws_len_graphic)
qed

lemma trim_start_graphic [simp]: "graphic c \<Longrightarrow> trim_start (c # s) = c # s"
  by (simp add: trim_start_def drop_ws.simps [of ws_len "c # s"] ws_len_graphic)

lemma trim_end_graphic [simp]: "graphic c \<Longrightarrow> trim_end (s @ [c]) = s @ [c]"
  by (simp add: trim_end_def drop_ws.simps [of ws_len_rev "c # rev s"] ws_len_rev_graphic)

lemma trim_start_Nil [simp]: "trim_start [] = []"
  by (simp add: trim_start_def drop_ws.simps [of _ "[]"])

lemma trim_end_Nil [simp]: "trim_end [] = []"
  by (simp add: trim_end_def drop_ws.simps [of _ "[]"])

lemma trim_Nil [simp]: "trim [] = []"
  by (simp add: trim_def)

lemma trim_graphic:
  assumes "s \<noteq> []" "graphic (hd s)" "graphic (last s)"
  shows "trim s = s"
proof -
  obtain c t where "s = c # t" using assms(1) by (cases s) auto
  with assms(2) have start: "trim_start s = s" by simp
  from assms(3) have "trim_end (butlast s @ [last s]) = butlast s @ [last s]" by simp
  with assms(1) start show ?thesis by (simp add: trim_def)
qed

lemma trim_id: "\<forall>c \<in> set s. graphic c \<Longrightarrow> trim s = s"
  by (cases "s = []") (auto intro!: trim_graphic)

lemma trim_end_nl [simp]: "trim_end (s @ [nl]) = trim_end s"
  by (simp add: trim_end_def drop_ws.simps [of ws_len_rev "nl # rev s"] ws_len_rev_def byte_def ws_len.simps)

lemma drop_ws_set: "set (drop_ws w s) \<subseteq> set s"
proof (induction w s rule: drop_ws.induct)
  case (1 w s)
  show ?case
    by (subst drop_ws.simps) (use 1 in \<open>auto dest: in_set_dropD\<close>)
qed

lemma trim_set: "set (trim s) \<subseteq> set s"
  using drop_ws_set [of ws_len s] drop_ws_set [of ws_len_rev "rev (drop_ws ws_len s)"]
  by (auto simp: trim_def trim_start_def trim_end_def)

section \<open>Splitting, prefixes and replacement\<close>

fun strip_prefix :: "string \<Rightarrow> string \<Rightarrow> string option" where
  "strip_prefix [] s = Some s"
| "strip_prefix (p # ps) [] = None"
| "strip_prefix (p # ps) (c # cs) = (if p = c then strip_prefix ps cs else None)"

definition starts_with :: "string \<Rightarrow> string \<Rightarrow> bool" where
  "starts_with p s \<longleftrightarrow> strip_prefix p s \<noteq> None"

definition ends_with_char :: "char \<Rightarrow> string \<Rightarrow> bool" where
  "ends_with_char c s \<longleftrightarrow> s \<noteq> [] \<and> last s = c"

text \<open>\<open>str::split\<close> with a character: one piece more than there are separators.\<close>

fun split_on :: "char \<Rightarrow> string \<Rightarrow> string list" where
  "split_on x [] = [[]]"
| "split_on x (c # cs) =
     (if c = x then [] # split_on x cs
      else (case split_on x cs of [] \<Rightarrow> [[c]] | p # ps \<Rightarrow> (c # p) # ps))"

text \<open>
  \<open>str::split\<close> with a string pattern.  The empty pattern matches before every
  character and at the end, so that the first and the last piece are empty; its
  pieces are characters, that is, UTF-8 sequences starting at a byte that is no
  continuation byte.
\<close>

definition continuation :: "char \<Rightarrow> bool" where
  "continuation c \<longleftrightarrow> 128 \<le> byte c \<and> byte c \<le> 191"

fun char_pieces :: "string \<Rightarrow> string list" where
  "char_pieces [] = []"
| "char_pieces (c # cs) =
     (case char_pieces cs of
        [] \<Rightarrow> [[c]]
      | p # ps \<Rightarrow> if p \<noteq> [] \<and> continuation (hd p) then (c # p) # ps else [c] # p # ps)"

function split_str_acc :: "string \<Rightarrow> string \<Rightarrow> string \<Rightarrow> string list" where
  "split_str_acc sep acc s =
     (if sep = [] then [rev acc @ s]
      else case s of
        [] \<Rightarrow> [rev acc]
      | c # cs \<Rightarrow> (case strip_prefix sep s of
          Some r \<Rightarrow> rev acc # split_str_acc sep [] (drop (length sep) s)
        | None \<Rightarrow> split_str_acc sep (c # acc) cs))"
  by pat_completeness auto
termination
  by (relation "measure (\<lambda>(sep, acc, s). length s)") auto

declare split_str_acc.simps [simp del]

definition split_str :: "string \<Rightarrow> string \<Rightarrow> string list" where
  "split_str sep s =
     (if sep = [] then [] # char_pieces s @ [[]] else split_str_acc sep [] s)"

fun split_once :: "char \<Rightarrow> string \<Rightarrow> (string \<times> string) option" where
  "split_once x [] = None"
| "split_once x (c # cs) =
     (if c = x then Some ([], cs)
      else map_option (\<lambda>(a, b). (c # a, b)) (split_once x cs))"

text \<open>\<open>str::split_whitespace\<close>: the maximal pieces without white space.\<close>

function split_whitespace_acc :: "string \<Rightarrow> string \<Rightarrow> string list" where
  "split_whitespace_acc acc s =
     (case s of
        [] \<Rightarrow> (if acc = [] then [] else [rev acc])
      | c # cs \<Rightarrow>
          (let n = ws_len (map byte s) in
           if n = 0 then split_whitespace_acc (c # acc) cs
           else (if acc = [] then [] else [rev acc]) @ split_whitespace_acc [] (drop n s)))"
  by pat_completeness auto
termination
  by (relation "measure (\<lambda>(acc, s). length s)") auto

declare split_whitespace_acc.simps [simp del]

definition split_whitespace :: "string \<Rightarrow> string list" where
  "split_whitespace s = split_whitespace_acc [] s"

definition replace_chars :: "char list \<Rightarrow> string \<Rightarrow> string \<Rightarrow> string" where
  "replace_chars xs r s = concat (map (\<lambda>c. if c \<in> set xs then r else [c]) s)"

fun join :: "string \<Rightarrow> string list \<Rightarrow> string" where
  "join sep [] = []"
| "join sep [x] = x"
| "join sep (x # y # ys) = x @ sep @ join sep (y # ys)"

lemma strip_prefix_append [simp]: "strip_prefix p (p @ s) = Some s"
  by (induction p) auto

lemma strip_prefix_Some: "strip_prefix p s = Some r \<longleftrightarrow> s = p @ r"
  by (induction p s rule: strip_prefix.induct) auto

lemma split_on_not_Nil [simp]: "split_on x s \<noteq> []"
  by (cases s) (auto split: list.split)

lemma split_on_no_sep: "x \<notin> set s \<Longrightarrow> split_on x s = [s]"
  by (induction s) auto

lemma split_on_append: "x \<notin> set s \<Longrightarrow> split_on x (s @ x # t) = s # split_on x t"
  by (induction s) (auto split: list.split)

lemma join_Cons: "join sep (x # xs) = x @ (if xs = [] then [] else sep @ join sep xs)"
  by (cases xs) simp_all

lemma join_split_on: "join [x] (split_on x s) = s"
proof (induction s)
  case (Cons c cs)
  then show ?case
    by (cases "split_on x cs") (auto simp: join_Cons)
qed simp

lemma split_on_sep_free: "p \<in> set (split_on x s) \<Longrightarrow> x \<notin> set p"
proof (induction s arbitrary: p)
  case (Cons c cs)
  then show ?case by (cases "split_on x cs") (auto split: if_splits)
qed simp

lemma split_once_Some: "split_once x s = Some (a, b) \<longleftrightarrow> s = a @ x # b \<and> x \<notin> set a"
proof (induction s arbitrary: a)
  case (Cons c cs)
  then show ?case by (cases a) auto
qed simp

lemma split_once_None: "split_once x s = None \<longleftrightarrow> x \<notin> set s"
  by (induction s) auto

lemma replace_chars_set: "set (replace_chars xs r s) \<subseteq> (set s - set xs) \<union> set r"
  by (auto simp: replace_chars_def split: if_splits)

lemma split_whitespace_graphic:
  "\<forall>c \<in> set w. graphic c \<Longrightarrow>
     split_whitespace_acc acc (w @ s) = split_whitespace_acc (rev w @ acc) s"
proof (induction w arbitrary: acc)
  case (Cons c w)
  then show ?case
    by (subst split_whitespace_acc.simps) (simp add: ws_len_graphic)
qed simp

lemma split_whitespace_space:
  "split_whitespace_acc acc (CHR '' '' # s) =
     (if acc = [] then [] else [rev acc]) @ split_whitespace_acc [] s"
  by (subst split_whitespace_acc.simps) (simp add: byte_def ws_len.simps)

lemma split_whitespace_nl:
  "split_whitespace_acc acc [nl] = (if acc = [] then [] else [rev acc])"
  by (simp add: split_whitespace_acc.simps [of acc "[nl]"] split_whitespace_acc.simps [of _ "[]"]
      byte_def ws_len.simps)

section \<open>Integers in decimal\<close>

fun show_nat :: "nat \<Rightarrow> string" where
  "show_nat n =
     (if n < 10 then [digit_char n] else show_nat (n div 10) @ [digit_char (n mod 10)])"

declare show_nat.simps [simp del]

definition show_u32 :: "u32 \<Rightarrow> string" where
  "show_u32 w = show_nat (unat w)"

definition show_i32 :: "i32 \<Rightarrow> string" where
  "show_i32 w = (if sint w < 0 then ''-'' @ show_nat (nat (- sint w)) else show_nat (nat (sint w)))"

text \<open>
  \<open>IntErrorKind\<close>, and \<open>str::parse\<close> of an unsigned and of a signed integer: an
  optional sign, at least one digit, overflow found at the first digit that
  causes it.
\<close>

datatype int_error = Empty | InvalidDigit | PosOverflow | NegOverflow

text \<open>\<open>Display\<close> of a \<open>ParseIntError\<close>.\<close>

fun int_error_display :: "int_error \<Rightarrow> string" where
  "int_error_display Empty = ''cannot parse integer from empty string''"
| "int_error_display InvalidDigit = ''invalid digit found in string''"
| "int_error_display PosOverflow = ''number too large to fit in target type''"
| "int_error_display NegOverflow = ''number too small to fit in target type''"

fun digits_upto :: "nat \<Rightarrow> int_error \<Rightarrow> nat \<Rightarrow> string \<Rightarrow> int_error + nat" where
  "digits_upto m ovf acc [] = Inr acc"
| "digits_upto m ovf acc (c # cs) =
     (case digit_val c of
        None \<Rightarrow> Inl InvalidDigit
      | Some d \<Rightarrow> if m < acc * 10 + d then Inl ovf else digits_upto m ovf (acc * 10 + d) cs)"

definition parse_unsigned :: "nat \<Rightarrow> string \<Rightarrow> int_error + nat" where
  "parse_unsigned m s =
     (if s = [] then Inl Empty
      else if s = ''+'' \<or> s = ''-'' then Inl InvalidDigit
      else digits_upto m PosOverflow 0 (if hd s = CHR ''+'' then tl s else s))"

definition parse_signed :: "nat \<Rightarrow> string \<Rightarrow> int_error + int" where
  "parse_signed m s =
     (if s = [] then Inl Empty
      else if s = ''+'' \<or> s = ''-'' then Inl InvalidDigit
      else if hd s = CHR ''-'' then map_sum id (\<lambda>n. - int n) (digits_upto (m + 1) NegOverflow 0 (tl s))
      else map_sum id int (digits_upto m PosOverflow 0 (if hd s = CHR ''+'' then tl s else s)))"

definition parse_u32 :: "string \<Rightarrow> int_error + u32" where
  "parse_u32 s = map_sum id of_nat (parse_unsigned 4294967295 s)"

definition parse_u64 :: "string \<Rightarrow> int_error + u64" where
  "parse_u64 s = map_sum id of_nat (parse_unsigned 18446744073709551615 s)"

definition parse_i32 :: "string \<Rightarrow> int_error + i32" where
  "parse_i32 s = map_sum id of_int (parse_signed 2147483647 s)"

lemma byte_digit_char: "d < 10 \<Longrightarrow> byte (digit_char d) = 48 + d"
  by (simp add: byte_def digit_char_def take_bit_eq_mod)

lemma digit_val_digit_char [simp]: "d < 10 \<Longrightarrow> digit_val (digit_char d) = Some d"
  by (simp add: digit_val_def byte_digit_char)

lemma graphic_digit_char [simp]: "d < 10 \<Longrightarrow> graphic (digit_char d)"
  by (simp add: graphic_def byte_digit_char)

lemma show_nat_graphic: "\<forall>c \<in> set (show_nat n). graphic c"
  by (induction n rule: show_nat.induct) (subst show_nat.simps, simp)

lemma show_nat_digits: "c \<in> set (show_nat n) \<Longrightarrow> \<exists>d < 10. c = digit_char d"
proof (induction n rule: show_nat.induct)
  case (1 n)
  then show ?case
    by (subst (asm) (2) show_nat.simps) (force split: if_splits)
qed

lemma show_nat_not_Nil [simp]: "show_nat n \<noteq> []"
  by (subst show_nat.simps) simp

lemma digits_upto_append:
  "digits_upto m e acc (s @ t) =
     (case digits_upto m e acc s of Inl x \<Rightarrow> Inl x | Inr a \<Rightarrow> digits_upto m e a t)"
  by (induction m e acc s rule: digits_upto.induct) (auto split: option.split)

lemma digits_upto_show: "n \<le> m \<Longrightarrow> digits_upto m e 0 (show_nat n) = Inr n"
proof (induction n rule: show_nat.induct)
  case (1 n)
  show ?case
  proof (cases "n < 10")
    case True
    with 1 show ?thesis by (simp add: show_nat.simps [of n])
  next
    case False
    then have "digits_upto m e 0 (show_nat (n div 10)) = Inr (n div 10)"
      using 1 by simp
    with False 1 show ?thesis
      by (simp add: show_nat.simps [of n] digits_upto_append)
  qed
qed

lemma digits_upto_bound: "digits_upto m e acc s = Inr n \<Longrightarrow> acc \<le> m \<Longrightarrow> n \<le> m"
  by (induction m e acc s rule: digits_upto.induct) (auto split: option.splits if_splits)

lemma parse_unsigned_bound: "parse_unsigned m s = Inr n \<Longrightarrow> n \<le> m"
  by (auto simp: parse_unsigned_def split: if_splits dest: digits_upto_bound)

lemma hd_show_nat: "\<exists>d < 10. hd (show_nat n) = digit_char d"
  using show_nat_digits [OF hd_in_set [OF show_nat_not_Nil]] .

lemma digit_char_not_sign: "d < 10 \<Longrightarrow> digit_char d \<noteq> CHR ''+'' \<and> digit_char d \<noteq> CHR ''-''"
  using byte_digit_char [of d] by (auto simp: byte_def)

lemma parse_unsigned_show: "n \<le> m \<Longrightarrow> parse_unsigned m (show_nat n) = Inr n"
proof -
  obtain d where "d < 10" "hd (show_nat n) = digit_char d" using hd_show_nat by blast
  with digit_char_not_sign have "hd (show_nat n) \<noteq> CHR ''+''" "hd (show_nat n) \<noteq> CHR ''-''"
    by auto
  moreover assume "n \<le> m"
  ultimately show ?thesis by (auto simp: parse_unsigned_def digits_upto_show)
qed

lemma parse_show_u32 [simp]: "parse_u32 (show_u32 w) = Inr w"
proof -
  have "unat w \<le> 4294967295" using unsigned_less [of w, where 'a = nat] by simp
  then show ?thesis by (simp add: parse_u32_def show_u32_def parse_unsigned_show)
qed

lemma show_u32_graphic: "\<forall>c \<in> set (show_u32 w). graphic c"
  by (simp add: show_u32_def show_nat_graphic)

lemma show_u32_not_Nil [simp]: "show_u32 w \<noteq> []"
  by (simp add: show_u32_def)

lemma show_u32_inject [simp]: "show_u32 v = show_u32 w \<longleftrightarrow> v = w"
  by (metis parse_show_u32 sum.inject(2))

lemma trim_show_u32 [simp]: "trim (show_u32 w) = show_u32 w"
  by (rule trim_id) (rule show_u32_graphic)

section \<open>UTF-8\<close>

text \<open>Whether a byte sequence is valid UTF-8, as \<open>String::from_utf8\<close> decides it.\<close>

fun utf8_ok :: "nat list \<Rightarrow> bool" where
  "utf8_ok [] = True"
| "utf8_ok (a # bs) =
     (if a < 0x80 then utf8_ok bs
      else case bs of
        [] \<Rightarrow> False
      | b # cs \<Rightarrow>
          if 0xC2 \<le> a \<and> a \<le> 0xDF then 0x80 \<le> b \<and> b \<le> 0xBF \<and> utf8_ok cs
          else case cs of
            [] \<Rightarrow> False
          | c # ds \<Rightarrow>
              if 0xE0 \<le> a \<and> a \<le> 0xEF then
                (if a = 0xE0 then 0xA0 else 0x80) \<le> b \<and> b \<le> (if a = 0xED then 0x9F else 0xBF)
                \<and> 0x80 \<le> c \<and> c \<le> 0xBF \<and> utf8_ok ds
              else case ds of
                [] \<Rightarrow> False
              | d # es \<Rightarrow>
                  0xF0 \<le> a \<and> a \<le> 0xF4
                  \<and> (if a = 0xF0 then 0x90 else 0x80) \<le> b \<and> b \<le> (if a = 0xF4 then 0x8F else 0xBF)
                  \<and> 0x80 \<le> c \<and> c \<le> 0xBF \<and> 0x80 \<le> d \<and> d \<le> 0xBF \<and> utf8_ok es)"

section \<open>Debug formatting\<close>

text \<open>
  \<open>{:?}\<close> of a string: quoted, with quotes, backslashes and the common control
  characters escaped; bytes beyond ASCII are copied.
\<close>

definition hex_digit :: "nat \<Rightarrow> char" where
  "hex_digit d = (if d < 10 then char_of (48 + d) else char_of (87 + d))"

definition escape_char :: "char \<Rightarrow> string" where
  "escape_char c =
     (let b = byte c; bs = char_of (92::nat) in
      if b = 34 \<or> b = 92 then [bs, c]
      else if b = 9 then [bs, CHR ''t''] else if b = 10 then [bs, CHR ''n'']
      else if b = 13 then [bs, CHR ''r''] else if b = 0 then [bs, CHR ''0'']
      else if b < 16 then [bs] @ ''u{'' @ [hex_digit b] @ ''}''
      else if b < 32 \<or> b = 127 then [bs] @ ''u{'' @ [hex_digit (b div 16), hex_digit (b mod 16)] @ ''}''
      else [c])"

definition debug_str :: "string \<Rightarrow> string" where
  "debug_str s = (let q = char_of (34::nat) in [q] @ concat (map escape_char s) @ [q])"

end
