(* ===== verification/Json.thy ===== *)
theory Json
  imports RustStr
begin

text \<open>
  JSON documents as the crates \<open>json\<close> and \<open>serde_json\<close> present them: the variants
  of \<open>Value\<close>, and the accessors the code calls.  An integer literal that fits in 64
  bits is \<open>JInt\<close>; any other number is \<open>JFrac\<close> with its text.  Parsing, printing and
  reading such a number as an unsigned integer are the crates' own code (\<open>json\<close>
  truncates, \<open>serde_json\<close> refuses): the record \<open>json_lib\<close> holds them as parameters.
  What is relied on (\<open>json_lib_ok\<close>) is that a document is printed on one line, and
  that a printed object parses back with the same string members.
\<close>

datatype json =
    JNull
  | JBool bool
  | JInt int
  | JFrac string
  | JStr string
  | JArr "json list"
  | JObj "(string \<times> json) list"

record json_lib =
  jparse :: "string \<Rightarrow> string + json"
  jdump :: "json \<Rightarrow> string"
  jfrac_u64 :: "string \<Rightarrow> u64 option"

fun as_str :: "json \<Rightarrow> string option" where
  "as_str (JStr s) = Some s"
| "as_str _ = None"

fun as_bool :: "json \<Rightarrow> bool option" where
  "as_bool (JBool b) = Some b"
| "as_bool _ = None"

text \<open>An unsigned number: of 64 bits, and of 32 bits when it is small enough.\<close>

fun as_u64 :: "json_lib \<Rightarrow> json \<Rightarrow> u64 option" where
  "as_u64 L (JInt i) = (if 0 \<le> i \<and> i < 2 ^ 64 then Some (of_int i) else None)"
| "as_u64 L (JFrac t) = jfrac_u64 L t"
| "as_u64 L _ = None"

definition as_u32 :: "json_lib \<Rightarrow> json \<Rightarrow> u32 option" where
  "as_u32 L v = (case as_u64 L v of
      Some n \<Rightarrow> if unat n < 2 ^ 32 then Some (ucast n) else None
    | None \<Rightarrow> None)"

fun as_array :: "json \<Rightarrow> json list option" where
  "as_array (JArr xs) = Some xs"
| "as_array _ = None"

fun as_object :: "json \<Rightarrow> (string \<times> json) list option" where
  "as_object (JObj kvs) = Some kvs"
| "as_object _ = None"

definition is_object :: "json \<Rightarrow> bool" where
  "is_object v \<longleftrightarrow> as_object v \<noteq> None"

definition is_string :: "json \<Rightarrow> bool" where
  "is_string v \<longleftrightarrow> as_str v \<noteq> None"

definition is_null :: "json \<Rightarrow> bool" where
  "is_null v \<longleftrightarrow> v = JNull"

text \<open>\<open>value.get(k)\<close> and \<open>value[k]\<close>, the latter null when there is no such member.\<close>

definition jget :: "json \<Rightarrow> string \<Rightarrow> json option" where
  "jget v k = (case v of JObj kvs \<Rightarrow> map_of kvs k | _ \<Rightarrow> None)"

definition jindex :: "json \<Rightarrow> string \<Rightarrow> json" where
  "jindex v k = (case jget v k of Some x \<Rightarrow> x | None \<Rightarrow> JNull)"

definition jkeys :: "(string \<times> json) list \<Rightarrow> string list" where
  "jkeys kvs = remdups (map fst kvs)"

text \<open>A number of the width \<open>u32\<close> or \<open>u64\<close> as a document.\<close>

definition of_u32 :: "u32 \<Rightarrow> json" where
  "of_u32 w = JInt (uint w)"

lemma as_u32_of_u32 [simp]: "as_u32 L (of_u32 w) = Some w"
proof -
  have i: "uint w < 2 ^ 32" using unsigned_less [of w, where 'a = int] by simp
  have n: "unat w < 2 ^ 32" using unsigned_less [of w, where 'a = nat] by simp
  have "unat (ucast w :: u64) = unat w"
    using n by (simp add: unsigned_ucast_eq take_bit_nat_eq_self)
  moreover have "(ucast (ucast w :: u64) :: u32) = w"
    by (rule bit_word_eqI) (simp add: bit_simps)
  ultimately show ?thesis using i n by (simp add: as_u32_def of_u32_def)
qed

definition json_lib_ok :: "json_lib \<Rightarrow> bool" where
  "json_lib_ok L \<longleftrightarrow>
     (\<forall>v. nl \<notin> set (jdump L v) \<and> cr \<notin> set (jdump L v)) \<and>
     (\<forall>kvs. \<exists>kvs'. jparse L (jdump L (JObj kvs)) = Inr (JObj kvs')
        \<and> (\<forall>k s. map_of kvs k = Some (JStr s) \<longrightarrow> map_of kvs' k = Some (JStr s)))"

lemma json_lib_ok_line:
  "json_lib_ok L \<Longrightarrow> nl \<notin> set (jdump L v)" "json_lib_ok L \<Longrightarrow> cr \<notin> set (jdump L v)"
  by (simp_all add: json_lib_ok_def)

lemma json_lib_ok_inject:
  assumes "json_lib_ok L" and "jdump L (JObj kvs) = jdump L (JObj kvs')"
    and "map_of kvs k = Some (JStr s)" and "map_of kvs' k = Some (JStr s')"
  shows "s = s'"
proof -
  from assms(1) obtain a where a: "jparse L (jdump L (JObj kvs)) = Inr (JObj a)" "map_of a k = Some (JStr s)"
    using assms(3) unfolding json_lib_ok_def by blast
  from assms(1) obtain b where b: "jparse L (jdump L (JObj kvs')) = Inr (JObj b)" "map_of b k = Some (JStr s')"
    using assms(4) unfolding json_lib_ok_def by blast
  from a b assms(2) show ?thesis by simp
qed

lemma jindex_JObj [simp]: "jindex (JObj kvs) k = (case map_of kvs k of Some x \<Rightarrow> x | None \<Rightarrow> JNull)"
  by (simp add: jindex_def jget_def)

lemma jindex_not_null: "jindex v k \<noteq> JNull \<Longrightarrow> is_object v"
  by (cases v) (auto simp: jindex_def jget_def is_object_def)

end
