(* ===== verification/Models.thy ===== *)
theory Models
  imports Json
begin

text \<open>
  The data types of \<open>src/models\<close>: resource types and their names in job
  environments and configuration files, payloads, task and resource states.
  Constructor names that two enums share are written with their type, as in
  \<open>resource_type.PasqalCloud\<close> and \<open>payload.PasqalCloud\<close>.
\<close>

section \<open>Resource types\<close>

datatype resource_type =
    IBMQuantumSystem
  | QiskitRuntimeService
  | IBMQuantumComputeService
  | PasqalCloud
  | PasqalLocal
  | AliceBobFelis
  | IQMServer
  | OQTOPUS
  | MaestroLocal

fun resource_type_as_str :: "resource_type \<Rightarrow> string" where
  "resource_type_as_str IBMQuantumSystem = ''ibm-quantum-system''"
| "resource_type_as_str QiskitRuntimeService = ''qiskit-runtime-service''"
| "resource_type_as_str IBMQuantumComputeService = ''ibm-quantum-compute-service''"
| "resource_type_as_str PasqalCloud = ''pasqal-cloud''"
| "resource_type_as_str PasqalLocal = ''pasqal-local''"
| "resource_type_as_str AliceBobFelis = ''alice-bob-felis''"
| "resource_type_as_str IQMServer = ''iqm-server''"
| "resource_type_as_str OQTOPUS = ''oqtopus''"
| "resource_type_as_str MaestroLocal = ''maestro-local''"

definition from_qpu_type_str :: "string \<Rightarrow> resource_type option" where
  "from_qpu_type_str s =
     (if s = ''ibm-quantum-system'' then Some IBMQuantumSystem
      else if s = ''qiskit-runtime-service'' then Some QiskitRuntimeService
      else if s = ''ibm-quantum-compute-service'' then Some IBMQuantumComputeService
      else if s = ''pasqal-cloud'' then Some PasqalCloud
      else if s = ''pasqal-local'' then Some PasqalLocal
      else if s = ''alice-bob-felis'' then Some AliceBobFelis
      else if s = ''iqm-server'' then Some IQMServer
      else if s = ''oqtopus'' then Some OQTOPUS
      else if s = ''maestro-local'' then Some MaestroLocal
      else None)"

lemma from_as_str [simp]: "from_qpu_type_str (resource_type_as_str t) = Some t"
  by (cases t) (simp_all add: from_qpu_type_str_def)

lemma from_qpu_type_str_Some:
  "from_qpu_type_str s = Some t \<Longrightarrow> s = resource_type_as_str t"
  by (auto simp: from_qpu_type_str_def split: if_splits)

section \<open>Resource definitions and the configuration file\<close>

record resource_def =
  rd_name :: string
  rd_type :: resource_type
  rd_is_dynamic :: bool
  rd_environment :: "string \<rightharpoonup> string"

text \<open>
  \<open>Config::load\<close>: opening and reading the file and the parse of its JSON text into
  resource definitions (\<open>serde\<close>'s derived code) are parameters; a later entry
  with the same name replaces an earlier one.
\<close>

fun insert_defs :: "(string \<rightharpoonup> resource_def) \<Rightarrow> resource_def list \<Rightarrow> (string \<rightharpoonup> resource_def)" where
  "insert_defs m [] = m"
| "insert_defs m (d # ds) = insert_defs (m(rd_name d \<mapsto> d)) ds"

definition config_load ::
    "(string \<Rightarrow> string + (string + string)) \<Rightarrow> (string \<Rightarrow> string + resource_def list) \<Rightarrow>
     string \<Rightarrow> string + (string \<rightharpoonup> resource_def)" where
  "config_load open_file parse filename =
     (case open_file filename of
        Inl err \<Rightarrow> Inl (''Failed to open '' @ filename @ ''. reason = '' @ err)
      | Inr (Inl err) \<Rightarrow> Inl err
      | Inr (Inr text) \<Rightarrow> (case parse text of
          Inl e \<Rightarrow> Inl e
        | Inr items \<Rightarrow> Inr (insert_defs (\<lambda>_. None) items)))"

lemma insert_defs_snoc: "insert_defs m (ds @ [d]) = (insert_defs m ds)(rd_name d \<mapsto> d)"
  by (induction ds arbitrary: m) auto

lemma insert_defs_other: "n \<notin> rd_name ` set ds \<Longrightarrow> insert_defs m ds n = m n"
  by (induction ds arbitrary: m) auto

lemma insert_defs_name: "insert_defs (\<lambda>_. None) ds n = Some d \<Longrightarrow> rd_name d = n \<and> d \<in> set ds"
  by (induction ds rule: rev_induct) (auto simp: insert_defs_snoc split: if_splits)

section \<open>Payloads\<close>

datatype payload =
    QiskitPrimitive string string
  | PasqalCloud string i32
  | AliceBobFelis string string
  | IQMServer string string "bool option" "string option"
  | Oqtopus string
  | MaestroLocal string string u32 u32 u32 string string

text \<open>
  The fields, in order: \<open>QiskitPrimitive\<close> input and program id; \<open>PasqalCloud\<close>
  sequence and number of runs; \<open>AliceBobFelis\<close> program and input parameters;
  \<open>IQMServer\<close> document, job type, use of a timeslot, tag; \<open>Oqtopus\<close> job
  specification; \<open>MaestroLocal\<close> input, job type, qubits, simulator type, simulation
  method, observables and configuration.
\<close>

text \<open>\<open>{payload:?}\<close>: the derived \<open>Debug\<close> format.\<close>

fun debug_opt :: "('a \<Rightarrow> string) \<Rightarrow> 'a option \<Rightarrow> string" where
  "debug_opt f None = ''None''"
| "debug_opt f (Some x) = ''Some('' @ f x @ '')''"

definition debug_struct :: "string \<Rightarrow> (string \<times> string) list \<Rightarrow> string" where
  "debug_struct name kvs =
     name @ '' { '' @ join '', '' (map (\<lambda>(k, v). k @ '': '' @ v) kvs) @ '' }''"

fun debug_payload :: "payload \<Rightarrow> string" where
  "debug_payload (QiskitPrimitive i p) =
     debug_struct ''QiskitPrimitive'' [(''input'', debug_str i), (''program_id'', debug_str p)]"
| "debug_payload (payload.PasqalCloud s n) =
     debug_struct ''PasqalCloud'' [(''sequence'', debug_str s), (''job_runs'', show_i32 n)]"
| "debug_payload (payload.AliceBobFelis h i) =
     debug_struct ''AliceBobFelis'' [(''human_qir'', debug_str h), (''input_params'', debug_str i)]"
| "debug_payload (payload.IQMServer j t u g) =
     debug_struct ''IQMServer'' [(''iqmjson'', debug_str j), (''job_type'', debug_str t),
       (''use_timeslot'', debug_opt (\<lambda>b. if b then ''true'' else ''false'') u),
       (''tag'', debug_opt debug_str g)]"
| "debug_payload (Oqtopus j) = debug_struct ''Oqtopus'' [(''job_spec'', debug_str j)]"
| "debug_payload (payload.MaestroLocal i t q s m obs c) =
     debug_struct ''MaestroLocal'' [(''input'', debug_str i), (''job_type'', debug_str t),
       (''qubits'', show_u32 q), (''simulator_type'', show_u32 s),
       (''simulation_method'', show_u32 m), (''observables'', debug_str obs),
       (''config'', debug_str c)]"

section \<open>Tasks and resources\<close>

datatype task_status = Queued | Running | Completed | Failed | Cancelled

definition terminal :: "task_status \<Rightarrow> bool" where
  "terminal st \<longleftrightarrow> st = Completed \<or> st = Failed \<or> st = Cancelled"

fun debug_task_status :: "task_status \<Rightarrow> string" where
  "debug_task_status Queued = ''Queued''"
| "debug_task_status Running = ''Running''"
| "debug_task_status Completed = ''Completed''"
| "debug_task_status Failed = ''Failed''"
| "debug_task_status Cancelled = ''Cancelled''"

datatype resource_status_code = Online | Offline | Paused

fun status_code_as_str :: "resource_status_code \<Rightarrow> string" where
  "status_code_as_str Online = ''online''"
| "status_code_as_str Offline = ''offline''"
| "status_code_as_str Paused = ''paused''"

record resource_capacity =
  available_slots :: u64
  max_slots :: u64

record resource_status =
  status_code :: resource_status_code
  status_reason :: "string option"
  healthy :: "bool option"
  busy :: "bool option"
  capacity :: "resource_capacity option"
  pending_job_count :: "u64 option"

lemma terminal_cases:
  "\<not> terminal Queued" "\<not> terminal Running" "terminal Completed" "terminal Failed" "terminal Cancelled"
  by (simp_all add: terminal_def)

declare terminal_cases [simp]

end
