(* ===== verification/Errors.thy ===== *)
theory Errors
  imports Models
begin

text \<open>
  The error types (\<open>src/error.rs\<close>, \<open>src/ibm/error.rs\<close>, \<open>src/pasqal/error.rs\<close>), the
  classification of the vendors' HTTP errors (the three \<open>classify\<close> functions and
  \<open>QuantumSystemError::from_response\<close>), and the return codes of the C binding.
\<close>

section \<open>Error kinds\<close>

datatype error_kind =
    EnvVarNotSet | ParseError | UnsupportedResourceType | UnsupportedPayload
  | UnsupportedFunction | TaskNotReady | MissingConfigKey | InvalidConfig
  | ResourceNotFound | TaskNotFound | AuthenticationFailed | InvalidInput | Other

datatype ibm_error = UnknownProgramId string | InvalidSessionMode string

fun ibm_error_kind :: "ibm_error \<Rightarrow> error_kind" where
  "ibm_error_kind (UnknownProgramId _) = InvalidInput"
| "ibm_error_kind (InvalidSessionMode _) = InvalidInput"

fun ibm_error_display :: "ibm_error \<Rightarrow> string" where
  "ibm_error_display (UnknownProgramId s) = ''unknown program ID: '' @ s"
| "ibm_error_display (InvalidSessionMode s) = ''invalid session mode: '' @ s"

datatype pasqal_error = InvalidDeviceType string | InvalidCudaqSequence string

fun pasqal_error_kind :: "pasqal_error \<Rightarrow> error_kind" where
  "pasqal_error_kind (InvalidDeviceType _) = InvalidInput"
| "pasqal_error_kind (InvalidCudaqSequence _) = InvalidInput"

fun pasqal_error_display :: "pasqal_error \<Rightarrow> string" where
  "pasqal_error_display (InvalidDeviceType s) = s"
| "pasqal_error_display (InvalidCudaqSequence s) =
     ''failed to parse CUDA-Q sequence payload: '' @ s"

text \<open>
  An \<open>anyhow::Error\<close> is its chain of messages, the outermost context first; its
  \<open>Display\<close> shows the outermost one.
\<close>

type_synonym anyhow = "string list"

datatype qrmi_error =
    EnvVarNotSet string
  | ParseError string string int_error
  | UnsupportedResourceType string
  | UnsupportedPayload string
  | UnsupportedFunction string
  | TaskNotReady string string
  | MissingConfigKey string
  | InvalidConfig string
  | ResourceNotFound string
  | TaskNotFound string
  | AuthenticationFailed string
  | InvalidInput string
  | InvalidJson string
  | InvalidUtf8 string
  | Ibm ibm_error
  | Pasqal pasqal_error
  | Other anyhow

fun kind :: "qrmi_error \<Rightarrow> error_kind" where
  "kind (EnvVarNotSet _) = error_kind.EnvVarNotSet"
| "kind (ParseError _ _ _) = error_kind.ParseError"
| "kind (UnsupportedResourceType _) = error_kind.UnsupportedResourceType"
| "kind (UnsupportedPayload _) = error_kind.UnsupportedPayload"
| "kind (UnsupportedFunction _) = error_kind.UnsupportedFunction"
| "kind (TaskNotReady _ _) = error_kind.TaskNotReady"
| "kind (MissingConfigKey _) = error_kind.MissingConfigKey"
| "kind (InvalidConfig _) = error_kind.InvalidConfig"
| "kind (ResourceNotFound _) = error_kind.ResourceNotFound"
| "kind (TaskNotFound _) = error_kind.TaskNotFound"
| "kind (AuthenticationFailed _) = error_kind.AuthenticationFailed"
| "kind (InvalidInput _) = error_kind.InvalidInput"
| "kind (InvalidJson _) = error_kind.InvalidInput"
| "kind (InvalidUtf8 _) = error_kind.InvalidInput"
| "kind (Ibm e) = ibm_error_kind e"
| "kind (Pasqal e) = pasqal_error_kind e"
| "kind (Other _) = error_kind.Other"

text \<open>\<open>to_string()\<close> of an error: the \<open>#[error]\<close> format of each variant.\<close>

fun error_display :: "qrmi_error \<Rightarrow> string" where
  "error_display (EnvVarNotSet s) = s @ '' environment variable is not set''"
| "error_display (ParseError n v _) = ''failed to parse '' @ n @ '' value '' @ debug_str v"
| "error_display (UnsupportedResourceType s) =
     ''unsupported resource type for dynamic resource discovery: '' @ s"
| "error_display (UnsupportedPayload s) = ''payload type is not supported: '' @ s"
| "error_display (UnsupportedFunction s) = ''unsupported function: '' @ s"
| "error_display (TaskNotReady t r) = ''unable to retrieve result for task '' @ t @ '': '' @ r"
| "error_display (MissingConfigKey s) = ''missing required config key: '' @ [CHR 0x27] @ s @ [CHR 0x27]"
| "error_display (InvalidConfig s) = ''invalid configuration: '' @ s"
| "error_display (ResourceNotFound s) = ''resource not found: '' @ s"
| "error_display (TaskNotFound s) = ''task not found: '' @ s"
| "error_display (AuthenticationFailed s) = ''authentication failed: '' @ s"
| "error_display (InvalidInput s) = ''invalid input: '' @ s"
| "error_display (InvalidJson s) = ''invalid JSON: '' @ s"
| "error_display (InvalidUtf8 s) = ''invalid UTF-8: '' @ s"
| "error_display (Ibm e) = ibm_error_display e"
| "error_display (Pasqal e) = pasqal_error_display e"
| "error_display (Other ms) = (case ms of [] \<Rightarrow> [] | m # _ \<Rightarrow> m)"

text \<open>\<open>anyhow!(...)\<close> converted by \<open>.into()\<close> or \<open>?\<close>.\<close>

definition anyhow :: "string \<Rightarrow> qrmi_error" where
  "anyhow m = Other [m]"

lemma kind_anyhow [simp]: "kind (anyhow m) = error_kind.Other"
  by (simp add: anyhow_def)

section \<open>Return codes of the C binding\<close>

datatype return_code =
    Success | Error | NullPointerError | EnvVarNotSetError | ParseErrorCode
  | UnsupportedResourceTypeError | UnsupportedFunctionError | UnsupportedPayloadError
  | TaskNotReadyError | MissingConfigKeyError | InvalidInputError | ResourceNotFoundError
  | TaskNotFoundError | AuthenticationFailedError | InvalidConfigError

fun return_code_value :: "return_code \<Rightarrow> nat" where
  "return_code_value Success = 0"
| "return_code_value Error = 100"
| "return_code_value NullPointerError = 101"
| "return_code_value EnvVarNotSetError = 102"
| "return_code_value ParseErrorCode = 103"
| "return_code_value UnsupportedResourceTypeError = 104"
| "return_code_value UnsupportedFunctionError = 105"
| "return_code_value UnsupportedPayloadError = 106"
| "return_code_value TaskNotReadyError = 107"
| "return_code_value MissingConfigKeyError = 108"
| "return_code_value InvalidInputError = 109"
| "return_code_value ResourceNotFoundError = 111"
| "return_code_value TaskNotFoundError = 112"
| "return_code_value AuthenticationFailedError = 113"
| "return_code_value InvalidConfigError = 114"

fun return_code_of_kind :: "error_kind \<Rightarrow> return_code" where
  "return_code_of_kind error_kind.EnvVarNotSet = EnvVarNotSetError"
| "return_code_of_kind error_kind.ParseError = ParseErrorCode"
| "return_code_of_kind error_kind.UnsupportedResourceType = UnsupportedResourceTypeError"
| "return_code_of_kind error_kind.UnsupportedPayload = UnsupportedPayloadError"
| "return_code_of_kind error_kind.UnsupportedFunction = UnsupportedFunctionError"
| "return_code_of_kind error_kind.TaskNotReady = TaskNotReadyError"
| "return_code_of_kind error_kind.MissingConfigKey = MissingConfigKeyError"
| "return_code_of_kind error_kind.InvalidConfig = InvalidConfigError"
| "return_code_of_kind error_kind.ResourceNotFound = ResourceNotFoundError"
| "return_code_of_kind error_kind.TaskNotFound = TaskNotFoundError"
| "return_code_of_kind error_kind.AuthenticationFailed = AuthenticationFailedError"
| "return_code_of_kind error_kind.InvalidInput = InvalidInputError"
| "return_code_of_kind error_kind.Other = Error"

text \<open>Return codes are ordered by their numeric value in the C header.\<close>

lemma return_code_value_inject: "return_code_value a = return_code_value b \<longleftrightarrow> a = b"
  by (cases a; cases b) simp_all

instantiation return_code :: linorder
begin

definition less_eq_return_code :: "return_code \<Rightarrow> return_code \<Rightarrow> bool" where
  "less_eq_return_code a b \<longleftrightarrow> return_code_value a \<le> return_code_value b"

definition less_return_code :: "return_code \<Rightarrow> return_code \<Rightarrow> bool" where
  "less_return_code a b \<longleftrightarrow> return_code_value a < return_code_value b"

instance
  by standard
    (auto simp: less_eq_return_code_def less_return_code_def return_code_value_inject)

end

lemma return_code_of_kind_inject [simp]:
  "return_code_of_kind k = return_code_of_kind l \<longleftrightarrow> k = l"
  by (cases k; cases l) simp_all

lemma return_code_of_kind_failure: "Success < return_code_of_kind k"
  by (cases k) (simp_all add: less_return_code_def)

end
