(* ===== verification/CommonConfig.thy ===== *)
theory CommonConfig
  imports Errors
begin

text \<open>
  Configuration lookup (\<open>src/common/config.rs\<close>), the job environment
  (\<open>src/common/job_env.rs\<close>) and the choice of a back end
  (\<open>src/common/create_resource.rs\<close>).  The process environment is a function from
  names to the result of \<open>std::env::var\<close>; a value that is not Unicode keeps its bytes.
\<close>

datatype env_value = NotPresent | NotUnicode string | Value string

type_synonym env = "string \<Rightarrow> env_value"
type_synonym config_map = "string \<rightharpoonup> string"

fun env_ok :: "env_value \<Rightarrow> string option" where
  "env_ok (Value v) = Some v"
| "env_ok _ = None"

section \<open>Lookup\<close>

definition resolve_opt :: "env \<Rightarrow> string \<Rightarrow> config_map option \<Rightarrow> string option" where
  "resolve_opt env key config = (case config of
      Some m \<Rightarrow> (case m key of Some v \<Rightarrow> Some v | None \<Rightarrow> m (to_lowercase key))
    | None \<Rightarrow> env_ok (env key))"

definition not_found_error :: "string \<Rightarrow> config_map option \<Rightarrow> qrmi_error" where
  "not_found_error name config = (case config of
      Some _ \<Rightarrow> MissingConfigKey name
    | None \<Rightarrow> EnvVarNotSet name)"

definition resolve_opt_required ::
    "env \<Rightarrow> string \<Rightarrow> config_map option \<Rightarrow> qrmi_error + string" where
  "resolve_opt_required env key config = (case resolve_opt env key config of
      Some v \<Rightarrow> Inr v
    | None \<Rightarrow> Inl (not_found_error key config))"

fun find_map :: "('a \<Rightarrow> 'b option) \<Rightarrow> 'a list \<Rightarrow> 'b option" where
  "find_map f [] = None"
| "find_map f (x # xs) = (case f x of Some y \<Rightarrow> Some y | None \<Rightarrow> find_map f xs)"

definition resolve_opt_required_any ::
    "env \<Rightarrow> string list \<Rightarrow> config_map option \<Rightarrow> qrmi_error + string" where
  "resolve_opt_required_any env keys config =
     (let ks = remdups_adj keys in
      case find_map (\<lambda>k. resolve_opt env k config) ks of
        Some v \<Rightarrow> Inr v
      | None \<Rightarrow> Inl (not_found_error (join '' or '' ks) config))"

definition required_env :: "env \<Rightarrow> string \<Rightarrow> qrmi_error + string" where
  "required_env env name = resolve_opt_required env name None"

lemma find_map_None: "find_map f xs = None \<longleftrightarrow> (\<forall>x \<in> set xs. f x = None)"
  by (induction xs) (auto split: option.split)

lemma find_map_Some: "find_map f xs = Some y \<Longrightarrow> \<exists>x \<in> set xs. f x = Some y"
  by (induction xs) (auto split: option.splits)

lemma resolve_opt_config_only: "resolve_opt env key (Some m) = resolve_opt env' key (Some m)"
  by (simp add: resolve_opt_def)

lemma resolve_opt_required_Inl:
  "resolve_opt_required env key config = Inl e \<longleftrightarrow>
     resolve_opt env key config = None \<and> e = not_found_error key config"
  by (auto simp: resolve_opt_required_def split: option.splits)

lemma resolve_opt_required_Inr:
  "resolve_opt_required env key config = Inr v \<longleftrightarrow> resolve_opt env key config = Some v"
  by (auto simp: resolve_opt_required_def split: option.splits)

section \<open>The resources of a job\<close>

definition job_env_list :: "env \<Rightarrow> string \<Rightarrow> string \<Rightarrow> qrmi_error + string list" where
  "job_env_list env name legacy_name =
     (case (case env_ok (env name) of Some v \<Rightarrow> Some v | None \<Rightarrow> env_ok (env legacy_name)) of
        None \<Rightarrow> Inl (EnvVarNotSet name)
      | Some values \<Rightarrow>
          if values = [] then Inr []
          else (let sep = (case env_ok (env ''QRMI_LIST_DELIMITER'') of Some d \<Rightarrow> d | None \<Rightarrow> '','')
                in Inr (split_str sep values)))"

definition debug_list :: "string list \<Rightarrow> string" where
  "debug_list xs = ''['' @ join '', '' (map debug_str xs) @ '']''"

definition get_job_qpu_resources_and_types ::
    "env \<Rightarrow> qrmi_error + (string list \<times> string list)" where
  "get_job_qpu_resources_and_types env =
     (case job_env_list env ''QRMI_JOB_QPU_RESOURCES'' ''SLURM_JOB_QPU_RESOURCES'' of
        Inl e \<Rightarrow> Inl e
      | Inr qpus \<Rightarrow>
        (case job_env_list env ''QRMI_JOB_QPU_TYPES'' ''SLURM_JOB_QPU_TYPES'' of
           Inl e \<Rightarrow> Inl e
         | Inr qpu_types \<Rightarrow>
             if length qpus \<noteq> length qpu_types then
               Inl (InvalidConfig (''inconsistent number of QPU resources and types: ''
                      @ debug_list qpus @ '' vs '' @ debug_list qpu_types))
             else Inr (qpus, qpu_types)))"

lemma job_lists_equal_length:
  "get_job_qpu_resources_and_types env = Inr (qpus, qpu_types) \<Longrightarrow> length qpus = length qpu_types"
  by (auto simp: get_job_qpu_resources_and_types_def split: sum.splits if_splits)

section \<open>Constructing a back end by its type\<close>

text \<open>
  The nine constructors of the vendors' modules, and the two dispatchers over them.
  \<open>'r\<close> is the trait object \<open>Box<dyn QuantumResource>\<close>.
\<close>

record ('s, 'r) constructors =
  new_ibm_quantum_system :: "string \<Rightarrow> ('s, qrmi_error, 'r) prog"
  new_qiskit_runtime_service :: "string \<Rightarrow> ('s, qrmi_error, 'r) prog"
  new_ibm_quantum_compute_service :: "string \<Rightarrow> ('s, qrmi_error, 'r) prog"
  new_pasqal_cloud :: "string \<Rightarrow> ('s, qrmi_error, 'r) prog"
  new_pasqal_local :: "string \<Rightarrow> ('s, qrmi_error, 'r) prog"
  new_alice_bob_felis :: "string \<Rightarrow> ('s, qrmi_error, 'r) prog"
  new_iqm_server :: "string \<Rightarrow> ('s, qrmi_error, 'r) prog"
  new_maestro_local :: "string \<Rightarrow> ('s, qrmi_error, 'r) prog"
  new_oqtopus :: "string \<Rightarrow> ('s, qrmi_error, 'r) prog"

fun create_resource ::
    "('s, 'r) constructors \<Rightarrow> resource_type \<Rightarrow> string \<Rightarrow> ('s, qrmi_error, 'r) prog" where
  "create_resource C IBMQuantumSystem rid = new_ibm_quantum_system C rid"
| "create_resource C QiskitRuntimeService rid = new_qiskit_runtime_service C rid"
| "create_resource C IBMQuantumComputeService rid = new_ibm_quantum_compute_service C rid"
| "create_resource C resource_type.PasqalCloud rid = new_pasqal_cloud C rid"
| "create_resource C PasqalLocal rid = new_pasqal_local C rid"
| "create_resource C resource_type.AliceBobFelis rid = new_alice_bob_felis C rid"
| "create_resource C resource_type.IQMServer rid = new_iqm_server C rid"
| "create_resource C resource_type.MaestroLocal rid = new_maestro_local C rid"
| "create_resource C OQTOPUS rid = new_oqtopus C rid"

text \<open>The constructors of the same resources from a config map instead of the environment.\<close>

record ('s, 'r) config_constructors =
  ibm_quantum_system_from :: "string \<Rightarrow> config_map \<Rightarrow> ('s, qrmi_error, 'r) prog"
  qiskit_runtime_service_from :: "string \<Rightarrow> config_map \<Rightarrow> ('s, qrmi_error, 'r) prog"
  ibm_quantum_compute_service_from :: "string \<Rightarrow> config_map \<Rightarrow> ('s, qrmi_error, 'r) prog"
  pasqal_local_from :: "string \<Rightarrow> config_map \<Rightarrow> ('s, qrmi_error, 'r) prog"
  pasqal_cloud_from :: "string \<Rightarrow> config_map \<Rightarrow> ('s, qrmi_error, 'r) prog"
  alice_bob_felis_from :: "string \<Rightarrow> config_map \<Rightarrow> ('s, qrmi_error, 'r) prog"
  iqm_server_from :: "string \<Rightarrow> config_map \<Rightarrow> ('s, qrmi_error, 'r) prog"
  oqtopus_from :: "string \<Rightarrow> config_map \<Rightarrow> ('s, qrmi_error, 'r) prog"
  maestro_local_from :: "string \<Rightarrow> config_map \<Rightarrow> ('s, qrmi_error, 'r) prog"

fun create_resource_from_config ::
    "('s, 'r) config_constructors \<Rightarrow> resource_type \<Rightarrow> string \<Rightarrow> config_map \<Rightarrow> ('s, qrmi_error, 'r) prog" where
  "create_resource_from_config C IBMQuantumSystem rid config = ibm_quantum_system_from C rid config"
| "create_resource_from_config C QiskitRuntimeService rid config = qiskit_runtime_service_from C rid config"
| "create_resource_from_config C IBMQuantumComputeService rid config =
     ibm_quantum_compute_service_from C rid config"
| "create_resource_from_config C PasqalLocal rid config = pasqal_local_from C rid config"
| "create_resource_from_config C resource_type.PasqalCloud rid config = pasqal_cloud_from C rid config"
| "create_resource_from_config C resource_type.AliceBobFelis rid config = alice_bob_felis_from C rid config"
| "create_resource_from_config C resource_type.IQMServer rid config = iqm_server_from C rid config"
| "create_resource_from_config C OQTOPUS rid config = oqtopus_from C rid config"
| "create_resource_from_config C resource_type.MaestroLocal rid config = maestro_local_from C rid config"

end
