(* ===== verification/MaestroWire.thy ===== *)
theory MaestroWire
  imports CommonConfig
begin

text \<open>
  The line protocol with a Maestro server
  (\<open>dependencies/maestro_rust_library/src/lib.rs\<close>): one exchange sends a command
  over a Unix socket and reads one line.  The server and the operating system are
  outside of the code: \<open>transfer\<close> is a parameter that, given the socket's path, the
  read and write timeouts in seconds and the bytes sent, gives what the client can
  read, and the world after it.  The world is arbitrary, so that the server may
  change between any two exchanges.
\<close>

datatype io_error = UnexpectedEof string | InvalidData string | OsError string

fun io_display :: "io_error \<Rightarrow> string" where
  "io_display (UnexpectedEof m) = m"
| "io_display (InvalidData m) = m"
| "io_display (OsError m) = m"

text \<open>
  Connecting, setting the timeouts, writing and shutting down the write side may
  fail (\<open>NoStream\<close>).  Otherwise the server's bytes arrive until the server closes
  the socket or a read fails, a timeout included.
\<close>

datatype stream_end = Closed | ReadError io_error
datatype reply = NoStream io_error | Stream string stream_end

record 'w maestro_env =
  transfer :: "string \<Rightarrow> nat \<Rightarrow> nat \<Rightarrow> string \<Rightarrow> 'w \<Rightarrow> reply \<times> 'w"
  json_crate :: json_lib
  serde_crate :: json_lib

section \<open>One exchange\<close>

definition socket_path :: "env \<Rightarrow> string" where
  "socket_path env = (case env ''QRMI_MAESTRO_SOCKET'' of
      Value v \<Rightarrow> v | NotUnicode v \<Rightarrow> v | NotPresent \<Rightarrow> ''/run/maestro.sock'')"

definition MAX_RESULT_BYTES :: nat where
  "MAX_RESULT_BYTES = 64 * 1024 * 1024 + 64 * 1024"

definition MAX_RESPONSE_BYTES :: nat where
  "MAX_RESPONSE_BYTES = MAX_RESULT_BYTES + 4096"

text \<open>The timeouts of a build without \<open>cfg!(test)\<close>, in seconds.\<close>

definition REPLY_TIMEOUT :: nat where "REPLY_TIMEOUT = 15"
definition CLEANUP_REPLY_TIMEOUT :: nat where "CLEANUP_REPLY_TIMEOUT = 60"

definition reply_timeout :: "string \<Rightarrow> nat" where
  "reply_timeout command =
     (case split_whitespace command of
        [a, _, b] \<Rightarrow>
          if a = ''SESSION'' \<and> b = ''DELETE'' then CLEANUP_REPLY_TIMEOUT else REPLY_TIMEOUT
      | [a, _, b, _, c] \<Rightarrow>
          if a = ''SESSION'' \<and> b = ''TASK'' \<and> c = ''CANCEL'' then CLEANUP_REPLY_TIMEOUT
          else REPLY_TIMEOUT
      | _ \<Rightarrow> REPLY_TIMEOUT)"

text \<open>
  \<open>BufRead::read_line\<close> on a reader limited by \<open>take\<close>: the bytes up to and with the
  first newline, or all of them when the limit or the end of the stream comes first.
\<close>

fun upto_newline :: "string \<Rightarrow> string" where
  "upto_newline [] = []"
| "upto_newline (c # cs) = (if c = nl then [c] else c # upto_newline cs)"

definition read_line :: "nat \<Rightarrow> string \<Rightarrow> stream_end \<Rightarrow> io_error + string" where
  "read_line limit bytes fin =
     (let line = upto_newline (take limit bytes) in
      if nl \<notin> set line \<and> length bytes < limit \<and> fin \<noteq> Closed
      then (case fin of ReadError e \<Rightarrow> Inl e | Closed \<Rightarrow> Inr line)
      else if utf8_ok (map byte line) then Inr line
      else Inl (InvalidData ''stream did not contain valid UTF-8''))"

definition exchange ::
    "'w maestro_env \<Rightarrow> string \<Rightarrow> string \<Rightarrow> 'w \<Rightarrow> (io_error + string) \<times> 'w" where
  "exchange E socket command = (\<lambda>w.
     case transfer E socket (reply_timeout command) REPLY_TIMEOUT command w of
       (NoStream e, w') \<Rightarrow> (Inl e, w')
     | (Stream bytes fin, w') \<Rightarrow>
         (case read_line (MAX_RESPONSE_BYTES + 1) bytes fin of
            Inl e \<Rightarrow> (Inl e, w')
          | Inr response \<Rightarrow>
              if response = [] then
                (Inl (UnexpectedEof ''server closed the connection without a response''), w')
              else if MAX_RESPONSE_BYTES < length response \<or> \<not> ends_with_char nl response then
                (Inl (InvalidData ''Oversized or truncated Maestro response''), w')
              else (Inr response, w')))"

section \<open>Replies\<close>

datatype response = OK bool | ERROR string | OkResponse string

definition parse_response :: "string \<Rightarrow> response" where
  "parse_response response0 =
     (let response = trim response0 in
      if response = ''OK'' then OK True
      else case strip_prefix ''OK '' response of
        Some rest \<Rightarrow>
          (let v = trim rest in
           if v = ''YES'' \<or> v = [] then OK True
           else if v = ''NO'' then OK False
           else OkResponse v)
      | None \<Rightarrow> (case strip_prefix ''ERROR '' response of
          Some rest \<Rightarrow> ERROR (trim rest)
        | None \<Rightarrow> ERROR (''Unexpected response: '' @ debug_str response)))"

definition send_command_at ::
    "'w maestro_env \<Rightarrow> string \<Rightarrow> string \<Rightarrow> 'w \<Rightarrow> response \<times> 'w" where
  "send_command_at E socket command = (\<lambda>w.
     case exchange E socket command w of
       (Inr response, w') \<Rightarrow> (parse_response response, w')
     | (Inl e, w') \<Rightarrow> (ERROR (''Maestro socket '' @ socket @ '': '' @ io_display e), w'))"

section \<open>Facts\<close>

lemma exchange_Ok:
  assumes "exchange E sock c w = (Inr r, w')"
  shows "r \<noteq> []" "last r = nl" "length r \<le> MAX_RESPONSE_BYTES" "utf8_ok (map byte r)"
    "\<exists>bytes fin. transfer E sock (reply_timeout c) REPLY_TIMEOUT c w = (Stream bytes fin, w')
       \<and> r = upto_newline (take (MAX_RESPONSE_BYTES + 1) bytes)"
  using assms
  by (auto simp: exchange_def read_line_def ends_with_char_def Let_def
      split: prod.splits reply.splits sum.splits if_splits stream_end.splits)

lemma upto_newline_last: "nl \<notin> set (butlast (upto_newline s))"
  by (induction s) auto

lemma exchange_one_line: "exchange E sock c w = (Inr r, w') \<Longrightarrow> \<exists>t. r = t @ [nl] \<and> nl \<notin> set t"
proof -
  assume a: "exchange E sock c w = (Inr r, w')"
  from exchange_Ok(1,2) [OF a] have "r = butlast r @ [nl]" by (metis append_butlast_last_id)
  moreover from exchange_Ok(5) [OF a] have "nl \<notin> set (butlast r)"
    using upto_newline_last by auto
  ultimately show ?thesis by blast
qed

lemma exchange_world: "snd (exchange E sock c w) =
    snd (transfer E sock (reply_timeout c) REPLY_TIMEOUT c w)"
  by (auto simp: exchange_def split: prod.splits reply.splits sum.splits)

lemma send_command_at_world: "snd (send_command_at E sock c w) =
    snd (transfer E sock (reply_timeout c) REPLY_TIMEOUT c w)"
  using exchange_world [of E sock c w]
  by (auto simp: send_command_at_def split: prod.splits sum.splits)

text \<open>A boolean acknowledgement comes only from a reply line \<open>OK\<close>, \<open>OK YES\<close> or \<open>OK NO\<close>.\<close>

lemma parse_response_OK_True:
  "parse_response r = OK True \<longleftrightarrow>
     trim r = ''OK'' \<or> (\<exists>v. trim r = ''OK '' @ v \<and> (trim v = ''YES'' \<or> trim v = []))"
  by (auto simp: parse_response_def Let_def strip_prefix_Some split: option.splits if_splits)

lemma parse_response_OK_False:
  "parse_response r = OK False \<longleftrightarrow> (\<exists>v. trim r = ''OK '' @ v \<and> trim v = ''NO'')"
  by (auto simp: parse_response_def Let_def strip_prefix_Some split: option.splits if_splits)

section \<open>Recording what is sent\<close>

text \<open>
  The environment \<open>traced E\<close> behaves as \<open>E\<close> and also records every command sent,
  so that a statement can speak of the commands an operation sends.
\<close>

definition traced :: "'w maestro_env \<Rightarrow> ('w \<times> string list) maestro_env" where
  "traced E =
     \<lparr>transfer = (\<lambda>sock t u c (w, sent). case transfer E sock t u c w of
        (r, w') \<Rightarrow> (r, (w', sent @ [c]))),
      json_crate = json_crate E, serde_crate = serde_crate E\<rparr>"

lemma traced_simps [simp]:
  "json_crate (traced E) = json_crate E" "serde_crate (traced E) = serde_crate E"
  by (simp_all add: traced_def)

lemma exchange_traced [simp]:
  "exchange (traced E) sock c (w, sent) =
     (fst (exchange E sock c w), (snd (exchange E sock c w), sent @ [c]))"
  by (auto simp: exchange_def traced_def split: prod.splits reply.splits sum.splits)

lemma send_command_at_traced [simp]:
  "send_command_at (traced E) sock c (w, sent) =
     (fst (send_command_at E sock c w), (snd (send_command_at E sock c w), sent @ [c]))"
  by (auto simp: send_command_at_def split: prod.splits sum.splits)

end
