(* ===== verification/MaestroSession.thy ===== *)
theory MaestroSession
  imports MaestroWire
begin

text \<open>
  Sessions and tasks of the legacy line protocol
  (\<open>dependencies/maestro_rust_library/src/maestro/session.rs\<close>).  An operation gives
  its \<open>Result<_, String>\<close> as a value, since its callers inspect it.
\<close>

record task =
  task_id :: u32
  task_session_id :: u32

datatype task_type = EXECUTE | ESTIMATE

section \<open>Commands\<close>

definition session_command :: "u32 \<Rightarrow> string \<Rightarrow> string" where
  "session_command sid verb = ''SESSION '' @ show_u32 sid @ '' '' @ verb @ [nl]"

definition task_command :: "task \<Rightarrow> string \<Rightarrow> string" where
  "task_command t verb =
     ''SESSION '' @ show_u32 (task_session_id t) @ '' TASK '' @ show_u32 (task_id t)
       @ '' '' @ verb @ [nl]"

text \<open>Text arguments are put on one line: newlines and carriage returns become spaces.\<close>

definition one_line :: "string \<Rightarrow> string" where
  "one_line text = trim (replace_chars [nl, cr] '' '' text)"

definition set_observables_command :: "task \<Rightarrow> string \<Rightarrow> string" where
  "set_observables_command t observables = task_command t (''SET_OBSERVABLES '' @ one_line observables)"

definition set_qasm_command :: "task \<Rightarrow> string \<Rightarrow> string" where
  "set_qasm_command t qasm = task_command t (''SET_QASM '' @ one_line qasm)"

definition set_options_command :: "task \<Rightarrow> string \<Rightarrow> string" where
  "set_options_command t options = task_command t (''SET_OPTIONS '' @ one_line options)"

section \<open>Sessions\<close>

text \<open>The three arms every operation matches a reply with.\<close>

definition ask_bool ::
    "'w maestro_env \<Rightarrow> string \<Rightarrow> string \<Rightarrow> string \<Rightarrow> string \<Rightarrow> 'w \<Rightarrow> (string + bool) \<times> 'w" where
  "ask_bool E socket command failed unexpected = (\<lambda>w.
     case send_command_at E socket command w of (res, w') \<Rightarrow>
       ((case res of
           OK b \<Rightarrow> Inr b
         | ERROR err \<Rightarrow> Inl (failed @ '': '' @ err)
         | OkResponse _ \<Rightarrow> Inl (''Unexpected response when '' @ unexpected)), w'))"

definition session_new_at :: "'w maestro_env \<Rightarrow> string \<Rightarrow> 'w \<Rightarrow> (string + u32) \<times> 'w" where
  "session_new_at E socket = (\<lambda>w.
     case send_command_at E socket (''SESSION CREATE'' @ [nl]) w of (res, w') \<Rightarrow>
       ((case res of
           OkResponse id_str \<Rightarrow> (case parse_u32 id_str of
               Inr sid \<Rightarrow> Inr sid
             | Inl _ \<Rightarrow> Inl (''Failed to parse session ID from response: '' @ id_str))
         | ERROR err \<Rightarrow> Inl (''Failed to create session: '' @ err)
         | OK _ \<Rightarrow> Inl ''Unexpected response when creating session''), w'))"

definition session_exists_at :: "'w maestro_env \<Rightarrow> u32 \<Rightarrow> string \<Rightarrow> 'w \<Rightarrow> (string + bool) \<times> 'w" where
  "session_exists_at E sid socket =
     ask_bool E socket (session_command sid ''EXISTS'')
       ''Failed to check if session exists'' ''checking if session exists''"

definition session_delete_at :: "'w maestro_env \<Rightarrow> u32 \<Rightarrow> string \<Rightarrow> 'w \<Rightarrow> (string + bool) \<times> 'w" where
  "session_delete_at E sid socket =
     ask_bool E socket (session_command sid ''DELETE'')
       ''Failed to delete session'' ''deleting session''"

definition session_task_exists_at ::
    "'w maestro_env \<Rightarrow> u32 \<Rightarrow> u32 \<Rightarrow> string \<Rightarrow> 'w \<Rightarrow> (string + bool) \<times> 'w" where
  "session_task_exists_at E sid tid socket =
     ask_bool E socket (task_command \<lparr>task_id = tid, task_session_id = sid\<rparr> ''EXISTS'')
       ''Failed to check if task exists'' ''checking if task exists''"

definition create_task_at :: "'w maestro_env \<Rightarrow> u32 \<Rightarrow> string \<Rightarrow> 'w \<Rightarrow> (string + task) \<times> 'w" where
  "create_task_at E sid socket = (\<lambda>w.
     case send_command_at E socket (session_command sid ''TASK CREATE'') w of (res, w') \<Rightarrow>
       ((case res of
           OkResponse id_str \<Rightarrow> (case parse_u32 id_str of
               Inr tid \<Rightarrow> Inr \<lparr>task_id = tid, task_session_id = sid\<rparr>
             | Inl _ \<Rightarrow> Inl (''Failed to parse task ID from response: '' @ id_str))
         | ERROR err \<Rightarrow> Inl (''Failed to create task: '' @ err)
         | OK _ \<Rightarrow> Inl ''Unexpected response when creating task''), w'))"

section \<open>Tasks\<close>

definition exists_at :: "'w maestro_env \<Rightarrow> task \<Rightarrow> string \<Rightarrow> 'w \<Rightarrow> (string + bool) \<times> 'w" where
  "exists_at E t socket = ask_bool E socket (task_command t ''EXISTS'')
     ''Failed to check if task exists'' ''checking if task exists''"

definition valid_at :: "'w maestro_env \<Rightarrow> task \<Rightarrow> string \<Rightarrow> 'w \<Rightarrow> (string + bool) \<times> 'w" where
  "valid_at E t socket = ask_bool E socket (task_command t ''VALID'')
     ''Failed to check task validity'' ''checking task validity''"

definition pending_at :: "'w maestro_env \<Rightarrow> task \<Rightarrow> string \<Rightarrow> 'w \<Rightarrow> (string + bool) \<times> 'w" where
  "pending_at E t socket = ask_bool E socket (task_command t ''PENDING'')
     ''Failed to check if task is pending'' ''checking if task is pending''"

definition running_at :: "'w maestro_env \<Rightarrow> task \<Rightarrow> string \<Rightarrow> 'w \<Rightarrow> (string + bool) \<times> 'w" where
  "running_at E t socket = ask_bool E socket (task_command t ''RUNNING'')
     ''Failed to check if task is running'' ''checking if task is running''"

definition finished_at :: "'w maestro_env \<Rightarrow> task \<Rightarrow> string \<Rightarrow> 'w \<Rightarrow> (string + bool) \<times> 'w" where
  "finished_at E t socket = ask_bool E socket (task_command t ''FINISHED'')
     ''Failed to check if task is finished'' ''checking if task is finished''"

definition failed_at :: "'w maestro_env \<Rightarrow> task \<Rightarrow> string \<Rightarrow> 'w \<Rightarrow> (string + bool) \<times> 'w" where
  "failed_at E t socket = ask_bool E socket (task_command t ''FAILED'')
     ''Failed to check if task is failed'' ''checking if task is failed''"

definition execute_at :: "'w maestro_env \<Rightarrow> task \<Rightarrow> string \<Rightarrow> 'w \<Rightarrow> (string + bool) \<times> 'w" where
  "execute_at E t socket = ask_bool E socket (task_command t ''EXECUTE'')
     ''Failed to execute task'' ''executing task''"

definition cancel_at :: "'w maestro_env \<Rightarrow> task \<Rightarrow> string \<Rightarrow> 'w \<Rightarrow> (string + bool) \<times> 'w" where
  "cancel_at E t socket = ask_bool E socket (task_command t ''CANCEL'')
     ''Failed to cancel task'' ''canceling task''"

definition get_results_as_string_at ::
    "'w maestro_env \<Rightarrow> task \<Rightarrow> string \<Rightarrow> 'w \<Rightarrow> (string + string) \<times> 'w" where
  "get_results_as_string_at E t socket = (\<lambda>w.
     case send_command_at E socket (task_command t ''GET_RESULTS'') w of (res, w') \<Rightarrow>
       ((case res of
           OkResponse results \<Rightarrow> Inr results
         | ERROR err \<Rightarrow> Inl (''Failed to get task results: '' @ err)
         | OK _ \<Rightarrow> Inl ''Unexpected response when getting task results''), w'))"

definition set_type_at ::
    "'w maestro_env \<Rightarrow> task \<Rightarrow> task_type \<Rightarrow> string \<Rightarrow> 'w \<Rightarrow> (string + bool) \<times> 'w" where
  "set_type_at E t ty socket =
     ask_bool E socket
       (task_command t (''SET_TYPE '' @ (case ty of EXECUTE \<Rightarrow> ''EXECUTE'' | ESTIMATE \<Rightarrow> ''ESTIMATE'')))
       ''Failed to set task type'' ''setting task type''"

definition set_qubits_at ::
    "'w maestro_env \<Rightarrow> task \<Rightarrow> u32 \<Rightarrow> string \<Rightarrow> 'w \<Rightarrow> (string + bool) \<times> 'w" where
  "set_qubits_at E t n socket = ask_bool E socket (task_command t (''SET_QUBITS '' @ show_u32 n))
     ''Failed to set task qubits'' ''setting task qubits''"

definition set_simulator_type_at ::
    "'w maestro_env \<Rightarrow> task \<Rightarrow> u32 \<Rightarrow> string \<Rightarrow> 'w \<Rightarrow> (string + bool) \<times> 'w" where
  "set_simulator_type_at E t n socket =
     ask_bool E socket (task_command t (''SET_SIM_TYPE '' @ show_u32 n))
       ''Failed to set task simulator type'' ''setting task simulator type''"

definition set_simulation_method_at ::
    "'w maestro_env \<Rightarrow> task \<Rightarrow> u32 \<Rightarrow> string \<Rightarrow> 'w \<Rightarrow> (string + bool) \<times> 'w" where
  "set_simulation_method_at E t n socket =
     ask_bool E socket (task_command t (''SET_METHOD '' @ show_u32 n))
       ''Failed to set task simulation method'' ''setting task simulation method''"

definition set_observables_as_string_at ::
    "'w maestro_env \<Rightarrow> task \<Rightarrow> string \<Rightarrow> string \<Rightarrow> 'w \<Rightarrow> (string + bool) \<times> 'w" where
  "set_observables_as_string_at E t observables socket =
     ask_bool E socket (set_observables_command t observables)
       ''Failed to set task observables'' ''setting task observables''"

definition set_observables_at ::
    "'w maestro_env \<Rightarrow> task \<Rightarrow> string list \<Rightarrow> string \<Rightarrow> 'w \<Rightarrow> (string + bool) \<times> 'w" where
  "set_observables_at E t observables socket =
     set_observables_as_string_at E t (join '';'' observables) socket"

definition set_qasm_at ::
    "'w maestro_env \<Rightarrow> task \<Rightarrow> string \<Rightarrow> string \<Rightarrow> 'w \<Rightarrow> (string + bool) \<times> 'w" where
  "set_qasm_at E t qasm socket = ask_bool E socket (set_qasm_command t qasm)
     ''Failed to set task QASM'' ''setting task QASM''"

definition set_options_json_at ::
    "'w maestro_env \<Rightarrow> task \<Rightarrow> string \<Rightarrow> string \<Rightarrow> 'w \<Rightarrow> (string + bool) \<times> 'w" where
  "set_options_json_at E t options socket = ask_bool E socket (set_options_command t options)
     ''Failed to set task options'' ''setting task options''"

lemmas task_query_defs =
  session_exists_at_def session_delete_at_def session_task_exists_at_def exists_at_def
  valid_at_def pending_at_def running_at_def finished_at_def failed_at_def execute_at_def
  cancel_at_def set_type_at_def set_qubits_at_def set_simulator_type_at_def
  set_simulation_method_at_def set_observables_as_string_at_def set_observables_at_def
  set_qasm_at_def set_options_json_at_def

section \<open>Framing: every command is one line\<close>

definition single_line :: "string \<Rightarrow> bool" where
  "single_line c \<longleftrightarrow> (\<exists>body. c = body @ [nl] \<and> nl \<notin> set body \<and> cr \<notin> set body)"

lemma graphic_not_line: "\<forall>c \<in> set s. graphic c \<Longrightarrow> nl \<notin> set s \<and> cr \<notin> set s"
  by (auto simp: graphic_def byte_def)

lemma show_u32_not_line [simp]: "nl \<notin> set (show_u32 w)" "cr \<notin> set (show_u32 w)"
  using graphic_not_line [OF show_u32_graphic] by simp_all

lemma one_line_no_newline: "nl \<notin> set (one_line s)" "cr \<notin> set (one_line s)"
  using trim_set [of "replace_chars [nl, cr] '' '' s"] replace_chars_set [of "[nl, cr]" "'' ''" s]
  by (auto simp: one_line_def)

lemma single_line_task_command:
  "nl \<notin> set verb \<Longrightarrow> cr \<notin> set verb \<Longrightarrow> single_line (task_command t verb)"
  unfolding single_line_def task_command_def
  by (rule exI [of _ "''SESSION '' @ show_u32 (task_session_id t) @ '' TASK '' @ show_u32 (task_id t)
        @ '' '' @ verb"]) simp

lemma single_line_session_command:
  "nl \<notin> set verb \<Longrightarrow> cr \<notin> set verb \<Longrightarrow> single_line (session_command sid verb)"
  unfolding single_line_def session_command_def
  by (rule exI [of _ "''SESSION '' @ show_u32 sid @ '' '' @ verb"]) simp

section \<open>Timeouts\<close>

lemma split_word:
  "\<forall>c \<in> set w. graphic c \<Longrightarrow> w \<noteq> [] \<Longrightarrow>
     split_whitespace_acc [] (w @ CHR '' '' # s) = w # split_whitespace_acc [] s"
  by (simp add: split_whitespace_graphic split_whitespace_space)

lemma split_last_word:
  "\<forall>c \<in> set w. graphic c \<Longrightarrow> w \<noteq> [] \<Longrightarrow> split_whitespace_acc [] (w @ [nl]) = [w]"
  by (simp add: split_whitespace_graphic split_whitespace_nl)

lemma graphic_keyword:
  "\<forall>c \<in> set ''SESSION''. graphic c" "\<forall>c \<in> set ''TASK''. graphic c"
  by (simp_all add: graphic_def byte_def)

lemmas split_keyword =
  split_word [OF graphic_keyword(1) list.distinct(2)] split_word [OF graphic_keyword(2) list.distinct(2)]

lemmas split_u32 = split_word [OF show_u32_graphic show_u32_not_Nil]

lemma split_task_command:
  assumes "\<forall>c \<in> set verb. graphic c" and "verb \<noteq> []"
  shows "split_whitespace (task_command t verb) =
    [''SESSION'', show_u32 (task_session_id t), ''TASK'', show_u32 (task_id t), verb]"
proof -
  have eq: "task_command t verb = ''SESSION'' @ CHR '' '' # show_u32 (task_session_id t)
      @ CHR '' '' # ''TASK'' @ CHR '' '' # show_u32 (task_id t) @ CHR '' '' # verb @ [nl]"
    by (simp add: task_command_def)
  show ?thesis
    by (simp only: eq split_whitespace_def split_keyword split_u32 split_last_word [OF assms])
qed

lemma split_session_command:
  assumes "\<forall>c \<in> set verb. graphic c" and "verb \<noteq> []"
  shows "split_whitespace (session_command sid verb) = [''SESSION'', show_u32 sid, verb]"
proof -
  have eq: "session_command sid verb =
      ''SESSION'' @ CHR '' '' # show_u32 sid @ CHR '' '' # verb @ [nl]"
    by (simp add: session_command_def)
  show ?thesis
    by (simp only: eq split_whitespace_def split_keyword split_u32 split_last_word [OF assms])
qed

lemma reply_timeout_task_command:
  assumes "\<forall>c \<in> set verb. graphic c" and "verb \<noteq> []"
  shows "reply_timeout (task_command t verb) =
    (if verb = ''CANCEL'' then CLEANUP_REPLY_TIMEOUT else REPLY_TIMEOUT)"
  by (simp add: reply_timeout_def split_task_command [OF assms])

lemma reply_timeout_session_command:
  assumes "\<forall>c \<in> set verb. graphic c" and "verb \<noteq> []"
  shows "reply_timeout (session_command sid verb) =
    (if verb = ''DELETE'' then CLEANUP_REPLY_TIMEOUT else REPLY_TIMEOUT)"
  by (simp add: reply_timeout_def split_session_command [OF assms])

lemma ask_bool_world: "snd (ask_bool E sock c f u w) =
    snd (transfer E sock (reply_timeout c) REPLY_TIMEOUT c w)"
  using send_command_at_world [of E sock c w] by (auto simp: ask_bool_def split: prod.splits)

end
