(* ===== verification/MaestroRequest.thy ===== *)
theory MaestroRequest
  imports MaestroSession
begin

text \<open>
  The client of the native request API, version 2
  (\<open>dependencies/maestro_rust_library/src/maestro/request.rs\<close>).  A request is one
  line \<open>API <document>\<close>, and the reply is one line.  The state is the client, that
  is, its socket and the flag that version 2 has been negotiated, with the world.
  The flag is shared by clones of a client, so a clone acts on the same state.
\<close>

definition VERSION :: u32 where "VERSION = 2"

definition MAX_REQUEST_BYTES :: nat where
  "MAX_REQUEST_BYTES = 16 * 1024 * 1024"

record request_error =
  err_code :: string
  err_message :: string

definition request_error_display :: "request_error \<Rightarrow> string" where
  "request_error_display e = err_code e @ '': '' @ err_message e"

abbreviation rerr :: "string \<Rightarrow> string \<Rightarrow> request_error" where
  "rerr c m \<equiv> \<lparr>err_code = c, err_message = m\<rparr>"

record runner_status =
  accepting_jobs :: bool
  runner_healthy :: "bool option"
  runner_busy :: "bool option"
  runner_pending :: "u64 option"
  runner_reason :: "string option"

record request_client =
  socket :: string
  negotiated :: bool

type_synonym ('w, 'a) api = "(request_client \<times> 'w, request_error, 'a) prog"

definition client_new :: "string \<Rightarrow> request_client" where
  "client_new sock = \<lparr>socket = sock, negotiated = False\<rparr>"

definition client_default :: "env \<Rightarrow> request_client" where
  "client_default env = client_new (socket_path env)"

section \<open>Replies\<close>

definition parse_api_response :: "json_lib \<Rightarrow> string \<Rightarrow> request_error + json" where
  "parse_api_response L response =
     (case strip_prefix ''OK '' response of
        None \<Rightarrow> Inl (rerr ''unsupported_api''
          (''Maestro server does not support request API v2: '' @ trim response))
      | Some document \<Rightarrow> (case jparse L (trim document) of
          Inl error \<Rightarrow> Inl (rerr ''protocol'' (''Malformed API response: '' @ error))
        | Inr v \<Rightarrow>
            if as_u32 L (jindex v ''version'') \<noteq> Some VERSION then
              Inl (rerr ''unsupported_api'' ''Incompatible Maestro public API version'')
            else case as_bool (jindex v ''ok'') of
              Some True \<Rightarrow> Inr v
            | Some False \<Rightarrow>
                Inl (rerr
                  (case as_str (jindex (jindex v ''error'') ''code'') of
                     Some c \<Rightarrow> c | None \<Rightarrow> ''server_error'')
                  (case as_str (jindex (jindex v ''error'') ''message'') of
                     Some m \<Rightarrow> m | None \<Rightarrow> ''Unspecified Maestro error''))
            | None \<Rightarrow> Inl (rerr ''protocol'' ''Missing response status'')))"

definition parse_submission_response :: "json_lib \<Rightarrow> string \<Rightarrow> request_error + json" where
  "parse_submission_response L response =
     (let envelope = (case strip_prefix ''OK '' response of
          None \<Rightarrow> None
        | Some document \<Rightarrow> (case jparse L (trim document) of Inl _ \<Rightarrow> None | Inr v \<Rightarrow> Some v)) in
      if (case envelope of None \<Rightarrow> True | Some v \<Rightarrow> as_u32 L (jindex v ''version'') \<noteq> Some VERSION)
      then Inl (rerr ''protocol''
        (''Unrecognized reply to a submission; the task may have been created: ''
           @ concat (take 256 (char_pieces (trim response)))))
      else parse_api_response L response)"

section \<open>Calls\<close>

definition api_command :: "json_lib \<Rightarrow> json \<Rightarrow> string" where
  "api_command L document = ''API '' @ jdump L document @ [nl]"

definition renegotiate :: "string \<Rightarrow> bool" where
  "renegotiate c \<longleftrightarrow>
     c = ''transport'' \<or> c = ''protocol'' \<or> c = ''unsupported_api'' \<or> c = ''unsupported_version''"

definition call_with ::
    "'w maestro_env \<Rightarrow> json \<Rightarrow> (string \<Rightarrow> request_error + json) \<Rightarrow> ('w, json) api" where
  "call_with E document parse = (\<lambda>(cl, w).
     let command = api_command (json_crate E) document in
     if MAX_REQUEST_BYTES < length command then
       (Err (rerr ''invalid_input'' ''Request exceeds the 16 MiB transport limit''), (cl, w))
     else case exchange E (socket cl) command w of (res, w') \<Rightarrow>
       (let result = (case res of
            Inl error \<Rightarrow> Inl (rerr ''transport'' (io_display error))
          | Inr response \<Rightarrow> parse response) in
        (outcome_of result,
         (case result of
            Inl error \<Rightarrow> if renegotiate (err_code error) then cl\<lparr>negotiated := False\<rparr> else cl
          | Inr _ \<Rightarrow> cl,
          w'))))"

definition call :: "'w maestro_env \<Rightarrow> json \<Rightarrow> ('w, json) api" where
  "call E document = call_with E document (parse_api_response (json_crate E))"

definition set_negotiated :: "bool \<Rightarrow> ('w, unit) api" where
  "set_negotiated b = modify (\<lambda>(cl, w). (cl\<lparr>negotiated := b\<rparr>, w))"

definition capabilities_doc :: json where
  "capabilities_doc = JObj [(''version'', of_u32 VERSION), (''command'', JStr ''capabilities'')]"

definition capabilities :: "'w maestro_env \<Rightarrow> ('w, string) api" where
  "capabilities E =
     andthen (set_negotiated False) (\<lambda>_.
     andthen (call E capabilities_doc) (\<lambda>v.
       if as_u32 (json_crate E) (jindex (jindex v ''native'') ''schema_version'') \<noteq> Some VERSION then
         throw (rerr ''unsupported_api'' ''Server lacks Maestro native request schema 2'')
       else andthen (set_negotiated True) (\<lambda>_. ret (jdump (json_crate E) v))))"

definition submit_doc :: "u32 \<Rightarrow> json \<Rightarrow> json" where
  "submit_doc sid request =
     JObj [(''version'', of_u32 VERSION), (''command'', JStr ''submit''),
           (''session_id'', of_u32 sid), (''request'', request)]"

definition submit :: "'w maestro_env \<Rightarrow> u32 \<Rightarrow> string \<Rightarrow> ('w, u32) api" where
  "submit E sid request0 =
     andthen (from_result (map_sum (rerr ''invalid_input'') id (jparse (json_crate E) request0))) (\<lambda>request.
     if \<not> is_object request
        \<or> as_u32 (json_crate E) (jindex request ''schema_version'') \<noteq> Some VERSION then
       throw (rerr ''invalid_input'' ''Native request must be an object with schema_version=2'')
     else
       andthen get_state (\<lambda>(cl, _).
       andthen (if \<not> negotiated cl then andthen (capabilities E) (\<lambda>_. ret ()) else ret ()) (\<lambda>_.
       andthen (call_with E (submit_doc sid request)
                 (parse_submission_response (json_crate E))) (\<lambda>response.
         case as_u32 (json_crate E) (jindex response ''task_id'') of
           Some tid \<Rightarrow> ret tid
         | None \<Rightarrow> andthen (set_negotiated False) (\<lambda>_.
             throw (rerr ''protocol'' ''Missing task_id; the task may have been created''))))))"

definition logs :: "'w maestro_env \<Rightarrow> u32 \<Rightarrow> u32 \<Rightarrow> ('w, string) api" where
  "logs E sid tid =
     andthen (call E (JObj [(''version'', of_u32 VERSION), (''command'', JStr ''logs''),
                            (''session_id'', of_u32 sid), (''task_id'', of_u32 tid)]))
       (\<lambda>v. ret (jdump (json_crate E) v))"

definition keepalive :: "'w maestro_env \<Rightarrow> u32 \<Rightarrow> ('w, unit) api" where
  "keepalive E sid =
     andthen (call E (JObj [(''version'', of_u32 VERSION), (''command'', JStr ''keepalive''),
                            (''session_id'', of_u32 sid)]))
       (\<lambda>_. ret ())"

text \<open>An exchange outside of \<open>call\<close>: a failure does not touch the negotiation.\<close>

definition exchange_api :: "'w maestro_env \<Rightarrow> string \<Rightarrow> ('w, string) api" where
  "exchange_api E command = (\<lambda>(cl, w).
     case exchange E (socket cl) command w of (res, w') \<Rightarrow>
       (outcome_of (map_sum (\<lambda>e. rerr ''transport'' (io_display e)) id res), (cl, w')))"

definition status_doc :: json where
  "status_doc = JObj [(''version'', of_u32 VERSION), (''command'', JStr ''status'')]"

definition status_of :: "json_lib \<Rightarrow> json \<Rightarrow> request_error + runner_status" where
  "status_of L v =
     (let st = jindex v ''status'';
          malformed = rerr ''protocol'' ''Invalid server status response'' in
      case (if jindex st ''status_reason'' = JNull then Some None
            else map_option Some (as_str (jindex st ''status_reason''))) of
        None \<Rightarrow> Inl malformed
      | Some reason \<Rightarrow>
          (case (as_bool (jindex st ''accepting_jobs''), as_bool (jindex st ''healthy''),
                 as_bool (jindex st ''busy''), as_u64 L (jindex st ''pending_job_count'')) of
             (Some a, Some h, Some b, Some n) \<Rightarrow>
               Inr \<lparr>accepting_jobs = a, runner_healthy = Some h, runner_busy = Some b,
                    runner_pending = Some n, runner_reason = reason\<rparr>
           | _ \<Rightarrow> Inl malformed))"

definition api_status :: "'w maestro_env \<Rightarrow> ('w, runner_status) api" where
  "api_status E =
     andthen (exchange_api E (api_command (json_crate E) status_doc)) (\<lambda>response.
     let parsed = parse_api_response (json_crate E) response in
     if trim response = ''ERROR Unknown command''
        \<or> (case parsed of Inl error \<Rightarrow> err_code error = ''unsupported_operation'' | Inr _ \<Rightarrow> False)
     then
       andthen (exchange_api E (''PING'' @ [nl])) (\<lambda>ping.
         let p = trim ping;
             legacy = \<lambda>b. \<lparr>accepting_jobs = b, runner_healthy = None, runner_busy = None,
                           runner_pending = None, runner_reason = None\<rparr> in
         if p = ''OK'' \<or> p = ''OK YES'' then ret (legacy True)
         else if p = ''OK NO'' then ret (legacy False)
         else throw (rerr ''protocol'' (''Invalid legacy PING response: '' @ p)))
     else
       andthen (from_result parsed) (\<lambda>v. from_result (status_of (json_crate E) v)))"

section \<open>Replies: facts\<close>

text \<open>A refusal: an envelope of version 2 that says \<open>ok: false\<close>.\<close>

definition refusal :: "json_lib \<Rightarrow> string \<Rightarrow> bool" where
  "refusal L response \<longleftrightarrow>
     (\<exists>document v. response = ''OK '' @ document \<and> jparse L (trim document) = Inr v
        \<and> as_u32 L (jindex v ''version'') = Some VERSION \<and> jindex v ''ok'' = JBool False)"

lemma as_bool_Some: "as_bool v = Some b \<longleftrightarrow> v = JBool b"
  by (cases v) auto

lemma parse_api_response_Ok:
  "parse_api_response L r = Inr v \<longleftrightarrow>
     (\<exists>document. r = ''OK '' @ document \<and> jparse L (trim document) = Inr v
        \<and> as_u32 L (jindex v ''version'') = Some VERSION \<and> jindex v ''ok'' = JBool True)"
  by (auto simp: parse_api_response_def strip_prefix_Some as_bool_Some
      split: option.splits sum.splits if_splits bool.splits)

lemma parse_submission_response_Ok:
  "parse_submission_response L r = Inr v \<longleftrightarrow> parse_api_response L r = Inr v"
  by (auto simp: parse_submission_response_def Let_def parse_api_response_def
      split: option.splits sum.splits if_splits)

lemma parse_submission_response_refusal:
  assumes "parse_submission_response L r = Inl e" and "err_code e \<noteq> ''protocol''"
  shows "refusal L r"
  using assms
  by (auto simp: parse_submission_response_def parse_api_response_def refusal_def Let_def
      strip_prefix_Some as_bool_Some split: option.splits sum.splits if_splits bool.splits)

section \<open>Calls: facts\<close>

lemma call_with_Ok:
  "call_with E d p (cl, w) = (Ok v, (cl', w')) \<longleftrightarrow>
     length (api_command (json_crate E) d) \<le> MAX_REQUEST_BYTES \<and> cl' = cl \<and>
     (\<exists>r. exchange E (socket cl) (api_command (json_crate E) d) w = (Inr r, w') \<and> p r = Inr v)"
  by (auto simp: call_with_def Let_def split: prod.splits sum.splits if_splits elim: outcome_of.elims)

lemma call_with_Err:
  "call_with E d p (cl, w) = (Err e, (cl', w')) \<longleftrightarrow>
     (if MAX_REQUEST_BYTES < length (api_command (json_crate E) d) then
        cl' = cl \<and> w' = w \<and> e = rerr ''invalid_input'' ''Request exceeds the 16 MiB transport limit''
      else cl' = (if renegotiate (err_code e) then cl\<lparr>negotiated := False\<rparr> else cl) \<and>
        ((\<exists>x. exchange E (socket cl) (api_command (json_crate E) d) w = (Inl x, w')
             \<and> e = rerr ''transport'' (io_display x)) \<or>
         (\<exists>r. exchange E (socket cl) (api_command (json_crate E) d) w = (Inr r, w') \<and> p r = Inl e)))"
  by (auto simp: call_with_def Let_def split: prod.splits sum.splits elim: outcome_of.elims)

lemma call_with_no_panic: "call_with E d p s \<noteq> (Panic, t)"
  by (auto simp: call_with_def Let_def split: prod.splits sum.splits if_splits elim: outcome_of.elims)

lemma call_with_renegotiates:
  assumes "call_with E d p (cl, w) = (Err e, (cl', w'))" and "renegotiate (err_code e)"
  shows "\<not> negotiated cl'"
proof -
  have "\<not> renegotiate ''invalid_input''" by (simp add: renegotiate_def)
  with assms show ?thesis by (auto simp: call_with_Err split: if_splits)
qed

lemma call_with_traced:
  "call_with (traced E) d p (cl, (w, sent)) =
     (case call_with E d p (cl, w) of (r, (cl', w')) \<Rightarrow>
        (r, (cl', (w', sent @ (if MAX_REQUEST_BYTES < length (api_command (json_crate E) d) then []
           else [api_command (json_crate E) d])))))"
  by (auto simp: call_with_def Let_def split: prod.splits)

lemma capabilities_Ok:
  "capabilities E (cl, w) = (Ok s, (cl', w')) \<longleftrightarrow>
     cl' = cl\<lparr>negotiated := True\<rparr> \<and>
     (\<exists>v. call E capabilities_doc (cl\<lparr>negotiated := False\<rparr>, w) = (Ok v, (cl\<lparr>negotiated := False\<rparr>, w'))
        \<and> as_u32 (json_crate E) (jindex (jindex v ''native'') ''schema_version'') = Some VERSION
        \<and> s = jdump (json_crate E) v)"
  by (auto simp: capabilities_def set_negotiated_def modify_def andthen_Ok throw_def ret_def
      call_def call_with_Ok split: if_splits)

lemma capabilities_Err:
  assumes "capabilities E (cl, w) = (Err e, (cl', w'))"
  shows "cl' = cl\<lparr>negotiated := False\<rparr>"
  using assms
  by (auto simp: capabilities_def set_negotiated_def modify_def andthen_Err andthen_Ok throw_def
      ret_def call_def call_with_Ok call_with_Err split: if_splits)

text \<open>
  The commands of a submission, and the steps it takes: the request is accepted
  locally, version 2 is negotiated when it was not, and the submission is sent.
\<close>

definition submit_command :: "json_lib \<Rightarrow> u32 \<Rightarrow> json \<Rightarrow> string" where
  "submit_command L sid request = api_command L (submit_doc sid request)"

definition local_request :: "json_lib \<Rightarrow> string \<Rightarrow> json \<Rightarrow> bool" where
  "local_request L text request \<longleftrightarrow> jparse L text = Inr request \<and> is_object request
     \<and> as_u32 L (jindex request ''schema_version'') = Some VERSION"

definition negotiate :: "'w maestro_env \<Rightarrow> ('w, unit) api" where
  "negotiate E = (\<lambda>(cl, w).
     if negotiated cl then (Ok (), (cl, w)) else andthen (capabilities E) (\<lambda>_. ret ()) (cl, w))"

definition send_submission :: "'w maestro_env \<Rightarrow> u32 \<Rightarrow> json \<Rightarrow> ('w, u32) api" where
  "send_submission E sid request =
     andthen (call_with E (submit_doc sid request) (parse_submission_response (json_crate E)))
       (\<lambda>response. case as_u32 (json_crate E) (jindex response ''task_id'') of
           Some tid \<Rightarrow> ret tid
         | None \<Rightarrow> andthen (set_negotiated False) (\<lambda>_.
             throw (rerr ''protocol'' ''Missing task_id; the task may have been created'')))"

lemma submit_local:
  "local_request (json_crate E) text request \<Longrightarrow>
     submit E sid text = andthen (negotiate E) (\<lambda>_. send_submission E sid request)"
  by (rule ext) (auto simp: submit_def local_request_def from_result_def get_state_def andthen_def
      negotiate_def send_submission_def ret_def split: prod.split outcome.split)

lemma submit_not_local:
  "(\<And>request. \<not> local_request (json_crate E) text request) \<Longrightarrow>
     \<exists>m. submit E sid text s = (Err (rerr ''invalid_input'' m), s)"
  by (cases "jparse (json_crate E) text")
    (auto simp: submit_def local_request_def from_result_def andthen_def throw_def)

lemma negotiate_Ok: "negotiate E (cl, w) = (Ok u, (cl', w')) \<Longrightarrow> negotiated cl'"
  by (auto simp: negotiate_def andthen_Ok ret_def capabilities_Ok split: if_splits)

lemma negotiate_Err: "negotiate E (cl, w) = (Err e, (cl', w')) \<Longrightarrow> \<not> negotiated cl'"
  by (auto simp: negotiate_def andthen_Err ret_def split: if_splits dest: capabilities_Err)

lemma send_submission_Ok:
  "send_submission E sid request (cl, w) = (Ok tid, (cl', w')) \<longleftrightarrow>
     cl' = cl \<and> (\<exists>v. call_with E (submit_doc sid request)
         (parse_submission_response (json_crate E)) (cl, w) = (Ok v, (cl, w'))
       \<and> as_u32 (json_crate E) (jindex v ''task_id'') = Some tid)"
  by (auto simp: send_submission_def andthen_Ok call_with_Ok set_negotiated_def modify_def throw_def
      ret_def split: option.splits)

lemma send_submission_Err:
  assumes "send_submission E sid request (cl, w) = (Err e, (cl', w'))" and "renegotiate (err_code e)"
  shows "\<not> negotiated cl'"
  using assms
  by (auto simp: send_submission_def andthen_Err andthen_Ok set_negotiated_def modify_def throw_def
      ret_def dest: call_with_renegotiates split: option.splits)

lemma capabilities_no_panic: "capabilities E s \<noteq> (Panic, t)"
  by (auto simp: capabilities_def set_negotiated_def modify_def call_def andthen_Panic throw_def ret_def
      dest: call_with_no_panic [THEN notE] split: if_splits)

lemma submit_no_panic: "submit E sid text s \<noteq> (Panic, t)"
proof (cases "\<exists>request. local_request (json_crate E) text request")
  case True
  then obtain request where "local_request (json_crate E) text request" ..
  then show ?thesis
    by (auto simp: submit_local negotiate_def send_submission_def set_negotiated_def modify_def
        throw_def ret_def andthen_Panic call_with_no_panic capabilities_no_panic
        split: if_splits option.splits prod.splits)
next
  case False
  with submit_not_local [of E "text" sid s] show ?thesis by auto
qed

text \<open>
  C15. After a submission the negotiation flag tells the truth: a submission that
  succeeds leaves the client negotiated, and one that fails for the transport, for a
  broken reply or for an unsupported version leaves it to be negotiated again.
\<close>

theorem submit_negotiation:
  assumes "submit E sid text (cl, w) = (res, (cl', w'))"
  shows "case res of
      Ok tid \<Rightarrow> negotiated cl'
    | Err e \<Rightarrow> (renegotiate (err_code e) \<longrightarrow> \<not> negotiated cl')
    | Panic \<Rightarrow> False"
proof (cases "\<exists>request. local_request (json_crate E) text request")
  case True
  then obtain request where l: "local_request (json_crate E) text request" ..
  show ?thesis
    using assms submit_no_panic [of E sid "text" "(cl, w)"]
    by (cases res)
      (auto simp: submit_local [OF l] andthen_Ok andthen_Err send_submission_Ok
        dest: negotiate_Ok negotiate_Err send_submission_Err)
next
  case False
  then obtain m where "submit E sid text (cl, w) = (Err (rerr ''invalid_input'' m), (cl, w))"
    using submit_not_local [of E "text" sid "(cl, w)"] by auto
  with assms show ?thesis by (auto simp: renegotiate_def)
qed

lemma capabilities_sends:
  "snd (snd (snd (capabilities (traced E) (cl, (w, sent))))) =
     sent @ (if MAX_REQUEST_BYTES < length (api_command (json_crate E) capabilities_doc) then []
             else [api_command (json_crate E) capabilities_doc])"
  by (auto simp: capabilities_def set_negotiated_def modify_def andthen_def call_def call_with_traced
      throw_def ret_def split: prod.splits outcome.splits)

lemma capabilities_traced:
  "capabilities (traced E) (cl, (w, sent)) = (Ok s, (cl', (w', sent'))) \<Longrightarrow>
     capabilities E (cl, w) = (Ok s, (cl', w'))"
  by (cases "exchange E (socket cl) (api_command (json_crate E) capabilities_doc) w")
    (auto simp: capabilities_Ok call_def call_with_Ok)

lemma send_submission_sends:
  "snd (snd (snd (send_submission (traced E) sid request (cl, (w, sent))))) =
     sent @ (if MAX_REQUEST_BYTES < length (submit_command (json_crate E) sid request) then []
             else [submit_command (json_crate E) sid request])"
  by (auto simp: send_submission_def set_negotiated_def modify_def andthen_def call_with_traced
      submit_command_def throw_def ret_def split: prod.splits outcome.splits option.splits)

text \<open>
  C14. A submission is sent at most once, and only after version 2 has been negotiated:
  the commands that \<open>submit\<close> sends are none, or the capabilities query when the client
  was not negotiated, or the submission itself, sent last and preceded by a
  successful capabilities query when the client was not negotiated.
\<close>

theorem submit_sends:
  assumes "submit (traced E) sid text (cl, (w, [])) = (res, (cl', (w', sent)))"
  shows "sent = []
    \<or> (\<not> negotiated cl \<and> sent = [api_command (json_crate E) capabilities_doc])
    \<or> (\<exists>request. local_request (json_crate E) text request \<and>
         (negotiated cl \<and> sent = [submit_command (json_crate E) sid request]
          \<or> \<not> negotiated cl
            \<and> sent = [api_command (json_crate E) capabilities_doc,
                      submit_command (json_crate E) sid request]
            \<and> (\<exists>catalog t. capabilities E (cl, w) = (Ok catalog, t))))"
proof (cases "\<exists>request. local_request (json_crate E) text request")
  case False
  then obtain m where "submit (traced E) sid text (cl, (w, [])) =
      (Err (rerr ''invalid_input'' m), (cl, (w, [])))"
    using submit_not_local [of "traced E" "text" sid "(cl, (w, []))"] by auto
  with assms show ?thesis by simp
next
  case True
  then obtain request where l: "local_request (json_crate (traced E)) text request" by auto
  note run = assms [unfolded submit_local [OF l]]
  show ?thesis
  proof (cases "negotiated cl")
    case True
    with run send_submission_sends [of E sid request cl w "[]"] l show ?thesis
      by (auto simp: negotiate_def andthen_def split: if_splits)
  next
    case False
    let ?C = "capabilities (traced E) (cl, (w, []))"
    obtain r cl1 w1 sent1 where c: "?C = (r, (cl1, (w1, sent1)))" by (cases ?C) auto
    with capabilities_sends [of E cl w "[]"] have s1: "sent1 = [] \<or>
        sent1 = [api_command (json_crate E) capabilities_doc]" by (auto split: if_splits)
    show ?thesis
    proof (cases r)
      case (Ok s)
      from Ok c have "sent1 \<noteq> []"
        using capabilities_sends [of E cl w "[]"]
        by (auto simp: capabilities_Ok call_def call_with_Ok split: if_splits)
      with Ok c run False s1 l capabilities_traced [of E cl w "[]"]
        send_submission_sends [of E sid request cl1 w1 sent1] show ?thesis
        by (auto simp: negotiate_def andthen_def ret_def split: if_splits)
    qed (use c run False s1 in \<open>auto simp: negotiate_def andthen_def\<close>)
  qed
qed

end
