(* ===== verification/Service.thy ===== *)
theory Service
  imports CommonConfig
begin

text \<open>
  \<open>QRMIService\<close> (\<open>src/service.rs\<close>): the resources of a job that are online, by name.
  Probing a resource may change both the resource and the world, so \<open>status\<close> is an
  effect that gives the status and the resource after the call.
\<close>

record ('s, 'r) service_env =
  ctors :: "('s, 'r) constructors"
  probe :: "'r \<Rightarrow> ('s, qrmi_error, resource_status \<times> 'r) prog"

fun collect_resources ::
    "('s, 'r) service_env \<Rightarrow> (string \<times> string) list \<Rightarrow> (string \<rightharpoonup> 'r) \<Rightarrow>
     ('s, qrmi_error, string \<rightharpoonup> 'r) prog" where
  "collect_resources E [] resources = ret resources"
| "collect_resources E ((qpu0, qpu_type) # rest) resources =
     (let qpu = trim qpu0 in
      case from_qpu_type_str qpu_type of
        None \<Rightarrow> collect_resources E rest resources
      | Some ty \<Rightarrow>
          andthen (create_resource (ctors E) ty qpu) (\<lambda>resource.
          andthen (probe E resource) (\<lambda>(st, resource').
            if status_code st = Online
            then collect_resources E rest (resources(qpu \<mapsto> resource'))
            else collect_resources E rest resources)))"

definition service_new ::
    "('s, 'r) service_env \<Rightarrow> env \<Rightarrow> ('s, qrmi_error, string \<rightharpoonup> 'r) prog" where
  "service_new E env =
     andthen (from_result (get_job_qpu_resources_and_types env)) (\<lambda>(qpus, qpu_types).
       collect_resources E (zip qpus qpu_types) (\<lambda>_. None))"

text \<open>\<open>resource(id)\<close>.\<close>

definition service_resource :: "(string \<rightharpoonup> 'r) \<Rightarrow> string \<Rightarrow> 'r option" where
  "service_resource resources rid = resources rid"

text \<open>
  A resource was online when it was probed: it was built for one of the job's
  pairs, under its trimmed name, and its own probe answered \<open>Online\<close>.
\<close>

definition probed_online ::
    "('s, 'r) service_env \<Rightarrow> (string \<times> string) list \<Rightarrow> string \<Rightarrow> 'r \<Rightarrow> bool" where
  "probed_online E pairs name r \<longleftrightarrow>
     (\<exists>(qpu0, qpu_type) \<in> set pairs. trim qpu0 = name \<and>
        (\<exists>ty r0 s s1 s2 st. from_qpu_type_str qpu_type = Some ty
           \<and> create_resource (ctors E) ty name s = (Ok r0, s1)
           \<and> probe E r0 s1 = (Ok (st, r), s2) \<and> status_code st = Online))"

lemma probed_online_Cons: "probed_online E ps n r \<Longrightarrow> probed_online E (p # ps) n r"
  by (auto simp: probed_online_def)

lemma collect_resources_online:
  assumes "collect_resources E pairs rs s = (Ok rs', s')" and "rs' name = Some r"
  shows "rs name = Some r \<or> probed_online E pairs name r"
  using assms
proof (induction pairs arbitrary: rs s)
  case Nil
  then show ?case by (simp add: ret_def)
next
  case (Cons p rest)
  obtain qpu0 qpu_type where p: "p = (qpu0, qpu_type)" by (cases p)
  show ?case
  proof (cases "from_qpu_type_str qpu_type")
    case None
    with Cons p show ?thesis by (auto intro: probed_online_Cons)
  next
    case (Some ty)
    from Cons.prems(1) obtain r0 s1 st r1 s2 where
      create: "create_resource (ctors E) ty (trim qpu0) s = (Ok r0, s1)" and
      probe: "probe E r0 s1 = (Ok (st, r1), s2)" and
      rest: "collect_resources E rest
        (if status_code st = Online then rs(trim qpu0 \<mapsto> r1) else rs) s2 = (Ok rs', s')"
      by (auto simp: p Some Let_def andthen_Ok split: if_splits)
    have here: "probed_online E (p # rest) (trim qpu0) r1" if "status_code st = Online"
      using Some create probe that by (auto simp: p probed_online_def)
    from Cons.IH [OF rest Cons.prems(2)] here show ?thesis
      by (auto intro: probed_online_Cons split: if_splits)
  qed
qed

text \<open>
  C29. \<open>QRMIService::new\<close> offers only online resources: whatever the vendors'
  constructors and status calls do, every entry of the resource map it returns
  was built for one of the job's pairs of name and type, with a supported type, is
  filed under its trimmed name, and answered \<open>Online\<close> to the status call.
\<close>

theorem service_only_online:
  assumes "service_new E env s = (Ok resources, s')" and "resources name = Some r"
  shows "\<exists>qpus qpu_types. get_job_qpu_resources_and_types env = Inr (qpus, qpu_types)
           \<and> length qpus = length qpu_types \<and> probed_online E (zip qpus qpu_types) name r"
proof (cases "get_job_qpu_resources_and_types env")
  case (Inr p)
  obtain qpus qpu_types where p: "p = (qpus, qpu_types)" by (cases p)
  from assms(1) Inr p
  have "collect_resources E (zip qpus qpu_types) (\<lambda>_. None) s = (Ok resources, s')"
    by (simp add: service_new_def from_result_def andthen_def)
  from collect_resources_online [OF this assms(2)] show ?thesis
    using Inr p job_lists_equal_length by auto
qed (use assms in \<open>simp add: service_new_def from_result_def andthen_def\<close>)

end
