(* ===== verification/MaestroLocal.thy ===== *)
theory MaestroLocal
  imports MaestroRequest Service
begin

text \<open>
  The resource \<open>MaestroLocal\<close> (\<open>src/maestro/local.rs\<close>): sessions and tasks on a
  Maestro server, and the cache of the terminal states that were observed.  The
  state is the resource with the world.  The socket work runs on a blocking thread;
  that the thread itself can be started and joined is taken for granted.
\<close>

record maestro_local =
  backend_name :: string
  session_id :: "u32 option"
  request_client :: request_client
  terminal_tasks :: "u32 \<times> u32 \<rightharpoonup> task_status"

record legacy_submission =
  ls_session_id :: u32
  ls_task_type :: task_type
  ls_input :: string
  ls_observables :: string
  ls_config :: string
  ls_qubits :: u32
  ls_simulator_type :: u32
  ls_simulation_method :: u32

type_synonym ('w, 'a) maestro = "(maestro_local \<times> 'w, qrmi_error, 'a) prog"

definition of_anyhow :: "string \<Rightarrow> string + 'a \<Rightarrow> qrmi_error + 'a" where
  "of_anyhow context0 r = map_sum (\<lambda>e. anyhow (context0 @ '': '' @ e)) id r"

section \<open>Reaching the server\<close>

definition blocking :: "(string \<Rightarrow> 'w \<Rightarrow> 'a \<times> 'w) \<Rightarrow> ('w, 'a) maestro" where
  "blocking operation = (\<lambda>(m, w).
     case operation (socket (request_client m)) w of (a, w') \<Rightarrow> (Ok a, (m, w')))"

definition task_call :: "task \<Rightarrow> (task \<Rightarrow> string \<Rightarrow> 'w \<Rightarrow> 'a \<times> 'w) \<Rightarrow> ('w, 'a) maestro" where
  "task_call t op = blocking (op t)"

definition task_exists :: "'w maestro_env \<Rightarrow> task \<Rightarrow> ('w, string + bool) maestro" where
  "task_exists E t = task_call t (exists_at E)"

fun api_to_qrmi :: "request_error \<Rightarrow> qrmi_error" where
  "api_to_qrmi e =
     (let c = err_code e in
      if c = ''invalid_input'' then InvalidInput (err_message e)
      else if c = ''unsupported_api'' \<or> c = ''unsupported_version''
        \<or> c = ''unsupported_capability'' \<or> c = ''unsupported_operation''
      then UnsupportedFunction (request_error_display e)
      else if c = ''invalid_config'' \<or> c = ''session_not_found''
      then InvalidConfig (request_error_display e)
      else if c = ''task_not_found'' then TaskNotFound (err_message e)
      else anyhow (''Maestro API: '' @ request_error_display e))"

declare api_to_qrmi.simps [simp del]

definition native_api :: "('w, 'a) api \<Rightarrow> ('w, 'a) maestro" where
  "native_api operation = (\<lambda>(m, w).
     case operation (request_client m, w) of (r, (cl, w')) \<Rightarrow>
       (case r of Ok a \<Rightarrow> Ok a | Err e \<Rightarrow> Err (api_to_qrmi e) | Panic \<Rightarrow> Panic,
        (m\<lparr>request_client := cl\<rparr>, w')))"

section \<open>Construction\<close>

definition maestro_new :: "env \<Rightarrow> string \<Rightarrow> qrmi_error + maestro_local" where
  "maestro_new env backend =
     (let name = backend @ ''_QRMI_JOB_ACQUISITION_TOKEN'';
          built = \<lambda>sid. \<lparr>backend_name = backend, session_id = sid,
            request_client = client_default env, terminal_tasks = (\<lambda>_. None)\<rparr> in
      case env name of
        Value v \<Rightarrow> (case parse_u32 v of
            Inr sid \<Rightarrow> Inr (built (Some sid))
          | Inl source \<Rightarrow> Inl (ParseError name v source))
      | NotPresent \<Rightarrow> Inr (built None)
      | NotUnicode _ \<Rightarrow> Inl (InvalidConfig (name @ '' is not valid UTF-8'')))"

definition maestro_from_config :: "env \<Rightarrow> string \<Rightarrow> config_map \<Rightarrow> qrmi_error + maestro_local" where
  "maestro_from_config env backend config =
     (let name = ''QRMI_JOB_ACQUISITION_TOKEN'';
          sock = (case resolve_opt env ''QRMI_MAESTRO_SOCKET'' (Some config) of
              Some s \<Rightarrow> s | None \<Rightarrow> ''/run/maestro.sock'');
          built = \<lambda>sid. \<lparr>backend_name = backend, session_id = sid,
            request_client = client_new sock, terminal_tasks = (\<lambda>_. None)\<rparr> in
      case resolve_opt env name (Some config) of
        None \<Rightarrow> Inr (built None)
      | Some v \<Rightarrow> (case parse_u32 v of
            Inr sid \<Rightarrow> Inr (built (Some sid))
          | Inl source \<Rightarrow> Inl (ParseError name v source)))"

section \<open>Identifiers\<close>

definition get_session_id :: "maestro_local \<Rightarrow> qrmi_error + u32" where
  "get_session_id m = (case session_id m of
      Some sid \<Rightarrow> Inr sid
    | None \<Rightarrow> Inl (InvalidConfig (''No session for '' @ backend_name m
        @ ''. Call acquire() or set '' @ backend_name m
        @ ''_QRMI_JOB_ACQUISITION_TOKEN before constructing the resource'')))"

definition task_of :: "maestro_local \<Rightarrow> string \<Rightarrow> qrmi_error + task" where
  "task_of m tid = (case parse_u32 tid of
      Inl _ \<Rightarrow> Inl (InvalidInput (''Invalid task ID: '' @ tid))
    | Inr i \<Rightarrow> (case get_session_id m of
        Inl e \<Rightarrow> Inl e
      | Inr sid \<Rightarrow> Inr \<lparr>task_id = i, task_session_id = sid\<rparr>))"

text \<open>\<open>f(&self)?\<close>, a read of the resource that may fail.\<close>

definition reading :: "(maestro_local \<Rightarrow> qrmi_error + 'a) \<Rightarrow> ('w, 'a) maestro" where
  "reading f = (\<lambda>(m, w). (outcome_of (f m), (m, w)))"

definition updating :: "(maestro_local \<Rightarrow> maestro_local) \<Rightarrow> ('w, unit) maestro" where
  "updating f = modify (\<lambda>(m, w). (f m, w))"

definition ensure_task_exists :: "'w maestro_env \<Rightarrow> task \<Rightarrow> ('w, unit) maestro" where
  "ensure_task_exists E t =
     andthen (task_exists E t) (\<lambda>r.
     andthen (from_result (of_anyhow (''Failed to check task '' @ show_u32 (task_id t)) r)) (\<lambda>b.
       if b then ret () else throw (TaskNotFound (show_u32 (task_id t)))))"

definition task_response ::
    "'w maestro_env \<Rightarrow> task \<Rightarrow> string \<Rightarrow> string + 'a \<Rightarrow> ('w, 'a) maestro" where
  "task_response E t operation response = (case response of
      Inr v \<Rightarrow> ret v
    | Inl error \<Rightarrow>
        attempt (task_exists E t) (\<lambda>r.
          if r = Inr (Inr False) then throw (TaskNotFound (show_u32 (task_id t)))
          else throw (anyhow (operation @ '' for task '' @ show_u32 (task_id t) @ '': '' @ error))))"

section \<open>The server's view of a task\<close>

definition last_event_cancelled :: "json \<Rightarrow> bool" where
  "last_event_cancelled v = (case as_array (jindex v ''events'') of
      None \<Rightarrow> False
    | Some evs \<Rightarrow> evs \<noteq> [] \<and> jindex (last evs) ''state'' = JStr ''cancelled'')"

definition cancellation_recorded :: "'w maestro_env \<Rightarrow> task \<Rightarrow> ('w, bool) maestro" where
  "cancellation_recorded E t =
     attempt (native_api (logs E (task_session_id t) (task_id t))) (\<lambda>r. case r of
       Inl _ \<Rightarrow> ret False
     | Inr logs0 \<Rightarrow> ret (case jparse (serde_crate E) logs0 of
           Inl _ \<Rightarrow> False
         | Inr v \<Rightarrow> last_event_cancelled v))"

definition server_task_status :: "'w maestro_env \<Rightarrow> task \<Rightarrow> ('w, task_status) maestro" where
  "server_task_status E t =
     andthen (ensure_task_exists E t) (\<lambda>_.
     andthen (task_call t (failed_at E)) (\<lambda>failed0.
     andthen (task_response E t ''Failed to get failure status'' failed0) (\<lambda>failed.
     if failed then ret Failed else
     andthen (task_call t (finished_at E)) (\<lambda>finished0.
     andthen (task_response E t ''Failed to get completion status'' finished0) (\<lambda>finished.
     if finished then
       andthen (task_call t (failed_at E)) (\<lambda>failed1.
       andthen (task_response E t ''Failed to get final failure status'' failed1) (\<lambda>failed2.
         ret (if failed2 then Failed else Completed)))
     else
       andthen (task_call t (running_at E)) (\<lambda>running0.
       andthen (task_response E t ''Failed to get running status'' running0) (\<lambda>running.
         ret (if running then Running else Queued))))))))"

section \<open>Legacy submission\<close>

definition accepted :: "string \<Rightarrow> string + bool \<Rightarrow> qrmi_error + unit" where
  "accepted operation response = (case response of
      Inr True \<Rightarrow> Inr ()
    | Inr False \<Rightarrow> Inl (InvalidInput (''Maestro rejected '' @ operation))
    | Inl error \<Rightarrow> Inl (anyhow (''Failed to '' @ operation @ '': '' @ error)))"

text \<open>\<open>Self::accepted(operation, call.await)?\<close>.\<close>

definition accept :: "string \<Rightarrow> ('w \<Rightarrow> (string + bool) \<times> 'w) \<Rightarrow> ('w, qrmi_error, unit) prog" where
  "accept operation ask = run_result (\<lambda>w. case ask w of (r, w') \<Rightarrow> (accepted operation r, w'))"

definition configure :: "'w maestro_env \<Rightarrow> legacy_submission \<Rightarrow> task \<Rightarrow> string \<Rightarrow>
    ('w, qrmi_error, unit) prog" where
  "configure E job t sock =
     andthen (accept ''set task type'' (set_type_at E t (ls_task_type job) sock)) (\<lambda>_.
     andthen (if ls_task_type job = ESTIMATE
              then accept ''set observables'' (set_observables_as_string_at E t (ls_observables job) sock)
              else ret ()) (\<lambda>_.
     andthen (accept ''set qubits'' (set_qubits_at E t (ls_qubits job) sock)) (\<lambda>_.
     andthen (accept ''set simulator type'' (set_simulator_type_at E t (ls_simulator_type job) sock)) (\<lambda>_.
     andthen (accept ''set simulation method''
               (set_simulation_method_at E t (ls_simulation_method job) sock)) (\<lambda>_.
     andthen (accept ''set QASM'' (set_qasm_at E t (ls_input job) sock)) (\<lambda>_.
     andthen (accept ''set options JSON'' (set_options_json_at E t (ls_config job) sock)) (\<lambda>_.
       accept ''execute task'' (execute_at E t sock))))))))"

definition submit_legacy ::
    "'w maestro_env \<Rightarrow> legacy_submission \<Rightarrow> string \<Rightarrow> ('w, qrmi_error, task) prog" where
  "submit_legacy E job sock =
     andthen (run_result (\<lambda>w. case create_task_at E (ls_session_id job) sock w of (r, w') \<Rightarrow>
                 (of_anyhow ''Failed to create task'' r, w'))) (\<lambda>t.
     attempt (configure E job t sock) (\<lambda>configured. case configured of
       Inl error \<Rightarrow>
         attempt (run_result (cancel_at E t sock)) (\<lambda>_.
           throw (anyhow (''Maestro task '' @ show_u32 (task_id t)
             @ '' was created but submission failed: '' @ error_display error)))
     | Inr _ \<Rightarrow> ret t))"

section \<open>The resource's operations\<close>

definition maestro_status :: "'w maestro_env \<Rightarrow> ('w, resource_status) maestro" where
  "maestro_status E =
     andthen (native_api (api_status E)) (\<lambda>st.
       ret \<lparr>status_code = (if accepting_jobs st then Online else Offline),
            status_reason = runner_reason st, healthy = runner_healthy st, busy = runner_busy st,
            capacity = None, pending_job_count = runner_pending st\<rparr>)"

definition maestro_is_accessible :: "'w maestro_env \<Rightarrow> ('w, bool) maestro" where
  "maestro_is_accessible E =
     andthen (blocking (\<lambda>sock. send_command_at E sock (''PING'' @ [nl]))) (\<lambda>r. case r of
       OK accessible \<Rightarrow> ret accessible
     | ERROR error \<Rightarrow> throw (anyhow (''Error pinging Maestro Local: '' @ error))
     | OkResponse s \<Rightarrow> throw (anyhow (''Unexpected Maestro Local ping response: OkResponse(''
         @ debug_str s @ '')'')))"

definition maestro_acquire :: "'w maestro_env \<Rightarrow> ('w, string) maestro" where
  "maestro_acquire E =
     (let fresh =
        andthen (blocking (session_new_at E)) (\<lambda>r.
        andthen (from_result (of_anyhow ''Failed to acquire a new session'' r)) (\<lambda>sid.
        andthen (updating (\<lambda>m. m\<lparr>session_id := Some sid\<rparr>)) (\<lambda>_.
          ret (show_u32 sid)))) in
      andthen get_state (\<lambda>(m, _). case session_id m of
        None \<Rightarrow> fresh
      | Some sid \<Rightarrow>
          andthen (blocking (session_exists_at E sid)) (\<lambda>r.
          andthen (from_result (of_anyhow (''Failed to check session '' @ show_u32 sid) r)) (\<lambda>b.
            if b then ret (show_u32 sid)
            else andthen (updating (\<lambda>m. m\<lparr>session_id := None, terminal_tasks := (\<lambda>_. None)\<rparr>))
                   (\<lambda>_. fresh)))))"

definition retain_others :: "u32 \<Rightarrow> (u32 \<times> u32 \<rightharpoonup> task_status) \<Rightarrow> (u32 \<times> u32 \<rightharpoonup> task_status)" where
  "retain_others sid cache = (\<lambda>(s, t). if s \<noteq> sid then cache (s, t) else None)"

definition forget_session :: "u32 \<Rightarrow> maestro_local \<Rightarrow> maestro_local" where
  "forget_session sid m =
     m\<lparr>session_id := (if session_id m = Some sid then None else session_id m),
       terminal_tasks := retain_others sid (terminal_tasks m)\<rparr>"

definition maestro_release :: "'w maestro_env \<Rightarrow> string \<Rightarrow> ('w, unit) maestro" where
  "maestro_release E i = (case parse_u32 i of
       Inl _ \<Rightarrow> throw (InvalidInput (''Invalid session ID: '' @ i))
     | Inr sid \<Rightarrow>
         andthen (blocking (session_delete_at E sid)) (\<lambda>deleted. case deleted of
           Inr True \<Rightarrow> updating (forget_session sid)
         | Inr False \<Rightarrow> throw (anyhow (''Maestro refused to delete session '' @ i))
         | Inl error \<Rightarrow> throw (anyhow (''Error deleting session '' @ i @ '': '' @ error))))"

definition forget_task :: "u32 \<Rightarrow> u32 \<Rightarrow> maestro_local \<Rightarrow> maestro_local" where
  "forget_task sid tid m = m\<lparr>terminal_tasks := (terminal_tasks m)((sid, tid) := None)\<rparr>"

definition start_request :: "'w maestro_env \<Rightarrow> string \<Rightarrow> ('w, string) maestro" where
  "start_request E input =
     andthen (from_result (map_sum InvalidJson id (jparse (serde_crate E) input))) (\<lambda>request.
     if \<not> is_object request
        \<or> as_u64 (serde_crate E) (jindex request ''schema_version'') \<noteq> Some 2 then
       throw (InvalidInput ''Maestro request requires a JSON object with schema_version=2'')
     else
       andthen (reading get_session_id) (\<lambda>sid.
       andthen (native_api (submit E sid input)) (\<lambda>tid.
       andthen (updating (forget_task sid tid)) (\<lambda>_.
         ret (show_u32 tid)))))"

definition legacy_type :: "string \<Rightarrow> string \<Rightarrow> qrmi_error + task_type" where
  "legacy_type job_type observables =
     (if eq_ignore_ascii_case job_type ''execute'' then Inr EXECUTE
      else if eq_ignore_ascii_case job_type ''estimate'' then
        (if trim observables = [] then
           Inl (InvalidInput ''Observables must be provided for ESTIMATE job type'')
         else Inr ESTIMATE)
      else Inl (InvalidInput (''Invalid job_type: '' @ job_type)))"

definition start_legacy ::
    "'w maestro_env \<Rightarrow> string \<Rightarrow> string \<Rightarrow> u32 \<Rightarrow> u32 \<Rightarrow> u32 \<Rightarrow> string \<Rightarrow> string \<Rightarrow>
     ('w, string) maestro" where
  "start_legacy E input job_type qubits simulator_type simulation_method observables config =
     andthen (from_result (legacy_type job_type observables)) (\<lambda>ty.
     if trim input = [] \<or> qubits = 0 then
       throw (InvalidInput ''A nonempty QASM circuit and a positive qubit count are required'')
     else
       andthen (from_result (map_sum InvalidJson id (jparse (serde_crate E) config))) (\<lambda>options.
       if \<not> is_object options then throw (InvalidInput ''Maestro config must be a JSON object'')
       else
         andthen (reading get_session_id) (\<lambda>sid.
         andthen (blocking (submit_legacy E \<lparr>ls_session_id = sid, ls_task_type = ty,
             ls_input = input, ls_observables = observables, ls_config = config,
             ls_qubits = qubits, ls_simulator_type = simulator_type,
             ls_simulation_method = simulation_method\<rparr>)) (\<lambda>submitted.
         andthen (\<lambda>s. (submitted, s)) (\<lambda>t.
         andthen (updating (forget_task (task_session_id t) (task_id t))) (\<lambda>_.
           ret (show_u32 (task_id t))))))))"

definition maestro_task_start :: "'w maestro_env \<Rightarrow> payload \<Rightarrow> ('w, string) maestro" where
  "maestro_task_start E p = (case p of
       payload.MaestroLocal input job_type qubits simulator_type simulation_method observables config \<Rightarrow>
         if eq_ignore_ascii_case job_type ''request'' then start_request E input
         else start_legacy E input job_type qubits simulator_type simulation_method observables config
     | _ \<Rightarrow> throw (UnsupportedPayload (debug_payload p)))"

definition remember :: "u32 \<times> u32 \<Rightarrow> task_status \<Rightarrow> maestro_local \<Rightarrow> maestro_local" where
  "remember key st m = m\<lparr>terminal_tasks := (terminal_tasks m)(key \<mapsto> st)\<rparr>"

definition maestro_task_status :: "'w maestro_env \<Rightarrow> string \<Rightarrow> ('w, task_status) maestro" where
  "maestro_task_status E tid =
     andthen (reading (\<lambda>m. task_of m tid)) (\<lambda>t.
     let key = (task_session_id t, task_id t) in
     andthen get_state (\<lambda>(m, _). case terminal_tasks m key of
       Some st \<Rightarrow> ret st
     | None \<Rightarrow>
         andthen (attempt (server_task_status E t) (\<lambda>r. case r of
             Inl (TaskNotFound i) \<Rightarrow>
               andthen (cancellation_recorded E t) (\<lambda>recorded.
                 if \<not> recorded then throw (TaskNotFound i) else ret Cancelled)
           | _ \<Rightarrow> from_result r)) (\<lambda>st.
         andthen (if terminal st then updating (remember key st) else ret ()) (\<lambda>_.
           ret st))))"

definition maestro_task_stop :: "'w maestro_env \<Rightarrow> string \<Rightarrow> ('w, unit) maestro" where
  "maestro_task_stop E tid =
     andthen (reading (\<lambda>m. task_of m tid)) (\<lambda>t.
     andthen (maestro_task_status E tid) (\<lambda>st.
     if terminal st then ret () else
     andthen (task_call t (cancel_at E)) (\<lambda>response.
     if response = Inr True then
       updating (remember (task_session_id t, task_id t) Cancelled)
     else
       attempt (maestro_task_status E tid) (\<lambda>again. case again of
         Inl (TaskNotFound i) \<Rightarrow> throw (TaskNotFound i)
       | _ \<Rightarrow>
           if (case again of Inr st' \<Rightarrow> terminal st' | Inl _ \<Rightarrow> False) then ret ()
           else (case response of
               Inr False \<Rightarrow> throw (anyhow (''Maestro refused to cancel active task '' @ tid))
             | Inl error \<Rightarrow> throw (anyhow (''Failed to cancel task '' @ tid @ '': '' @ error))
             | Inr True \<Rightarrow> panic)))))"

definition maestro_task_result :: "'w maestro_env \<Rightarrow> string \<Rightarrow> ('w, string) maestro" where
  "maestro_task_result E tid =
     andthen (reading (\<lambda>m. task_of m tid)) (\<lambda>t.
     andthen (maestro_task_status E tid) (\<lambda>st.
     if st \<noteq> Completed then
       throw (TaskNotReady tid
         (''Task is not completed (current status: '' @ debug_task_status st @ '')''))
     else
       andthen (ensure_task_exists E t) (\<lambda>_.
       andthen (task_call t (get_results_as_string_at E)) (\<lambda>results.
         task_response E t ''Failed to get results'' results))))"

definition maestro_task_logs :: "'w maestro_env \<Rightarrow> string \<Rightarrow> ('w, string) maestro" where
  "maestro_task_logs E tid =
     andthen (reading (\<lambda>m. task_of m tid)) (\<lambda>t.
       native_api (logs E (task_session_id t) (task_id t)))"

definition maestro_target :: "'w maestro_env \<Rightarrow> ('w, string) maestro" where
  "maestro_target E = native_api (capabilities E)"

definition maestro_metadata :: "maestro_local \<Rightarrow> string \<rightharpoonup> string" where
  "maestro_metadata m = [''backend_name'' \<mapsto> backend_name m]"

end
