(* ===== verification/MaestroCache.thy ===== *)
theory MaestroCache
  imports MaestroLocal
begin

text \<open>
  The cache of terminal task states.  A frame relation says what every operation
  other than \<open>acquire\<close>, \<open>release\<close> and \<open>task_start\<close> keeps, and an invariant over the
  reachable states says that only terminal states are cached.
\<close>

section \<open>The API client keeps its socket\<close>

definition same_socket :: "request_client \<times> 'w \<Rightarrow> request_client \<times> 'w \<Rightarrow> bool" where
  "same_socket s t \<longleftrightarrow> socket (fst t) = socket (fst s)"

interpretation sock: step_order same_socket
  by unfold_locales (simp_all add: same_socket_def)

lemma within_call_with: "within same_socket (call_with E d p)"
  by (auto simp: within_def same_socket_def call_with_def Let_def split: prod.split sum.split)

lemma within_set_negotiated: "within same_socket (set_negotiated b)"
  by (auto simp: within_def same_socket_def set_negotiated_def modify_def split: prod.split)

lemma within_exchange_api: "within same_socket (exchange_api E c)"
  by (auto simp: within_def same_socket_def exchange_api_def split: prod.split)

lemmas api_within = within_call_with within_set_negotiated within_exchange_api sock.within_rules

lemma within_capabilities: "within same_socket (capabilities E)"
  unfolding capabilities_def call_def
  by (intro api_within) (auto intro!: api_within)

lemma within_logs: "within same_socket (logs E sid tid)"
  unfolding logs_def call_def by (intro api_within)

lemma within_api_status: "within same_socket (api_status E)"
  unfolding api_status_def Let_def by (auto intro!: api_within)

lemma within_submit: "within same_socket (submit E sid t)"
  unfolding submit_def
  by (auto intro!: api_within within_capabilities split: option.split prod.split)

section \<open>Operations that leave the resource's own data alone\<close>

text \<open>Only the negotiation flag of the API client may differ.\<close>

definition same_cache :: "maestro_local \<times> 'w \<Rightarrow> maestro_local \<times> 'w \<Rightarrow> bool" where
  "same_cache s t \<longleftrightarrow>
     backend_name (fst t) = backend_name (fst s) \<and> session_id (fst t) = session_id (fst s)
     \<and> socket (request_client (fst t)) = socket (request_client (fst s))
     \<and> terminal_tasks (fst t) = terminal_tasks (fst s)"

interpretation cache: step_order same_cache
  by unfold_locales (simp_all add: same_cache_def)

lemma within_blocking: "within same_cache (blocking op)"
  by (auto simp: within_def same_cache_def blocking_def split: prod.split)

lemma within_task_call: "within same_cache (task_call t op)"
  by (simp add: task_call_def within_blocking)

lemma within_task_exists: "within same_cache (task_exists E t)"
  by (simp add: task_exists_def within_task_call)

lemma within_reading: "within same_cache (reading f)"
  by (auto simp: within_def same_cache_def reading_def split: prod.split)

lemma within_native_api:
  assumes "within same_socket op"
  shows "within same_cache (native_api op)"
proof (unfold within_def, rule allI)
  fix s :: "maestro_local \<times> 'a"
  obtain m w where s: "s = (m, w)" by (cases s)
  obtain r cl w' where o: "op (request_client m, w) = (r, (cl, w'))"
    by (cases "op (request_client m, w)") auto
  from assms have "same_socket (request_client m, w) (snd (op (request_client m, w)))"
    unfolding within_def by blast
  with o s show "same_cache s (snd (native_api op s))"
    by (simp add: native_api_def same_cache_def same_socket_def)
qed

lemmas cache_within =
  within_blocking within_task_call within_task_exists within_reading cache.within_rules

lemma within_task_response: "within same_cache (task_response E t operation r)"
  unfolding task_response_def by (auto intro!: cache_within split: sum.split)

lemma within_ensure: "within same_cache (ensure_task_exists E t)"
  unfolding ensure_task_exists_def by (auto intro!: cache_within)

lemma within_cancellation_recorded: "within same_cache (cancellation_recorded E t)"
  unfolding cancellation_recorded_def
  by (auto intro!: cache_within within_native_api within_logs split: sum.split)

lemma within_server_task_status: "within same_cache (server_task_status E t)"
  unfolding server_task_status_def
  by (auto intro!: cache_within within_task_response within_ensure)

lemma withinD: "within R m \<Longrightarrow> m s = (r, t) \<Longrightarrow> R s t"
  by (metis within_def snd_conv)

section \<open>Growth of the cache\<close>

definition cache_grows :: "maestro_local \<times> 'w \<Rightarrow> maestro_local \<times> 'w \<Rightarrow> bool" where
  "cache_grows s t \<longleftrightarrow>
     backend_name (fst t) = backend_name (fst s) \<and> session_id (fst t) = session_id (fst s)
     \<and> socket (request_client (fst t)) = socket (request_client (fst s))
     \<and> (\<forall>k st. terminal_tasks (fst s) k = Some st \<longrightarrow> terminal_tasks (fst t) k = Some st)
     \<and> (\<forall>k st. terminal_tasks (fst t) k = Some st \<longrightarrow>
          terminal_tasks (fst s) k = Some st \<or> terminal st)"

interpretation growth: step_order cache_grows
proof
  fix s t u :: "maestro_local \<times> 'w"
  show "cache_grows s s" by (simp add: cache_grows_def)
  assume "cache_grows s t" "cache_grows t u"
  then show "cache_grows s u" unfolding cache_grows_def by metis
qed

lemma same_cache_grows: "same_cache s t \<Longrightarrow> cache_grows s t"
  by (simp add: same_cache_def cache_grows_def)

lemma within_grows: "within same_cache m \<Longrightarrow> within cache_grows m"
  by (simp add: within_def same_cache_grows)

lemma remember_grows:
  "terminal_tasks m key = None \<Longrightarrow> terminal st \<Longrightarrow> cache_grows (m, w) (remember key st m, w')"
  by (simp add: cache_grows_def remember_def)

definition task_key :: "task \<Rightarrow> u32 \<times> u32" where
  "task_key t = (task_session_id t, task_id t)"

text \<open>What the status operation asks when the cache has no answer.\<close>

definition uncached_status :: "'w maestro_env \<Rightarrow> task \<Rightarrow> ('w, task_status) maestro" where
  "uncached_status E t =
     attempt (server_task_status E t) (\<lambda>r. case r of
         Inl (TaskNotFound i) \<Rightarrow>
           andthen (cancellation_recorded E t) (\<lambda>recorded.
             if \<not> recorded then throw (TaskNotFound i) else ret Cancelled)
       | _ \<Rightarrow> from_result r)"

lemma within_uncached_status: "within same_cache (uncached_status E t)"
  unfolding uncached_status_def
  by (auto intro!: cache_within within_server_task_status within_cancellation_recorded
      split: sum.split qrmi_error.split)

lemma task_status_cached:
  "task_of m tid = Inr t \<Longrightarrow> terminal_tasks m (task_key t) = Some st \<Longrightarrow>
     maestro_task_status E tid (m, w) = (Ok st, (m, w))"
  by (simp add: maestro_task_status_def reading_def andthen_def get_state_def ret_def task_key_def
      Let_def)

lemma task_status_no_task:
  "task_of m tid = Inl e \<Longrightarrow> maestro_task_status E tid (m, w) = (Err e, (m, w))"
  by (simp add: maestro_task_status_def reading_def andthen_def)

lemma task_status_uncached:
  assumes "task_of m tid = Inr t" and "terminal_tasks m (task_key t) = None"
  shows "maestro_task_status E tid (m, w) =
    (case uncached_status E t (m, w) of
       (Ok st, (m', w')) \<Rightarrow>
         (Ok st, (if terminal st then remember (task_key t) st m' else m', w'))
     | (Err e, s') \<Rightarrow> (Err e, s')
     | (Panic, s') \<Rightarrow> (Panic, s'))"
  using assms
  by (auto simp: maestro_task_status_def reading_def andthen_def get_state_def ret_def task_key_def
      Let_def uncached_status_def updating_def modify_def split: prod.split outcome.split)

section \<open>No panic\<close>

lemma returns_call_with: "returns (call_with E d p)"
  by (rule returnsI) (rule call_with_no_panic)

lemma returns_exchange_api: "returns (exchange_api E c)"
  by (auto simp: returns_def exchange_api_def split: prod.split)

lemma returns_blocking: "returns (blocking op)"
  by (auto simp: returns_def blocking_def split: prod.split)

lemma returns_reading: "returns (reading f)"
  by (auto simp: returns_def reading_def split: prod.split)

lemma returns_updating: "returns (updating f)"
  by (auto simp: returns_def updating_def modify_def split: prod.split)

lemma returns_native_api: "returns op \<Longrightarrow> returns (native_api op)"
  by (auto simp: returns_def native_api_def split: prod.splits outcome.splits) (metis fst_conv)

lemmas maestro_returns =
  returns_intros returns_call_with returns_exchange_api returns_blocking returns_reading
  returns_updating returns_native_api

lemma returns_logs: "returns (logs E sid tid)"
  unfolding logs_def call_def by (intro maestro_returns)

lemma returns_task_response: "returns (task_response E t operation r)"
  unfolding task_response_def task_exists_def task_call_def
  by (auto intro!: maestro_returns split: sum.split)

lemma returns_ensure: "returns (ensure_task_exists E t)"
  unfolding ensure_task_exists_def task_exists_def task_call_def by (auto intro!: maestro_returns)

lemma returns_uncached_status: "returns (uncached_status E t)"
  unfolding uncached_status_def server_task_status_def cancellation_recorded_def task_call_def
  by (auto intro!: maestro_returns returns_task_response returns_ensure returns_logs
      split: sum.split qrmi_error.split)

lemma task_status_no_panic: "maestro_task_status E tid (m, w) \<noteq> (Panic, t)"
proof (cases "task_of m tid")
  case (Inr k)
  then show ?thesis
    using returnsD [OF returns_uncached_status, of E k "(m, w)"]
    by (cases "terminal_tasks m (task_key k)")
      (auto simp: task_status_cached task_status_uncached split: prod.split outcome.split)
qed (simp add: task_status_no_task)

lemma returns_task_status: "returns (maestro_task_status E tid)"
  by (simp add: returns_def split_paired_all task_status_no_panic)
    (metis task_status_no_panic prod.collapse)

section \<open>What a status query leaves\<close>

lemma task_of_same: "session_id m' = session_id m \<Longrightarrow> backend_name m' = backend_name m \<Longrightarrow>
    task_of m' tid = task_of m tid"
proof -
  assume "session_id m' = session_id m" "backend_name m' = backend_name m"
  then have "get_session_id m' = get_session_id m" by (simp add: get_session_id_def split: option.split)
  then show ?thesis by (simp add: task_of_def split: sum.split)
qed

lemma cache_grows_task_of: "cache_grows (m, w) (m', w') \<Longrightarrow> task_of m' tid = task_of m tid"
  by (rule task_of_same) (simp_all add: cache_grows_def)

lemma task_status_leaves:
  assumes "maestro_task_status E tid (m, w) = (r, (m', w'))"
  shows "cache_grows (m, w) (m', w') \<and> (\<forall>st. r = Ok st \<longrightarrow> (\<exists>t. task_of m tid = Inr t \<and>
      (terminal_tasks m' (task_key t) = Some st
       \<or> \<not> terminal st \<and> terminal_tasks m' (task_key t) = None)))"
proof (cases "task_of m tid")
  case (Inl e)
  with assms show ?thesis by (auto simp: task_status_no_task growth.step_refl)
next
  case (Inr t)
  show ?thesis
  proof (cases "terminal_tasks m (task_key t)")
    case (Some st)
    with assms Inr show ?thesis by (auto simp: task_status_cached growth.step_refl)
  next
    case None
    obtain q m1 w1 where q: "uncached_status E t (m, w) = (q, (m1, w1))"
      by (cases "uncached_status E t (m, w)") auto
    from withinD [OF within_uncached_status this] have sc: "same_cache (m, w) (m1, w1)" .
    then have n: "terminal_tasks m1 (task_key t) = None" using None by (simp add: same_cache_def)
    have "cache_grows (m, w) (remember (task_key t) st m1, w1)" if "terminal st" for st
      using growth.step_trans [OF same_cache_grows [OF sc] remember_grows [OF n that]] .
    with assms Inr None q n same_cache_grows [OF sc] show ?thesis
      by (auto simp: task_status_uncached remember_def split: outcome.splits if_splits)
  qed
qed

lemma task_status_grows: "maestro_task_status E tid (m, w) = (r, (m', w')) \<Longrightarrow>
    cache_grows (m, w) (m', w')"
  using task_status_leaves [of E tid m w r m' w'] by simp

lemma task_status_Ok:
  assumes "maestro_task_status E tid (m, w) = (Ok st, (m', w'))"
  obtains t where "task_of m tid = Inr t" "task_of m' tid = Inr t"
    "terminal_tasks m' (task_key t) = Some st
       \<or> \<not> terminal st \<and> terminal_tasks m' (task_key t) = None"
  using task_status_leaves [OF assms] cache_grows_task_of [of m w m' w' tid] by auto

section \<open>Stopping a task\<close>

definition cache_ok :: "maestro_local \<Rightarrow> bool" where
  "cache_ok m \<longleftrightarrow> (\<forall>k st. terminal_tasks m k = Some st \<longrightarrow> terminal st)"

lemma cache_ok_grows: "cache_grows (m, w) (m', w') \<Longrightarrow> cache_ok m \<Longrightarrow> cache_ok m'"
  unfolding cache_grows_def cache_ok_def fst_conv by metis

text \<open>The second half of \<open>task_stop\<close>: the task was active, and a cancellation is sent.\<close>

definition stop_active :: "'w maestro_env \<Rightarrow> string \<Rightarrow> task \<Rightarrow> ('w, unit) maestro" where
  "stop_active E tid t =
     andthen (task_call t (cancel_at E)) (\<lambda>response.
     if response = Inr True then
       updating (remember (task_session_id t, task_id t) Cancelled)
     else
       attempt (maestro_task_status E tid) (\<lambda>again. case again of
         Inl (TaskNotFound i) \<Rightarrow> throw (TaskNotFound i)
       | _ \<Rightarrow>
           if (case again of Inr st' \<Rightarrow> terminal st' | Inl _ \<Rightarrow> False) then ret ()
           else (case response of
               Inr False \<Rightarrow> throw (anyhow (''Maestro refused to cancel active task '' @ tid))
             | Inl error \<Rightarrow> throw (anyhow (''Failed to cancel task '' @ tid @ '': '' @ error))
             | Inr True \<Rightarrow> panic)))"

lemma task_stop_eq:
  "task_of m tid = Inr t \<Longrightarrow> maestro_task_stop E tid (m, w) =
     andthen (maestro_task_status E tid) (\<lambda>st. if terminal st then ret () else stop_active E tid t) (m, w)"
  unfolding maestro_task_stop_def stop_active_def by (rule andthen_step) (simp add: reading_def)

lemma task_stop_no_task: "task_of m tid = Inl e \<Longrightarrow> maestro_task_stop E tid (m, w) = (Err e, (m, w))"
  by (simp add: maestro_task_stop_def reading_def andthen_def)

definition stopped :: "maestro_local \<Rightarrow> string \<Rightarrow> bool" where
  "stopped m tid \<longleftrightarrow> (\<exists>t st. task_of m tid = Inr t \<and> terminal_tasks m (task_key t) = Some st \<and> terminal st)"

lemma task_status_stopped:
  "maestro_task_status E tid (m, w) = (Ok st, (m', w')) \<Longrightarrow> terminal st \<Longrightarrow> stopped m' tid"
  by (auto simp: stopped_def elim!: task_status_Ok)

lemma stop_active_leaves:
  assumes run: "stop_active E tid t (m, w) = (r, (m', w'))"
    and t: "task_of m tid = Inr t" and none: "terminal_tasks m (task_key t) = None"
  shows "cache_grows (m, w) (m', w') \<and> r \<noteq> Panic \<and> (r = Ok () \<longrightarrow> stopped m' tid)"
proof -
  obtain resp w1 where c: "cancel_at E t (socket (request_client m)) w = (resp, w1)"
    by (cases "cancel_at E t (socket (request_client m)) w")
  then have call: "task_call t (cancel_at E) (m, w) = (Ok resp, (m, w1))"
    by (simp add: task_call_def blocking_def)
  have g1: "cache_grows (m, w) (m, w1)" by (simp add: cache_grows_def)
  show ?thesis
  proof (cases "resp = Inr True")
    case True
    with run call have "r = Ok ()" "m' = remember (task_key t) Cancelled m"
      by (auto simp: stop_active_def andthen_def updating_def modify_def task_key_def)
    with t remember_grows [OF none, of Cancelled w w'] show ?thesis
      using task_of_same [of "remember (task_key t) Cancelled m" m tid]
      by (auto simp: stopped_def remember_def)
  next
    case False
    obtain q m2 w2 where s2: "maestro_task_status E tid (m, w1) = (q, (m2, w2))"
      by (cases "maestro_task_status E tid (m, w1)") auto
    from growth.step_trans [OF g1 task_status_grows [OF s2]] have g2: "cache_grows (m, w) (m2, w2)" .
    have np: "q \<noteq> Panic" using s2 task_status_no_panic [of E tid m w1 "(m2, w2)"] by metis
    from run call False s2 np have "m' = m2 \<and> w' = w2 \<and> r \<noteq> Panic \<and>
        (r = Ok () \<longrightarrow> (\<exists>st. q = Ok st \<and> terminal st))"
      by (auto simp: stop_active_def andthen_def attempt_def throw_def ret_def panic_def
          split: outcome.splits qrmi_error.splits sum.splits bool.splits if_splits)
    with g2 s2 show ?thesis by (auto intro: task_status_stopped)
  qed
qed

lemma task_stop_leaves:
  assumes run: "maestro_task_stop E tid (m, w) = (r, (m', w'))" and ok: "cache_ok m"
  shows "cache_grows (m, w) (m', w') \<and> r \<noteq> Panic \<and> (r = Ok () \<longrightarrow> stopped m' tid)"
proof (cases "task_of m tid")
  case (Inl e)
  with run show ?thesis by (auto simp: task_stop_no_task growth.step_refl)
next
  case (Inr t)
  obtain q m1 w1 where s1: "maestro_task_status E tid (m, w) = (q, (m1, w1))"
    by (cases "maestro_task_status E tid (m, w)") auto
  note g1 = task_status_grows [OF s1]
  note run' = run [unfolded task_stop_eq [OF Inr] andthen_def s1 prod.case]
  show ?thesis
  proof (cases q)
    case (Err e)
    with run' g1 show ?thesis by auto
  next
    case Panic
    with s1 task_status_no_panic [of E tid m w] show ?thesis by blast
  next
    case (Ok st)
    show ?thesis
    proof (cases "terminal st")
      case True
      with run' g1 Ok s1 show ?thesis by (auto simp: ret_def intro: task_status_stopped)
    next
      case False
      from s1 Ok have s1': "maestro_task_status E tid (m, w) = (Ok st, (m1, w1))" by simp
      have t1: "task_of m1 tid = Inr t" using Inr cache_grows_task_of [OF g1] by simp
      from task_status_leaves [OF s1'] Inr
      have "terminal_tasks m1 (task_key t) = Some st \<or> terminal_tasks m1 (task_key t) = None"
        by auto
      with False cache_ok_grows [OF g1 ok] have n1: "terminal_tasks m1 (task_key t) = None"
        unfolding cache_ok_def by blast
      from run' Ok False have "stop_active E tid t (m1, w1) = (r, (m', w'))" by simp
      from stop_active_leaves [OF this t1 n1] growth.step_trans [OF g1] show ?thesis by blast
    qed
  qed
qed

section \<open>Every operation keeps the invariant\<close>

datatype maestro_op =
    StatusOp | IsAccessibleOp | AcquireOp | ReleaseOp string | TaskStartOp payload
  | TaskStopOp string | TaskStatusOp string | TaskResultOp string | TaskLogsOp string | TargetOp

text \<open>The state after an operation, whatever it returned.\<close>

fun maestro_exec :: "'w maestro_env \<Rightarrow> maestro_op \<Rightarrow> maestro_local \<times> 'w \<Rightarrow> maestro_local \<times> 'w" where
  "maestro_exec E StatusOp s = snd (maestro_status E s)"
| "maestro_exec E IsAccessibleOp s = snd (maestro_is_accessible E s)"
| "maestro_exec E AcquireOp s = snd (maestro_acquire E s)"
| "maestro_exec E (ReleaseOp i) s = snd (maestro_release E i s)"
| "maestro_exec E (TaskStartOp p) s = snd (maestro_task_start E p s)"
| "maestro_exec E (TaskStopOp t) s = snd (maestro_task_stop E t s)"
| "maestro_exec E (TaskStatusOp t) s = snd (maestro_task_status E t s)"
| "maestro_exec E (TaskResultOp t) s = snd (maestro_task_result E t s)"
| "maestro_exec E (TaskLogsOp t) s = snd (maestro_task_logs E t s)"
| "maestro_exec E TargetOp s = snd (maestro_target E s)"

text \<open>
  A run: a resource as either constructor builds it, then operations, between which
  the world may change in any way.
\<close>

inductive maestro_run :: "'w maestro_env \<Rightarrow> maestro_local \<times> 'w \<Rightarrow> bool" for E where
  built_new: "maestro_new env backend = Inr m \<Longrightarrow> maestro_run E (m, w)"
| built_config: "maestro_from_config env backend config = Inr m \<Longrightarrow> maestro_run E (m, w)"
| run_op: "maestro_run E s \<Longrightarrow> maestro_run E (maestro_exec E oper s)"
| run_world: "maestro_run E (m, w) \<Longrightarrow> maestro_run E (m, w')"

definition keeps_ok :: "maestro_local \<times> 'w \<Rightarrow> maestro_local \<times> 'w \<Rightarrow> bool" where
  "keeps_ok s t \<longleftrightarrow> (cache_ok (fst s) \<longrightarrow> cache_ok (fst t))"

interpretation inv: step_order keeps_ok
  by unfold_locales (auto simp: keeps_ok_def)

lemma within_same_keeps: "within same_cache m \<Longrightarrow> within keeps_ok m"
  by (auto simp: within_def same_cache_def keeps_ok_def cache_ok_def)

lemma within_grows_keeps: "within cache_grows m \<Longrightarrow> within keeps_ok m"
  unfolding within_def keeps_ok_def using cache_ok_grows by (metis prod.collapse)

lemma within_keeps_updating: "(\<And>m. cache_ok m \<Longrightarrow> cache_ok (f m)) \<Longrightarrow> within keeps_ok (updating f)"
  by (auto simp: within_def keeps_ok_def updating_def modify_def split: prod.split)

lemma keeps_updates:
  "cache_ok m \<Longrightarrow> cache_ok (m\<lparr>session_id := sid\<rparr>)"
  "cache_ok (m\<lparr>session_id := sid, terminal_tasks := (\<lambda>_. None)\<rparr>)"
  "cache_ok m \<Longrightarrow> cache_ok (forget_session i m)"
  "cache_ok m \<Longrightarrow> cache_ok (forget_task i j m)"
  by (auto simp: cache_ok_def forget_session_def retain_others_def forget_task_def split: if_splits)

lemmas keeps_within =
  within_same_keeps [OF within_blocking] within_same_keeps [OF within_task_call]
  within_same_keeps [OF within_reading] within_same_keeps [OF within_native_api]
  within_same_keeps [OF within_ensure] within_same_keeps [OF within_task_response]
  within_keeps_updating keeps_updates inv.within_rules

lemma within_keeps_value: "within keeps_ok (\<lambda>s. (r, s))"
  by (simp add: within_def keeps_ok_def)

lemma within_task_status: "within cache_grows (maestro_task_status E tid)"
  unfolding within_def using task_status_grows by (metis prod.collapse)

lemma keeps_task_status: "within keeps_ok (maestro_task_status E tid)"
  by (rule within_grows_keeps [OF within_task_status])

lemma keeps_task_stop: "within keeps_ok (maestro_task_stop E tid)"
proof (unfold within_def keeps_ok_def, intro allI impI)
  fix s :: "maestro_local \<times> 'a"
  assume "cache_ok (fst s)"
  then show "cache_ok (fst (snd (maestro_task_stop E tid s)))"
    using task_stop_leaves [of E tid "fst s" "snd s"] cache_ok_grows by (metis prod.collapse)
qed

lemma keeps_task_start: "within keeps_ok (maestro_task_start E p)"
  unfolding maestro_task_start_def start_request_def start_legacy_def
  by (auto intro!: keeps_within within_submit within_keeps_value split: payload.split)

lemma keeps_acquire: "within keeps_ok (maestro_acquire E)"
  unfolding maestro_acquire_def Let_def
  by (auto intro!: keeps_within split: option.split prod.split)

lemma keeps_release: "within keeps_ok (maestro_release E i)"
  unfolding maestro_release_def
  by (auto intro!: keeps_within split: sum.split bool.split)

lemma keeps_task_result: "within keeps_ok (maestro_task_result E tid)"
  unfolding maestro_task_result_def
  by (auto intro!: keeps_within keeps_task_status)

lemma keeps_others:
  "within keeps_ok (maestro_status E)" "within keeps_ok (maestro_is_accessible E)"
  "within keeps_ok (maestro_task_logs E tid)" "within keeps_ok (maestro_target E)"
  unfolding maestro_status_def maestro_is_accessible_def maestro_task_logs_def maestro_target_def
  by (auto intro!: keeps_within within_api_status within_logs within_capabilities
      split: response.split)

lemma withinI2: "within keeps_ok m \<Longrightarrow> cache_ok (fst s) \<Longrightarrow> cache_ok (fst (snd (m s)))"
  unfolding within_def keeps_ok_def by blast

lemma maestro_exec_keeps: "cache_ok (fst s) \<Longrightarrow> cache_ok (fst (maestro_exec E oper s))"
  by (cases oper)
    (simp_all add: withinI2 keeps_task_status keeps_task_stop keeps_task_start keeps_acquire
      keeps_release keeps_task_result keeps_others)

lemma maestro_run_cache_ok: "maestro_run E s \<Longrightarrow> cache_ok (fst s)"
proof (induction rule: maestro_run.induct)
  case (built_new env backend m w)
  then show ?case
    by (auto simp: maestro_new_def cache_ok_def Let_def split: env_value.splits sum.splits)
next
  case (built_config env backend config m w)
  then show ?case
    by (auto simp: maestro_from_config_def cache_ok_def Let_def split: option.splits sum.splits)
qed (simp_all add: maestro_exec_keeps)

section \<open>A terminal answer is final\<close>

text \<open>
  What may follow without ending the session or starting a task: the other
  operations, and any change of the world.
\<close>

fun quiet_op :: "maestro_op \<Rightarrow> bool" where
  "quiet_op AcquireOp = False"
| "quiet_op (ReleaseOp _) = False"
| "quiet_op (TaskStartOp _) = False"
| "quiet_op _ = True"

inductive maestro_later ::
    "'w maestro_env \<Rightarrow> maestro_local \<times> 'w \<Rightarrow> maestro_local \<times> 'w \<Rightarrow> bool" for E s where
  later_now: "maestro_later E s s"
| later_op: "maestro_later E s t \<Longrightarrow> quiet_op oper \<Longrightarrow> maestro_later E s (maestro_exec E oper t)"
| later_world: "maestro_later E s (m, w) \<Longrightarrow> maestro_later E s (m, w')"

lemma grows_task_result: "within cache_grows (maestro_task_result E tid)"
  unfolding maestro_task_result_def
  by (auto intro!: growth.within_rules within_task_status within_grows [OF within_reading]
      within_grows [OF within_ensure] within_grows [OF within_task_call]
      within_grows [OF within_task_response])

lemma grows_others:
  "within cache_grows (maestro_status E)" "within cache_grows (maestro_is_accessible E)"
  "within cache_grows (maestro_task_logs E tid)" "within cache_grows (maestro_target E)"
  unfolding maestro_status_def maestro_is_accessible_def maestro_task_logs_def maestro_target_def
  by (auto intro!: within_grows cache_within within_native_api within_api_status within_logs
      within_capabilities split: response.split)

lemma withinE: "within R m \<Longrightarrow> R s (snd (m s))"
  by (simp add: within_def)

lemma quiet_grows:
  assumes "cache_ok (fst s)" and "quiet_op oper"
  shows "cache_grows s (maestro_exec E oper s)"
proof (cases oper)
  case (TaskStopOp tid)
  show ?thesis
    using task_stop_leaves [of E tid "fst s" "snd s"] assms(1) TaskStopOp
    by (metis maestro_exec.simps(6) prod.collapse)
qed (use assms(2) in \<open>simp_all add: withinE within_task_status grows_task_result grows_others\<close>)

lemma later_grows: "maestro_later E s t \<Longrightarrow> cache_ok (fst s) \<Longrightarrow> cache_grows s t"
proof (induction rule: maestro_later.induct)
  case later_now
  show ?case by (rule growth.step_refl)
next
  case (later_op t oper)
  then have g: "cache_grows s t" by simp
  then have "cache_ok (fst t)" using later_op.prems cache_ok_grows by (metis prod.collapse)
  from growth.step_trans [OF g quiet_grows [OF this later_op.hyps(2)]] show ?case .
next
  case (later_world m w w')
  then show ?case by (simp add: cache_grows_def)
qed

lemma cached_stays:
  assumes "task_of m tid = Inr t" and "terminal_tasks m (task_key t) = Some st"
    and "cache_grows (m, w) (m', w')"
  shows "maestro_task_status E tid (m', w'') = (Ok st, (m', w''))"
proof (rule task_status_cached)
  show "task_of m' tid = Inr t" using assms(1) cache_grows_task_of [OF assms(3)] by simp
  show "terminal_tasks m' (task_key t) = Some st"
    using assms(2,3) unfolding cache_grows_def fst_conv by metis
qed

text \<open>
  C1. A terminal task status is final.  Once \<open>task_status\<close> has answered \<open>Completed\<close>,
  \<open>Failed\<close> or \<open>Cancelled\<close> for a task, then after any sequence of operations that
  neither ends the session nor starts a task, and however the server has changed
  in the meantime, it answers the same and reaches no server at all.
\<close>

theorem task_status_final:
  assumes "maestro_run E (m, w)"
    and "maestro_task_status E tid (m, w) = (Ok st, (m1, w1))" and "terminal st"
    and "maestro_later E (m1, w1) (m2, w2)"
  shows "maestro_task_status E tid (m2, w2) = (Ok st, (m2, w2))"
proof -
  have "cache_ok m1"
    using cache_ok_grows [OF task_status_grows [OF assms(2)]] maestro_run_cache_ok [OF assms(1)]
    by simp
  then have g: "cache_grows (m1, w1) (m2, w2)" using later_grows [OF assms(4)] by simp
  from task_status_Ok [OF assms(2)] obtain t where
    "task_of m1 tid = Inr t" "terminal_tasks m1 (task_key t) = Some st"
    using assms(3) by metis
  from cached_stays [OF this g] show ?thesis .
qed

text \<open>
  A task that \<open>task_stop\<close> reports as stopped is over: \<open>task_stop\<close> returns \<open>Ok\<close> only
  with a terminal state recorded for the task, and every later status query, as
  long as the session is kept and no task is started, answers that one terminal
  state without the server.
\<close>

lemma task_stop_final:
  assumes "maestro_run E (m, w)"
    and "maestro_task_stop E tid (m, w) = (Ok (), s1)"
  shows "\<exists>st. terminal st \<and>
    (\<forall>m2 w2. maestro_later E s1 (m2, w2) \<longrightarrow>
       maestro_task_status E tid (m2, w2) = (Ok st, (m2, w2)))"
proof -
  obtain m1 w1 where s1: "s1 = (m1, w1)" by (cases s1)
  have ok: "cache_ok m" using maestro_run_cache_ok [OF assms(1)] by simp
  note l = task_stop_leaves [OF assms(2) [unfolded s1] ok]
  then obtain t st where
    t: "task_of m1 tid = Inr t" "terminal_tasks m1 (task_key t) = Some st" "terminal st"
    by (auto simp: stopped_def)
  have "cache_ok m1" by (rule cache_ok_grows [OF conjunct1 [OF l] ok])
  then have "maestro_task_status E tid (m2, w2) = (Ok st, (m2, w2))"
    if "maestro_later E s1 (m2, w2)" for m2 w2
    using cached_stays [OF t(1,2)] later_grows [OF that] by (simp add: s1)
  with t(3) show ?thesis by blast
qed

text \<open>
  \<open>unreachable!()\<close> in \<open>task_stop\<close> is never reached, in any run of the resource
  against any server.
\<close>

lemma task_stop_never_panics:
  assumes "maestro_run E s"
  shows "fst (maestro_task_stop E tid s) \<noteq> Panic"
proof -
  obtain m w r m' w' where s: "s = (m, w)" and "maestro_task_stop E tid (m, w) = (r, (m', w'))"
    by (metis prod.exhaust)
  with task_stop_leaves [of E tid m w r m' w'] maestro_run_cache_ok [OF assms] show ?thesis by simp
qed

end
