(* ===== verification/MaestroServer.thy ===== *)
theory MaestroServer
  imports MaestroCache
begin

text \<open>
  What the resource shows of the server: a task is reported completed only when it
  finished and did not fail, a result is returned only for a completed task, and an
  error of \<open>task_start\<close> that is not \<open>Other\<close> proves that no task was created.  What
  is relied on of the server is stated as a named hypothesis in each place.
\<close>

section \<open>Steps of a successful operation\<close>

lemma task_call_step:
  "task_call t op (m, w) = (Ok a, (m', w')) \<longleftrightarrow> m' = m \<and> op t (socket (request_client m)) w = (a, w')"
  by (auto simp: task_call_def blocking_def split: prod.splits)

lemma task_call_not_Err: "task_call t op s \<noteq> (Err e, s')"
  by (auto simp: task_call_def blocking_def split: prod.splits)

lemma task_response_Ok:
  "task_response E t operation r s = (Ok v, s') \<longleftrightarrow> r = Inr v \<and> s' = s"
  by (auto simp: task_response_def ret_def attempt_def throw_def
      split: sum.splits prod.splits outcome.splits if_splits)

lemma of_anyhow_Inr: "of_anyhow c r = Inr v \<longleftrightarrow> r = Inr v"
  by (cases r) (simp_all add: of_anyhow_def)

lemma ensure_Ok:
  assumes "ensure_task_exists E t (m, w) = (Ok u, (m', w'))"
  shows "m' = m \<and> exists_at E t (socket (request_client m)) w = (Inr True, w')"
  using assms
  by (auto simp: ensure_task_exists_def task_exists_def andthen_Ok task_call_step from_result_Ok
      of_anyhow_Inr ret_def throw_def split: if_splits)

lemma ask_bool_Inr:
  "ask_bool E sock c f u w = (Inr b, w') \<longleftrightarrow> send_command_at E sock c w = (OK b, w')"
  by (auto simp: ask_bool_def split: prod.splits response.splits)

lemma of_anyhow_Inl: "of_anyhow c r = Inl e \<Longrightarrow> kind e = error_kind.Other"
  by (cases r) (auto simp: of_anyhow_def)

lemma blocking_step:
  "blocking op (m, w) = (Ok a, (m', w')) \<longleftrightarrow> m' = m \<and> op (socket (request_client m)) w = (a, w')"
  by (auto simp: blocking_def split: prod.splits)

lemma blocking_not_Err: "blocking op s \<noteq> (Err e, s')"
  by (auto simp: blocking_def split: prod.splits)

section \<open>Completion\<close>

text \<open>
  What is documented of the server: a finished task stays finished, and whether it
  failed is settled by then; \<open>FINISHED\<close> is answered \<open>YES\<close> only for a finished task,
  and \<open>FAILED\<close> is answered \<open>NO\<close> only for a task that has not failed.  Nothing is
  said of the moment between two exchanges: a task may fail between them.
\<close>

definition truthful_status ::
    "'w maestro_env \<Rightarrow> ('w \<Rightarrow> task \<Rightarrow> bool) \<Rightarrow> ('w \<Rightarrow> task \<Rightarrow> bool) \<Rightarrow> bool" where
  "truthful_status E finished failed \<longleftrightarrow>
     (\<forall>sock t w w'. send_command_at E sock (task_command t ''FINISHED'') w = (OK True, w') \<longrightarrow>
        finished w' t) \<and>
     (\<forall>sock t w w'. send_command_at E sock (task_command t ''FAILED'') w = (OK False, w') \<longrightarrow>
        \<not> failed w' t) \<and>
     (\<forall>sock c w t. finished w t \<longrightarrow> finished (snd (send_command_at E sock c w)) t)"

lemma server_task_status_Completed:
  assumes "truthful_status E finished failed"
    and "server_task_status E t (m, w) = (Ok Completed, (m', w'))"
  shows "finished w' t \<and> \<not> failed w' t"
proof -
  from assms(2) obtain w1 w2 sock where
    fin: "finished_at E t sock w1 = (Inr True, w2)" and
    fail: "failed_at E t sock w2 = (Inr False, w')"
    by (auto simp: server_task_status_def andthen_Ok task_call_step task_response_Ok ret_def
        split: if_splits dest!: ensure_Ok)
  from fin have "send_command_at E sock (task_command t ''FINISHED'') w1 = (OK True, w2)"
    by (simp add: finished_at_def ask_bool_Inr)
  with assms(1) have "finished w2 t" by (simp add: truthful_status_def)
  moreover from fail have "send_command_at E sock (task_command t ''FAILED'') w2 = (OK False, w')"
    by (simp add: failed_at_def ask_bool_Inr)
  ultimately show ?thesis using assms(1) unfolding truthful_status_def by (metis snd_conv)
qed

text \<open>
  C3. A failed task is never reported completed, although failure can become
  visible between the two questions asked of the server: when \<open>task_status\<close> answers
  \<open>Completed\<close> for a task it has no record of, the task is finished and has not
  failed, provided the server answers the single questions truthfully.
\<close>

theorem completed_not_failed:
  assumes "truthful_status E finished failed"
    and "task_of m tid = Inr t" and "terminal_tasks m (task_key t) = None"
    and "maestro_task_status E tid (m, w) = (Ok Completed, (m', w'))"
  shows "finished w' t \<and> \<not> failed w' t"
proof -
  from assms(4) obtain m1 where "uncached_status E t (m, w) = (Ok Completed, (m1, w'))"
    by (auto simp: task_status_uncached [OF assms(2,3)] split: prod.splits outcome.splits)
  then have "server_task_status E t (m, w) = (Ok Completed, (m1, w'))"
    by (auto simp: uncached_status_def attempt_def andthen_Ok from_result_def throw_def ret_def
        split: prod.splits outcome.splits qrmi_error.splits if_splits)
  from server_task_status_Completed [OF assms(1) this] show ?thesis .
qed

section \<open>Results\<close>

text \<open>
  C16. A result is returned only for a completed task: when \<open>task_result\<close> returns a
  value, \<open>Completed\<close> is recorded for the task, and the value is the text of the
  server's answer to \<open>GET_RESULTS\<close>, the last exchange of the call.
\<close>

theorem task_result_completed:
  assumes "maestro_task_result E tid (m, w) = (Ok v, (m', w'))"
  shows "\<exists>t w1. task_of m tid = Inr t \<and> terminal_tasks m' (task_key t) = Some Completed
    \<and> send_command_at E (socket (request_client m)) (task_command t ''GET_RESULTS'') w1
        = (OkResponse v, w')"
proof -
  from assms obtain t m1 w1 w2 where
    t: "task_of m tid = Inr t" and
    st: "maestro_task_status E tid (m, w) = (Ok Completed, (m1, w1))" and
    ens: "ensure_task_exists E t (m1, w1) = (Ok (), (m', w2))" and
    res: "get_results_as_string_at E t (socket (request_client m')) w2 = (Inr v, w')"
    by (auto simp: maestro_task_result_def andthen_Ok reading_def task_call_step task_response_Ok
        throw_def split: if_splits elim!: outcome_of.elims)
  from ensure_Ok [OF ens] have m': "m' = m1" by simp
  from task_status_leaves [OF st] t m' have "terminal_tasks m' (task_key t) = Some Completed" by auto
  moreover have "socket (request_client m') = socket (request_client m)"
    using task_status_grows [OF st] m' by (simp add: cache_grows_def)
  moreover from res have "send_command_at E (socket (request_client m')) (task_command t ''GET_RESULTS'') w2
      = (OkResponse v, w')"
    by (auto simp: get_results_as_string_at_def split: prod.splits response.splits)
  ultimately show ?thesis using t by metis
qed

section \<open>Errors of \<open>task_start\<close>\<close>

text \<open>
  The commands that ask a server to create a task, and what is documented of the
  server: it creates tasks only when asked, and it creates none when it refuses
  with a version 2 envelope.  \<open>created\<close> is any observation of the tasks created.
\<close>

definition creation_command :: "json_lib \<Rightarrow> string \<Rightarrow> bool" where
  "creation_command L c \<longleftrightarrow>
     (\<exists>sid. c = session_command sid ''TASK CREATE'') \<or>
     (\<exists>document v. c = ''API '' @ document @ [nl] \<and> jparse L document = Inr v
        \<and> jindex v ''command'' = JStr ''submit'')"

definition creates_when_asked :: "'w maestro_env \<Rightarrow> ('w \<Rightarrow> 'c) \<Rightarrow> bool" where
  "creates_when_asked E created \<longleftrightarrow>
     (\<forall>sock c w. created (snd (exchange E sock c w)) \<noteq> created w \<longrightarrow>
        creation_command (json_crate E) c \<and>
        (\<forall>response. fst (exchange E sock c w) = Inr response \<longrightarrow>
           \<not> refusal (json_crate E) response))"

lemma capabilities_not_creation:
  assumes "json_lib_ok L"
  shows "\<not> creation_command L (api_command L capabilities_doc)"
proof
  assume "creation_command L (api_command L capabilities_doc)"
  then obtain v where v: "jparse L (jdump L capabilities_doc) = Inr v"
      "jindex v ''command'' = JStr ''submit''"
    by (auto simp: creation_command_def api_command_def session_command_def)
  from assms obtain kvs where kvs: "jparse L (jdump L capabilities_doc) = Inr (JObj kvs)"
      and k: "\<And>k s. map_of [(''version'', of_u32 VERSION), (''command'', JStr ''capabilities'')] k
        = Some (JStr s) \<longrightarrow> map_of kvs k = Some (JStr s)"
    unfolding json_lib_ok_def capabilities_doc_def by blast
  from k [of "''command''" "''capabilities''"] have "map_of kvs ''command'' = Some (JStr ''capabilities'')"
    by simp
  moreover from v(1) kvs have "v = JObj kvs" by simp
  ultimately show False using v(2) by simp
qed

lemma call_with_created:
  assumes "creates_when_asked E created"
    and "call_with E d p (cl, w) = (r, (cl', w'))"
    and "\<not> creation_command (json_crate E) (api_command (json_crate E) d)"
  shows "created w' = created w"
proof -
  have "snd (exchange E (socket cl) (api_command (json_crate E) d) w) = w' \<or> w' = w"
    using assms(2) by (auto simp: call_with_def Let_def split: prod.splits if_splits)
  with assms(1,3) show ?thesis unfolding creates_when_asked_def by metis
qed

lemma negotiate_created:
  assumes "creates_when_asked E created" and "json_lib_ok (json_crate E)"
    and "negotiate E (cl, w) = (r, (cl', w'))"
  shows "created w' = created w"
proof -
  note step = call_with_created [OF assms(1) _ capabilities_not_creation [OF assms(2)]]
  from assms(3) show ?thesis
    by (auto simp: negotiate_def capabilities_def call_def set_negotiated_def modify_def andthen_def
        throw_def ret_def split: if_splits prod.splits outcome.splits dest!: step)
qed

lemma kind_api_to_qrmi_Other:
  "c = ''protocol'' \<or> c = ''transport'' \<Longrightarrow> err_code e = c \<Longrightarrow> kind (api_to_qrmi e) = error_kind.Other"
  by (auto simp: api_to_qrmi.simps)

lemma send_submission_created:
  assumes "creates_when_asked E created"
    and "send_submission E sid request (cl, w) = (Err e, (cl', w'))"
    and "kind (api_to_qrmi e) \<noteq> error_kind.Other"
  shows "created w' = created w"
proof -
  let ?c = "api_command (json_crate E) (submit_doc sid request)"
  from assms(3) have code: "err_code e \<noteq> ''protocol''" "err_code e \<noteq> ''transport''"
    using kind_api_to_qrmi_Other by blast+
  then have "call_with E (submit_doc sid request) (parse_submission_response (json_crate E)) (cl, w)
      = (Err e, (cl', w'))"
    using assms(2)
    by (auto simp: send_submission_def andthen_Err andthen_Ok set_negotiated_def modify_def
        throw_def ret_def split: option.splits)
  then consider "w' = w" | r where "exchange E (socket cl) ?c w = (Inr r, w')"
      "parse_submission_response (json_crate E) r = Inl e"
    using code by (auto simp: call_with_Err split: if_splits)
  then show ?thesis
  proof cases
    case 2
    from parse_submission_response_refusal [OF 2(2) code(1)] 2(1) assms(1) show ?thesis
      unfolding creates_when_asked_def by (metis fst_conv snd_conv)
  qed simp
qed

lemma submit_created:
  assumes "creates_when_asked E created" and "json_lib_ok (json_crate E)"
    and "submit E sid t (cl, w) = (Err e, (cl', w'))" and "kind (api_to_qrmi e) \<noteq> error_kind.Other"
  shows "created w' = created w"
proof (cases "\<exists>request. local_request (json_crate E) t request")
  case True
  then obtain request where "local_request (json_crate E) t request" ..
  from assms(3) [unfolded submit_local [OF this]] consider
      "negotiate E (cl, w) = (Err e, (cl', w'))"
    | u cl1 w1 where "negotiate E (cl, w) = (Ok u, (cl1, w1))"
        "send_submission E sid request (cl1, w1) = (Err e, (cl', w'))"
    by (auto simp: andthen_Err)
  then show ?thesis
  proof cases
    case 1
    then show ?thesis by (rule negotiate_created [OF assms(1,2)])
  next
    case 2
    from negotiate_created [OF assms(1,2) 2(1)] send_submission_created [OF assms(1) 2(2) assms(4)]
    show ?thesis by simp
  qed
next
  case False
  with submit_not_local [of E t sid "(cl, w)"] assms(3) show ?thesis by auto
qed

lemma start_request_created:
  assumes "creates_when_asked E created" and "json_lib_ok (json_crate E)"
    and "start_request E input (m, w) = (Err e, (m', w'))" and "kind e \<noteq> error_kind.Other"
  shows "created w' = created w"
proof -
  from assms(3) consider "w' = w" | sid where
      "native_api (submit E sid input) (m, w) = (Err e, (m', w'))"
    by (auto simp: start_request_def andthen_Err andthen_Ok from_result_Ok from_result_Err
        reading_def throw_def updating_def modify_def ret_def split: if_splits)
  then show ?thesis
  proof cases
    case 2
    then obtain e' cl' where "submit E sid input (request_client m, w) = (Err e', (cl', w'))"
        "e = api_to_qrmi e'"
      by (auto simp: native_api_def split: prod.splits outcome.splits)
    with submit_created [OF assms(1,2)] assms(4) show ?thesis by metis
  qed simp
qed

lemma submit_legacy_Other:
  "submit_legacy E job sock w = (Err e, w') \<Longrightarrow> kind e = error_kind.Other"
  by (auto simp: submit_legacy_def andthen_Err run_result_Err attempt_Err ret_def throw_def
      split: prod.splits sum.splits dest: of_anyhow_Inl)

lemma start_legacy_created:
  assumes "start_legacy E input job_type q s mth obs config (m, w) = (Err e, (m', w'))"
    and "kind e \<noteq> error_kind.Other"
  shows "w' = w"
  using assms
  by (auto simp: start_legacy_def andthen_Err andthen_Ok from_result_Ok from_result_Err reading_def
      throw_def updating_def modify_def ret_def blocking_step blocking_not_Err
      split: if_splits dest: submit_legacy_Other)

lemma maestro_start_created:
  assumes "creates_when_asked E created" and "json_lib_ok (json_crate E)"
    and "maestro_task_start E p (m, w) = (Err e, (m', w'))" and "kind e \<noteq> error_kind.Other"
  shows "created w' = created w"
proof (cases "\<exists>i j q s mth obs c. p = payload.MaestroLocal i j q s mth obs c")
  case True
  then obtain i j q s mth obs c where p: "p = payload.MaestroLocal i j q s mth obs c" by blast
  note run = assms(3) [unfolded maestro_task_start_def p payload.case]
  show ?thesis
  proof (cases "eq_ignore_ascii_case j ''request''")
    case True
    with run have "start_request E i (m, w) = (Err e, (m', w'))" by simp
    then show ?thesis by (rule start_request_created [OF assms(1,2) _ assms(4)])
  next
    case False
    with run have "start_legacy E i j q s mth obs c (m, w) = (Err e, (m', w'))" by simp
    from start_legacy_created [OF this assms(4)] show ?thesis by simp
  qed
next
  case False
  with assms(3) show ?thesis by (cases p) (auto simp: maestro_task_start_def throw_def)
qed

text \<open>
  C2. An error of \<open>task_start\<close> other than \<open>Other\<close> promises that no task was created, so
  that a caller may start the task again: for every payload, every history of the
  client and every server that creates tasks only when asked and none when it
  refuses, the tasks created are the same before and after the call.
\<close>

theorem task_start_error_creates_nothing:
  assumes "creates_when_asked E created" and "json_lib_ok (json_crate E)"
    and "maestro_task_start E p (m, w) = (Err e, (m', w'))" and "kind e \<noteq> error_kind.Other"
  shows "created w' = created w"
  using assms by (rule maestro_start_created)

section \<open>Sessions\<close>

lemma acquire_Ok:
  assumes "maestro_acquire E (m, w) = (Ok tok, (m', w'))"
  shows "\<exists>sid. tok = show_u32 sid \<and> session_id m' = Some sid \<and> backend_name m' = backend_name m \<and>
    (session_id m = None \<and> terminal_tasks m' = terminal_tasks m
     \<or> session_id m = Some sid \<and> terminal_tasks m' = terminal_tasks m
     \<or> session_id m \<noteq> None \<and> terminal_tasks m' = (\<lambda>_. None))"
  using assms
  by (auto simp: maestro_acquire_def Let_def get_state_def andthen_Ok blocking_step from_result_Ok
      of_anyhow_Inr updating_def modify_def ret_def split: option.splits if_splits)

lemma release_Ok:
  assumes "maestro_release E i (m, w) = (Ok u, (m', w'))"
  shows "\<exists>sid. parse_u32 i = Inr sid \<and> m' = forget_session sid m \<and>
    session_delete_at E sid (socket (request_client m)) w = (Inr True, w')"
proof -
  from assms obtain sid where sid: "parse_u32 i = Inr sid"
    by (cases "parse_u32 i") (auto simp: maestro_release_def throw_def)
  obtain d w1 where d: "session_delete_at E sid (socket (request_client m)) w = (d, w1)"
    by (cases "session_delete_at E sid (socket (request_client m)) w")
  then have "blocking (session_delete_at E sid) (m, w) = (Ok d, (m, w1))" by (simp add: blocking_step)
  note run = assms [unfolded maestro_release_def sid sum.case andthen_step [where m = "blocking (session_delete_at E sid)" and s = "(m, w)", OF this]]
  show ?thesis
  proof (cases d)
    case (Inr b)
    with run d sid show ?thesis by (cases b) (simp_all add: throw_def updating_def modify_def)
  qed (use run in \<open>simp add: throw_def\<close>)
qed

text \<open>
  C17. The token that \<open>acquire\<close> returns is the session's: releasing it asks the server
  to delete that session and no other one, leaves the resource without a session
  and without any cached state of the session's tasks, and keeps the cached states
  of all other sessions.
\<close>

theorem acquire_release:
  assumes "maestro_acquire E (m, w) = (Ok tok, (m1, w1))"
    and "maestro_release E tok (m1, w2) = (Ok (), (m2, w3))"
  shows "\<exists>sid. tok = show_u32 sid \<and> session_id m1 = Some sid
    \<and> session_delete_at E sid (socket (request_client m1)) w2 = (Inr True, w3)
    \<and> session_id m2 = None
    \<and> (\<forall>s t. terminal_tasks m2 (s, t) = (if s = sid then None else terminal_tasks m1 (s, t)))"
proof -
  from acquire_Ok [OF assms(1)] obtain sid where
    a: "tok = show_u32 sid" "session_id m1 = Some sid" by blast
  from release_Ok [OF assms(2)] a(1) have
    d: "session_delete_at E sid (socket (request_client m1)) w2 = (Inr True, w3)" and
    m2: "m2 = forget_session sid m1" by auto
  from m2 a(2) have "session_id m2 = None" by (simp add: forget_session_def)
  moreover have "terminal_tasks m2 (s, t) = (if s = sid then None else terminal_tasks m1 (s, t))" for s t
    by (simp add: m2 forget_session_def retain_others_def)
  ultimately show ?thesis using a d by blast
qed

end
