(* ===== verification/MaestroFraming.thy ===== *)
theory MaestroFraming
  imports MaestroServer
begin

text \<open>
  Framing: whatever text a caller passes (a circuit, observables, options, a task
  name), everything an operation sends is a sequence of complete lines, one per
  exchange, so that no argument can end a command early or smuggle in another one.
\<close>

section \<open>Lines sent\<close>

definition lines :: "'w \<times> string list \<Rightarrow> 'w \<times> string list \<Rightarrow> bool" where
  "lines s t \<longleftrightarrow> (\<exists>more. snd t = snd s @ more \<and> (\<forall>c \<in> set more. single_line c))"

definition sends_lines :: "'x \<times> 'w \<times> string list \<Rightarrow> 'x \<times> 'w \<times> string list \<Rightarrow> bool" where
  "sends_lines s t \<longleftrightarrow> lines (snd s) (snd t)"

lemma lines_refl: "lines s s"
  by (simp add: lines_def)

lemma lines_trans: "lines s t \<Longrightarrow> lines t u \<Longrightarrow> lines s u"
  unfolding lines_def by (metis append.assoc set_append UnE)

interpretation line: step_order lines
  by unfold_locales (auto intro: lines_refl lines_trans)

interpretation sending: step_order sends_lines
  by unfold_locales (auto simp: sends_lines_def intro: lines_refl lines_trans)

text \<open>A call that gives its result as a value and sends only lines.\<close>

definition asks_lines :: "('w \<times> string list \<Rightarrow> 'a \<times> 'w \<times> string list) \<Rightarrow> bool" where
  "asks_lines f \<longleftrightarrow> (\<forall>s. lines s (snd (f s)))"

lemma lines_snoc: "single_line c \<Longrightarrow> lines (w, sent) (w', sent @ [c])"
  by (simp add: lines_def)

lemma asks_send: "single_line c \<Longrightarrow> asks_lines (send_command_at (traced E) sock c)"
  by (auto simp: asks_lines_def intro: lines_snoc)

lemma asks_exchange: "single_line c \<Longrightarrow> asks_lines (exchange (traced E) sock c)"
  by (auto simp: asks_lines_def intro: lines_snoc)

lemma asks_ask_bool: "single_line c \<Longrightarrow> asks_lines (ask_bool (traced E) sock c f u)"
  by (auto simp: asks_lines_def ask_bool_def intro: lines_snoc)

lemma asks_case: "asks_lines f \<Longrightarrow> asks_lines (\<lambda>s. case f s of (r, s') \<Rightarrow> (g r, s'))"
  by (auto simp: asks_lines_def split: prod.splits) (metis snd_conv)

lemma one_line_verb: "nl \<notin> set (p @ one_line t) \<longleftrightarrow> nl \<notin> set p" "cr \<notin> set (p @ one_line t) \<longleftrightarrow> cr \<notin> set p"
  using one_line_no_newline [of t] by auto

lemma single_line_commands:
  "single_line (set_observables_command t s)" "single_line (set_qasm_command t s)"
  "single_line (set_options_command t s)"
  unfolding set_observables_command_def set_qasm_command_def set_options_command_def
  using one_line_no_newline [of s] by (auto intro!: single_line_task_command)

lemma asks_task_queries:
  "asks_lines (session_exists_at (traced E) sid sock)" "asks_lines (session_delete_at (traced E) sid sock)"
  "asks_lines (exists_at (traced E) t sock)" "asks_lines (running_at (traced E) t sock)"
  "asks_lines (finished_at (traced E) t sock)" "asks_lines (failed_at (traced E) t sock)"
  "asks_lines (execute_at (traced E) t sock)" "asks_lines (cancel_at (traced E) t sock)"
  "asks_lines (set_type_at (traced E) t ty sock)" "asks_lines (set_qubits_at (traced E) t n sock)"
  "asks_lines (set_simulator_type_at (traced E) t n sock)"
  "asks_lines (set_simulation_method_at (traced E) t n sock)"
  "asks_lines (set_observables_as_string_at (traced E) t s sock)"
  "asks_lines (set_qasm_at (traced E) t s sock)" "asks_lines (set_options_json_at (traced E) t s sock)"
  unfolding task_query_defs
  by (auto intro!: asks_ask_bool single_line_task_command single_line_session_command
      single_line_commands split: task_type.split)

lemma asks_others:
  "asks_lines (session_new_at (traced E) sock)" "asks_lines (create_task_at (traced E) sid sock)"
  "asks_lines (get_results_as_string_at (traced E) t sock)"
proof -
  have "single_line (''SESSION CREATE'' @ [nl])"
    unfolding single_line_def by (rule exI [of _ "''SESSION CREATE''"]) simp
  then show "asks_lines (session_new_at (traced E) sock)"
    unfolding session_new_at_def by (intro asks_case asks_send)
  show "asks_lines (create_task_at (traced E) sid sock)"
    unfolding create_task_at_def by (intro asks_case asks_send single_line_session_command) auto
  show "asks_lines (get_results_as_string_at (traced E) t sock)"
    unfolding get_results_as_string_at_def
    by (intro asks_case asks_send single_line_task_command) auto
qed

section \<open>The operations\<close>

lemma within_run_result: "asks_lines f \<Longrightarrow> within lines (run_result f)"
  by (auto simp: within_def asks_lines_def run_result_def split: prod.splits) (metis snd_conv)

lemma within_lines_blocking:
  "(\<And>sock. asks_lines (op sock)) \<Longrightarrow> within sends_lines (blocking op)"
  unfolding within_def asks_lines_def sends_lines_def blocking_def
  by (auto split: prod.splits) (metis snd_conv)

lemma within_lines_task_call:
  "(\<And>sock. asks_lines (op t sock)) \<Longrightarrow> within sends_lines (task_call t op)"
  unfolding task_call_def by (rule within_lines_blocking)

lemma within_lines_reading: "within sends_lines (reading f)"
  by (auto simp: within_def sends_lines_def reading_def lines_refl split: prod.split)

lemma within_lines_updating: "within sends_lines (updating f)"
  by (auto simp: within_def sends_lines_def updating_def modify_def lines_refl split: prod.split)

lemma within_lines_value: "within sends_lines (\<lambda>s. (r, s))"
  by (simp add: within_def sends_lines_def lines_refl)

lemma within_lines_native_api:
  "within sends_lines op \<Longrightarrow> within sends_lines (native_api op)"
  unfolding within_def sends_lines_def native_api_def
  by (auto split: prod.splits) (metis snd_conv)

lemma single_line_api: "json_lib_ok L \<Longrightarrow> single_line (api_command L d)"
  unfolding single_line_def api_command_def
  by (rule exI [of _ "''API '' @ jdump L d"]) (simp add: json_lib_ok_line)

lemma within_lines_call_with:
  assumes "json_lib_ok (json_crate E)"
  shows "within sends_lines (call_with (traced E) d p)"
  using single_line_api [OF assms, of d]
  by (auto simp: within_def sends_lines_def call_with_traced lines_def split: prod.split)

lemma within_lines_set_negotiated: "within sends_lines (set_negotiated b)"
  by (auto simp: within_def sends_lines_def set_negotiated_def modify_def lines_refl split: prod.split)

lemma within_lines_exchange_api:
  "single_line c \<Longrightarrow> within sends_lines (exchange_api (traced E) c)"
  by (auto simp: within_def sends_lines_def exchange_api_def intro: lines_snoc split: prod.split)

lemmas lines_within =
  within_lines_blocking within_lines_task_call within_lines_reading within_lines_updating
  within_lines_value within_lines_native_api within_lines_call_with within_lines_set_negotiated
  within_lines_exchange_api single_line_api sending.within_rules asks_task_queries asks_others

lemma lines_api:
  assumes "json_lib_ok (json_crate E)"
  shows "within sends_lines (capabilities (traced E))" "within sends_lines (logs (traced E) sid tid)"
    "within sends_lines (submit (traced E) sid s)" "within sends_lines (api_status (traced E))"
proof -
  show c: "within sends_lines (capabilities (traced E))"
    unfolding capabilities_def call_def by (auto intro!: lines_within assms)
  show "within sends_lines (logs (traced E) sid tid)"
    unfolding logs_def call_def by (auto intro!: lines_within assms)
  show "within sends_lines (submit (traced E) sid s)"
    unfolding submit_def by (auto intro!: lines_within c assms split: option.split prod.split)
  have "single_line (''PING'' @ [nl])"
    unfolding single_line_def by (rule exI [of _ "''PING''"]) simp
  then show "within sends_lines (api_status (traced E))"
    unfolding api_status_def Let_def by (auto intro!: lines_within assms)
qed

lemma lines_helpers:
  "within sends_lines (task_exists (traced E) t)"
  "within sends_lines (ensure_task_exists (traced E) t)"
  "within sends_lines (task_response (traced E) t operation r)"
  unfolding ensure_task_exists_def task_response_def task_exists_def
  by (auto intro!: lines_within split: sum.split)

lemma lines_server_task_status: "within sends_lines (server_task_status (traced E) t)"
  unfolding server_task_status_def by (auto intro!: lines_within lines_helpers)

lemma lines_task_status:
  assumes "json_lib_ok (json_crate E)"
  shows "within sends_lines (maestro_task_status (traced E) tid)"
  unfolding maestro_task_status_def cancellation_recorded_def Let_def
  by (auto intro!: lines_within lines_helpers lines_server_task_status lines_api assms
      split: option.split sum.split prod.split qrmi_error.split)

lemma lines_submit_legacy: "within lines (submit_legacy (traced E) job sock)"
proof -
  have a: "within lines (accept operation f)" if "asks_lines f"
    for operation and f :: "'w \<times> string list \<Rightarrow> (string + bool) \<times> 'w \<times> string list"
    unfolding accept_def by (rule within_run_result) (rule asks_case [OF that])
  have c: "within lines (configure (traced E) job t sock)" for t
    unfolding configure_def by (auto intro!: a line.within_rules asks_task_queries)
  show ?thesis
    unfolding submit_legacy_def
    by (auto intro!: line.within_rules within_run_result asks_case asks_task_queries asks_others c
        split: sum.split)
qed

lemma within_lines_submit:
  "(\<And>sock. within lines (op sock)) \<Longrightarrow> within sends_lines (blocking op)"
  by (rule within_lines_blocking) (auto simp: asks_lines_def within_def)

lemma lines_task_start:
  assumes "json_lib_ok (json_crate E)"
  shows "within sends_lines (maestro_task_start (traced E) p)"
  unfolding maestro_task_start_def start_request_def start_legacy_def
  by (auto intro!: sending.within_rules within_lines_native_api within_lines_reading
      within_lines_updating within_lines_value lines_api within_lines_submit lines_submit_legacy assms
      split: payload.split)

lemma lines_task_stop:
  assumes "json_lib_ok (json_crate E)"
  shows "within sends_lines (maestro_task_stop (traced E) tid)"
  unfolding maestro_task_stop_def
  by (auto intro!: lines_within lines_task_status assms
      split: sum.split qrmi_error.split bool.split)

lemma lines_others:
  assumes "json_lib_ok (json_crate E)"
  shows "within sends_lines (maestro_status (traced E))"
    "within sends_lines (maestro_is_accessible (traced E))"
    "within sends_lines (maestro_acquire (traced E))"
    "within sends_lines (maestro_release (traced E) i)"
    "within sends_lines (maestro_task_result (traced E) tid)"
    "within sends_lines (maestro_task_logs (traced E) tid)"
    "within sends_lines (maestro_target (traced E))"
proof -
  have "single_line (''PING'' @ [nl])"
    unfolding single_line_def by (rule exI [of _ "''PING''"]) simp
  then show "within sends_lines (maestro_is_accessible (traced E))"
    unfolding maestro_is_accessible_def by (auto intro!: lines_within asks_send split: response.split)
  show "within sends_lines (maestro_status (traced E))"
    unfolding maestro_status_def by (auto intro!: lines_within lines_api assms)
  show "within sends_lines (maestro_acquire (traced E))"
    unfolding maestro_acquire_def Let_def
    by (auto intro!: lines_within split: option.split prod.split)
  show "within sends_lines (maestro_release (traced E) i)"
    unfolding maestro_release_def by (auto intro!: lines_within split: sum.split bool.split)
  show "within sends_lines (maestro_task_result (traced E) tid)"
    unfolding maestro_task_result_def
    by (auto intro!: lines_within lines_helpers lines_task_status assms)
  show "within sends_lines (maestro_task_logs (traced E) tid)"
    unfolding maestro_task_logs_def by (auto intro!: lines_within lines_api assms)
  show "within sends_lines (maestro_target (traced E))"
    unfolding maestro_target_def by (auto intro!: lines_within lines_api assms)
qed

text \<open>
  C13. Framing.  Every command that an operation of the resource sends is one complete
  line, whatever payload, identifiers and server replies it works with: no
  argument can end a command early or add a second one.
\<close>

theorem commands_are_lines:
  assumes "json_lib_ok (json_crate E)"
    and "maestro_exec (traced E) oper (m, (w, [])) = (m', (w', sent))"
  shows "\<forall>c \<in> set sent. \<exists>body. c = body @ [nl] \<and> nl \<notin> set body \<and> cr \<notin> set body"
proof -
  have "sends_lines (m, (w, [])) (maestro_exec (traced E) oper (m, (w, [])))"
    using assms(1)
    by (cases oper)
      (simp_all add: withinE lines_task_status lines_task_start lines_task_stop lines_others)
  with assms(2) show ?thesis by (simp add: sends_lines_def lines_def single_line_def)
qed

section \<open>The commands of a legacy submission\<close>

text \<open>
  \<open>issues cs m\<close>: the program sends the commands \<open>cs\<close> in this order, all of them when
  it succeeds, and the first few when it fails.
\<close>

definition issues :: "string list \<Rightarrow> ('w \<times> string list, 'e, 'a) prog \<Rightarrow> bool" where
  "issues cs m \<longleftrightarrow> (\<forall>w sent r w' sent'. m (w, sent) = (r, (w', sent')) \<longrightarrow> r \<noteq> Panic \<and>
     (\<exists>k \<le> length cs. sent' = sent @ take k cs \<and> (\<forall>a. r = Ok a \<longrightarrow> k = length cs)))"

lemma issues_ret: "issues [] (ret a)"
  by (simp add: issues_def ret_def)

lemma issues_andthen:
  assumes "issues cs m" and "\<And>a. issues ds (f a)"
  shows "issues (cs @ ds) (andthen m f)"
  unfolding issues_def
proof (intro allI impI)
  fix w sent r w' sent'
  assume run: "andthen m f (w, sent) = (r, (w', sent'))"
  obtain q w1 sent1 where q: "m (w, sent) = (q, (w1, sent1))" by (cases "m (w, sent)") auto
  with assms(1) obtain k where k: "k \<le> length cs" "sent1 = sent @ take k cs" "q \<noteq> Panic"
      "\<forall>a. q = Ok a \<longrightarrow> k = length cs" unfolding issues_def by blast
  show "r \<noteq> Panic \<and> (\<exists>k \<le> length (cs @ ds). sent' = sent @ take k (cs @ ds) \<and>
      (\<forall>a. r = Ok a \<longrightarrow> k = length (cs @ ds)))"
  proof (cases q)
    case (Ok a)
    with run q have "f a (w1, sent1) = (r, (w', sent'))" by (simp add: andthen_def)
    with assms(2) obtain j where j: "r \<noteq> Panic" "j \<le> length ds" "sent' = sent1 @ take j ds"
        "\<forall>a. r = Ok a \<longrightarrow> j = length ds" unfolding issues_def by blast
    with Ok k show ?thesis by (auto intro!: exI [of _ "length cs + j"])
  next
    case (Err e)
    with run q k show ?thesis by (auto simp: andthen_def intro!: exI [of _ k])
  qed (use k in simp)
qed

lemma issues_accept: "issues [c] (accept operation (ask_bool (traced E) sock c f u))"
  by (auto simp: issues_def accept_def run_result_def ask_bool_def intro!: exI [of _ 1])

definition legacy_commands :: "legacy_submission \<Rightarrow> task \<Rightarrow> string list" where
  "legacy_commands job t =
     [task_command t (''SET_TYPE '' @ (case ls_task_type job of EXECUTE \<Rightarrow> ''EXECUTE'' | ESTIMATE \<Rightarrow> ''ESTIMATE''))]
     @ (if ls_task_type job = ESTIMATE then [set_observables_command t (ls_observables job)] else [])
     @ [task_command t (''SET_QUBITS '' @ show_u32 (ls_qubits job))]
     @ [task_command t (''SET_SIM_TYPE '' @ show_u32 (ls_simulator_type job))]
     @ [task_command t (''SET_METHOD '' @ show_u32 (ls_simulation_method job))]
     @ [set_qasm_command t (ls_input job)] @ [set_options_command t (ls_config job)]
     @ [task_command t ''EXECUTE'']"

lemma issues_configure: "issues (legacy_commands job t) (configure (traced E) job t sock)"
  unfolding legacy_commands_def configure_def task_query_defs
  by (intro issues_andthen issues_accept) (auto intro: issues_accept issues_ret)

lemma attempt_then_throw: "attempt (run_result f) (\<lambda>_. throw e) s = (Err e, snd (f s))"
  by (cases "fst (f s)") (auto simp: attempt_def run_result_def throw_def split: prod.splits)

lemma submit_legacy_steps:
  assumes "create_task_at E (ls_session_id job) sock w = (Inr t, w1)"
  shows "configure E job t sock w1 = (Ok u, w2) \<Longrightarrow> submit_legacy E job sock w = (Ok t, w2)"
    and "configure E job t sock w1 = (Err e, w2) \<Longrightarrow> \<exists>e'. kind e' = error_kind.Other \<and>
      submit_legacy E job sock w = (Err e', snd (cancel_at E t sock w2))"
proof -
  let ?create = "run_result (\<lambda>w. case create_task_at E (ls_session_id job) sock w of (r, w') \<Rightarrow>
      (of_anyhow ''Failed to create task'' r, w'))"
  have "?create w = (Ok t, w1)"
    using assms by (simp add: run_result_def of_anyhow_def)
  note step = andthen_step [where m = ?create and s = w, OF this]
  show "configure E job t sock w1 = (Ok u, w2) \<Longrightarrow> submit_legacy E job sock w = (Ok t, w2)"
    unfolding submit_legacy_def by (simp add: step attempt_def ret_def)
  show "configure E job t sock w1 = (Err e, w2) \<Longrightarrow> \<exists>e'. kind e' = error_kind.Other \<and>
      submit_legacy E job sock w = (Err e', snd (cancel_at E t sock w2))"
    unfolding submit_legacy_def step
    by (simp add: attempt_def [of "configure E job t sock"] attempt_then_throw)
qed

text \<open>
  A legacy submission either starts the task or cleans it up.  The commands it
  sends begin with the creation of the task; when that succeeds, the settings follow
  in a fixed order with the execution last, and the call succeeds only when all of
  them were accepted; otherwise the settings stop at the first one that was not,
  and the cancellation of the created task is the last command sent.
\<close>

lemma legacy_submission_commands:
  assumes "submit_legacy (traced E) job sock (w, []) = (r, (w', sent))"
  shows "(\<exists>e. r = Err e \<and> sent = [session_command (ls_session_id job) ''TASK CREATE'']) \<or>
    (\<exists>t. task_session_id t = ls_session_id job \<and>
      (r = Ok t \<and> sent = session_command (ls_session_id job) ''TASK CREATE'' # legacy_commands job t
       \<or> (\<exists>e k. r = Err e \<and> kind e = error_kind.Other \<and>
            sent = session_command (ls_session_id job) ''TASK CREATE''
              # take k (legacy_commands job t) @ [task_command t ''CANCEL''])))"
proof -
  let ?C = "session_command (ls_session_id job) ''TASK CREATE''"
  obtain res w1 where create: "create_task_at (traced E) (ls_session_id job) sock (w, []) = (res, (w1, [?C]))"
    by (auto simp: create_task_at_def split: prod.splits)
  show ?thesis
  proof (cases res)
    case (Inl x)
    with create assms show ?thesis
      by (auto simp: submit_legacy_def run_result_def andthen_def of_anyhow_def)
  next
    case (Inr t)
    with create have sid: "task_session_id t = ls_session_id job"
      by (auto simp: create_task_at_def split: prod.splits response.splits sum.splits)
    obtain q w2 sent2 where q: "configure (traced E) job t sock (w1, [?C]) = (q, (w2, sent2))"
      by (cases "configure (traced E) job t sock (w1, [?C])") auto
    with issues_configure [of job t E sock] obtain k where k: "q \<noteq> Panic"
        "sent2 = ?C # take k (legacy_commands job t)"
        "\<forall>a. q = Ok a \<longrightarrow> k = length (legacy_commands job t)"
      unfolding issues_def by fastforce
    note steps = submit_legacy_steps [OF create [unfolded Inr]]
    show ?thesis
    proof (cases q)
      case (Ok u)
      with assms steps(1) q k sid show ?thesis by auto
    next
      case (Err e)
      have "snd (snd (cancel_at (traced E) t sock (w2, sent2))) = sent2 @ [task_command t ''CANCEL'']"
        by (simp add: cancel_at_def ask_bool_def split: prod.split)
      moreover from steps(2) q Err obtain e' where "kind e' = error_kind.Other"
          "submit_legacy (traced E) job sock (w, []) = (Err e', snd (cancel_at (traced E) t sock (w2, sent2)))"
        by blast
      ultimately have "r = Err e'" "kind e' = error_kind.Other" "sent = sent2 @ [task_command t ''CANCEL'']"
        using assms by (auto simp: prod_eq_iff)
      with k sid show ?thesis by auto
    qed (use k in simp)
  qed
qed

section \<open>Timeouts\<close>

text \<open>
  The client waits a minute for exactly the two commands whose reply comes only
  after a worker has stopped, the deletion of a session and the cancellation of a
  task, and fifteen seconds for any other command of a session or a task.
\<close>

lemma cleanup_timeouts:
  "reply_timeout (session_command sid verb) =
     (if verb = ''DELETE'' then 60 else 15) \<and>
   reply_timeout (task_command t verb) = (if verb = ''CANCEL'' then 60 else 15)"
  if "verb \<noteq> []" "\<forall>c \<in> set verb. graphic c"
  using that
  by (simp add: reply_timeout_session_command reply_timeout_task_command CLEANUP_REPLY_TIMEOUT_def
      REPLY_TIMEOUT_def)

end
