(* ===== verification/WitnessesMaestro.thy ===== *)
theory WitnessesMaestro
  imports MaestroFraming
begin

text \<open>
  The properties of the Maestro client and resource at concrete inputs: a server that
  answers from a list, a small table of JSON documents, and one resource.
\<close>

section \<open>Samples\<close>

text \<open>A server that answers from a list of reply lines, the next one at each exchange.\<close>

definition replaying :: "json_lib \<Rightarrow> string list maestro_env" where
  "replaying L = \<lparr>transfer = (\<lambda>sock t u c ws. case ws of
        [] \<Rightarrow> (NoStream (OsError ''gone''), [])
      | r # rs \<Rightarrow> (Stream (r @ [nl]) Closed, rs)),
    json_crate = L, serde_crate = L\<rparr>"

lemma replaying_crates [simp]: "json_crate (replaying L) = L" "serde_crate (replaying L) = L"
  by (simp_all add: replaying_def)

definition plain :: "string \<Rightarrow> bool" where
  "plain r \<longleftrightarrow> r \<noteq> [] \<and> length r < 1000 \<and> graphic (hd r) \<and> graphic (last r) \<and>
     (\<forall>c \<in> set r. byte c < 128 \<and> c \<noteq> nl)"

lemma upto_newline_plain: "nl \<notin> set r \<Longrightarrow> upto_newline (r @ [nl]) = r @ [nl]"
  by (induction r) auto

lemma utf8_plain: "\<forall>b \<in> set bs. b < 128 \<Longrightarrow> utf8_ok bs"
  by (induction bs) (simp_all add: utf8_ok.simps)

lemma trim_reply:
  assumes "r \<noteq> []" "graphic (hd r)" "graphic (last r)"
  shows "trim (r @ [nl]) = r"
proof -
  from assms(1) have "r @ [nl] = hd r # tl r @ [nl]" by simp
  with assms(2) have s: "trim_start (r @ [nl]) = r @ [nl]" by (metis trim_start_graphic)
  from assms(1,3) have "trim_end r = r" by (metis append_butlast_last_id trim_end_graphic)
  with s show ?thesis by (simp add: trim_def)
qed

lemma trim_plain: "plain r \<Longrightarrow> trim (r @ [nl]) = r"
  unfolding plain_def by (rule trim_reply) blast+

lemma replaying_exchange:
  assumes "plain r"
  shows "exchange (replaying L) sock c (r # rs) = (Inr (r @ [nl]), rs)"
proof -
  have n: "nl \<notin> set r" "length r < 1000" using assms by (auto simp: plain_def)
  have "\<forall>b \<in> set (map byte (r @ [nl])). b < 128"
    using assms by (simp add: plain_def byte_def)
  note u = utf8_plain [OF this]
  have le: "1001 \<le> MAX_RESPONSE_BYTES" by (simp add: MAX_RESPONSE_BYTES_def MAX_RESULT_BYTES_def)
  from n le have t: "take (Suc MAX_RESPONSE_BYTES) (r @ [nl]) = r @ [nl]" by simp
  show ?thesis
    unfolding exchange_def replaying_def read_line_def
    using n le u by (simp add: t upto_newline_plain ends_with_char_def del: take_append map_append)
qed

lemma plain_OK: "plain (''OK '' @ v)" if "v \<noteq> []" "length v < 900" "\<forall>c \<in> set v. graphic c"
  using that by (auto simp: plain_def graphic_def byte_def)

lemma replaying_value:
  assumes "v \<noteq> []" "length v < 900" "\<forall>c \<in> set v. graphic c"
  shows "send_command_at (replaying L) sock c ((''OK '' @ v) # rs) =
     ((if v = ''YES'' then OK True else if v = ''NO'' then OK False else OkResponse v), rs)"
proof -
  have p: "plain (''OK '' @ v)" by (rule plain_OK [OF assms])
  have r: "''OK '' @ v \<noteq> ''OK''" using assms by simp
  have "parse_response ((''OK '' @ v) @ [nl]) =
      (if v = ''YES'' then OK True else if v = ''NO'' then OK False else OkResponse v)"
    unfolding parse_response_def trim_plain [OF p] Let_def if_not_P [OF r] strip_prefix_append option.case
      trim_id [OF assms(3)]
    using assms(1) by simp
  then show ?thesis by (simp add: send_command_at_def replaying_exchange [OF p] del: append.simps append_assoc)
qed

text \<open>
  Documents: a few by name; the others print their string members, each byte as its
  bits, and parse back to them.
\<close>

fun bits :: "string \<Rightarrow> string" where
  "bits [] = []"
| "bits (Char a b c d e f g h # s) =
     map (\<lambda>x. if x then CHR ''1'' else CHR ''0'') [a, b, c, d, e, f, g, h] @ bits s"

fun unbits :: "string \<Rightarrow> string" where
  "unbits (a # b # c # d # e # f # g # h # s) =
     Char (a = CHR ''1'') (b = CHR ''1'') (c = CHR ''1'') (d = CHR ''1'')
       (e = CHR ''1'') (f = CHR ''1'') (g = CHR ''1'') (h = CHR ''1'') # unbits s"
| "unbits _ = []"

fun print_members :: "(string \<times> json) list \<Rightarrow> string" where
  "print_members [] = []"
| "print_members ((k, JStr s) # kvs) = bits k @ '':'' @ bits s @ '';'' @ print_members kvs"
| "print_members (_ # kvs) = print_members kvs"

fun read_members :: "string list \<Rightarrow> (string \<times> json) list" where
  "read_members [] = []"
| "read_members (f # fs) = (case split_once (CHR '':'') f of
      None \<Rightarrow> read_members fs
    | Some (k, v) \<Rightarrow> (unbits k, JStr (unbits v)) # read_members fs)"

fun sample_print :: "json \<Rightarrow> string" where
  "sample_print (JObj kvs) = ''o;'' @ print_members kvs"
| "sample_print _ = ''n''"

definition sample_documents :: "(string \<times> json) list" where
  "sample_documents = [
     (''R'', JObj [(''schema_version'', JInt 2)]),
     (''C'', JObj [(''version'', JInt 2), (''ok'', JBool True), (''native'', JObj [(''schema_version'', JInt 2)])]),
     (''S'', JObj [(''version'', JInt 2), (''ok'', JBool True), (''task_id'', JInt 7)]),
     (''X'', JObj [(''version'', JInt 2), (''ok'', JBool False),
                (''error'', JObj [(''code'', JStr ''session_not_found'')])])]"

definition sample_lib :: json_lib where
  "sample_lib = \<lparr>jparse = (\<lambda>s. case map_of sample_documents s of
       Some v \<Rightarrow> Inr v
     | None \<Rightarrow> Inr (JObj (read_members (split_on (CHR '';'') s)))),
     jdump = sample_print, jfrac_u64 = (\<lambda>_. None)\<rparr>"

lemma unbits_bits: "unbits (bits s) = s"
  by (induction s rule: bits.induct) simp_all

lemma bits_set: "c \<in> set (bits s) \<Longrightarrow> c = CHR ''0'' \<or> c = CHR ''1''"
  by (induction s rule: bits.induct) (auto split: if_splits)

lemma bits_free: "CHR '';'' \<notin> set (bits s)" "CHR '':'' \<notin> set (bits s)" "nl \<notin> set (bits s)" "cr \<notin> set (bits s)"
  using bits_set by fastforce+

lemma split_member:
  "split_on (CHR '';'') (bits k @ '':'' @ bits s @ '';'' @ rest) =
     (bits k @ '':'' @ bits s) # split_on (CHR '';'') rest"
  using split_on_append [of "CHR '';''" "bits k @ '':'' @ bits s" rest] bits_free by simp

lemma read_member:
  "read_members ((bits k @ '':'' @ bits s) # fs) = (k, JStr s) # read_members fs"
proof -
  have "split_once (CHR '':'') (bits k @ '':'' @ bits s) = Some (bits k, bits s)"
    using bits_free by (simp add: split_once_Some)
  then show ?thesis by (simp add: unbits_bits)
qed

lemma read_print_members:
  "map_of kvs k = Some (JStr s) \<Longrightarrow>
     map_of (read_members (split_on (CHR '';'') (print_members kvs))) k = Some (JStr s)"
proof (induction kvs rule: print_members.induct)
  case (2 k' s' kvs)
  then show ?case
    unfolding print_members.simps split_member read_member by (auto split: if_splits)
qed (auto split: if_splits)

lemma print_members_line: "nl \<notin> set (print_members kvs)" "cr \<notin> set (print_members kvs)"
  by (induction kvs rule: print_members.induct) (auto simp: bits_free)

lemma sample_lib_ok: "json_lib_ok sample_lib"
proof -
  have none: "map_of sample_documents (''o;'' @ print_members kvs) = None" for kvs
    by (simp add: sample_documents_def)
  have o: "read_members (split_on (CHR '';'') (''o;'' @ s)) = read_members (split_on (CHR '';'') s)" for s
    using split_on_append [of "CHR '';''" "''o''" s] by simp
  have "nl \<notin> set (sample_print v) \<and> cr \<notin> set (sample_print v)" for v
    by (cases v) (simp_all add: print_members_line)
  moreover have "jparse sample_lib (sample_print (JObj kvs)) =
      Inr (JObj (read_members (split_on (CHR '';'') (print_members kvs))))" for kvs
    unfolding sample_lib_def json_lib.select_convs sample_print.simps none o option.case ..
  ultimately show ?thesis
    unfolding json_lib_ok_def using read_print_members by (auto simp: sample_lib_def)
qed

lemma graphic_sample:
  "graphic (CHR ''Y'')" "graphic (CHR ''E'')" "graphic (CHR ''S'')" "graphic (CHR ''N'')"
  "graphic (CHR ''O'')" "graphic (CHR ''K'')" "graphic (CHR ''7'')" "graphic (CHR ''1'')"
  "graphic (CHR ''C'')" "graphic (CHR ''R'')" "graphic (CHR ''X'')"
  by (simp_all add: graphic_def byte_def)

lemma replaying_answers [simp]:
  "send_command_at (replaying L) sock c (''OK YES'' # rs) = (OK True, rs)"
  "send_command_at (replaying L) sock c (''OK NO'' # rs) = (OK False, rs)"
  "send_command_at (replaying L) sock c (''OK 7'' # rs) = (OkResponse ''7'', rs)"
  using replaying_value [of "''YES''" L sock c rs] replaying_value [of "''NO''" L sock c rs]
    replaying_value [of "''7''" L sock c rs]
  by (simp_all add: graphic_sample)

lemma show_sample [simp]: "show_u32 7 = ''7''" "show_u32 1 = ''1''"
  by (simp_all add: show_u32_def show_nat.simps digit_char_def char_of_def bit_0)

lemma parse_sample [simp]: "parse_u32 ''7'' = Inr 7" "parse_u32 ''1'' = Inr 1"
  using parse_show_u32 [of 7] parse_show_u32 [of 1] by simp_all

definition sample_maestro :: maestro_local where
  "sample_maestro = \<lparr>backend_name = ''m'', session_id = Some 1,
     request_client = client_new ''/run/maestro.sock'', terminal_tasks = (\<lambda>_. None)\<rparr>"

definition sample_task :: task where
  "sample_task = \<lparr>task_id = 7, task_session_id = 1\<rparr>"

lemma sample_maestro_built:
  "maestro_new (\<lambda>k. if k = ''QRMI_MAESTRO_SOCKET'' then NotPresent else Value ''1'') ''m'' = Inr sample_maestro"
  by (simp add: maestro_new_def sample_maestro_def client_default_def socket_path_def)

lemma sample_maestro_run: "maestro_run E (sample_maestro, w)"
  by (rule built_new [OF sample_maestro_built])

lemma sample_nothing_cached: "terminal_tasks sample_maestro = (\<lambda>_. None)"
  by (simp add: sample_maestro_def)

lemma task_of_sample: "task_of sample_maestro ''7'' = Inr sample_task"
  by (simp add: task_of_def get_session_id_def sample_maestro_def sample_task_def)

lemmas maestro_steps =
  prog_defs reading_def ensure_task_exists_def task_exists_def task_call_def blocking_def ask_bool_def
  exists_at_def failed_at_def finished_at_def running_at_def of_anyhow_def task_response_def

lemma sample_server_completed:
  "server_task_status (replaying L) t (m, [''OK YES'', ''OK NO'', ''OK YES'', ''OK NO'']) = (Ok Completed, (m, []))"
  by (simp add: server_task_status_def maestro_steps)

lemma sample_completed:
  "maestro_task_status (replaying L) ''7'' (sample_maestro, [''OK YES'', ''OK NO'', ''OK YES'', ''OK NO'']) =
     (Ok Completed, (remember (1, 7) Completed sample_maestro, []))"
  by (simp add: maestro_task_status_def reading_def andthen_def task_of_sample sample_task_def get_state_def
      Let_def sample_nothing_cached sample_server_completed attempt_def from_result_def updating_def
      modify_def ret_def terminal_def)

lemma sample_stopped:
  "maestro_task_stop (replaying L) ''7'' (sample_maestro, [''OK YES'', ''OK NO'', ''OK NO'', ''OK YES'', ''OK YES'']) =
     (Ok (), (remember (1, 7) Cancelled sample_maestro, []))"
proof -
  have "server_task_status (replaying L) sample_task
      (sample_maestro, [''OK YES'', ''OK NO'', ''OK NO'', ''OK YES'', ''OK YES'']) =
      (Ok Running, (sample_maestro, [''OK YES'']))"
    by (simp add: server_task_status_def maestro_steps)
  then have "maestro_task_status (replaying L) ''7''
      (sample_maestro, [''OK YES'', ''OK NO'', ''OK NO'', ''OK YES'', ''OK YES'']) =
      (Ok Running, (sample_maestro, [''OK YES'']))"
    by (simp add: maestro_task_status_def reading_def andthen_def task_of_sample get_state_def
      Let_def sample_nothing_cached attempt_def from_result_def ret_def terminal_def)
  then show ?thesis
    by (simp add: maestro_task_stop_def reading_def andthen_def task_of_sample terminal_def
      task_call_def blocking_def cancel_at_def ask_bool_def updating_def modify_def) (simp add: sample_task_def)
qed

lemma sample_result:
  "maestro_task_result (replaying L) ''7''
     (sample_maestro, [''OK YES'', ''OK NO'', ''OK YES'', ''OK NO'', ''OK YES'', ''OK 7'']) =
     (Ok ''7'', (remember (1, 7) Completed sample_maestro, []))"
proof -
  have "server_task_status (replaying L) sample_task
      (sample_maestro, [''OK YES'', ''OK NO'', ''OK YES'', ''OK NO'', ''OK YES'', ''OK 7'']) =
      (Ok Completed, (sample_maestro, [''OK YES'', ''OK 7'']))"
    by (simp add: server_task_status_def maestro_steps)
  then have "maestro_task_status (replaying L) ''7''
      (sample_maestro, [''OK YES'', ''OK NO'', ''OK YES'', ''OK NO'', ''OK YES'', ''OK 7'']) =
      (Ok Completed, (remember (1, 7) Completed sample_maestro, [''OK YES'', ''OK 7'']))"
    by (simp add: maestro_task_status_def reading_def andthen_def task_of_sample get_state_def
      Let_def sample_nothing_cached attempt_def from_result_def ret_def terminal_def updating_def modify_def)
      (simp add: sample_task_def)
  then show ?thesis
    by (simp add: maestro_task_result_def andthen_def task_of_sample maestro_steps get_results_as_string_at_def)
qed

section \<open>The cache of terminal states\<close>

theorem task_status_final_witness:
  "maestro_task_status (replaying sample_lib) ''7'' (remember (1, 7) Completed sample_maestro, [''OK NO'']) =
     (Ok Completed, (remember (1, 7) Completed sample_maestro, [''OK NO'']))"
  by (rule task_status_final [OF sample_maestro_run sample_completed])
    (auto simp: terminal_def intro: later_world [OF later_now])

section \<open>Completion and results\<close>

text \<open>A server with the one task: whether it is finished, and whether it has failed.\<close>

definition one_task :: "(bool \<times> bool) maestro_env" where
  "one_task = \<lparr>transfer = (\<lambda>sock t u c (finished, failed).
      (Stream ((if c = task_command sample_task ''FINISHED'' \<and> finished
           \<or> c = task_command sample_task ''FAILED'' \<and> failed
           \<or> c = task_command sample_task ''EXISTS'' then ''OK YES'' else ''OK NO'') @ [nl]) Closed,
       (finished, failed))),
    json_crate = sample_lib, serde_crate = sample_lib\<rparr>"

lemma one_task_send:
  "send_command_at one_task sock c (fi, fa) =
     (OK (c = task_command sample_task ''FINISHED'' \<and> fi \<or> c = task_command sample_task ''FAILED'' \<and> fa
        \<or> c = task_command sample_task ''EXISTS''), (fi, fa))"
proof -
  have "send_command_at one_task sock c (fi, fa) =
    (fst (send_command_at (replaying sample_lib) sock c
      [if c = task_command sample_task ''FINISHED'' \<and> fi \<or> c = task_command sample_task ''FAILED'' \<and> fa
        \<or> c = task_command sample_task ''EXISTS'' then ''OK YES'' else ''OK NO'']), (fi, fa))"
    by (simp add: send_command_at_def exchange_def one_task_def replaying_def split: sum.split)
  then show ?thesis by simp
qed

lemma task_command_eq:
  assumes "\<forall>c \<in> set v. graphic c" "v \<noteq> []" "\<forall>c \<in> set v'. graphic c" "v' \<noteq> []"
  shows "task_command t v = task_command t' v' \<longleftrightarrow> t = t' \<and> v = v'"
proof
  assume "task_command t v = task_command t' v'"
  then have "split_whitespace (task_command t v) = split_whitespace (task_command t' v')" by simp
  then show "t = t' \<and> v = v'"
    by (simp add: split_task_command [OF assms(1,2)] split_task_command [OF assms(3,4)])
qed simp

lemma one_task_verbs:
  "task_command t ''FINISHED'' = task_command t' ''FINISHED'' \<longleftrightarrow> t = t'"
  "task_command t ''FAILED'' = task_command t' ''FAILED'' \<longleftrightarrow> t = t'"
  "task_command t ''FAILED'' \<noteq> task_command t' ''FINISHED''"
  "task_command t ''FINISHED'' \<noteq> task_command t' ''FAILED''"
  "task_command t ''EXISTS'' \<noteq> task_command t' ''FINISHED''"
  "task_command t ''EXISTS'' \<noteq> task_command t' ''FAILED''"
  "task_command t ''FINISHED'' \<noteq> task_command t' ''EXISTS''"
  "task_command t ''FAILED'' \<noteq> task_command t' ''EXISTS''"
  by (simp_all add: task_command_eq graphic_def byte_def)

lemma one_task_truthful:
  "truthful_status one_task (\<lambda>w t. t = sample_task \<and> fst w) (\<lambda>w t. t = sample_task \<and> snd w)"
  unfolding truthful_status_def by (auto simp: one_task_send one_task_verbs)

lemma one_task_completed:
  "maestro_task_status one_task ''7'' (sample_maestro, (True, False)) =
     (Ok Completed, (remember (1, 7) Completed sample_maestro, (True, False)))"
proof -
  have "server_task_status one_task sample_task (sample_maestro, (True, False)) =
      (Ok Completed, (sample_maestro, (True, False)))"
    by (simp add: server_task_status_def maestro_steps one_task_send one_task_verbs)
  then show ?thesis
    by (simp add: maestro_task_status_def reading_def andthen_def task_of_sample get_state_def
      Let_def sample_nothing_cached attempt_def from_result_def ret_def terminal_def updating_def modify_def)
      (simp add: sample_task_def)
qed

theorem completed_not_failed_witness:
  "(sample_task = sample_task \<and> fst (True, False)) \<and> \<not> (sample_task = sample_task \<and> snd (True, False))"
  by (rule completed_not_failed [OF one_task_truthful task_of_sample _ one_task_completed])
    (simp add: sample_nothing_cached)

theorem task_result_completed_witness:
  "\<exists>t w1. task_of sample_maestro ''7'' = Inr t
    \<and> terminal_tasks (remember (1, 7) Completed sample_maestro) (task_key t) = Some Completed
    \<and> send_command_at (replaying sample_lib) (socket (request_client sample_maestro))
        (task_command t ''GET_RESULTS'') w1 = (OkResponse ''7'', [])"
  by (rule task_result_completed [OF sample_result])

section \<open>Sessions\<close>

definition idle_maestro :: maestro_local where
  "idle_maestro = \<lparr>backend_name = ''m'', session_id = None,
     request_client = client_new ''/run/maestro.sock'', terminal_tasks = (\<lambda>_. None)\<rparr>"

lemma sample_acquired:
  "maestro_acquire (replaying L) (idle_maestro, [''OK 7'']) = (Ok ''7'', (idle_maestro\<lparr>session_id := Some 7\<rparr>, []))"
  by (simp add: maestro_acquire_def Let_def maestro_steps session_new_at_def updating_def idle_maestro_def)

lemma sample_released:
  "maestro_release (replaying L) ''7'' (idle_maestro\<lparr>session_id := Some 7\<rparr>, [''OK YES'']) =
     (Ok (), (idle_maestro, []))"
  by (simp add: maestro_release_def maestro_steps session_delete_at_def updating_def forget_session_def
      retain_others_def idle_maestro_def fun_eq_iff)

theorem acquire_release_witness:
  "\<exists>sid. ''7'' = show_u32 sid \<and> session_id (idle_maestro\<lparr>session_id := Some 7\<rparr>) = Some sid
    \<and> session_delete_at (replaying sample_lib) sid
        (socket (request_client (idle_maestro\<lparr>session_id := Some 7\<rparr>))) [''OK YES''] = (Inr True, [])
    \<and> session_id idle_maestro = None
    \<and> (\<forall>s t. terminal_tasks idle_maestro (s, t) =
        (if s = sid then None else terminal_tasks (idle_maestro\<lparr>session_id := Some 7\<rparr>) (s, t)))"
  by (rule acquire_release [OF sample_acquired sample_released])

section \<open>Submissions\<close>

lemma sample_plain: "plain ''OK C''" "plain ''OK S''" "plain ''OK X''"
  by (simp_all add: plain_def graphic_def byte_def)

lemma sample_parse [simp]:
  "jparse sample_lib ''R'' = Inr (JObj [(''schema_version'', JInt 2)])"
  "jparse sample_lib ''C'' = Inr (JObj [(''version'', JInt 2), (''ok'', JBool True),
     (''native'', JObj [(''schema_version'', JInt 2)])])"
  "jparse sample_lib ''S'' = Inr (JObj [(''version'', JInt 2), (''ok'', JBool True), (''task_id'', JInt 7)])"
  "jparse sample_lib ''X'' = Inr (JObj [(''version'', JInt 2), (''ok'', JBool False),
     (''error'', JObj [(''code'', JStr ''session_not_found'')])])"
  by (simp_all add: sample_lib_def sample_documents_def)

lemma sample_trim: "trim [CHR ''C'', nl] = ''C''" "trim [CHR ''S'', nl] = ''S''" "trim [CHR ''X'', nl] = ''X''"
  using trim_reply [of "''C''"] trim_reply [of "''S''"] trim_reply [of "''X''"]
  by (simp_all add: graphic_sample graphic_def byte_def)

lemma sample_u64: "as_u64 L (JInt 2) = Some 2"
  by simp

lemma sample_u32: "as_u32 L (JInt 2) = Some VERSION" "as_u32 L (JInt 7) = Some 7"
  by (simp_all add: as_u32_def VERSION_def)

definition sample_catalog :: json where
  "sample_catalog = JObj [(''version'', JInt 2), (''ok'', JBool True),
     (''native'', JObj [(''schema_version'', JInt 2)])]"

definition sample_created :: json where
  "sample_created = JObj [(''version'', JInt 2), (''ok'', JBool True), (''task_id'', JInt 7)]"

definition sample_refused :: json where
  "sample_refused = JObj [(''version'', JInt 2), (''ok'', JBool False),
     (''error'', JObj [(''code'', JStr ''session_not_found'')])]"

lemma sample_replies:
  "parse_api_response sample_lib (''OK C'' @ [nl]) = Inr sample_catalog"
  "parse_submission_response sample_lib (''OK S'' @ [nl]) = Inr sample_created"
  "parse_submission_response sample_lib (''OK X'' @ [nl]) =
     Inl (rerr ''session_not_found'' ''Unspecified Maestro error'')"
  by (simp_all add: parse_submission_response_def parse_api_response_def sample_trim sample_u32 Let_def
      sample_catalog_def sample_created_def)

lemma sample_fits: "length (api_command sample_lib capabilities_doc) \<le> MAX_REQUEST_BYTES"
  "length (api_command sample_lib (submit_doc sid (JObj kvs))) \<le> MAX_REQUEST_BYTES"
  by (simp_all add: api_command_def capabilities_doc_def submit_doc_def sample_lib_def of_u32_def
      MAX_REQUEST_BYTES_def)

lemma sample_capabilities:
  "capabilities (replaying sample_lib) (cl, ''OK C'' # ws) =
     (Ok (jdump sample_lib sample_catalog), (cl\<lparr>negotiated := True\<rparr>, ws))"
  by (simp add: capabilities_Ok call_def call_with_Ok sample_fits replaying_exchange sample_plain
      sample_replies [simplified] sample_catalog_def sample_u32)

lemma sample_local: "local_request sample_lib ''R'' (JObj [(''schema_version'', JInt 2)])"
  by (simp add: local_request_def is_object_def sample_u32)

lemma sample_local': "local_request (json_crate (replaying sample_lib)) ''R'' (JObj [(''schema_version'', JInt 2)])"
  by (simp add: sample_local)

lemma sample_submitted:
  "submit (replaying sample_lib) 1 ''R'' (client_new ''s'', [''OK C'', ''OK S'']) =
     (Ok 7, ((client_new ''s'')\<lparr>negotiated := True\<rparr>, []))"
  unfolding submit_local [OF sample_local'] negotiate_def
  by (simp add: client_new_def sample_capabilities andthen_def ret_def send_submission_Ok call_with_Ok sample_fits replaying_exchange sample_plain
      sample_replies [simplified] sample_created_def sample_u32)

lemma sample_refusal:
  "submit (replaying sample_lib) 1 ''R'' (\<lparr>socket = ''s'', negotiated = True\<rparr>, [''OK X'']) =
     (Err (rerr ''session_not_found'' ''Unspecified Maestro error''), (\<lparr>socket = ''s'', negotiated = True\<rparr>, []))"
  unfolding submit_local [OF sample_local'] negotiate_def send_submission_def
  by (simp add: andthen_def call_with_def Let_def sample_fits [unfolded not_less [symmetric]] replaying_exchange
      sample_plain sample_replies [simplified] renegotiate_def)

theorem submit_negotiation_witness:
  "negotiated ((client_new ''s'')\<lparr>negotiated := True\<rparr>)"
  using submit_negotiation [OF sample_submitted] by simp

lemma sample_submit_sent:
  "submit (traced (replaying sample_lib)) 1 ''R'' (\<lparr>socket = ''s'', negotiated = True\<rparr>, ([''OK S''], [])) =
     (Ok 7, (\<lparr>socket = ''s'', negotiated = True\<rparr>,
       ([], [submit_command sample_lib 1 (JObj [(''schema_version'', JInt 2)])])))"
  using submit_local [of "traced (replaying sample_lib)" "''R''" "JObj [(''schema_version'', JInt 2)]" 1] sample_local
  by (simp add: negotiate_def andthen_def send_submission_Ok call_with_Ok sample_fits replaying_exchange
      sample_plain sample_replies [simplified] sample_created_def sample_u32 submit_command_def)

theorem submit_sends_witness:
  "\<exists>request. local_request sample_lib ''R'' request \<and>
     [submit_command sample_lib 1 (JObj [(''schema_version'', JInt 2)])] = [submit_command sample_lib 1 request]"
  using submit_sends [OF sample_submit_sent] by auto

text \<open>A server that counts the tasks it creates: one for each submission it accepts.\<close>

definition counting :: "(string list \<times> nat) maestro_env" where
  "counting = \<lparr>transfer = (\<lambda>sock t u c (ws, n). case ws of
        [] \<Rightarrow> (NoStream (OsError ''gone''), ([], n))
      | r # rs \<Rightarrow> (Stream (r @ [nl]) Closed,
          (rs, if r = ''OK S'' \<and> creation_command sample_lib c then Suc n else n))),
    json_crate = sample_lib, serde_crate = sample_lib\<rparr>"

lemma counting_crates [simp]: "json_crate counting = sample_lib" "serde_crate counting = sample_lib"
  by (simp_all add: counting_def)

lemma counting_exchange:
  "exchange counting sock c (r # rs, n) = (fst (exchange (replaying sample_lib) sock c (r # rs)),
     (rs, if r = ''OK S'' \<and> creation_command sample_lib c then Suc n else n))"
  by (simp add: exchange_def counting_def replaying_def split: sum.split)

lemma counting_asked: "creates_when_asked counting snd"
proof (unfold creates_when_asked_def, intro allI impI)
  fix sock c and w :: "string list \<times> nat"
  assume new: "snd (snd (exchange counting sock c w)) \<noteq> snd w"
  obtain ws n where w: "w = (ws, n)" by (cases w)
  from new w obtain r rs where ws: "ws = r # rs"
    by (cases ws) (simp_all add: exchange_def counting_def)
  from new w ws have c: "r = ''OK S''" "creation_command sample_lib c"
    by (auto simp: counting_exchange split: if_splits)
  have "\<not> refusal sample_lib (''OK S'' @ [nl])"
    by (auto simp: refusal_def sample_trim)
  then show "creation_command (json_crate counting) c \<and>
      (\<forall>response. fst (exchange counting sock c w) = Inr response \<longrightarrow> \<not> refusal (json_crate counting) response)"
    using c w ws replaying_exchange [OF sample_plain(2), of sample_lib sock c rs]
    by (simp add: counting_exchange)
qed

definition ready_maestro :: maestro_local where
  "ready_maestro = sample_maestro\<lparr>request_client := \<lparr>socket = ''s'', negotiated = True\<rparr>\<rparr>"

lemma sample_start_refused:
  "maestro_task_start counting (payload.MaestroLocal ''R'' ''request'' 1 0 0 [] []) (ready_maestro, ([''OK X''], 0)) =
     (Err (InvalidConfig (''session_not_found: '' @ ''Unspecified Maestro error'')), (ready_maestro, ([], 0)))"
proof -
  have "submit counting 1 ''R'' (\<lparr>socket = ''s'', negotiated = True\<rparr>, ([''OK X''], 0)) =
      (Err (rerr ''session_not_found'' ''Unspecified Maestro error''),
       (\<lparr>socket = ''s'', negotiated = True\<rparr>, ([], 0)))"
    using submit_local [of counting "''R''" "JObj [(''schema_version'', JInt 2)]" 1] sample_local
    by (simp add: negotiate_def send_submission_def andthen_def call_with_Err sample_fits [unfolded not_less [symmetric]]
        call_with_def Let_def counting_exchange replaying_exchange
        sample_plain sample_replies [simplified] renegotiate_def)
  then show ?thesis
    by (simp add: maestro_task_start_def eq_ignore_ascii_case_def start_request_def andthen_def from_result_def
        is_object_def sample_u64 reading_def get_session_id_def ready_maestro_def sample_maestro_def native_api_def
        api_to_qrmi.simps request_error_display_def)
qed

theorem task_start_error_creates_nothing_witness:
  "snd ([] :: string list, 0 :: nat) = snd ([''OK X''], 0 :: nat)"
  by (rule task_start_error_creates_nothing [OF counting_asked _ sample_start_refused])
    (simp_all add: sample_lib_ok)

section \<open>Framing\<close>

lemma sample_status_sent:
  "maestro_exec (traced (replaying sample_lib)) IsAccessibleOp (sample_maestro, ([''OK YES''], [])) =
     (sample_maestro, ([], [''PING'' @ [nl]]))"
  by (simp add: maestro_is_accessible_def maestro_steps)

theorem commands_are_lines_witness:
  "\<exists>body. ''PING'' @ [nl] = body @ [nl] \<and> nl \<notin> set body \<and> cr \<notin> set body"
  by (rule bspec [OF commands_are_lines [OF _ sample_status_sent]]) (simp_all add: sample_lib_ok)

definition sample_job :: legacy_submission where
  "sample_job = \<lparr>ls_session_id = 1, ls_task_type = EXECUTE, ls_input = ''Q'', ls_observables = [],
     ls_config = ''R'', ls_qubits = 1, ls_simulator_type = 0, ls_simulation_method = 0\<rparr>"

text \<open>The server creates the task and rejects its second setting.\<close>

lemma sample_legacy_sent:
  "submit_legacy (traced (replaying sample_lib)) sample_job ''s'' ([''OK 7'', ''OK YES'', ''OK NO'', ''OK YES''], []) =
     (Err (anyhow (''Maestro task 7 was created but submission failed: ''
        @ error_display (InvalidInput ''Maestro rejected set qubits''))),
      ([], [session_command 1 ''TASK CREATE'', task_command sample_task ''SET_TYPE EXECUTE'',
        task_command sample_task ''SET_QUBITS 1'', task_command sample_task ''CANCEL'']))"
proof -
  have "configure (traced (replaying sample_lib)) sample_job sample_task ''s''
      ([''OK YES'', ''OK NO'', ''OK YES''], [session_command 1 ''TASK CREATE'']) =
      (Err (InvalidInput ''Maestro rejected set qubits''), ([''OK YES''], [session_command 1 ''TASK CREATE'',
        task_command sample_task ''SET_TYPE EXECUTE'', task_command sample_task ''SET_QUBITS 1'']))"
    by (simp add: configure_def andthen_def accept_def run_result_def set_type_at_def set_qubits_at_def
        ask_bool_def accepted_def sample_job_def ret_def)
  then show ?thesis
    by (simp add: submit_legacy_def andthen_def run_result_def create_task_at_def sample_job_def of_anyhow_def
        attempt_def cancel_at_def ask_bool_def throw_def) (simp add: sample_task_def)
qed

end
