(* ===== verification/RunnerInput.thy ===== *)
theory RunnerInput
  imports CommonConfig
begin

text \<open>
  The input of the task runner (\<open>src/bin/task_runner.rs\<close>): the job environment, the
  lookup of the QPU's type, and the payload file.  The error of these functions is
  boxed, and stands as its message.  The derived \<open>Deserialize\<close> of the two input
  structs is written out; the wording of its errors is the crate's own
  (\<open>serde_message\<close>), as is reading a document with its repeated members kept.
\<close>

definition qrmi_job_env :: "env \<Rightarrow> string \<Rightarrow> string \<Rightarrow> string + string" where
  "qrmi_job_env env name legacy_name = (case env_ok (env name) of
      Some v \<Rightarrow> Inr v
    | None \<Rightarrow> (case env legacy_name of
        Value v \<Rightarrow> Inr v
      | other \<Rightarrow> Inl (''The environment variable `'' @ name @ ''` or legacy `'' @ legacy_name
          @ ''` is not set and as such configuration could not be loaded. reason = ''
          @ (case other of NotUnicode v \<Rightarrow>
               ''environment variable was not valid unicode: '' @ debug_str v
             | _ \<Rightarrow> ''environment variable not found''))))"

datatype primitive_type = Estimator | Sampler

fun primitive_as_str :: "primitive_type \<Rightarrow> string" where
  "primitive_as_str Estimator = ''estimator''"
| "primitive_as_str Sampler = ''sampler''"

record qrmi_input =
  job_runs :: "i32 option"
  parameters :: "json option"
  program_id :: "primitive_type option"
  sequence :: "string option"

datatype runner_type =
    MaestroLocal string string u32 u32 u32 string string
  | IBMQuantumSystem string primitive_type
  | QiskitRuntimeService string primitive_type
  | IBMQuantumComputeService string primitive_type
  | PasqalCloud string i32
  | PasqalLocal string i32

record runner_lib =
  serde :: json_lib
  raw_parse :: "string \<Rightarrow> string + json"
  serde_message :: "json \<Rightarrow> string"
  read_to_string :: "string \<Rightarrow> string + string"

section \<open>Deserialization\<close>

text \<open>\<open>Some None\<close> is an absent or null option; \<open>None\<close> is a value of another type.\<close>

definition opt_field :: "(json \<Rightarrow> 'a option) \<Rightarrow> json option \<Rightarrow> 'a option option" where
  "opt_field f v = (case v of
      None \<Rightarrow> Some None
    | Some JNull \<Rightarrow> Some None
    | Some x \<Rightarrow> map_option Some (f x))"

fun de_i32 :: "json \<Rightarrow> i32 option" where
  "de_i32 (JInt i) = (if - 2147483648 \<le> i \<and> i \<le> 2147483647 then Some (of_int i) else None)"
| "de_i32 _ = None"

fun de_u32 :: "json \<Rightarrow> u32 option" where
  "de_u32 (JInt i) = (if 0 \<le> i \<and> i \<le> 4294967295 then Some (of_int i) else None)"
| "de_u32 _ = None"

text \<open>A unit variant is its name, or an object with the name and null.\<close>

definition primitive_of :: "string \<Rightarrow> primitive_type option" where
  "primitive_of s = (if s = ''estimator'' then Some Estimator
     else if s = ''sampler'' then Some Sampler else None)"

fun de_primitive :: "json \<Rightarrow> primitive_type option" where
  "de_primitive (JStr s) = primitive_of s"
| "de_primitive (JObj [(s, JNull)]) = primitive_of s"
| "de_primitive _ = None"

definition input_fields :: "string list" where
  "input_fields = [''job_runs'', ''parameters'', ''program_id'', ''sequence'']"

definition qrmi_input_of :: "(string \<Rightarrow> json option) \<Rightarrow> qrmi_input option" where
  "qrmi_input_of field =
     (case (opt_field de_i32 (field ''job_runs''), opt_field Some (field ''parameters''),
            opt_field de_primitive (field ''program_id''), opt_field as_str (field ''sequence'')) of
        (Some r, Some p, Some i, Some s) \<Rightarrow>
          Some \<lparr>job_runs = r, parameters = p, program_id = i, sequence = s\<rparr>
      | _ \<Rightarrow> None)"

definition de_qrmi_input :: "json \<Rightarrow> qrmi_input option" where
  "de_qrmi_input v = (case v of
      JObj kvs \<Rightarrow>
        if distinct (filter (\<lambda>k. k \<in> set input_fields) (map fst kvs))
        then qrmi_input_of (map_of kvs) else None
    | JArr xs \<Rightarrow>
        if length xs = 4 then qrmi_input_of (map_of (zip input_fields xs)) else None
    | _ \<Rightarrow> None)"

definition read_input :: "runner_lib \<Rightarrow> string \<Rightarrow> string + qrmi_input" where
  "read_input L text = (case raw_parse L text of
      Inl e \<Rightarrow> Inl e
    | Inr v \<Rightarrow> (case de_qrmi_input v of Some i \<Rightarrow> Inr i | None \<Rightarrow> Inl (serde_message L v)))"

section \<open>Maestro payloads\<close>

definition LEGACY :: "string list" where
  "LEGACY = [''input'', ''job_type'', ''qubits'', ''simulator_type'', ''simulation_method'',
             ''observables'', ''config'']"

definition FOREIGN :: "string list" where
  "FOREIGN = [''job_spec'', ''program_id'', ''parameters'', ''job_runs'', ''sequence'',
              ''human_qir'', ''input_params'', ''iqmjson'', ''use_timeslot'', ''tag'']"

record legacy_input =
  li_input :: json
  li_job_type :: string
  li_qubits :: u32
  li_simulator_type :: u32
  li_simulation_method :: u32
  li_observables :: string
  li_config :: json

definition de_legacy :: "json \<Rightarrow> legacy_input option" where
  "de_legacy v =
     (case (jget v ''input'',
            Option.bind (jget v ''job_type'') as_str,
            Option.bind (jget v ''qubits'') de_u32,
            Option.bind (jget v ''simulator_type'') de_u32,
            Option.bind (jget v ''simulation_method'') de_u32,
            (case jget v ''observables'' of None \<Rightarrow> Some [] | Some x \<Rightarrow> as_str x)) of
        (Some i, Some t, Some q, Some s, Some m, Some obs) \<Rightarrow>
          Some \<lparr>li_input = i, li_job_type = t, li_qubits = q, li_simulator_type = s,
                li_simulation_method = m, li_observables = obs,
                li_config = jindex v ''config''\<rparr>
      | _ \<Rightarrow> None)"

definition serialize :: "json_lib \<Rightarrow> json \<Rightarrow> string" where
  "serialize L v = (case as_str v of Some s \<Rightarrow> s | None \<Rightarrow> jdump L v)"

definition legacy_payload :: "runner_lib \<Rightarrow> json \<Rightarrow> string + runner_type" where
  "legacy_payload L v = (case de_legacy v of
      None \<Rightarrow> Inl (serde_message L v)
    | Some parsed \<Rightarrow>
        if \<not> list_ex (\<lambda>k. eq_ignore_ascii_case (li_job_type parsed) k) [''execute'', ''estimate''] then
          Inl ''Unknown Maestro job_type''
        else if \<not> is_null (li_config parsed) \<and> \<not> is_object (li_config parsed)
          \<and> \<not> is_string (li_config parsed) then
          Inl ''Maestro config must be an object or serialized object''
        else if li_qubits parsed = 0 \<or> \<not> is_string (li_input parsed) then
          Inl ''Legacy Maestro jobs require positive qubits and string input''
        else Inr (MaestroLocal (serialize (serde L) (li_input parsed)) (li_job_type parsed)
               (li_qubits parsed) (li_simulator_type parsed) (li_simulation_method parsed)
               (li_observables parsed)
               (if is_null (li_config parsed) then ''{}'' else serialize (serde L) (li_config parsed))))"

text \<open>
  The native document of an input, when it has one: \<open>None\<close> when it is a legacy input,
  an error when it announces a request and has none.
\<close>

definition native_request :: "json \<Rightarrow> string + json option" where
  "native_request v =
     (case jget v ''request'' of
        Some request \<Rightarrow> Inr (Some request)
      | None \<Rightarrow>
          if jget v ''schema_version'' \<noteq> None then Inr (Some v)
          else if (case Option.bind (jget v ''job_type'') as_str of
                     Some k \<Rightarrow> eq_ignore_ascii_case k ''request'' | None \<Rightarrow> False)
          then (case jget v ''input'' of
                  Some i \<Rightarrow> Inr (Some i) | None \<Rightarrow> Inl ''Missing request input'')
          else Inr None)"

definition native_payload :: "runner_lib \<Rightarrow> json \<Rightarrow> string + runner_type" where
  "native_payload L request0 =
     (case (case as_str request0 of
              Some serialized \<Rightarrow> jparse (serde L) serialized | None \<Rightarrow> Inr request0) of
        Inl e \<Rightarrow> Inl e
      | Inr request \<Rightarrow>
          if \<not> is_object request
            \<or> as_u64 (serde L) (jindex request ''schema_version'') \<noteq> Some 2 then
            Inl ''Maestro request requires schema_version=2''
          else if (case as_object request of
              Some kvs \<Rightarrow> list_ex (\<lambda>k. k \<in> set FOREIGN \<or> k = ''request''
                  \<or> (k \<noteq> ''observables'' \<and> k \<in> set LEGACY)) (jkeys kvs)
            | None \<Rightarrow> False) then
            Inl ''Native Maestro request cannot mix payload envelopes''
          else Inr (MaestroLocal (jdump (serde L) request) ''request'' 0 0 0 [] ''{}''))"

definition maestro_input :: "runner_lib \<Rightarrow> json \<Rightarrow> string + runner_type" where
  "maestro_input L v = (case as_object v of
      None \<Rightarrow> Inl ''Maestro payload must be an object''
    | Some kvs \<Rightarrow>
        let ks = jkeys kvs in
        if list_ex (\<lambda>k. k \<in> set FOREIGN) ks then
          Inl ''Maestro payload cannot contain another backend's fields''
        else if ''request'' \<in> set ks \<and> length ks \<noteq> 1 then
          Inl ''Wrapped Maestro requests accept only the request field''
        else if ''request'' \<notin> set ks \<and> ''schema_version'' \<notin> set ks
          \<and> list_ex (\<lambda>k. k \<notin> set LEGACY) ks then
          Inl ''Unknown Maestro payload field''
        else (case native_request v of
            Inl e \<Rightarrow> Inl e
          | Inr (Some request) \<Rightarrow> native_payload L request
          | Inr None \<Rightarrow> legacy_payload L v))"

section \<open>The payload file\<close>

definition missing_property :: "string \<Rightarrow> string" where
  "missing_property name = ''Missing property: '' @ name @ '' in the payload.''"

definition need :: "string \<Rightarrow> 'a option \<Rightarrow> string + 'a" where
  "need name v = (case v of Some x \<Rightarrow> Inr x | None \<Rightarrow> Inl (missing_property name))"

text \<open>The three IBM branches and the two Pasqal branches have the same text.\<close>

definition primitive_input ::
    "json_lib \<Rightarrow> qrmi_input \<Rightarrow> (string \<Rightarrow> primitive_type \<Rightarrow> runner_type) \<Rightarrow> string + runner_type" where
  "primitive_input L d build = (case need ''parameters'' (parameters d) of
      Inl e \<Rightarrow> Inl e
    | Inr v \<Rightarrow> (case need ''program_id'' (program_id d) of
        Inl e \<Rightarrow> Inl e
      | Inr i \<Rightarrow> Inr (build (jdump L v) i)))"

definition pulser_input ::
    "qrmi_input \<Rightarrow> (string \<Rightarrow> i32 \<Rightarrow> runner_type) \<Rightarrow> string + runner_type" where
  "pulser_input d build = (case need ''job_runs'' (job_runs d) of
      Inl e \<Rightarrow> Inl e
    | Inr n \<Rightarrow> (case need ''sequence'' (sequence d) of
        Inl e \<Rightarrow> Inl e
      | Inr s \<Rightarrow> Inr (build s n)))"

definition runner_type_new :: "runner_lib \<Rightarrow> string \<Rightarrow> string \<Rightarrow> string + runner_type" where
  "runner_type_new L qpu_type input_file =
     (case read_to_string L input_file of
        Inl err \<Rightarrow> Inl (''Failed to open '' @ input_file @ ''. reason = '' @ err)
      | Inr text \<Rightarrow>
          if qpu_type = ''maestro-local'' then
            (case jparse (serde L) text of Inl e \<Rightarrow> Inl e | Inr v \<Rightarrow> maestro_input L v)
          else (case read_input L text of
            Inl e \<Rightarrow> Inl e
          | Inr d \<Rightarrow>
              if qpu_type = ''ibm-quantum-system'' then primitive_input (serde L) d IBMQuantumSystem
              else if qpu_type = ''qiskit-runtime-service'' then
                primitive_input (serde L) d QiskitRuntimeService
              else if qpu_type = ''ibm-quantum-compute-service'' then
                primitive_input (serde L) d IBMQuantumComputeService
              else if qpu_type = ''pasqal-cloud'' then pulser_input d PasqalCloud
              else if qpu_type = ''pasqal-local'' then pulser_input d PasqalLocal
              else Inl (''Resource type '' @ qpu_type @ '' is not supported. [supported types: ibm-quantum-system, ibm-quantum-compute-service, qiskit-runtime-service(deprecated), pasqal-cloud, pasqal-local, maestro-local]'')))"

fun runner_type_as_str :: "runner_type \<Rightarrow> string" where
  "runner_type_as_str (MaestroLocal _ _ _ _ _ _ _) = ''maestro-local''"
| "runner_type_as_str (IBMQuantumSystem _ _) = ''ibm-quantum-system''"
| "runner_type_as_str (QiskitRuntimeService _ _) = ''qiskit-runtime-service''"
| "runner_type_as_str (IBMQuantumComputeService _ _) = ''ibm-quantum-compute-service''"
| "runner_type_as_str (PasqalCloud _ _) = ''pasqal-cloud''"
| "runner_type_as_str (PasqalLocal _ _) = ''pasqal-local''"

fun to_payload :: "runner_type \<Rightarrow> payload option" where
  "to_payload (MaestroLocal i t q s m obs c) = Some (payload.MaestroLocal i t q s m obs c)"
| "to_payload (IBMQuantumSystem i p) = Some (QiskitPrimitive i (primitive_as_str p))"
| "to_payload (QiskitRuntimeService i p) = Some (QiskitPrimitive i (primitive_as_str p))"
| "to_payload (IBMQuantumComputeService i p) = Some (QiskitPrimitive i (primitive_as_str p))"
| "to_payload (PasqalCloud s n) = Some (payload.PasqalCloud s n)"
| "to_payload (PasqalLocal s n) = Some (payload.PasqalCloud s n)"

fun create_qrmi ::
    "('s, 'r) constructors \<Rightarrow> runner_type \<Rightarrow> string \<Rightarrow> ('s, qrmi_error, 'r) prog" where
  "create_qrmi C (MaestroLocal _ _ _ _ _ _ _) name = new_maestro_local C name"
| "create_qrmi C (IBMQuantumSystem _ _) name = new_ibm_quantum_system C name"
| "create_qrmi C (QiskitRuntimeService _ _) name = new_qiskit_runtime_service C name"
| "create_qrmi C (IBMQuantumComputeService _ _) name = new_ibm_quantum_compute_service C name"
| "create_qrmi C (PasqalCloud _ _) name = new_pasqal_cloud C name"
| "create_qrmi C (PasqalLocal _ _) name = new_pasqal_local C name"

section \<open>The type of a QPU\<close>

fun position :: "string \<Rightarrow> string list \<Rightarrow> nat option" where
  "position x [] = None"
| "position x (y # ys) = (if y = x then Some 0 else map_option Suc (position x ys))"

text \<open>\<open>qpu_types[index]\<close> panics when the list of types is too short.\<close>

definition find_qpu_type :: "string list \<Rightarrow> string list \<Rightarrow> string \<Rightarrow> ('e, string option) outcome" where
  "find_qpu_type qpu_resources qpu_types qpu_name =
     (case position qpu_name qpu_resources of
        Some index \<Rightarrow> if index < length qpu_types then Ok (Some (qpu_types ! index)) else Panic
      | None \<Rightarrow> Ok None)"

definition to_rust_loglevel :: "string \<Rightarrow> string" where
  "to_rust_loglevel srun_debug = (case parse_i32 srun_debug of
      Inr level \<Rightarrow>
        if level = 2 then ''error''
        else if level = 3 then ''info''
        else if level = 4 then ''debug''
        else if 5 \<le> sint level then ''debug''
        else ''info''
    | Inl _ \<Rightarrow> ''info'')"

definition list_delimiter :: "env \<Rightarrow> string" where
  "list_delimiter env = (case env_ok (env ''QRMI_LIST_DELIMITER'') of
      Some s \<Rightarrow> if s \<noteq> [] then s else '',''
    | None \<Rightarrow> '','')"

text \<open>\<open>main\<close> up to the construction of the resource: the input of the QPU named.\<close>

definition runner_input :: "runner_lib \<Rightarrow> env \<Rightarrow> string \<Rightarrow> string \<Rightarrow> (string, runner_type) outcome" where
  "runner_input L env qpu_name input_file =
     (let delimiter = list_delimiter env in
      case qrmi_job_env env ''QRMI_JOB_QPU_RESOURCES'' ''SLURM_JOB_QPU_RESOURCES'' of
        Inl e \<Rightarrow> Err e
      | Inr names \<Rightarrow>
        (case qrmi_job_env env ''QRMI_JOB_QPU_TYPES'' ''SLURM_JOB_QPU_TYPES'' of
           Inl e \<Rightarrow> Err e
         | Inr types \<Rightarrow>
           (case find_qpu_type (split_str delimiter names) (split_str delimiter types) qpu_name of
              Ok (Some qpu_type) \<Rightarrow> outcome_of (runner_type_new L qpu_type input_file)
            | Ok None \<Rightarrow> Err (qpu_name @ '' is not specified in --qpu option'')
            | Err e \<Rightarrow> Err e
            | Panic \<Rightarrow> Panic)))"

section \<open>Facts\<close>

lemma position_Some: "position x xs = Some i \<Longrightarrow> i < length xs \<and> xs ! i = x"
  by (induction xs arbitrary: i) (auto split: if_splits)

lemma position_None: "position x xs = None \<longleftrightarrow> x \<notin> set xs"
  by (induction xs) auto

lemma to_payload_Some: "to_payload r \<noteq> None"
  by (cases r) simp_all

text \<open>A document of schema version 2 without members of another envelope.\<close>

definition native_document :: "json_lib \<Rightarrow> (string \<times> json) list \<Rightarrow> bool" where
  "native_document L kvs \<longleftrightarrow>
     as_u64 L (jindex (JObj kvs) ''schema_version'') = Some 2
     \<and> (\<forall>k \<in> fst ` set kvs. k \<notin> set FOREIGN \<and> k \<noteq> ''request''
          \<and> (k = ''observables'' \<or> k \<notin> set LEGACY))"

definition native_input :: "json_lib \<Rightarrow> (string \<times> json) list \<Rightarrow> runner_type" where
  "native_input L kvs = MaestroLocal (jdump L (JObj kvs)) ''request'' 0 0 0 [] ''{}''"

definition request_value :: "json_lib \<Rightarrow> json \<Rightarrow> string + json" where
  "request_value L v = (case as_str v of Some s \<Rightarrow> jparse L s | None \<Rightarrow> Inr v)"

lemma as_u64_JNull [simp]: "as_u64 L JNull \<noteq> Some n"
  by simp

lemma native_payload_iff:
  "native_payload L v = Inr r \<longleftrightarrow>
     (\<exists>kvs. request_value (serde L) v = Inr (JObj kvs) \<and> native_document (serde L) kvs
        \<and> r = native_input (serde L) kvs)"
proof (cases "request_value (serde L) v")
  case (Inl e)
  then show ?thesis by (simp add: native_payload_def request_value_def)
next
  case (Inr request)
  then show ?thesis
    by (cases request)
      (auto simp: native_payload_def request_value_def is_object_def jkeys_def list_ex_iff
        native_document_def native_input_def)
qed

lemma legacy_payload_Inr:
  assumes "legacy_payload L v = Inr r"
  obtains i t q s m obs c where "r = MaestroLocal i t q s m obs c" "q \<noteq> 0"
    "eq_ignore_ascii_case t ''execute'' \<or> eq_ignore_ascii_case t ''estimate''"
proof -
  from assms obtain d where d: "de_legacy v = Some d"
    by (auto simp: legacy_payload_def split: option.splits)
  with assms show thesis
    by (auto simp: legacy_payload_def split: if_splits intro!: that)
qed

text \<open>
  Whatever the payload file holds, the input that the runner builds for a QPU is
  an input of the QPU's type, and it has a payload (so that the \<open>unwrap\<close> in \<open>main\<close>
  is safe); for the types it does not know the runner reports an error.
\<close>

lemma runner_type_new_type:
  assumes "runner_type_new L qpu_type input_file = Inr r"
  shows "runner_type_as_str r = qpu_type \<and> (\<exists>p. to_payload r = Some p)"
proof -
  from assms obtain content where content: "read_to_string L input_file = Inr content"
    by (auto simp: runner_type_new_def split: sum.splits)
  have p: "\<exists>p. to_payload r = Some p" using to_payload_Some by auto
  show ?thesis
  proof (cases "qpu_type = ''maestro-local''")
    case True
    with assms content obtain v where "maestro_input L v = Inr r"
      by (auto simp: runner_type_new_def split: sum.splits)
    then consider request where "native_payload L request = Inr r" | "legacy_payload L v = Inr r"
      by (auto simp: maestro_input_def Let_def split: option.splits if_splits sum.splits)
    then have "runner_type_as_str r = ''maestro-local''"
      by cases (auto simp: native_payload_iff native_input_def elim!: legacy_payload_Inr)
    with True p show ?thesis by simp
  next
    case False
    with assms content obtain d where "read_input L content = Inr d"
      by (auto simp: runner_type_new_def split: sum.splits)
    with assms content False p show ?thesis
      by (auto simp: runner_type_new_def primitive_input_def pulser_input_def
          split: sum.splits if_splits)
  qed
qed

text \<open>
  The five shapes in which a Maestro request can be written, the document itself,
  the document or its text under \<open>request\<close>, and the document or its text as the input
  of a job of type \<open>request\<close>, are one and the same input: each of them gives the
  payload that carries the document.
\<close>

lemma native_shapes_agree:
  assumes "native_document (serde L) kvs" and "jparse (serde L) s = Inr (JObj kvs)"
    and "eq_ignore_ascii_case j ''request''"
    and "v = JObj kvs
      \<or> v = JObj [(''request'', JObj kvs)] \<or> v = JObj [(''request'', JStr s)]
      \<or> v = JObj [(''job_type'', JStr j), (''input'', JObj kvs)]
      \<or> v = JObj [(''job_type'', JStr j), (''input'', JStr s)]"
  shows "maestro_input L v = Inr (native_input (serde L) kvs)"
proof -
  have n: "native_payload L (JObj kvs) = Inr (native_input (serde L) kvs)"
    "native_payload L (JStr s) = Inr (native_input (serde L) kvs)"
    using assms(1,2) by (simp_all add: native_payload_iff request_value_def)
  from assms(4) consider "v = JObj kvs" | x where "v = JObj [(''request'', x)]" "x = JObj kvs \<or> x = JStr s"
    | x where "v = JObj [(''job_type'', JStr j), (''input'', x)]" "x = JObj kvs \<or> x = JStr s"
    by blast
  then show ?thesis
  proof cases
    case 1
    from assms(1) have keys: "\<forall>k \<in> fst ` set kvs. k \<notin> set FOREIGN \<and> k \<noteq> ''request''"
      by (simp add: native_document_def)
    from assms(1) obtain x where x: "map_of kvs ''schema_version'' = Some x"
      by (auto simp: native_document_def split: option.splits)
    then have "''schema_version'' \<in> fst ` set kvs" by (force dest: map_of_SomeD)
    moreover have "map_of kvs ''request'' = None" using keys by (auto simp: map_of_eq_None_iff)
    ultimately show ?thesis
      using keys x n(1) unfolding 1
      by (auto simp: maestro_input_def Let_def jkeys_def list_ex_iff native_request_def jget_def)
  next
    case 2
    then show ?thesis
      using n by (auto simp: maestro_input_def jkeys_def FOREIGN_def native_request_def jget_def)
  next
    case 3
    then show ?thesis
      using n assms(3)
      by (auto simp: maestro_input_def jkeys_def FOREIGN_def LEGACY_def native_request_def jget_def)
  qed
qed


end
