(* ===== verification/TaskRunner.thy ===== *)
theory TaskRunner
  imports RunnerInput MaestroCache
begin

text \<open>
  The execution of a task by the task runner (\<open>run_task\<close> of \<open>src/bin/task_runner.rs\<close>):
  start, poll until the task is over or a signal asks to stop, collect the result,
  and clean up.  The resource is any implementation of the trait, a record of its
  operations; the streams, the output file, the flag that the signal handler
  clears and the sleep are operations of the runner's surroundings.  All of them
  act on one state, so that anything may change between any two steps.
\<close>

record 's quantum_resource =
  res_start :: "payload \<Rightarrow> ('s, qrmi_error, string) prog"
  res_status :: "string \<Rightarrow> ('s, qrmi_error, task_status) prog"
  res_result :: "string \<Rightarrow> ('s, qrmi_error, string) prog"
  res_logs :: "string \<Rightarrow> ('s, qrmi_error, string) prog"
  res_stop :: "string \<Rightarrow> ('s, qrmi_error, unit) prog"

record 's surroundings =
  load_running :: "'s \<Rightarrow> bool \<times> 's"
  write_output :: "string \<Rightarrow> 's \<Rightarrow> (string + unit) \<times> 's"
  write_diagnostics :: "string \<Rightarrow> 's \<Rightarrow> (string + unit) \<times> 's"
  write_file :: "string \<Rightarrow> string \<Rightarrow> 's \<Rightarrow> (string + unit) \<times> 's"
  sleep :: "'s \<Rightarrow> 's"

text \<open>\<open>writeln!(output, ...)?\<close> and \<open>let _ = writeln!(diagnostics, ...)\<close>.\<close>

definition say :: "'s surroundings \<Rightarrow> string \<Rightarrow> ('s, string, unit) prog" where
  "say W line = run_result (write_output W (line @ [nl]))"

definition note_line :: "'s surroundings \<Rightarrow> string \<Rightarrow> ('s, string, unit) prog" where
  "note_line W line = attempt (run_result (write_diagnostics W (line @ [nl]))) (\<lambda>_. ret ())"

text \<open>\<open>call(...).await?\<close>: the error becomes a boxed error.\<close>

definition boxed :: "('s, qrmi_error, 'a) prog \<Rightarrow> ('s, string, 'a) prog" where
  "boxed m = map_err error_display m"

definition deliver :: "'s surroundings \<Rightarrow> string option \<Rightarrow> string \<Rightarrow> ('s, string, unit) prog" where
  "deliver W output_file v = (case output_file of
      Some path \<Rightarrow>
        andthen (run_result (write_file W path v)) (\<lambda>_. say W (''Wrote output to '' @ path @ ''.''))
    | None \<Rightarrow> say W v)"

text \<open>One round of the loop: \<open>Some r\<close> ends it with \<open>r\<close>, \<open>None\<close> asks for another round.\<close>

definition poll_once ::
    "'s quantum_resource \<Rightarrow> 's surroundings \<Rightarrow> string option \<Rightarrow> string \<Rightarrow> ('s, string, bool) prog" where
  "poll_once R W output_file job_id =
     attempt (res_status R job_id) (\<lambda>r. case r of
         Inr Completed \<Rightarrow>
           andthen (boxed (res_result R job_id)) (\<lambda>v.
           andthen (deliver W output_file v) (\<lambda>_. ret True))
       | Inr Failed \<Rightarrow> throw (''Task '' @ job_id @ '' '' @ debug_task_status Failed)
       | Inr Cancelled \<Rightarrow> throw (''Task '' @ job_id @ '' '' @ debug_task_status Cancelled)
       | Inr _ \<Rightarrow> ret False
       | Inl error \<Rightarrow>
           andthen (note_line W (''Failed to get task status: '' @ error_display error @ ''. Retrying.''))
             (\<lambda>_. ret False))"

partial_function (option) poll_loop ::
    "'s quantum_resource \<Rightarrow> 's surroundings \<Rightarrow> string option \<Rightarrow> string \<Rightarrow> 's
      \<Rightarrow> ((string, unit) outcome \<times> 's) option" where
  "poll_loop R W output_file job_id s =
     (case load_running W s of (running, s1) \<Rightarrow>
        if \<not> running then Some (Err (''Task '' @ job_id @ '' cancelled''), s1)
        else (case poll_once R W output_file job_id s1 of (r, s2) \<Rightarrow>
          (case r of
             Ok over \<Rightarrow> if over then Some (Ok (), s2)
                        else poll_loop R W output_file job_id (sleep W s2)
           | Err e \<Rightarrow> Some (Err e, s2)
           | Panic \<Rightarrow> Some (Panic, s2))))"

text \<open>After the loop: the diagnostics of a failure, and the cleanup, whatever happened.\<close>

definition report_failure ::
    "'s quantum_resource \<Rightarrow> 's surroundings \<Rightarrow> string \<Rightarrow> string \<Rightarrow> ('s, string, unit) prog" where
  "report_failure R W job_id error =
     andthen (note_line W error) (\<lambda>_.
     attempt (res_logs R job_id) (\<lambda>r. case r of
         Inr diagnostics \<Rightarrow> if diagnostics \<noteq> [] then note_line W diagnostics else ret ()
       | Inl e \<Rightarrow> note_line W (''Unable to retrieve task logs: '' @ error_display e)))"

definition cleanup ::
    "'s quantum_resource \<Rightarrow> 's surroundings \<Rightarrow> string \<Rightarrow> ('s, string, unit) prog" where
  "cleanup R W job_id =
     attempt (res_stop R job_id) (\<lambda>r. case r of
         Inl e \<Rightarrow> note_line W (''Task cleanup failed: '' @ error_display e)
       | Inr _ \<Rightarrow> ret ())"

definition finish ::
    "'s quantum_resource \<Rightarrow> 's surroundings \<Rightarrow> string \<Rightarrow> string + unit \<Rightarrow> ('s, string, unit) prog" where
  "finish R W job_id result =
     andthen (case result of
         Inl error \<Rightarrow> report_failure R W job_id error
       | Inr _ \<Rightarrow> ret ()) (\<lambda>_.
     andthen (cleanup R W job_id) (\<lambda>_. from_result result))"

definition run_task ::
    "'s quantum_resource \<Rightarrow> 's surroundings \<Rightarrow> payload \<Rightarrow> string option \<Rightarrow> 's
      \<Rightarrow> ((string, unit) outcome \<times> 's) option" where
  "run_task R W p output_file s =
     (case boxed (res_start R p) s of
        (Err e, s') \<Rightarrow> Some (Err e, s')
      | (Panic, s') \<Rightarrow> Some (Panic, s')
      | (Ok job_id, s1) \<Rightarrow>
          (case (case say W (''Task ID: '' @ job_id) s1 of
                   (Ok _, s2) \<Rightarrow> poll_loop R W output_file job_id s2
                 | (Err e, s2) \<Rightarrow> Some (Err e, s2)
                 | (Panic, s2) \<Rightarrow> Some (Panic, s2)) of
             None \<Rightarrow> None
           | Some (Ok u, s3) \<Rightarrow> Some (finish R W job_id (Inr u) s3)
           | Some (Err e, s3) \<Rightarrow> Some (finish R W job_id (Inl e) s3)
           | Some (Panic, s3) \<Rightarrow> Some (Panic, s3)))"

section \<open>The calls made\<close>

datatype call =
    CallStart payload | CallStatus string | CallResult string | CallLogs string | CallStop string

definition recorded :: "call \<Rightarrow> ('s, 'e, 'a) prog \<Rightarrow> ('s \<times> call list, 'e, 'a) prog" where
  "recorded c m = (\<lambda>(s, calls). case m s of (r, s') \<Rightarrow> (r, (s', calls @ [c])))"

definition recording :: "'s quantum_resource \<Rightarrow> ('s \<times> call list) quantum_resource" where
  "recording R =
     \<lparr>res_start = (\<lambda>p. recorded (CallStart p) (res_start R p)),
      res_status = (\<lambda>j. recorded (CallStatus j) (res_status R j)),
      res_result = (\<lambda>j. recorded (CallResult j) (res_result R j)),
      res_logs = (\<lambda>j. recorded (CallLogs j) (res_logs R j)),
      res_stop = (\<lambda>j. recorded (CallStop j) (res_stop R j))\<rparr>"

definition unrecorded :: "'s surroundings \<Rightarrow> ('s \<times> call list) surroundings" where
  "unrecorded W =
     \<lparr>load_running = (\<lambda>(s, calls). case load_running W s of (b, s') \<Rightarrow> (b, (s', calls))),
      write_output = (\<lambda>l (s, calls). case write_output W l s of (r, s') \<Rightarrow> (r, (s', calls))),
      write_diagnostics = (\<lambda>l (s, calls). case write_diagnostics W l s of (r, s') \<Rightarrow> (r, (s', calls))),
      write_file = (\<lambda>f l (s, calls). case write_file W f l s of (r, s') \<Rightarrow> (r, (s', calls))),
      sleep = (\<lambda>(s, calls). (sleep W s, calls))\<rparr>"

lemma recorded_step: "recorded c m (s, calls) = (r, (s', calls')) \<longleftrightarrow>
    m s = (r, s') \<and> calls' = calls @ [c]"
  by (auto simp: recorded_def split: prod.splits)

lemma say_calls: "say (unrecorded W) line (s, calls) = (r, (s', calls')) \<Longrightarrow> calls' = calls"
  by (auto simp: say_def unrecorded_def run_result_def split: prod.splits)

lemma note_calls: "note_line (unrecorded W) line (s, calls) = (r, (s', calls')) \<Longrightarrow>
    calls' = calls \<and> r = Ok ()"
  by (auto simp: note_line_def unrecorded_def run_result_def attempt_def ret_def
      split: prod.splits outcome.splits elim: outcome_of.elims)

lemma deliver_calls: "deliver (unrecorded W) f v (s, calls) = (r, (s', calls')) \<Longrightarrow> calls' = calls"
proof (cases f)
  case (Some path)
  assume run: "deliver (unrecorded W) f v (s, calls) = (r, (s', calls'))"
  obtain q s1 where w: "write_file W path v s = (q, s1)" by (cases "write_file W path v s")
  then have "run_result (write_file (unrecorded W) path v) (s, calls) = (outcome_of q, (s1, calls))"
    by (simp add: run_result_def unrecorded_def)
  with run Some show ?thesis
    by (cases q) (auto simp: deliver_def andthen_def dest: say_calls)
qed (auto simp: deliver_def dest: say_calls)

lemma boxed_step:
  "boxed m s = (r, s') \<longleftrightarrow> (\<exists>q. m s = (q, s') \<and>
     r = (case q of Ok a \<Rightarrow> Ok a | Err e \<Rightarrow> Err (error_display e) | Panic \<Rightarrow> Panic))"
  by (auto simp: boxed_def map_err_def attempt_def throw_def ret_def split: prod.splits outcome.splits)

lemma boxed_Ok: "boxed m s = (Ok a, s') \<longleftrightarrow> m s = (Ok a, s')"
  by (auto simp: boxed_step split: outcome.splits)
    (metis outcome.exhaust outcome.simps(8,9,10) outcome.distinct(1,3))

lemma recording_simps [simp]:
  "res_start (recording R) p = recorded (CallStart p) (res_start R p)"
  "res_status (recording R) j = recorded (CallStatus j) (res_status R j)"
  "res_result (recording R) j = recorded (CallResult j) (res_result R j)"
  "res_logs (recording R) j = recorded (CallLogs j) (res_logs R j)"
  "res_stop (recording R) j = recorded (CallStop j) (res_stop R j)"
  by (simp_all add: recording_def)

lemma poll_once_calls:
  assumes "poll_once (recording R) (unrecorded W) f j (s, calls) = (r, (s', calls'))" and "r \<noteq> Panic"
  shows "calls' = calls @ [CallStatus j] \<and> r \<noteq> Ok True
    \<or> calls' = calls @ [CallStatus j, CallResult j] \<and> r \<noteq> Ok False"
proof -
  obtain q s1 where q: "res_status R j s = (q, s1)" by (cases "res_status R j s")
  then have st: "recorded (CallStatus j) (res_status R j) (s, calls) = (q, (s1, calls @ [CallStatus j]))"
    by (simp add: recorded_def)
  show ?thesis
  proof (cases "q = Ok Completed")
    case True
    obtain v s2 calls2 where v: "boxed (res_result (recording R) j) (s1, calls @ [CallStatus j]) = (v, (s2, calls2))"
      by (cases "boxed (res_result (recording R) j) (s1, calls @ [CallStatus j])") auto
    then have c2: "calls2 = calls @ [CallStatus j, CallResult j]" by (auto simp: boxed_step recorded_step)
    from assms(1) True st v show ?thesis
      by (cases v) (auto simp: c2 poll_once_def attempt_def andthen_def ret_def
          split: prod.splits outcome.splits dest!: deliver_calls)
  next
    case False
    with assms st show ?thesis
      by (auto simp: poll_once_def attempt_def andthen_def ret_def throw_def
          split: prod.splits outcome.splits task_status.splits dest!: note_calls)
  qed
qed

text \<open>The calls of the loop: a number of status queries, then perhaps the result.\<close>

definition loop_calls :: "string \<Rightarrow> (string, unit) outcome \<Rightarrow> call list \<Rightarrow> bool" where
  "loop_calls j r cs \<longleftrightarrow> (\<exists>n. 0 < n \<and> cs = replicate n (CallStatus j) @ [CallResult j]
     \<or> (\<forall>u. r \<noteq> Ok u) \<and> cs = replicate n (CallStatus j))"

lemma loop_calls_Cons: "loop_calls j r cs \<Longrightarrow> loop_calls j r (CallStatus j # cs)"
  unfolding loop_calls_def by (metis append_Cons replicate_Suc zero_less_Suc)

lemma poll_loop_calls:
  "poll_loop R' W' f j s0 = Some q \<Longrightarrow>
    \<forall>R W s calls r s' calls'. R' = recording R \<longrightarrow> W' = unrecorded W \<longrightarrow> s0 = (s, calls) \<longrightarrow>
      q = (r, (s', calls')) \<longrightarrow> r \<noteq> Panic \<longrightarrow> (\<exists>cs. calls' = calls @ cs \<and> loop_calls j r cs)"
proof (induction R' W' f j s0 q rule: poll_loop.raw_induct [rotated, consumes 1])
  case (1 loop R' W' f j s0 q)
  show ?case
  proof (intro allI impI)
    fix R W s calls r s' calls'
    assume eq: "R' = recording R" "W' = unrecorded W" "s0 = (s, calls)" "q = (r, (s', calls'))" and np: "r \<noteq> Panic"
    obtain running s1 where run: "load_running W s = (running, s1)" by (cases "load_running W s")
    then have l: "load_running W' s0 = (running, (s1, calls))" by (simp add: eq unrecorded_def)
    show "\<exists>cs. calls' = calls @ cs \<and> loop_calls j r cs"
    proof (cases running)
      case False
      with 1(2) l eq have "r = Err (''Task '' @ j @ '' cancelled'')" "calls' = calls" by simp_all
      then show ?thesis by (auto simp: loop_calls_def intro: exI [of _ 0])
    next
      case True
      obtain v s2 calls2 where p: "poll_once R' W' f j (s1, calls) = (v, (s2, calls2))"
        by (cases "poll_once R' W' f j (s1, calls)") auto
      note body = 1(2) [unfolded l prod.case p]
      show ?thesis
      proof (cases v)
        case (Ok over)
        show ?thesis
        proof (cases over)
          case False
          with Ok p eq have c2: "calls2 = calls @ [CallStatus j]"
            using poll_once_calls [of R W f j s1 calls v s2 calls2] by auto
          have sl: "sleep W' (s2, calls2) = (sleep W s2, calls2)" by (simp add: eq unrecorded_def)
          from body True Ok False sl have "loop R' W' f j (sleep W s2, calls2) = Some q" by simp
          from 1(1) [OF this] eq np obtain cs where "calls' = calls2 @ cs" "loop_calls j r cs" by blast
          with c2 show ?thesis using loop_calls_Cons by fastforce
        next
          case d: True
          with Ok p eq have "calls2 = calls @ [CallStatus j, CallResult j]"
            using poll_once_calls [of R W f j s1 calls v s2 calls2] by auto
          moreover from body True Ok d eq have "r = Ok ()" "calls' = calls2" by simp_all
          ultimately show ?thesis by (auto simp: loop_calls_def intro!: exI [of _ 1])
        qed
      next
        case (Err e)
        with p eq have "calls2 = calls @ [CallStatus j] \<or> calls2 = calls @ [CallStatus j, CallResult j]"
          using poll_once_calls [of R W f j s1 calls v s2 calls2] by auto
        moreover from body True Err eq have "r = Err e" "calls' = calls2" by simp_all
        ultimately show ?thesis by (auto simp: loop_calls_def intro!: exI [of _ 1])
      next
        case Panic
        with body True eq np show ?thesis by simp
      qed
    qed
  qed
qed

lemma cleanup_calls:
  assumes "cleanup (recording R) (unrecorded W) j (s, calls) = (r, (s', calls'))" and "r \<noteq> Panic"
  shows "r = Ok () \<and> calls' = calls @ [CallStop j]"
  using assms
  by (auto simp: cleanup_def attempt_def recorded_step ret_def
      split: prod.splits outcome.splits dest!: note_calls)

lemma report_calls:
  assumes "report_failure (recording R) (unrecorded W) j e (s, calls) = (r, (s', calls'))"
    and "r \<noteq> Panic"
  shows "r = Ok () \<and> calls' = calls @ [CallLogs j]"
proof -
  obtain q s1 calls1 where n: "note_line (unrecorded W) e (s, calls) = (q, (s1, calls1))"
    by (cases "note_line (unrecorded W) e (s, calls)") auto
  from note_calls [OF n] have n': "q = Ok ()" "calls1 = calls" by simp_all
  show ?thesis
    using assms n
    by (auto simp: n' report_failure_def andthen_def attempt_def recorded_step ret_def
        split: prod.splits outcome.splits if_splits dest!: note_calls)
qed

lemma finish_calls:
  assumes "finish (recording R) (unrecorded W) j res (s, calls) = (r, (s', calls'))" and "r \<noteq> Panic"
  shows "r = outcome_of res
    \<and> calls' = calls @ (case res of Inl _ \<Rightarrow> [CallLogs j, CallStop j] | Inr _ \<Rightarrow> [CallStop j])"
proof -
  let ?R = "recording R" and ?W = "unrecorded W"
  let ?first = "case res of Inl e \<Rightarrow> report_failure ?R ?W j e | Inr _ \<Rightarrow> ret ()"
  obtain q s1 calls1 where f: "?first (s, calls) = (q, (s1, calls1))"
    by (cases "?first (s, calls)") auto
  have "q \<noteq> Panic" using assms f by (auto simp: finish_def andthen_def)
  with f have q: "q = Ok ()"
    and c1: "calls1 = calls @ (case res of Inl _ \<Rightarrow> [CallLogs j] | Inr _ \<Rightarrow> [])"
    by (cases res; auto simp: ret_def dest!: report_calls)+
  obtain p s2 calls2 where c: "cleanup ?R ?W j (s1, calls1) = (p, (s2, calls2))"
    by (cases "cleanup ?R ?W j (s1, calls1)") auto
  have "p \<noteq> Panic" using assms f c q by (auto simp: finish_def andthen_def)
  from cleanup_calls [OF c this] have p: "p = Ok ()" and c2: "calls2 = calls1 @ [CallStop j]" by auto
  from assms f c q p have "r = outcome_of res" "calls' = calls2"
    by (auto simp: finish_def andthen_def from_result_def)
  with c1 c2 show ?thesis by (cases res) auto
qed


section \<open>Termination\<close>

lemma poll_loop_returns:
  fixes clock :: "'s \<Rightarrow> nat"
  assumes "\<forall>s. deadline \<le> clock s \<longrightarrow> \<not> fst (load_running W s)"
    and "\<forall>s. clock s \<le> clock (snd (load_running W s))"
    and "\<forall>s. clock s \<le> clock (snd (poll_once R W f j s))"
    and "\<forall>s. clock s < clock (sleep W s)"
  shows "\<exists>q. poll_loop R W f j s = Some q"
proof (induction "deadline - clock s" arbitrary: s rule: less_induct)
  case less
  obtain running s1 where l: "load_running W s = (running, s1)" by (cases "load_running W s")
  obtain r s2 where p: "poll_once R W f j s1 = (r, s2)" by (cases "poll_once R W f j s1")
  show ?case
  proof (cases "running \<and> r = Ok False")
    case True
    with l assms(1) have d: "clock s < deadline" by (metis fst_conv not_less)
    from assms(2) l have "clock s \<le> clock s1" by (metis snd_conv)
    also from assms(3) p have "clock s1 \<le> clock s2" by (metis snd_conv)
    also from assms(4) have "clock s2 < clock (sleep W s2)" by blast
    finally have "deadline - clock (sleep W s2) < deadline - clock s" using d by simp
    from less [OF this] l p True show ?thesis by (subst poll_loop.simps) simp
  next
    case False
    with l p show ?thesis by (subst poll_loop.simps) (auto split: outcome.split)
  qed
qed


section \<open>Resources whose terminal states are final\<close>

text \<open>
  What the runner relies on for a cleanup without effect: a terminal answer settles a
  task, collecting its result or diagnostics keeps it settled, as the runner's own
  surroundings do, and stopping a settled task does nothing.
\<close>

locale polled_resource =
  fixes R :: "'s quantum_resource"
    and W :: "'s surroundings"
    and settled :: "string \<Rightarrow> 's \<Rightarrow> bool"
  assumes status_settles: "res_status R j s = (Ok st, s') \<Longrightarrow> terminal st \<Longrightarrow> settled j s'"
    and result_settled: "settled j s \<Longrightarrow> settled j (snd (res_result R j s))"
    and output_settled: "settled j s \<Longrightarrow> settled j (snd (write_output W l s))"
    and file_settled: "settled j s \<Longrightarrow> settled j (snd (write_file W path l s))"
    and stop_settled: "settled j s \<Longrightarrow> res_stop R j s = (Ok (), s)"
begin

lemma say_settled: "settled j s \<Longrightarrow> settled j (snd (say W l s))"
  using output_settled [of j s "l @ [nl]"] by (auto simp: say_def run_result_def split: prod.split)

lemma deliver_settled: "settled j s \<Longrightarrow> settled j (snd (deliver W f v s))"
proof (cases f)
  case (Some path)
  assume s: "settled j s"
  obtain q s1 where w: "write_file W path v s = (q, s1)" by (cases "write_file W path v s")
  with file_settled [OF s, of path v] have "settled j s1" by simp
  with Some w say_settled [of j s1] show ?thesis
    by (cases q) (simp_all add: deliver_def andthen_def run_result_def)
qed (simp add: deliver_def say_settled)

lemma poll_once_settled:
  assumes "poll_once R W f j s = (Ok True, s')"
  shows "settled j s'"
proof -
  obtain q s1 where q: "res_status R j s = (q, s1)" by (cases "res_status R j s")
  with assms have c: "q = Ok Completed"
    by (auto simp: poll_once_def attempt_def andthen_def throw_def ret_def
        split: outcome.splits task_status.splits prod.splits)
  with q have s1: "settled j s1" using status_settles by simp
  from assms q c have run: "andthen (boxed (res_result R j)) (\<lambda>v. andthen (deliver W f v) (\<lambda>_. ret True)) s1
      = (Ok True, s')" by (simp add: poll_once_def attempt_def)
  then obtain v s2 where "boxed (res_result R j) s1 = (Ok v, s2)" "andthen (deliver W f v) (\<lambda>_. ret True) s2 = (Ok True, s')"
    by (auto simp: andthen_Ok)
  moreover from this(1) have "s2 = snd (res_result R j s1)" by (auto simp: boxed_step)
  ultimately show ?thesis
    using deliver_settled [of j s2 f v] result_settled [OF s1] by (auto simp: andthen_Ok ret_def)
qed

lemma poll_loop_settled: "poll_loop R W f j s = Some (Ok u, s') \<Longrightarrow> settled j s'"
proof -
  have "poll_loop R' W' f' j' s = Some q \<Longrightarrow> R' = R \<longrightarrow> W' = W \<longrightarrow> (\<forall>s'. q = (Ok u, s') \<longrightarrow> settled j' s')"
    for R' W' f' j' q
  proof (induction R' W' f' j' s q rule: poll_loop.raw_induct [rotated, consumes 1])
    case (1 loop R' W' f' j' s q)
    show ?case
    proof (intro impI allI)
      fix s' assume eq: "R' = R" "W' = W" "q = (Ok u, s')"
      obtain running s1 where l: "load_running W s = (running, s1)" by (cases "load_running W s")
      obtain r s2 where p: "poll_once R W f' j' s1 = (r, s2)" by (cases "poll_once R W f' j' s1")
      note body = 1(2) [unfolded eq l prod.case p]
      show "settled j' s'"
      proof (cases "r = Ok False")
        case True
        with body have "loop R W f' j' (sleep W s2) = Some (Ok u, s')" by (simp split: if_splits)
        from 1(1) [OF this] show ?thesis by blast
      next
        case False
        with body have "r = Ok True \<and> s2 = s'" by (auto split: if_splits outcome.splits)
        with p show ?thesis using poll_once_settled by blast
      qed
    qed
  qed
  then show "poll_loop R W f j s = Some (Ok u, s') \<Longrightarrow> settled j s'" by blast
qed

lemma finish_settled:
  assumes "settled j s"
  shows "finish R W j (Inr ()) s = (Ok (), s)"
proof -
  have "cleanup R W j s = (Ok (), s)"
    using stop_settled [OF assms] by (simp add: cleanup_def attempt_def ret_def)
  moreover have "finish R W j (Inr ()) s = andthen (cleanup R W j) (\<lambda>_. from_result (Inr ())) s"
    unfolding finish_def sum.case by (rule andthen_step) (rule fun_cong [OF ret_def])
  ultimately have "finish R W j (Inr ()) s = from_result (Inr ()) s"
    by (simp only: andthen_step [where m = "cleanup R W j" and s = s])
  then show ?thesis by (simp only: from_result_def outcome_of.simps)
qed

lemma run_task_Ok:
  assumes "run_task R W p f s = Some (Ok (), s')"
  shows "\<exists>j s1 s2. res_start R p s = (Ok j, s1) \<and> say W (''Task ID: '' @ j) s1 = (Ok (), s2)
    \<and> poll_loop R W f j s2 = Some (Ok (), s') \<and> settled j s'"
proof -
  obtain q0 s1 where q0: "boxed (res_start R p) s = (q0, s1)" by (cases "boxed (res_start R p) s")
  with assms obtain j where start: "boxed (res_start R p) s = (Ok j, s1)"
    by (cases q0) (simp_all add: run_task_def)
  obtain q s2 where say: "say W (''Task ID: '' @ j) s1 = (q, s2)" by (cases "say W (''Task ID: '' @ j) s1")
  note run = assms [unfolded run_task_def start say prod.case outcome.case]
  have fail: "finish R W j (Inl e) t \<noteq> (Ok (), t')" for e t t'
    by (auto simp: finish_def andthen_Ok from_result_def)
  have q: "q = Ok ()"
  proof (cases q)
    case (Err e)
    with run fail [of e s2] show ?thesis by (simp cong del: outcome.case_cong)
  qed (use run in \<open>simp_all cong del: outcome.case_cong\<close>)
  obtain v s3 where loop0: "poll_loop R W f j s2 = Some (v, s3)"
    using run q by (cases "poll_loop R W f j s2") (auto cong del: outcome.case_cong)
  have "v = Ok ()"
  proof (cases v)
    case (Err e)
    with run q loop0 fail [of e s3] show ?thesis by (simp cong del: outcome.case_cong)
  qed (use run q loop0 in \<open>simp_all cong del: outcome.case_cong\<close>)
  with run q loop0 have loop: "poll_loop R W f j s2 = Some (Ok (), s3)"
      and fin: "finish R W j (Inr ()) s3 = (Ok (), s')"
    by (simp_all cong del: outcome.case_cong)
  from poll_loop_settled [OF loop] have st: "settled j s3" .
  from fin finish_settled [OF st] have "s3 = s'" by simp
  moreover from start have "res_start R p s = (Ok j, s1)"
    by (simp add: boxed_Ok)
  ultimately show ?thesis using say q loop st by blast
qed

end

section \<open>The runner on a Maestro resource\<close>

definition maestro_resource :: "'w maestro_env \<Rightarrow> (maestro_local \<times> 'w) quantum_resource" where
  "maestro_resource E =
     \<lparr>res_start = maestro_task_start E, res_status = maestro_task_status E,
      res_result = maestro_task_result E, res_logs = maestro_task_logs E,
      res_stop = maestro_task_stop E\<rparr>"

text \<open>The surroundings of the process: they do not touch the resource's own data.\<close>

definition on_world :: "'w surroundings \<Rightarrow> ('x \<times> 'w) surroundings" where
  "on_world W =
     \<lparr>load_running = (\<lambda>(m, w). case load_running W w of (b, w') \<Rightarrow> (b, (m, w'))),
      write_output = (\<lambda>l (m, w). case write_output W l w of (r, w') \<Rightarrow> (r, (m, w'))),
      write_diagnostics = (\<lambda>l (m, w). case write_diagnostics W l w of (r, w') \<Rightarrow> (r, (m, w'))),
      write_file = (\<lambda>f l (m, w). case write_file W f l w of (r, w') \<Rightarrow> (r, (m, w'))),
      sleep = (\<lambda>(m, w). (m, sleep W w))\<rparr>"

lemma task_stop_stopped: "stopped m tid \<Longrightarrow> maestro_task_stop E tid (m, w) = (Ok (), (m, w))"
  by (auto simp: stopped_def task_stop_eq andthen_def task_status_cached ret_def)

lemma stopped_grows: "stopped m tid \<Longrightarrow> cache_grows (m, w) (m', w') \<Longrightarrow> stopped m' tid"
  unfolding stopped_def using cache_grows_task_of [of m w m' w' tid]
  unfolding cache_grows_def fst_conv by metis

lemma stopped_result: "stopped (fst s) j \<Longrightarrow> stopped (fst (snd (maestro_task_result E j s))) j"
  using stopped_grows [of "fst s" j "snd s"] withinE [OF grows_task_result, of s E j]
  by (metis prod.collapse)

interpretation polled_maestro: polled_resource "maestro_resource E" "on_world W"
    "\<lambda>j (m, w). stopped m j" for E W
proof
  fix j :: string and s s' :: "maestro_local \<times> 'a" and st
  assume "res_status (maestro_resource E) j s = (Ok st, s')" "terminal st"
  then show "case s' of (m, w) \<Rightarrow> stopped m j"
    by (cases s; cases s') (auto simp: maestro_resource_def intro: task_status_stopped)
next
  fix j :: string and s :: "maestro_local \<times> 'a"
  assume "case s of (m, w) \<Rightarrow> stopped m j"
  then show "case snd (res_result (maestro_resource E) j s) of (m, w) \<Rightarrow> stopped m j"
    using stopped_result [of s j E] by (auto simp: maestro_resource_def split: prod.splits)
next
  fix j l :: string and s :: "maestro_local \<times> 'a"
  assume "case s of (m, w) \<Rightarrow> stopped m j"
  then show "case snd (write_output (on_world W) l s) of (m, w) \<Rightarrow> stopped m j"
    by (auto simp: on_world_def split: prod.splits)
next
  fix j path l :: string and s :: "maestro_local \<times> 'a"
  assume "case s of (m, w) \<Rightarrow> stopped m j"
  then show "case snd (write_file (on_world W) path l s) of (m, w) \<Rightarrow> stopped m j"
    by (auto simp: on_world_def split: prod.splits)
next
  fix j :: string and s :: "maestro_local \<times> 'a"
  assume "case s of (m, w) \<Rightarrow> stopped m j"
  then show "res_stop (maestro_resource E) j s = (Ok (), s)"
    by (auto simp: maestro_resource_def task_stop_stopped split: prod.splits)
qed

text \<open>
  After a Maestro task that completed, the runner's cleanup has no effect: when the
  runner succeeds on a Maestro resource, the state it leaves is the one in which its
  loop ended, so that \<open>task_stop\<close> sent nothing to the server and failed for nothing.
\<close>

lemma maestro_run_quiet_cleanup:
  assumes "run_task (maestro_resource E) (on_world W) p f s = Some (Ok (), (m', w'))"
  shows "\<exists>job s1 s2. maestro_task_start E p s = (Ok job, s1)
    \<and> say (on_world W) (''Task ID: '' @ job) s1 = (Ok (), s2)
    \<and> poll_loop (maestro_resource E) (on_world W) f job s2 = Some (Ok (), (m', w'))
    \<and> maestro_task_stop E job (m', w') = (Ok (), (m', w'))"
  using polled_maestro.run_task_Ok [OF assms]
  by (auto simp: maestro_resource_def task_stop_stopped)

end
