(* ===== verification/WitnessesRunner.thy ===== *)
theory WitnessesRunner
  imports WitnessesMaestro TaskRunner
begin

text \<open>
  The properties of the service and of the task runner at concrete inputs: resources
  whose answers are fixed, surroundings that accept every write, and a file system of
  one file.
\<close>

section \<open>The service\<close>

definition sample_env :: env where
  "sample_env k = (if k = ''QRMI_JOB_QPU_RESOURCES'' then Value '' a''
     else if k = ''QRMI_JOB_QPU_TYPES'' then Value ''maestro-local'' else NotPresent)"

definition sample_ctors :: "('s, string) constructors" where
  "sample_ctors = \<lparr>new_ibm_quantum_system = ret, new_qiskit_runtime_service = ret,
     new_ibm_quantum_compute_service = ret, new_pasqal_cloud = ret, new_pasqal_local = ret,
     new_alice_bob_felis = ret, new_iqm_server = ret, new_maestro_local = ret, new_oqtopus = ret\<rparr>"

definition sample_service :: "(unit, string) service_env" where
  "sample_service = \<lparr>ctors = sample_ctors, probe = (\<lambda>r. ret (\<lparr>status_code = Online, status_reason = None,
     healthy = None, busy = None, capacity = None, pending_job_count = None\<rparr>, r))\<rparr>"

lemma sample_service_new:
  "service_new sample_service sample_env () = (Ok [''a'' \<mapsto> ''a''], ())"
proof -
  have "split_str '','' '' a'' = ['' a'']" "split_str '','' ''maestro-local'' = [''maestro-local'']"
    by code_simp+
  moreover have "trim '' a'' = ''a''" by code_simp
  ultimately show ?thesis
    by (simp add: service_new_def get_job_qpu_resources_and_types_def job_env_list_def sample_env_def
      andthen_def from_result_def from_qpu_type_str_def sample_service_def sample_ctors_def ret_def Let_def)
qed

theorem service_only_online_witness:
  "\<exists>qpus qpu_types. get_job_qpu_resources_and_types sample_env = Inr (qpus, qpu_types)
     \<and> length qpus = length qpu_types \<and> probed_online sample_service (zip qpus qpu_types) ''a'' ''a''"
  by (rule service_only_online [OF sample_service_new]) simp

section \<open>The runner's input\<close>

definition sample_runner :: "runner_lib" where
  "sample_runner = \<lparr>serde = sample_lib, raw_parse = jparse sample_lib, serde_message = (\<lambda>_. ''invalid''),
     read_to_string = (\<lambda>path. if path = ''f'' then Inr ''R'' else Inl ''no such file'')\<rparr>"

lemma sample_native: "native_document sample_lib [(''schema_version'', JInt 2)]"
  by (simp add: native_document_def FOREIGN_def LEGACY_def)

lemma sample_runner_new:
  "runner_type_new sample_runner ''maestro-local'' ''f'' =
     Inr (native_input sample_lib [(''schema_version'', JInt 2)])"
proof -
  have L: "serde sample_runner = sample_lib" by (simp add: sample_runner_def)
  have "maestro_input sample_runner (JObj [(''schema_version'', JInt 2)]) =
      Inr (native_input sample_lib [(''schema_version'', JInt 2)])"
    by (simp add: maestro_input_def jkeys_def FOREIGN_def LEGACY_def native_request_def jget_def
        native_payload_def is_object_def L native_input_def)
  then show ?thesis
    by (simp add: runner_type_new_def L) (simp add: sample_runner_def)
qed

section \<open>The runner\<close>

definition accepting :: "'s surroundings" where
  "accepting = \<lparr>load_running = (\<lambda>s. (True, s)), write_output = (\<lambda>l s. (Inr (), s)),
     write_diagnostics = (\<lambda>l s. (Inr (), s)), write_file = (\<lambda>f l s. (Inr (), s)), sleep = id\<rparr>"

definition completing :: "'s quantum_resource" where
  "completing = \<lparr>res_start = (\<lambda>p. ret ''7''), res_status = (\<lambda>j. ret Completed),
     res_result = (\<lambda>j. ret ''r''), res_logs = (\<lambda>j. ret []), res_stop = (\<lambda>j. ret ())\<rparr>"

lemmas runner_steps =
  run_task_def boxed_def map_err_def say_def run_result_def attempt_def andthen_def ret_def throw_def
  poll_once_def deliver_def finish_def cleanup_def from_result_def

lemma poll_loop_once:
  "load_running W s = (True, s1) \<Longrightarrow> poll_once R W f j s1 = (Ok True, s2) \<Longrightarrow>
     poll_loop R W f j s = Some (Ok (), s2)"
  by (subst poll_loop.simps) simp

lemma run_task_once:
  assumes "res_start R p s = (Ok j, s1)" and "say W (''Task ID: '' @ j) s1 = (Ok (), s2)"
    and "load_running W s2 = (True, s3)" and "poll_once R W f j s3 = (Ok True, s4)"
    and "res_stop R j s4 = (Ok (), s5)"
  shows "run_task R W p f s = Some (Ok (), s5)"
proof -
  from assms(1) have "boxed (res_start R p) s = (Ok j, s1)" by (simp add: boxed_Ok)
  moreover have "finish R W j (Inr ()) s4 = (Ok (), s5)"
    by (simp add: finish_def cleanup_def andthen_def attempt_def ret_def from_result_def assms(5)
        cong del: outcome.case_cong)
  ultimately show ?thesis
    by (simp add: run_task_def assms(2) poll_loop_once [OF assms(3,4)] del: append.simps cong del: outcome.case_cong)
qed

lemma accepting_says: "say accepting l s = (Ok (), s)" "say (unrecorded accepting) l t = (Ok (), t)"
    "say (on_world accepting) l u = (Ok (), u)"
  by (simp_all add: say_def run_result_def accepting_def unrecorded_def on_world_def split: prod.split)

lemma sample_run:
  "run_task (recording completing) (unrecorded accepting) p None ((), []) =
     Some (Ok (), ((), [CallStart p, CallStatus ''7'', CallResult ''7'', CallStop ''7'']))"
proof (rule run_task_once)
  show "res_start (recording completing) p ((), []) = (Ok ''7'', ((), [CallStart p]))"
    by (simp add: recording_def recorded_def completing_def ret_def)
  show "poll_once (recording completing) (unrecorded accepting) None ''7'' ((), [CallStart p]) =
      (Ok True, ((), [CallStart p, CallStatus ''7'', CallResult ''7'']))"
    by (simp add: poll_once_def attempt_def andthen_def boxed_def map_err_def deliver_def accepting_says
        recording_def recorded_def completing_def ret_def)
  show "say (unrecorded accepting) (''Task ID: '' @ ''7'') ((), [CallStart p]) = (Ok (), ((), [CallStart p]))"
    by (rule accepting_says)
  show "load_running (unrecorded accepting) ((), [CallStart p]) = (True, ((), [CallStart p]))"
    by (simp add: unrecorded_def accepting_def)
qed (simp add: recording_def recorded_def completing_def ret_def)


definition ticking :: "nat surroundings" where
  "ticking = \<lparr>load_running = (\<lambda>t. (t < 3, t)), write_output = (\<lambda>l s. (Inr (), s)),
     write_diagnostics = (\<lambda>l s. (Inr (), s)), write_file = (\<lambda>f l s. (Inr (), s)), sleep = Suc\<rparr>"

definition never_ready :: "nat quantum_resource" where
  "never_ready = completing\<lparr>res_status := (\<lambda>j. ret Queued)\<rparr>"


lemma sample_maestro_started:
  "maestro_task_start (replaying sample_lib) (payload.MaestroLocal ''R'' ''request'' 1 0 0 [] []) (ready_maestro, ''OK S'' # ws) =
     (Ok ''7'', (ready_maestro, ws))"
proof -
  have "submit (replaying sample_lib) 1 ''R'' (\<lparr>socket = ''s'', negotiated = True\<rparr>, ''OK S'' # ws) =
      (Ok 7, (\<lparr>socket = ''s'', negotiated = True\<rparr>, ws))"
    using submit_local [of "replaying sample_lib" "''R''" "JObj [(''schema_version'', JInt 2)]" 1] sample_local
    by (simp add: negotiate_def andthen_def send_submission_Ok call_with_Ok sample_fits replaying_exchange
      sample_plain sample_replies [simplified] sample_created_def sample_u32)
  then show ?thesis
    by (simp add: maestro_task_start_def eq_ignore_ascii_case_def start_request_def andthen_def from_result_def
        is_object_def reading_def get_session_id_def ready_maestro_def sample_maestro_def native_api_def
        updating_def modify_def ret_def forget_task_def fun_upd_idem)
qed

lemma ready_task: "task_of ready_maestro ''7'' = Inr sample_task" "terminal_tasks ready_maestro = (\<lambda>_. None)"
  by (simp_all add: ready_maestro_def sample_maestro_def task_of_def get_session_id_def sample_task_def)

lemma ready_completed:
  "maestro_task_status (replaying sample_lib) ''7''
     (ready_maestro, ''OK YES'' # ''OK NO'' # ''OK YES'' # ''OK NO'' # ws) =
     (Ok Completed, (remember (1, 7) Completed ready_maestro, ws))"
proof -
  have "server_task_status (replaying sample_lib) sample_task
      (ready_maestro, ''OK YES'' # ''OK NO'' # ''OK YES'' # ''OK NO'' # ws) = (Ok Completed, (ready_maestro, ws))"
    by (simp add: server_task_status_def maestro_steps)
  then show ?thesis
    by (simp add: maestro_task_status_def reading_def andthen_def ready_task get_state_def Let_def
        attempt_def from_result_def ret_def terminal_def updating_def modify_def) (simp add: sample_task_def)
qed

lemma ready_done: "task_of (remember (1, 7) Completed ready_maestro) ''7'' = Inr sample_task"
    "terminal_tasks (remember (1, 7) Completed ready_maestro) (1, 7) = Some Completed"
  using ready_task(1) by (simp_all add: remember_def task_of_def get_session_id_def split: option.splits)

lemma ready_cached:
  "maestro_task_status (replaying sample_lib) ''7'' (remember (1, 7) Completed ready_maestro, ws) =
     (Ok Completed, (remember (1, 7) Completed ready_maestro, ws))"
  by (simp add: maestro_task_status_def reading_def andthen_def ready_done get_state_def Let_def ret_def
      sample_task_def [symmetric]) (simp add: sample_task_def ready_done ret_def)

lemma ready_result:
  "maestro_task_result (replaying sample_lib) ''7'' (remember (1, 7) Completed ready_maestro, [''OK YES'', ''OK 7'']) =
     (Ok ''7'', (remember (1, 7) Completed ready_maestro, []))"
  by (simp add: maestro_task_result_def andthen_def ready_done ready_cached maestro_steps get_results_as_string_at_def)

lemma ready_stopped:
  "maestro_task_stop (replaying sample_lib) ''7'' (remember (1, 7) Completed ready_maestro, ws) =
     (Ok (), (remember (1, 7) Completed ready_maestro, ws))"
  by (simp add: maestro_task_stop_def reading_def andthen_def ready_done ready_cached terminal_def ret_def)

lemma sample_maestro_run_task:
  "run_task (maestro_resource (replaying sample_lib)) (on_world accepting)
     (payload.MaestroLocal ''R'' ''request'' 1 0 0 [] []) None
     (ready_maestro, [''OK S'', ''OK YES'', ''OK NO'', ''OK YES'', ''OK NO'', ''OK YES'', ''OK 7'']) =
     Some (Ok (), (remember (1, 7) Completed ready_maestro, []))"
proof (rule run_task_once)
  let ?polled = "[''OK YES'', ''OK NO'', ''OK YES'', ''OK NO'', ''OK YES'', ''OK 7'']"
  show "res_start (maestro_resource (replaying sample_lib)) (payload.MaestroLocal ''R'' ''request'' 1 0 0 [] [])
      (ready_maestro, ''OK S'' # ?polled) = (Ok ''7'', (ready_maestro, ?polled))"
    by (simp only: maestro_resource_def quantum_resource.select_convs sample_maestro_started)
  show "say (on_world accepting) (''Task ID: '' @ ''7'') (ready_maestro, ?polled) = (Ok (), (ready_maestro, ?polled))"
    by (rule accepting_says)
  show "load_running (on_world accepting) (ready_maestro, ?polled) = (True, (ready_maestro, ?polled))"
    by (simp add: on_world_def accepting_def)
  show "poll_once (maestro_resource (replaying sample_lib)) (on_world accepting) None ''7'' (ready_maestro, ?polled) =
      (Ok True, (remember (1, 7) Completed ready_maestro, []))"
    by (simp add: poll_once_def attempt_def andthen_def boxed_def map_err_def deliver_def accepting_says
        maestro_resource_def ready_completed ready_result ret_def)
  show "res_stop (maestro_resource (replaying sample_lib)) ''7'' (remember (1, 7) Completed ready_maestro, []) =
      (Ok (), (remember (1, 7) Completed ready_maestro, []))"
    by (simp add: maestro_resource_def ready_stopped)
qed

end
