(* ===== verification/ProviderFilter.thy ===== *)
theory ProviderFilter
  imports CommonConfig
begin

text \<open>
  The filters of the IBM resource providers (\<open>provider_filter.rs\<close> of the Quantum
  Compute Service, the Qiskit Runtime Service and the Quantum System) and the backend
  configuration they look at (\<open>src/ibm/models/backend_configuration.rs\<close>).  Glob
  patterns are the crate \<open>glob\<close>: compiling and matching are parameters.
\<close>

record 'p glob =
  pattern_new :: "string \<Rightarrow> string + 'p"
  pattern_matches :: "'p \<Rightarrow> string \<Rightarrow> bool"

datatype status_filter = Any | OnlineOnly

section \<open>Backend configuration\<close>

text \<open>A floating point number is kept as its text.\<close>

record gate_config =
  gate_name :: string
  gate_parameters :: "string list option"
  gate_coupling_map :: "u64 list list option"
  qasm_def :: "string option"
  gate_conditional :: bool
  latency_map :: "u64 list list option"
  gate_description :: "string option"

record processor_type =
  family :: string
  revision :: string
  segment_name :: "string option"

record timing_constraints =
  granularity :: u64
  min_length :: u64
  pulse_alignment :: u64
  acquire_alignment :: u64

record backend_configuration =
  bc_backend_name :: string
  backend_version :: string
  n_qubits :: u64
  basis_gates :: "string list"
  gates :: "gate_config list"
  local :: bool
  simulator :: bool
  conditional :: bool
  memory :: bool
  bc_max_shots :: u64
  coupling_map :: "u64 list list option"
  max_experiments :: "u64 option"
  n_registers :: u64
  register_map :: "u64 list list option"
  configurable :: bool
  credits_required :: bool
  online_date :: "string option"
  display_name :: "string option"
  description :: "string option"
  tags :: "string list option"
  rep_delay_range :: "string list option"
  default_rep_delay :: "string option"
  dynamic_reprate_enabled :: bool
  measure_esp_enabled :: bool
  supported_instructions :: "string list"
  supported_features :: "string list"
  quantum_volume :: "u64 option"
  processor :: "processor_type option"
  qubit_lo_range :: "string list list option"
  meas_lo_range :: "string list list option"
  timing :: "timing_constraints option"

section \<open>Quantum Compute Service\<close>

record 'p compute_filter =
  num_qubits :: "u32 option"
  max_shots :: "u64 option"
  name_pattern :: "'p option"
  is_simulator :: bool
  filter_status :: status_filter

definition compute_default :: "'p compute_filter" where
  "compute_default = \<lparr>num_qubits = None, max_shots = None, name_pattern = None,
     is_simulator = False, filter_status = Any\<rparr>"

definition bad_value :: "string \<Rightarrow> string \<Rightarrow> string \<Rightarrow> qrmi_error" where
  "bad_value key v expected =
     InvalidInput (''invalid value for filter '' @ [CHR 0x27] @ key @ [CHR 0x27] @ '': '' @ debug_str v
       @ '' ('' @ expected @ '')'')"

definition quoted :: "string \<Rightarrow> string" where
  "quoted s = [CHR 0x27] @ s @ [CHR 0x27]"

definition bad_segment :: "string \<Rightarrow> qrmi_error" where
  "bad_segment pair = InvalidInput (''invalid filter segment '' @ debug_str pair
     @ '': expected '' @ quoted ''key=value'')"

definition bad_glob :: "string \<Rightarrow> string \<Rightarrow> qrmi_error" where
  "bad_glob v e = InvalidInput (''invalid glob pattern for '' @ quoted ''name'' @ '' filter ''
     @ debug_str v @ '': '' @ e)"

text \<open>One \<open>match key.trim()\<close> of the loop.\<close>

definition compute_set ::
    "'p glob \<Rightarrow> string \<Rightarrow> string \<Rightarrow> 'p compute_filter \<Rightarrow> qrmi_error + 'p compute_filter" where
  "compute_set G key v f =
     (if key = ''num_qubits'' then (case parse_u32 (trim v) of
         Inr n \<Rightarrow> Inr (f\<lparr>num_qubits := Some n\<rparr>)
       | Inl _ \<Rightarrow> Inl (bad_value key v ''expected a non-negative integer''))
      else if key = ''max_shots'' then (case parse_u64 (trim v) of
         Inr n \<Rightarrow> Inr (f\<lparr>max_shots := Some n\<rparr>)
       | Inl _ \<Rightarrow> Inl (bad_value key v ''expected a non-negative integer''))
      else if key = ''name'' then (case pattern_new G (trim v) of
         Inr p \<Rightarrow> Inr (f\<lparr>name_pattern := Some p\<rparr>)
       | Inl e \<Rightarrow> Inl (bad_glob v e))
      else if key = ''is_simulator'' then
        (if trim v = ''true'' then Inr (f\<lparr>is_simulator := True\<rparr>)
         else if trim v = ''false'' then Inr (f\<lparr>is_simulator := False\<rparr>)
         else Inl (bad_value key v (''expected '' @ quoted ''true'' @ '' or '' @ quoted ''false'')))
      else if key = ''status'' then
        (if trim v = ''online'' then Inr (f\<lparr>filter_status := OnlineOnly\<rparr>)
         else Inl (bad_value key v (''supported: '' @ quoted ''online'')))
      else Inr f)"

fun compute_parse_pairs ::
    "'p glob \<Rightarrow> 'p compute_filter \<Rightarrow> string list \<Rightarrow> qrmi_error + 'p compute_filter" where
  "compute_parse_pairs G f [] = Inr f"
| "compute_parse_pairs G f (pair0 # rest) =
     (let pair = trim pair0 in
      if pair = [] then compute_parse_pairs G f rest
      else (case split_once (CHR ''='') pair of
          None \<Rightarrow> Inl (bad_segment pair)
        | Some (key, v) \<Rightarrow> (case compute_set G (trim key) v f of
            Inl e \<Rightarrow> Inl e
          | Inr f' \<Rightarrow> compute_parse_pairs G f' rest)))"

definition compute_parse :: "'p glob \<Rightarrow> string \<Rightarrow> qrmi_error + 'p compute_filter" where
  "compute_parse G filters = compute_parse_pairs G compute_default (split_on (CHR ''&'') filters)"

definition compute_matches_name :: "'p glob \<Rightarrow> 'p compute_filter \<Rightarrow> string \<Rightarrow> bool" where
  "compute_matches_name G f name = (case name_pattern f of
      Some p \<Rightarrow> pattern_matches G p name
    | None \<Rightarrow> True)"

record device =
  dev_name :: string
  dev_is_simulator :: "bool option"
  queue_length :: i32

definition compute_matches_device :: "'p compute_filter \<Rightarrow> device \<Rightarrow> bool" where
  "compute_matches_device f d \<longleftrightarrow>
     (case dev_is_simulator d of Some b \<Rightarrow> b | None \<Rightarrow> False) = is_simulator f"

definition compute_matches_config :: "'p compute_filter \<Rightarrow> backend_configuration \<Rightarrow> bool" where
  "compute_matches_config f config =
     (if simulator config \<noteq> is_simulator f then False
      else if (case num_qubits f of Some m \<Rightarrow> n_qubits config < ucast m | None \<Rightarrow> False) then False
      else if (case max_shots f of Some m \<Rightarrow> bc_max_shots config < m | None \<Rightarrow> False) then False
      else True)"

definition compute_needs_status_check :: "'p compute_filter \<Rightarrow> bool" where
  "compute_needs_status_check f \<longleftrightarrow> filter_status f = OnlineOnly"

definition compute_is_online_status :: "string \<Rightarrow> bool" where
  "compute_is_online_status st \<longleftrightarrow> (let s = to_lowercase st in s = ''active'' \<or> s = ''online'')"

section \<open>Qiskit Runtime Service\<close>

text \<open>
  The filter of the Qiskit Runtime Service is a copy of the Quantum Compute Service's,
  in a file of its own.
\<close>

definition runtime_parse :: "'p glob \<Rightarrow> string \<Rightarrow> qrmi_error + 'p compute_filter" where
  "runtime_parse G filters = compute_parse_pairs G compute_default (split_on (CHR ''&'') filters)"

definition runtime_matches_name :: "'p glob \<Rightarrow> 'p compute_filter \<Rightarrow> string \<Rightarrow> bool" where
  "runtime_matches_name = compute_matches_name"

definition runtime_matches_device :: "'p compute_filter \<Rightarrow> device \<Rightarrow> bool" where
  "runtime_matches_device = compute_matches_device"

definition runtime_matches_config :: "'p compute_filter \<Rightarrow> backend_configuration \<Rightarrow> bool" where
  "runtime_matches_config = compute_matches_config"

definition runtime_is_online_status :: "string \<Rightarrow> bool" where
  "runtime_is_online_status = compute_is_online_status"

section \<open>Quantum System\<close>

record 'p system_filter =
  sys_num_qubits :: "u64 option"
  sys_max_shots :: "u64 option"
  sys_name_pattern :: "'p option"
  sys_is_simulator :: bool
  sys_status :: status_filter

datatype backend_status = BsOnline | BsOffline | BsPaused

record backend =
  backend_message :: "string option"
  backend_state :: backend_status
  backend_id :: string
  backend_release :: "string option"
  locked :: "bool option"

definition system_default :: "'p system_filter" where
  "system_default = \<lparr>sys_num_qubits = None, sys_max_shots = None, sys_name_pattern = None,
     sys_is_simulator = False, sys_status = Any\<rparr>"

definition system_set ::
    "'p glob \<Rightarrow> string \<Rightarrow> string \<Rightarrow> 'p system_filter \<Rightarrow> qrmi_error + 'p system_filter" where
  "system_set G key v f =
     (if key = ''num_qubits'' then (case parse_u64 (trim v) of
         Inr n \<Rightarrow> Inr (f\<lparr>sys_num_qubits := Some n\<rparr>)
       | Inl _ \<Rightarrow> Inl (bad_value key v ''expected a non-negative integer''))
      else if key = ''max_shots'' then (case parse_u64 (trim v) of
         Inr n \<Rightarrow> Inr (f\<lparr>sys_max_shots := Some n\<rparr>)
       | Inl _ \<Rightarrow> Inl (bad_value key v ''expected a non-negative integer''))
      else if key = ''name'' then (case pattern_new G (trim v) of
         Inr p \<Rightarrow> Inr (f\<lparr>sys_name_pattern := Some p\<rparr>)
       | Inl e \<Rightarrow> Inl (bad_glob v e))
      else if key = ''is_simulator'' then
        (if trim v = ''true'' then Inr (f\<lparr>sys_is_simulator := True\<rparr>)
         else if trim v = ''false'' then Inr (f\<lparr>sys_is_simulator := False\<rparr>)
         else Inl (bad_value key v (''expected '' @ quoted ''true'' @ '' or '' @ quoted ''false'')))
      else if key = ''status'' then
        (if trim v = ''online'' then Inr (f\<lparr>sys_status := OnlineOnly\<rparr>)
         else Inl (bad_value key v (''supported: '' @ quoted ''online'')))
      else Inr f)"

fun system_parse_pairs ::
    "'p glob \<Rightarrow> 'p system_filter \<Rightarrow> string list \<Rightarrow> qrmi_error + 'p system_filter" where
  "system_parse_pairs G f [] = Inr f"
| "system_parse_pairs G f (pair0 # rest) =
     (let pair = trim pair0 in
      if pair = [] then system_parse_pairs G f rest
      else (case split_once (CHR ''='') pair of
          None \<Rightarrow> Inl (bad_segment pair)
        | Some (key, v) \<Rightarrow> (case system_set G (trim key) v f of
            Inl e \<Rightarrow> Inl e
          | Inr f' \<Rightarrow> system_parse_pairs G f' rest)))"

definition system_parse :: "'p glob \<Rightarrow> string \<Rightarrow> qrmi_error + 'p system_filter" where
  "system_parse G filters = system_parse_pairs G system_default (split_on (CHR ''&'') filters)"

definition system_matches_status :: "'p system_filter \<Rightarrow> backend \<Rightarrow> bool" where
  "system_matches_status f b = (case sys_status f of
      Any \<Rightarrow> True
    | OnlineOnly \<Rightarrow> backend_state b = BsOnline)"

definition system_matches_name :: "'p glob \<Rightarrow> 'p system_filter \<Rightarrow> string \<Rightarrow> bool" where
  "system_matches_name G f name = (case sys_name_pattern f of
      Some p \<Rightarrow> pattern_matches G p name
    | None \<Rightarrow> True)"

definition system_matches_config :: "'p system_filter \<Rightarrow> backend_configuration \<Rightarrow> bool" where
  "system_matches_config f config =
     (if simulator config \<noteq> sys_is_simulator f then False
      else if (case sys_num_qubits f of Some m \<Rightarrow> n_qubits config < m | None \<Rightarrow> False) then False
      else if (case sys_max_shots f of Some m \<Rightarrow> bc_max_shots config < m | None \<Rightarrow> False) then False
      else True)"

section \<open>The contract of a filter string\<close>

text \<open>
  Both parsers are a loop over the segments with one setter.  What callers rely on is
  that the setter's only error is \<open>InvalidInput\<close>; from it the loop inherits that a
  bad filter is reported as invalid input, and that filters may be concatenated.
\<close>

locale filter_parser =
  fixes set_field :: "string \<Rightarrow> string \<Rightarrow> 'f \<Rightarrow> qrmi_error + 'f"
    and parse_pairs :: "'f \<Rightarrow> string list \<Rightarrow> qrmi_error + 'f"
  assumes parse_Nil: "parse_pairs f [] = Inr f"
    and parse_blank: "trim p = [] \<Longrightarrow> parse_pairs f (p # ps) = parse_pairs f ps"
    and parse_no_key:
      "trim p \<noteq> [] \<Longrightarrow> split_once (CHR ''='') (trim p) = None \<Longrightarrow>
         parse_pairs f (p # ps) = Inl (bad_segment (trim p))"
    and parse_field:
      "trim p \<noteq> [] \<Longrightarrow> split_once (CHR ''='') (trim p) = Some (k, v) \<Longrightarrow>
         parse_pairs f (p # ps) = (case set_field (trim k) v f of
            Inl e \<Rightarrow> Inl e | Inr f' \<Rightarrow> parse_pairs f' ps)"
    and set_error: "set_field k v f = Inl e \<Longrightarrow> kind e = error_kind.InvalidInput"
begin

lemma parse_append:
  "parse_pairs f (ps @ qs) = (case parse_pairs f ps of Inl e \<Rightarrow> Inl e | Inr f' \<Rightarrow> parse_pairs f' qs)"
proof (induction ps arbitrary: f)
  case (Cons p ps)
  show ?case
  proof (cases "trim p = []")
    case False
    show ?thesis
    proof (cases "split_once (CHR ''='') (trim p)")
      case (Some kv)
      then obtain k v where "split_once (CHR ''='') (trim p) = Some (k, v)" by (cases kv) auto
      with False Cons show ?thesis by (simp add: parse_field split: sum.split)
    qed (simp add: False parse_no_key)
  qed (simp add: Cons parse_blank)
qed (simp add: parse_Nil)

lemma parse_error: "parse_pairs f ps = Inl e \<Longrightarrow> kind e = error_kind.InvalidInput"
proof (induction ps arbitrary: f)
  case (Cons p ps)
  show ?case
  proof (cases "trim p = []")
    case False
    show ?thesis
    proof (cases "split_once (CHR ''='') (trim p)")
      case None
      with False Cons.prems show ?thesis by (auto simp: parse_no_key bad_segment_def)
    next
      case (Some kv)
      then obtain k v where "split_once (CHR ''='') (trim p) = Some (k, v)" by (cases kv) auto
      with False Cons show ?thesis by (auto simp: parse_field dest: set_error split: sum.splits)
    qed
  qed (use Cons in \<open>simp add: parse_blank\<close>)
qed (simp add: parse_Nil)

end

interpretation compute_filter: filter_parser "compute_set G" "compute_parse_pairs G" for G
  by unfold_locales
    (auto simp: Let_def compute_set_def bad_value_def bad_glob_def split: sum.splits if_splits)

interpretation system_filter: filter_parser "system_set G" "system_parse_pairs G" for G
  by unfold_locales
    (auto simp: Let_def system_set_def bad_value_def bad_glob_def split: sum.splits if_splits)

section \<open>What a filter string means\<close>

text \<open>
  The meaning of a filter string, without the loop: its entries are the segments that
  are not blank, and each key has the value of its last entry.
\<close>

definition entry_of :: "string \<Rightarrow> (string \<times> string) option" where
  "entry_of p = map_option (\<lambda>(k, v). (trim k, trim v)) (split_once (CHR ''='') p)"

fun entries :: "string list \<Rightarrow> (string \<times> string) list option" where
  "entries [] = Some []"
| "entries (p # ps) =
     (if trim p = [] then entries ps
      else case entry_of (trim p) of
        None \<Rightarrow> None
      | Some e \<Rightarrow> map_option (\<lambda>es. e # es) (entries ps))"

definition last_value :: "(string \<times> string) list \<Rightarrow> string \<Rightarrow> string option" where
  "last_value es k = map_of (rev es) k"

fun right :: "'e + 'a \<Rightarrow> 'a option" where
  "right (Inl _) = None"
| "right (Inr a) = Some a"

definition compute_valid :: "'p glob \<Rightarrow> string \<times> string \<Rightarrow> bool" where
  "compute_valid G e = (case e of (k, v) \<Rightarrow>
     (k = ''num_qubits'' \<longrightarrow> right (parse_u32 v) \<noteq> None) \<and>
     (k = ''max_shots'' \<longrightarrow> right (parse_u64 v) \<noteq> None) \<and>
     (k = ''name'' \<longrightarrow> right (pattern_new G v) \<noteq> None) \<and>
     (k = ''is_simulator'' \<longrightarrow> v = ''true'' \<or> v = ''false'') \<and>
     (k = ''status'' \<longrightarrow> v = ''online''))"

definition compute_meaning :: "'p glob \<Rightarrow> (string \<times> string) list \<Rightarrow> 'p compute_filter" where
  "compute_meaning G es =
     \<lparr>num_qubits = Option.bind (last_value es ''num_qubits'') (\<lambda>v. right (parse_u32 v)),
      max_shots = Option.bind (last_value es ''max_shots'') (\<lambda>v. right (parse_u64 v)),
      name_pattern = Option.bind (last_value es ''name'') (\<lambda>v. right (pattern_new G v)),
      is_simulator = (last_value es ''is_simulator'' = Some ''true''),
      filter_status = (if last_value es ''status'' = None then Any else OnlineOnly)\<rparr>"

lemma last_value_snoc: "last_value (es @ [(k, v)]) k' = (if k' = k then Some v else last_value es k')"
  by (simp add: last_value_def)

lemma right_None: "right r = None \<longleftrightarrow> (\<exists>e. r = Inl e)"
  by (cases r) auto

lemma compute_set_meaning:
  "compute_set G k v (compute_meaning G es) = Inr f \<longleftrightarrow>
     compute_valid G (k, trim v) \<and> f = compute_meaning G (es @ [(k, trim v)])"
proof -
  note defs = compute_set_def compute_valid_def compute_meaning_def last_value_snoc
  consider "k = ''num_qubits''" | "k = ''max_shots''" | "k = ''name''" | "k = ''is_simulator''"
    | "k = ''status''" | "k \<noteq> ''num_qubits'' \<and> k \<noteq> ''max_shots'' \<and> k \<noteq> ''name'' \<and> k \<noteq> ''is_simulator'' \<and> k \<noteq> ''status''"
    by argo
  then show ?thesis
  proof cases
    case 1
    then show ?thesis by (cases "parse_u32 (trim v)") (auto simp: defs)
  next
    case 2
    then show ?thesis by (cases "parse_u64 (trim v)") (auto simp: defs)
  next
    case 3
    then show ?thesis by (cases "pattern_new G (trim v)") (auto simp: defs)
  next
    case 4
    then show ?thesis by (auto simp: defs)
  next
    case 5
    then show ?thesis by (auto simp: defs)
  next
    case 6
    then show ?thesis by (auto simp: defs)
  qed
qed

lemma compute_parse_pairs_meaning:
  "compute_parse_pairs G (compute_meaning G acc) ps = Inr f \<longleftrightarrow>
     (\<exists>es. entries ps = Some es \<and> (\<forall>e \<in> set es. compute_valid G e)
        \<and> f = compute_meaning G (acc @ es))"
proof (induction ps arbitrary: acc)
  case (Cons p ps)
  show ?case
  proof (cases "trim p = []")
    case True
    with Cons show ?thesis by simp
  next
    case False
    show ?thesis
    proof (cases "split_once (CHR ''='') (trim p)")
      case None
      with False show ?thesis by (simp add: entry_of_def)
    next
      case (Some kv)
      then obtain k v where kv: "split_once (CHR ''='') (trim p) = Some (k, v)" by (cases kv) auto
      show ?thesis
      proof (cases "compute_set G (trim k) v (compute_meaning G acc)")
        case (Inl e)
        then have "\<not> compute_valid G (trim k, trim v)"
          using compute_set_meaning [of G "trim k" v acc "compute_meaning G (acc @ [(trim k, trim v)])"]
          by simp
        with False kv Inl show ?thesis by (auto simp: entry_of_def)
      next
        case (Inr f')
        then have "compute_valid G (trim k, trim v)"
            "f' = compute_meaning G (acc @ [(trim k, trim v)])"
          by (simp_all add: compute_set_meaning)
        then have run: "compute_parse_pairs G (compute_meaning G acc) (p # ps)
            = compute_parse_pairs G (compute_meaning G (acc @ [(trim k, trim v)])) ps"
          using False kv Inr by simp
        have es: "entries (p # ps) = map_option (\<lambda>es. (trim k, trim v) # es) (entries ps)"
          using False kv by (simp add: entry_of_def)
        show ?thesis
          unfolding run es Cons.IH
          using \<open>compute_valid G (trim k, trim v)\<close> by (cases "entries ps") auto
      qed
    qed
  qed
qed auto

lemma compute_default_meaning: "compute_default = compute_meaning G []"
  by (simp add: compute_default_def compute_meaning_def last_value_def)

text \<open>
  C25. A filter string means its entries.  Parsing succeeds exactly when every segment
  that is not blank has the form \<open>key=value\<close> with a value its key accepts, and the
  filter then holds, for every key, the value of its last entry, and the default
  for a key without an entry; unknown keys have no influence.
\<close>

theorem compute_parse_meaning:
  "compute_parse G filters = Inr f \<longleftrightarrow>
     (\<exists>es. entries (split_on (CHR ''&'') filters) = Some es \<and> (\<forall>e \<in> set es. compute_valid G e)
        \<and> f = compute_meaning G es)"
  using compute_parse_pairs_meaning [of G "[]" "split_on (CHR ''&'') filters" f]
  by (simp add: compute_parse_def compute_default_meaning [of G])

end
