(* ===== verification/IbmAuth.thy ===== *)
theory IbmAuth
  imports CommonConfig
begin

text \<open>
  The bearer token of the Quantum Compute client
  (\<open>dependencies/quantum_compute_client/src/apis/auth.rs\<close>): when it is renewed, and
  what a renewal leaves.  The clock and the IAM request are parameters.
\<close>

text \<open>The settings of the client: the token is sent with every request.\<close>

record api_config =
  base_path :: string
  bearer_access_token :: "string option"
  crn :: "string option"

record token_state =
  current_token :: "string option"
  token_expiration :: u64
  token_lifetime :: u64

record 'w iam =
  unix_now :: "'w \<Rightarrow> u64"
  fetch_access_token :: "string \<Rightarrow> string \<Rightarrow> 'w \<Rightarrow> (string + string \<times> u64 \<times> u64) \<times> 'w"

definition needs_renewal :: "u64 \<Rightarrow> token_state \<Rightarrow> bool" where
  "needs_renewal now ts \<longleftrightarrow> token_expiration ts < now + max 360 (token_lifetime ts div 10)"

definition check_token ::
    "'w iam \<Rightarrow> string \<Rightarrow> string \<Rightarrow> token_state \<Rightarrow> 'w \<Rightarrow> (string + token_state) \<times> 'w" where
  "check_token I api_key iam_endpoint ts = (\<lambda>w.
     if needs_renewal (unix_now I w) ts then
       (case fetch_access_token I api_key iam_endpoint w of
          (Inl e, w') \<Rightarrow> (Inl e, w')
        | (Inr (tok, expiration, lifetime), w') \<Rightarrow>
            (Inr \<lparr>current_token = Some tok, token_expiration = expiration,
                  token_lifetime = lifetime\<rparr>, w'))
     else (Inr ts, w))"

lemma uint_max: "uint (max a b) = max (uint a) (uint b)" for a b :: "'a::len word"
  by (auto simp: max_def word_le_def)

lemma uint_renewal:
  fixes now lifetime :: u64
  assumes "now < 2 ^ 63"
  shows "uint (now + max 360 (lifetime div 10)) = uint now + max 360 (uint lifetime div 10)"
proof -
  let ?m = "max 360 (lifetime div 10)"
  have n: "uint now < 2 ^ 63" using assms by (simp add: word_less_def)
  have l: "uint (lifetime div 10) = uint lifetime div 10" by (simp add: uint_div_distrib)
  have "uint lifetime < 2 ^ 64" using unsigned_less [of lifetime, where 'a = int] by simp
  then have m: "uint ?m < 2 ^ 63" by (simp add: uint_max l)
  then show ?thesis using n by (simp add: uint_word_ariths(1) uint_max l)
qed


end
