(* ===== verification/Providers.thy ===== *)
theory Providers
  imports ProviderFilter IbmAuth
begin

text \<open>
  The resource providers (\<open>src/resource_provider.rs\<close> and the \<open>mod.rs\<close> files of
  \<open>src/ibm/*_provider\<close>): they list a vendor's backends, keep those a filter admits,
  and construct a resource for each of them, after writing the provider's settings
  into the process environment under the backend's name.  The state is that
  environment with the world; the HTTP calls are parameters.  Futures that the code
  joins are run in the order of the list, the world being arbitrary.
\<close>

record compute_provider =
  cp_config :: api_config
  cp_api_key :: string
  cp_iam_endpoint :: string
  cp_env :: config_map

record ('w, 'p, 'r) compute_lib =
  globs :: "'p glob"
  iam_calls :: "'w iam"
  list_backends :: "api_config \<Rightarrow> 'w \<Rightarrow> (string + device list option) \<times> 'w"
  get_backend_status :: "api_config \<Rightarrow> string \<Rightarrow> 'w \<Rightarrow> (string + string option) \<times> 'w"
  get_backend_configuration :: "api_config \<Rightarrow> string \<Rightarrow> 'w \<Rightarrow> (string + json) \<times> 'w"
  configuration_of :: "json \<Rightarrow> string + backend_configuration"
  construct :: "string \<Rightarrow> env \<Rightarrow> qrmi_error + 'r"

definition get_key :: "config_map \<Rightarrow> string \<Rightarrow> qrmi_error + string" where
  "get_key environment key = (case environment key of
      Some v \<Rightarrow> Inr v
    | None \<Rightarrow> Inl (MissingConfigKey key))"

fun get_keys :: "config_map \<Rightarrow> string list \<Rightarrow> qrmi_error + string list" where
  "get_keys environment [] = Inr []"
| "get_keys environment (k # ks) = (case get_key environment k of
      Inl e \<Rightarrow> Inl e
    | Inr v \<Rightarrow> map_sum id (\<lambda>vs. v # vs) (get_keys environment ks))"

section \<open>Construction\<close>

definition compute_provider_of :: "config_map \<Rightarrow> string list \<Rightarrow> compute_provider" where
  "compute_provider_of environment vs =
     \<lparr>cp_config = \<lparr>base_path = vs ! 0, bearer_access_token = None, crn = Some (vs ! 3)\<rparr>,
      cp_api_key = vs ! 2, cp_iam_endpoint = vs ! 1, cp_env = environment\<rparr>"

definition compute_provider_new :: "config_map \<Rightarrow> qrmi_error + compute_provider" where
  "compute_provider_new environment =
     map_sum id (compute_provider_of environment)
       (get_keys environment [''QRMI_IBM_QCS_ENDPOINT'', ''QRMI_IBM_QCS_IAM_ENDPOINT'',
          ''QRMI_IBM_QCS_IAM_APIKEY'', ''QRMI_IBM_QCS_SERVICE_CRN''])"

definition runtime_provider_new :: "config_map \<Rightarrow> qrmi_error + compute_provider" where
  "runtime_provider_new environment =
     map_sum id (compute_provider_of environment)
       (get_keys environment [''QRMI_IBM_QRS_ENDPOINT'', ''QRMI_IBM_QRS_IAM_ENDPOINT'',
          ''QRMI_IBM_QRS_IAM_APIKEY'', ''QRMI_IBM_QRS_SERVICE_CRN''])"

record 'c system_provider =
  sp_client :: 'c
  sp_env :: config_map

text \<open>\<open>build_client\<close> is \<open>ClientBuilder::build\<close>: endpoint, API key, CRN and IAM endpoint.\<close>

definition system_provider_new ::
    "(string \<Rightarrow> string \<Rightarrow> string \<Rightarrow> string \<Rightarrow> qrmi_error + 'c) \<Rightarrow> config_map \<Rightarrow>
     qrmi_error + 'c system_provider" where
  "system_provider_new build_client environment =
     (case get_keys environment [''QRMI_IBM_QS_ENDPOINT'', ''QRMI_IBM_QS_IAM_APIKEY'',
          ''QRMI_IBM_QS_SERVICE_CRN'', ''QRMI_IBM_QS_IAM_ENDPOINT''] of
        Inl e \<Rightarrow> Inl e
      | Inr vs \<Rightarrow> map_sum id (\<lambda>c. \<lparr>sp_client = c, sp_env = environment\<rparr>)
          (build_client (vs ! 0) (vs ! 1) (vs ! 2) (vs ! 3)))"

section \<open>Environment\<close>

definition inject_backend_env :: "config_map \<Rightarrow> string \<Rightarrow> env \<Rightarrow> env" where
  "inject_backend_env provider_env backend_name env = (\<lambda>name.
     case strip_prefix (backend_name @ ''_'') name of
       None \<Rightarrow> env name
     | Some key \<Rightarrow> (case provider_env key of None \<Rightarrow> env name | Some v \<Rightarrow> Value v))"

section \<open>Listing\<close>

fun each :: "('a \<Rightarrow> 'w \<Rightarrow> 'b \<times> 'w) \<Rightarrow> 'a list \<Rightarrow> 'w \<Rightarrow> 'b list \<times> 'w" where
  "each f [] w = ([], w)"
| "each f (x # xs) w = (case f x w of (y, w1) \<Rightarrow> case each f xs w1 of (ys, w2) \<Rightarrow> (y # ys, w2))"

definition is_backend_online ::
    "('w, 'p, 'r) compute_lib \<Rightarrow> api_config \<Rightarrow> string \<Rightarrow> 'w \<Rightarrow> bool \<times> 'w" where
  "is_backend_online L config name = (\<lambda>w.
     case get_backend_status L config name w of
       (Inr (Some st), w') \<Rightarrow> (compute_is_online_status st, w')
     | (Inr None, w') \<Rightarrow> (False, w')
     | (Inl _, w') \<Rightarrow> (False, w'))"

text \<open>
  The \<open>filter_map\<close> over the devices with their configurations: every failure skips the
  device, and the environment is written just before a resource is constructed.
\<close>

fun build_resources ::
    "('w, 'p, 'r) compute_lib \<Rightarrow> config_map \<Rightarrow> 'p compute_filter \<Rightarrow>
     (device \<times> (string + json)) list \<Rightarrow> env \<Rightarrow> 'r list \<times> env" where
  "build_resources L penv f [] env = ([], env)"
| "build_resources L penv f ((device, config_result) # rest) env =
     (case config_result of
        Inl _ \<Rightarrow> build_resources L penv f rest env
      | Inr raw \<Rightarrow> (case configuration_of L raw of
          Inl _ \<Rightarrow> build_resources L penv f rest env
        | Inr config \<Rightarrow>
            if \<not> compute_matches_config f config then build_resources L penv f rest env
            else (let env' = inject_backend_env penv (dev_name device) env in
              case construct L (dev_name device) env' of
                Inr r \<Rightarrow> (case build_resources L penv f rest env' of (rs, env'') \<Rightarrow> (r # rs, env''))
              | Inl _ \<Rightarrow> build_resources L penv f rest env')))"

definition sort_by_queue :: "(device \<times> 'a) list \<Rightarrow> (device \<times> 'a) list" where
  "sort_by_queue ds = sort_key (\<lambda>(d, _). sint (queue_length d)) ds"

definition list_candidates ::
    "('w, 'p, 'r) compute_lib \<Rightarrow> api_config \<Rightarrow> 'p compute_filter \<Rightarrow> device list option \<Rightarrow> 'w \<Rightarrow>
     device list \<times> 'w" where
  "list_candidates L config f devices = (\<lambda>w.
     let candidates = filter (\<lambda>d. compute_matches_name (globs L) f (dev_name d))
           (filter (compute_matches_device f) (case devices of Some ds \<Rightarrow> ds | None \<Rightarrow> [])) in
     if compute_needs_status_check f then
       (case each (\<lambda>d. is_backend_online L config (dev_name d)) candidates w of (online, w') \<Rightarrow>
          (map fst (filter snd (zip candidates online)), w'))
     else (candidates, w))"

definition compute_resources ::
    "('w, 'p, 'r) compute_lib \<Rightarrow> compute_provider \<Rightarrow> string option \<Rightarrow>
     (env \<times> 'w, qrmi_error, 'r list) prog" where
  "compute_resources L p filters = (\<lambda>(env, w).
     case compute_parse (globs L) (case filters of Some s \<Rightarrow> s | None \<Rightarrow> []) of
       Inl e \<Rightarrow> (Err e, (env, w))
     | Inr f \<Rightarrow>
         (case check_token (iam_calls L) (cp_api_key p) (cp_iam_endpoint p)
             \<lparr>current_token = bearer_access_token (cp_config p), token_expiration = 0,
              token_lifetime = 0\<rparr> w of
           (Inl e, w1) \<Rightarrow> (Err (Other [''token renewal failed'', e]), (env, w1))
         | (Inr ts, w1) \<Rightarrow>
             (let config = (cp_config p)\<lparr>bearer_access_token := current_token ts\<rparr> in
              case list_backends L config w1 of
                (Inl e, w2) \<Rightarrow> (Err (Other [''failed to list backends'', e]), (env, w2))
              | (Inr devices, w2) \<Rightarrow>
                  (case list_candidates L config f devices w2 of (candidates, w3) \<Rightarrow>
                   case each (\<lambda>d. get_backend_configuration L config (dev_name d)) candidates w3 of
                     (configs, w4) \<Rightarrow>
                       (case build_resources L (cp_env p) f (sort_by_queue (zip candidates configs)) env of
                          (rs, env') \<Rightarrow> (Ok rs, (env', w4)))))))"

text \<open>
  The provider of the Qiskit Runtime Service has the same text; what differs is the
  resource it constructs, which is a parameter.
\<close>

definition runtime_resources ::
    "('w, 'p, 'r) compute_lib \<Rightarrow> compute_provider \<Rightarrow> string option \<Rightarrow>
     (env \<times> 'w, qrmi_error, 'r list) prog" where
  "runtime_resources = compute_resources"

section \<open>Quantum System\<close>

record ('w, 'p, 'c, 'r) system_lib =
  sys_globs :: "'p glob"
  sys_list_backends :: "'c \<Rightarrow> 'w \<Rightarrow> (qrmi_error + backend list) \<times> 'w"
  sys_get_configuration :: "'c \<Rightarrow> string \<Rightarrow> 'w \<Rightarrow> (string + json) \<times> 'w"
  sys_configuration_of :: "json \<Rightarrow> string + backend_configuration"
  sys_construct :: "string \<Rightarrow> env \<Rightarrow> qrmi_error + 'r"

fun system_build ::
    "('w, 'p, 'c, 'r) system_lib \<Rightarrow> config_map \<Rightarrow> 'p system_filter \<Rightarrow>
     (string \<times> (string + json)) list \<Rightarrow> env \<Rightarrow> 'r list \<times> env" where
  "system_build L penv f [] env = ([], env)"
| "system_build L penv f ((name, config_result) # rest) env =
     (case config_result of
        Inl _ \<Rightarrow> system_build L penv f rest env
      | Inr raw \<Rightarrow> (case sys_configuration_of L raw of
          Inl _ \<Rightarrow> system_build L penv f rest env
        | Inr config \<Rightarrow>
            if \<not> system_matches_config f config then system_build L penv f rest env
            else (let env' = inject_backend_env penv name env in
              case sys_construct L name env' of
                Inr r \<Rightarrow> (case system_build L penv f rest env' of (rs, env'') \<Rightarrow> (r # rs, env''))
              | Inl _ \<Rightarrow> system_build L penv f rest env')))"

definition system_resources ::
    "('w, 'p, 'c, 'r) system_lib \<Rightarrow> 'c system_provider \<Rightarrow> string option \<Rightarrow>
     (env \<times> 'w, qrmi_error, 'r list) prog" where
  "system_resources L p filters = (\<lambda>(env, w).
     case system_parse (sys_globs L) (case filters of Some s \<Rightarrow> s | None \<Rightarrow> []) of
       Inl e \<Rightarrow> (Err e, (env, w))
     | Inr f \<Rightarrow>
         (case sys_list_backends L (sp_client p) w of
           (Inl e, w1) \<Rightarrow> (Err e, (env, w1))
         | (Inr backends, w1) \<Rightarrow>
             (let candidates = map backend_id
                (filter (\<lambda>b. system_matches_name (sys_globs L) f (backend_id b))
                  (filter (system_matches_status f) backends)) in
              case each (sys_get_configuration L (sp_client p)) candidates w1 of (configs, w2) \<Rightarrow>
                (case system_build L (sp_env p) f (zip candidates configs) env of
                   (rs, env') \<Rightarrow> (Ok rs, (env', w2))))))"

section \<open>The trait\<close>

text \<open>\<open>least_busy\<close>, the trait's default method, over a provider's \<open>resources\<close>.\<close>

definition least_busy ::
    "(string option \<Rightarrow> ('s, qrmi_error, 'r list) prog) \<Rightarrow> string option \<Rightarrow> ('s, qrmi_error, 'r option) prog" where
  "least_busy resources filters =
     andthen (resources filters) (\<lambda>rs. ret (case rs of [] \<Rightarrow> None | r # _ \<Rightarrow> Some r))"

text \<open>The three kinds of provider, as \<open>Box<dyn ResourceProvider>\<close>.\<close>

datatype 'c provider =
    RuntimeProvider compute_provider | SystemProvider "'c system_provider"
  | ComputeProvider compute_provider

fun create_provider ::
    "(string \<Rightarrow> string \<Rightarrow> string \<Rightarrow> string \<Rightarrow> qrmi_error + 'c) \<Rightarrow> resource_type \<Rightarrow> config_map \<Rightarrow>
     qrmi_error + 'c provider" where
  "create_provider B QiskitRuntimeService environment =
     map_sum id RuntimeProvider (runtime_provider_new environment)"
| "create_provider B IBMQuantumSystem environment =
     map_sum id SystemProvider (system_provider_new B environment)"
| "create_provider B IBMQuantumComputeService environment =
     map_sum id ComputeProvider (compute_provider_new environment)"
| "create_provider B ty environment = Inl (UnsupportedResourceType (resource_type_as_str ty))"

section \<open>What is listed\<close>

text \<open>A resource was built from a device's configuration, after its settings were injected.\<close>

definition built ::
    "('w, 'p, 'r) compute_lib \<Rightarrow> config_map \<Rightarrow> 'p compute_filter \<Rightarrow> 'r \<Rightarrow> device \<times> (string + json) \<Rightarrow> bool" where
  "built L penv f r dc \<longleftrightarrow> (case dc of (d, c) \<Rightarrow>
     \<exists>raw config env. c = Inr raw \<and> configuration_of L raw = Inr config
       \<and> compute_matches_config f config
       \<and> construct L (dev_name d) (inject_backend_env penv (dev_name d) env) = Inr r)"

definition queue_of :: "device \<Rightarrow> int" where
  "queue_of d = sint (queue_length d)"

lemma build_resources_built:
  assumes "build_resources L penv f xs env = (rs, env')" and "sorted (map (\<lambda>x. queue_of (fst x)) xs)"
  shows "\<exists>ys. list_all2 (built L penv f) rs ys \<and> set ys \<subseteq> set xs \<and> sorted (map (\<lambda>x. queue_of (fst x)) ys)"
  using assms
proof (induction xs arbitrary: env rs)
  case (Cons x xs)
  obtain d c where x: "x = (d, c)" by (cases x)
  have skip: ?case if "build_resources L penv f xs e = (rs, env')" for e
  proof -
    from Cons.IH [OF that] Cons.prems(2) obtain ys where
      "list_all2 (built L penv f) rs ys" "set ys \<subseteq> set xs" "sorted (map (\<lambda>x. queue_of (fst x)) ys)" by auto
    then show ?thesis by (intro exI [of _ ys]) auto
  qed
  show ?case
  proof (cases "\<exists>raw config. c = Inr raw \<and> configuration_of L raw = Inr config \<and> compute_matches_config f config")
    case True
    then obtain raw config where c: "c = Inr raw" "configuration_of L raw = Inr config"
        "compute_matches_config f config" by blast
    let ?env = "inject_backend_env penv (dev_name d) env"
    show ?thesis
    proof (cases "construct L (dev_name d) ?env")
      case (Inl e)
      with Cons.prems(1) x c skip show ?thesis by (auto simp: Let_def)
    next
      case (Inr r)
      with Cons.prems(1) x c obtain rs' where rs: "rs = r # rs'"
          "build_resources L penv f xs ?env = (rs', env')"
        by (auto simp: Let_def split: prod.splits)
      from Cons.IH [OF rs(2)] Cons.prems(2) obtain ys where
        ys: "list_all2 (built L penv f) rs' ys" "set ys \<subseteq> set xs" "sorted (map (\<lambda>x. queue_of (fst x)) ys)" by auto
      moreover have "built L penv f r x" using x c Inr by (auto simp: built_def)
      moreover have "\<forall>y \<in> set ys. queue_of (fst x) \<le> queue_of (fst y)"
        using Cons.prems(2) ys(2) by auto
      ultimately show ?thesis using rs(1) by (intro exI [of _ "x # ys"]) auto
    qed
  next
    case False
    with Cons.prems(1) x skip show ?thesis by (auto split: sum.splits if_splits)
  qed
qed simp

lemma each_length: "each f xs w = (ys, w') \<Longrightarrow> length ys = length xs"
  by (induction xs arbitrary: w ys) (auto split: prod.splits)

lemma each_result: "each f xs w = (ys, w') \<Longrightarrow> (x, y) \<in> set (zip xs ys) \<Longrightarrow> \<exists>wa wb. f x wa = (y, wb)"
proof (induction xs arbitrary: w ys)
  case (Cons a xs)
  obtain b w1 where a: "f a w = (b, w1)" by (cases "f a w")
  obtain bs w2 where r: "each f xs w1 = (bs, w2)" by (cases "each f xs w1")
  from Cons.prems(1) a r have "ys = b # bs" by simp
  with Cons a r show ?case by auto
qed simp

definition listed ::
    "('w, 'p, 'r) compute_lib \<Rightarrow> api_config \<Rightarrow> 'p compute_filter \<Rightarrow> device \<Rightarrow> bool" where
  "listed L config f d \<longleftrightarrow> compute_matches_device f d
     \<and> compute_matches_name (globs L) f (dev_name d)
     \<and> (compute_needs_status_check f \<longrightarrow>
          (\<exists>wa wb. is_backend_online L config (dev_name d) wa = (True, wb)))"

lemma list_candidates_listed:
  assumes "list_candidates L config f devices w = (ds, w')" and "d \<in> set ds"
  shows "listed L config f d"
proof -
  let ?ds = "filter (\<lambda>d. compute_matches_name (globs L) f (dev_name d))
    (filter (compute_matches_device f) (case devices of Some ds \<Rightarrow> ds | None \<Rightarrow> []))"
  show ?thesis
  proof (cases "compute_needs_status_check f")
    case True
    obtain bs w1 where e: "each (\<lambda>d. is_backend_online L config (dev_name d)) ?ds w = (bs, w1)"
      by (cases "each (\<lambda>d. is_backend_online L config (dev_name d)) ?ds w")
    with True assms have "(d, True) \<in> set (zip ?ds bs)"
      by (auto simp: list_candidates_def Let_def)
    with each_result [OF e this] show ?thesis
      by (auto simp: listed_def dest!: set_zip_leftD)
  next
    case False
    with assms show ?thesis by (auto simp: list_candidates_def Let_def listed_def)
  qed
qed

lemma sorted_sort_by_queue: "sorted (map (\<lambda>x. queue_of (fst x)) (sort_by_queue xs))"
proof -
  have "(\<lambda>(d :: device, _ :: 'a). sint (queue_length d)) = (\<lambda>x. queue_of (fst x))"
    by (auto simp: queue_of_def)
  then show ?thesis by (simp add: sort_by_queue_def)
qed

lemma compute_resources_spec:
  assumes "compute_resources L p filters (env, w) = (Ok rs, s')"
  shows "\<exists>f config ds. compute_parse (globs L) (case filters of Some s \<Rightarrow> s | None \<Rightarrow> []) = Inr f
    \<and> list_all2 (built L (cp_env p) f) rs ds
    \<and> (\<forall>d \<in> fst ` set ds. listed L config f d)
    \<and> sorted (map (\<lambda>(d, _). sint (queue_length d)) ds)"
proof -
  from assms obtain f where f: "compute_parse (globs L) (case filters of Some s \<Rightarrow> s | None \<Rightarrow> []) = Inr f"
    by (auto simp: compute_resources_def split: sum.splits)
  from assms f obtain config devices candidates configs w2 w3 w4 env' where
    c: "list_candidates L config f devices w2 = (candidates, w3)" and
    cs: "each (\<lambda>d. get_backend_configuration L config (dev_name d)) candidates w3 = (configs, w4)" and
    b: "build_resources L (cp_env p) f (sort_by_queue (zip candidates configs)) env = (rs, env')"
    by (auto simp: compute_resources_def Let_def split: prod.splits sum.splits)
  from build_resources_built [OF b sorted_sort_by_queue] obtain ds where
    ds: "list_all2 (built L (cp_env p) f) rs ds" "set ds \<subseteq> set (zip candidates configs)"
      "sorted (map (\<lambda>x. queue_of (fst x)) ds)"
    by (auto simp: sort_by_queue_def)
  have "listed L config f d" if "d \<in> fst ` set ds" for d
  proof -
    from that ds(2) obtain b where "(d, b) \<in> set (zip candidates configs)" by auto
    then show ?thesis using list_candidates_listed [OF c] by (auto dest: set_zip_leftD)
  qed
  moreover have "(\<lambda>x. queue_of (fst x)) = (\<lambda>(d :: device, _ :: string + json). sint (queue_length d))"
    by (auto simp: queue_of_def)
  ultimately show ?thesis using f ds(1,3) by auto
qed


text \<open>
  \<open>least_busy\<close> is least busy: the resource it returns was built for a backend whose
  queue is no longer than that of any backend for which \<open>resources\<close> returns a
  resource, and it returns none only when \<open>resources\<close> returns none.
\<close>

lemma least_busy_minimal:
  assumes "compute_resources L p filters s = (Ok rs, s')"
  shows "least_busy (compute_resources L p) filters s = (Ok (case rs of [] \<Rightarrow> None | r # _ \<Rightarrow> Some r), s')
    \<and> (\<forall>r rs'. rs = r # rs' \<longrightarrow>
        (\<exists>f ds. list_all2 (built L (cp_env p) f) rs ds \<and>
          (\<forall>d \<in> set ds. sint (queue_length (fst (hd ds))) \<le> sint (queue_length (fst d)))))"
proof -
  obtain env w where s: "s = (env, w)" by (cases s)
  from compute_resources_spec [OF assms [unfolded s]] obtain f ds where
    ds: "list_all2 (built L (cp_env p) f) rs ds"
      "sorted (map (\<lambda>(d, _). sint (queue_length d)) ds)" by blast
  have "\<forall>d \<in> set ds. sint (queue_length (fst (hd ds))) \<le> sint (queue_length (fst d))"
    using ds(2) by (cases ds) (auto simp: case_prod_beta)
  with ds(1) assms show ?thesis
    by (auto simp: least_busy_def andthen_def ret_def)
qed

end
