(* ===== verification/Classify.thy ===== *)
theory Classify
  imports Errors
begin

text \<open>
  How an HTTP failure of a vendor's service becomes a \<open>QrmiError\<close>: the \<open>classify\<close>
  functions of the IBM, IQM and Alice & Bob back ends, and the error type of the
  Quantum System client.  The locale \<open>vendor_classifier\<close> states what the callers
  of \<open>classify\<close> rely on, and is interpreted on the three functions.
\<close>

text \<open>
  \<open>apis::Error\<close> of the three generated clients.  A response carries its status,
  the text that shows the status (\<open>403 Forbidden\<close>) and the body.
\<close>

datatype api_error =
    Reqwest string
  | Serde string
  | Io string
  | ResponseError nat string string

fun api_error_display :: "api_error \<Rightarrow> string" where
  "api_error_display (Reqwest e) = ''error in reqwest: '' @ e"
| "api_error_display (Serde e) = ''error in serde: '' @ e"
| "api_error_display (Io e) = ''error in IO: '' @ e"
| "api_error_display (ResponseError st sh c) = ''error in response: status code '' @ sh"

fun http_status :: "api_error \<Rightarrow> nat option" where
  "http_status (ResponseError st sh c) = Some st"
| "http_status _ = None"

section \<open>The three classifiers\<close>

datatype ibm_resource_kind = Backend | Job | Session

fun ibm_classify :: "api_error \<Rightarrow> ibm_resource_kind \<Rightarrow> qrmi_error" where
  "ibm_classify (ResponseError st sh body) k =
     (if st = 400 then InvalidInput body
      else if st = 401 then AuthenticationFailed body
      else if st = 404 \<and> k = Backend then ResourceNotFound body
      else if st = 404 \<and> k = Job then TaskNotFound body
      else Other [''response body: '' @ sh @ '' '' @ body,
                  api_error_display (ResponseError st sh body)])"
| "ibm_classify e k = Other [api_error_display e]"

datatype iqm_resource_kind = Backend | Job

fun iqm_classify :: "api_error \<Rightarrow> iqm_resource_kind \<Rightarrow> qrmi_error" where
  "iqm_classify (ResponseError st sh body) k =
     (if st = 400 then InvalidInput body
      else if st = 401 then AuthenticationFailed body
      else if st = 404 then (case k of Backend \<Rightarrow> ResourceNotFound body | Job \<Rightarrow> TaskNotFound body)
      else Other [api_error_display (ResponseError st sh body)])"
| "iqm_classify e k = Other [api_error_display e]"

datatype felis_resource_kind = Backend | Job

fun felis_classify :: "api_error \<Rightarrow> felis_resource_kind \<Rightarrow> qrmi_error" where
  "felis_classify (ResponseError st sh body) k =
     (if st = 400 \<or> st = 422 then InvalidInput body
      else if st = 401 then AuthenticationFailed body
      else if st = 404 \<and> k = Backend then ResourceNotFound body
      else if st = 404 \<and> k = Job then TaskNotFound body
      else Other [''response body: '' @ sh @ '' '' @ body,
                  api_error_display (ResponseError st sh body)])"
| "felis_classify e k = Other [api_error_display e]"

section \<open>The contract of a classifier\<close>

locale vendor_classifier =
  fixes classify :: "api_error \<Rightarrow> 'k \<Rightarrow> qrmi_error"
    and backend_kind job_kind :: 'k
  assumes bad_request: "http_status e = Some 400 \<Longrightarrow> kind (classify e k) = error_kind.InvalidInput"
    and unauthorized:
      "http_status e = Some 401 \<Longrightarrow> kind (classify e k) = error_kind.AuthenticationFailed"
    and not_found_backend:
      "http_status e = Some 404 \<Longrightarrow> kind (classify e backend_kind) = error_kind.ResourceNotFound"
    and not_found_job:
      "http_status e = Some 404 \<Longrightarrow> kind (classify e job_kind) = error_kind.TaskNotFound"
    and only_refusals:
      "kind (classify e k) \<noteq> error_kind.Other \<Longrightarrow>
         \<exists>st. http_status e = Some st \<and> st \<in> {400, 401, 404, 422}"
    and task_not_found_only:
      "kind (classify e k) = error_kind.TaskNotFound \<Longrightarrow> http_status e = Some 404"
    and auth_only:
      "kind (classify e k) = error_kind.AuthenticationFailed \<Longrightarrow> http_status e = Some 401"
begin

lemma transport_is_other: "http_status e = None \<Longrightarrow> kind (classify e k) = error_kind.Other"
  using only_refusals by fastforce

lemma server_failure_is_other:
  "http_status e = Some st \<Longrightarrow> 500 \<le> st \<Longrightarrow> kind (classify e k) = error_kind.Other"
  using only_refusals [of e k] by fastforce

lemma not_other_is_client_error:
  assumes "kind (classify e k) \<noteq> error_kind.Other"
  shows "\<exists>st. http_status e = Some st \<and> 400 \<le> st \<and> st < 500"
  using only_refusals [OF assms] by auto

lemma task_not_found_iff:
  "kind (classify e job_kind) = error_kind.TaskNotFound \<longleftrightarrow> http_status e = Some 404"
  using task_not_found_only not_found_job by blast

lemma auth_iff:
  "kind (classify e k) = error_kind.AuthenticationFailed \<longleftrightarrow> http_status e = Some 401"
  using auth_only unauthorized by blast

end

interpretation ibm: vendor_classifier ibm_classify ibm_resource_kind.Backend ibm_resource_kind.Job
proof (unfold_locales, goal_cases)
  case (1 e k) then show ?case by (cases e) auto
next
  case (2 e k) then show ?case by (cases e) auto
next
  case (3 e) then show ?case by (cases e) auto
next
  case (4 e) then show ?case by (cases e) auto
next
  case (5 e k) then show ?case by (cases e) (auto split: if_splits)
next
  case (6 e k) then show ?case by (cases e) (auto split: if_splits)
next
  case (7 e k) then show ?case by (cases e) (auto split: if_splits)
qed

interpretation iqm: vendor_classifier iqm_classify iqm_resource_kind.Backend iqm_resource_kind.Job
proof (unfold_locales, goal_cases)
  case (1 e k) then show ?case by (cases e) auto
next
  case (2 e k) then show ?case by (cases e) auto
next
  case (3 e) then show ?case by (cases e) auto
next
  case (4 e) then show ?case by (cases e) auto
next
  case (5 e k) then show ?case by (cases e) (auto split: if_splits)
next
  case (6 e k) then show ?case by (cases e) (auto split: if_splits)
next
  case (7 e k) then show ?case
    by (cases e) (auto split: if_splits iqm_resource_kind.splits)
qed

interpretation felis: vendor_classifier felis_classify felis_resource_kind.Backend
  felis_resource_kind.Job
proof (unfold_locales, goal_cases)
  case (1 e k) then show ?case by (cases e) auto
next
  case (2 e k) then show ?case by (cases e) auto
next
  case (3 e) then show ?case by (cases e) auto
next
  case (4 e) then show ?case by (cases e) auto
next
  case (5 e k) then show ?case by (cases e) (auto split: if_splits)
next
  case (6 e k) then show ?case by (cases e) (auto split: if_splits)
next
  case (7 e k) then show ?case by (cases e) (auto split: if_splits)
qed

section \<open>Errors of the Quantum System client\<close>

datatype qs_error =
    Request string
  | QsAuthenticationFailed string
  | AccessDenied string
  | BackendNotFound string
  | JobNotFound string
  | RequestTimeout string
  | InvalidJobInput string
  | ExecutionLanesFull string
  | ServerError string
  | Api nat string string
  | JobNotReady string
  | QsReqwest string
  | QsJson string
  | QsIo string
  | QsOther string

datatype qs_resource_kind = Backend | Job | Other

text \<open>
  \<open>from_response\<close>, given the status, the text that shows it, and the body that
  \<open>extract_body\<close> read.
\<close>

definition from_response :: "nat \<Rightarrow> string \<Rightarrow> string \<Rightarrow> qs_resource_kind \<Rightarrow> qs_error" where
  "from_response st sh body k =
     (if st = 401 then QsAuthenticationFailed body
      else if st = 403 then AccessDenied body
      else if st = 404 then (case k of
          Backend \<Rightarrow> BackendNotFound body | Job \<Rightarrow> JobNotFound body | Other \<Rightarrow> Api st sh body)
      else if st = 408 then RequestTimeout body
      else if st = 400 \<or> st = 409 \<or> st = 413 \<or> st = 422 then InvalidJobInput body
      else if st = 429 then ExecutionLanesFull body
      else if 500 \<le> st \<and> st < 600 then ServerError body
      else Api st sh body)"

text \<open>\<open>Display\<close> of an error.\<close>

fun qs_error_display :: "qs_error \<Rightarrow> string" where
  "qs_error_display (Request s) = ''request failed: '' @ s"
| "qs_error_display (QsAuthenticationFailed s) = ''authentication failed: '' @ s"
| "qs_error_display (AccessDenied s) = ''access denied: '' @ s"
| "qs_error_display (BackendNotFound s) = ''backend not found: '' @ s"
| "qs_error_display (JobNotFound s) = ''job not found: '' @ s"
| "qs_error_display (RequestTimeout s) = ''request timeout: '' @ s"
| "qs_error_display (InvalidJobInput s) = ''invalid job input: '' @ s"
| "qs_error_display (ExecutionLanesFull s) = ''execution lanes full: '' @ s"
| "qs_error_display (ServerError s) = ''server error: '' @ s"
| "qs_error_display (Api st sh s) = ''API error ('' @ sh @ ''): '' @ s"
| "qs_error_display (JobNotReady s) = s"
| "qs_error_display (QsReqwest s) = s"
| "qs_error_display (QsJson s) = s"
| "qs_error_display (QsIo s) = s"
| "qs_error_display (QsOther s) = s"

text \<open>\<open>impl From<QuantumSystemError> for QrmiError\<close>.\<close>

fun qrmi_of_qs :: "qs_error \<Rightarrow> qrmi_error" where
  "qrmi_of_qs (BackendNotFound m) = ResourceNotFound m"
| "qrmi_of_qs (JobNotFound m) = TaskNotFound m"
| "qrmi_of_qs (QsAuthenticationFailed m) = AuthenticationFailed m"
| "qrmi_of_qs (InvalidJobInput m) = InvalidInput m"
| "qrmi_of_qs e = qrmi_error.Other [qs_error_display e]"

lemma qs_not_other_is_client_error:
  assumes "kind (qrmi_of_qs (from_response st sh body k)) \<noteq> error_kind.Other"
  shows "400 \<le> st \<and> st < 500"
  using assms by (auto simp: from_response_def split: if_splits qs_resource_kind.splits)

end
