(* ===== verification/IbmService.thy ===== *)
theory IbmService
  imports IbmAuth Classify "HOL-Library.Signed_Division"
begin

text \<open>
  The resources of the IBM Quantum Compute Service
  (\<open>src/ibm/quantum_compute_service.rs\<close>) and, from the same text but for the search
  for dedicated sessions, the status and the executor program, of the Qiskit Runtime
  Service (\<open>src/ibm/qiskit_runtime_service.rs\<close>).  The state is the resource with the
  world; the REST client is generated code and a parameter.
\<close>

datatype job_status = JobQueued | JobRunning | JobCompleted | JobCancelled | CancelledRanTooLong | JobFailed

fun debug_job_status :: "job_status \<Rightarrow> string" where
  "debug_job_status JobQueued = ''Queued''"
| "debug_job_status JobRunning = ''Running''"
| "debug_job_status JobCompleted = ''Completed''"
| "debug_job_status JobCancelled = ''Cancelled''"
| "debug_job_status CancelledRanTooLong = ''CancelledRanTooLong''"
| "debug_job_status JobFailed = ''Failed''"

datatype session_state = SessionOpen | SessionActive | SessionInactive | SessionClosed
datatype session_mode = Batch | Dedicated
datatype device_state = DeviceOnline | DevicePaused | DeviceOffline

record job_response =
  job_state :: job_status
  job_session :: "string option"

record session_response =
  sr_id :: string
  sr_state :: "session_state option"
  sr_mode :: session_mode
  active_ttl :: "i32 option"
  max_ttl :: "i32 option"

record device_info =
  di_name :: string
  di_state :: device_state
  di_reason :: "string option"
  di_queue_length :: i32

record jobs_query =
  jq_limit :: "i32 option"
  jq_offset :: "i32 option"
  jq_pending :: "bool option"
  jq_backend :: "string option"
  jq_session :: "string option"
  jq_version :: "string option"
  jq_sort :: "string option"
  jq_exclude_params :: "bool option"

record session_request =
  rq_max_ttl :: i32
  rq_mode :: session_mode
  rq_backend :: string

record job_request =
  jr_program_id :: string
  jr_backend :: string
  jr_cost :: "i32 option"
  jr_session_id :: "string option"
  jr_calibration_id :: "string option"
  jr_params :: json

text \<open>
  The generated client: a call gives its result or the client's error.
  \<open>typed_params\<close> is \<open>serde_json::from_value\<close> at the input type of a program, with the
  document that the typed value serializes to.
\<close>

record 'w ibm_client =
  ibm_iam :: "'w iam"
  ibm_serde :: json_lib
  typed_params :: "string \<Rightarrow> json \<Rightarrow> string + json"
  api_backend_status :: "api_config \<Rightarrow> string \<Rightarrow> 'w \<Rightarrow> (api_error + string option) \<times> 'w"
  api_list_backends :: "api_config \<Rightarrow> 'w \<Rightarrow> (api_error + device_info list option) \<times> 'w"
  api_list_jobs :: "api_config \<Rightarrow> jobs_query \<Rightarrow> 'w \<Rightarrow> (api_error + job_response list option) \<times> 'w"
  api_get_session :: "api_config \<Rightarrow> string \<Rightarrow> string option \<Rightarrow> 'w \<Rightarrow> (api_error + session_response) \<times> 'w"
  api_create_session :: "api_config \<Rightarrow> session_request \<Rightarrow> 'w \<Rightarrow> (api_error + string) \<times> 'w"
  api_close_session :: "api_config \<Rightarrow> string \<Rightarrow> 'w \<Rightarrow> (api_error + unit) \<times> 'w"
  api_update_session :: "api_config \<Rightarrow> string \<Rightarrow> bool \<Rightarrow> 'w \<Rightarrow> (api_error + unit) \<times> 'w"
  api_create_job :: "api_config \<Rightarrow> job_request \<Rightarrow> 'w \<Rightarrow> (api_error + string) \<times> 'w"
  api_get_job :: "api_config \<Rightarrow> string \<Rightarrow> 'w \<Rightarrow> (api_error + job_status) \<times> 'w"
  api_cancel_job :: "api_config \<Rightarrow> string \<Rightarrow> 'w \<Rightarrow> (api_error + unit) \<times> 'w"
  api_job_results :: "api_config \<Rightarrow> string \<Rightarrow> 'w \<Rightarrow> (api_error + string) \<times> 'w"
  api_job_logs :: "api_config \<Rightarrow> string \<Rightarrow> 'w \<Rightarrow> (api_error + string) \<times> 'w"
  api_configuration :: "api_config \<Rightarrow> string \<Rightarrow> 'w \<Rightarrow> (api_error + json) \<times> 'w"
  api_properties :: "api_config \<Rightarrow> string \<Rightarrow> string option \<Rightarrow> 'w \<Rightarrow> (api_error + json) \<times> 'w"

record ibm_service =
  svc_config :: api_config
  svc_backend :: string
  svc_session :: "string option"
  svc_calibration :: "string option"
  svc_timeout_secs :: "i32 option"
  svc_session_mode :: string
  svc_session_max_ttl :: i32
  svc_api_key :: string
  svc_iam_endpoint :: string
  svc_token_expiration :: u64
  svc_token_lifetime :: u64

type_synonym ('w, 'a) ibm = "(ibm_service \<times> 'w, qrmi_error, 'a) prog"

section \<open>Construction\<close>

text \<open>\<open>label\<close> is \<open>QCS\<close> or \<open>QRS\<close>, the part of the keys in which the two services differ.\<close>

definition ibm_from_opt ::
    "string \<Rightarrow> env \<Rightarrow> string \<Rightarrow> config_map option \<Rightarrow> qrmi_error + ibm_service" where
  "ibm_from_opt label env backend config =
     (let prefix = (if config \<noteq> None then [] else backend @ ''_'');
          own = (\<lambda>k. prefix @ ''QRMI_IBM_'' @ label @ ''_'' @ k);
          job = (\<lambda>k. prefix @ ''QRMI_JOB_'' @ k);
          opt = (\<lambda>k. resolve_opt env k config);
          either = (\<lambda>a b. case opt a of Some v \<Rightarrow> Some v | None \<Rightarrow> opt b);
          as_i32 = (\<lambda>v. case v of None \<Rightarrow> None
             | Some s \<Rightarrow> (case parse_i32 s of Inr n \<Rightarrow> Some n | Inl _ \<Rightarrow> None)) in
      case resolve_opt_required env (own ''ENDPOINT'') config of
        Inl e \<Rightarrow> Inl e
      | Inr endpoint \<Rightarrow>
        (case resolve_opt_required env (own ''IAM_ENDPOINT'') config of
          Inl e \<Rightarrow> Inl e
        | Inr iam_endpoint \<Rightarrow>
          (case resolve_opt_required env (own ''IAM_APIKEY'') config of
            Inl e \<Rightarrow> Inl e
          | Inr api_key \<Rightarrow>
            (case resolve_opt_required env (own ''SERVICE_CRN'') config of
              Inl e \<Rightarrow> Inl e
            | Inr service_crn \<Rightarrow>
              Inr \<lparr>svc_config = \<lparr>base_path = endpoint, bearer_access_token = None, crn = Some service_crn\<rparr>,
                   svc_backend = backend,
                   svc_session = either (own ''SESSION_ID'') (job ''ACQUISITION_TOKEN''),
                   svc_calibration = None,
                   svc_timeout_secs = as_i32 (either (own ''TIMEOUT_SECONDS'') (job ''TIMEOUT_SECONDS'')),
                   svc_session_mode = (case opt (own ''SESSION_MODE'') of
                      Some v \<Rightarrow> v | None \<Rightarrow> ''dedicated''),
                   svc_session_max_ttl = (case as_i32 (opt (own ''SESSION_MAX_TTL'')) of
                      Some n \<Rightarrow> n | None \<Rightarrow> 28800),
                   svc_api_key = api_key, svc_iam_endpoint = iam_endpoint,
                   svc_token_expiration = 0, svc_token_lifetime = 0\<rparr>))))"

definition qcs_from_opt :: "env \<Rightarrow> string \<Rightarrow> config_map option \<Rightarrow> qrmi_error + ibm_service" where
  "qcs_from_opt = ibm_from_opt ''QCS''"

definition qrs_from_opt :: "env \<Rightarrow> string \<Rightarrow> config_map option \<Rightarrow> qrmi_error + ibm_service" where
  "qrs_from_opt = ibm_from_opt ''QRS''"

section \<open>Calls\<close>

text \<open>A token that cannot be renewed is logged, and the old one is used.\<close>

definition ensure_token :: "'w ibm_client \<Rightarrow> ('w, unit) ibm" where
  "ensure_token C = (\<lambda>(s, w).
     case check_token (ibm_iam C) (svc_api_key s) (svc_iam_endpoint s)
       \<lparr>current_token = bearer_access_token (svc_config s),
        token_expiration = svc_token_expiration s, token_lifetime = svc_token_lifetime s\<rparr> w of
       (Inl _, w') \<Rightarrow> (Ok (), (s, w'))
     | (Inr ts, w') \<Rightarrow>
         (Ok (), (s\<lparr>svc_config := (svc_config s)\<lparr>bearer_access_token := current_token ts\<rparr>,
                    svc_token_expiration := token_expiration ts,
                    svc_token_lifetime := token_lifetime ts\<rparr>, w')))"

text \<open>\<open>call(&self.config, ...).await.map_err(|e| classify(e, kind))?\<close>.\<close>

definition request ::
    "(ibm_service \<Rightarrow> 'w \<Rightarrow> (api_error + 'a) \<times> 'w) \<Rightarrow> ibm_resource_kind \<Rightarrow> ('w, 'a) ibm" where
  "request f k = (\<lambda>(s, w). case f s w of (r, w') \<Rightarrow>
     (outcome_of (map_sum (\<lambda>e. ibm_classify e k) id r), (s, w')))"

definition set_session :: "string option \<Rightarrow> ('w, unit) ibm" where
  "set_session sid = modify (\<lambda>(s, w). (s\<lparr>svc_session := sid\<rparr>, w))"

section \<open>Accessibility and status\<close>

definition qcs_is_accessible :: "'w ibm_client \<Rightarrow> ('w, bool) ibm" where
  "qcs_is_accessible C =
     andthen (ensure_token C) (\<lambda>_.
     andthen (request (\<lambda>s. api_backend_status C (svc_config s) (svc_backend s)) ibm_resource_kind.Backend) (\<lambda>st.
       let status_str = to_lowercase (case st of Some x \<Rightarrow> x | None \<Rightarrow> ''unknown'') in
       ret (status_str = ''active'' \<or> status_str = ''online'')))"

definition PAGE_SIZE :: i32 where "PAGE_SIZE = 200"
definition MAX_OFFSET :: i32 where "MAX_OFFSET = 2147483647"

definition page_query :: "string \<Rightarrow> i32 \<Rightarrow> jobs_query" where
  "page_query backend offset =
     \<lparr>jq_limit = Some PAGE_SIZE, jq_offset = Some offset, jq_pending = Some True,
      jq_backend = Some backend, jq_session = None,
      jq_version = Some ''2025-01-01'', jq_sort = Some ''DESC'', jq_exclude_params = Some True\<rparr>"

text \<open>The jobs of one page, in order, until one belongs to an active dedicated session.\<close>

fun search_page :: "'w ibm_client \<Rightarrow> job_response list \<Rightarrow> ('w, bool) ibm" where
  "search_page C [] = ret False"
| "search_page C (job # jobs) =
     (if job_state job \<noteq> JobRunning then search_page C jobs
      else case job_session job of
        None \<Rightarrow> search_page C jobs
      | Some sid \<Rightarrow>
          andthen (request (\<lambda>s. api_get_session C (svc_config s) sid (Some ''2025-01-01'')) ibm_resource_kind.Session) (\<lambda>r.
            if sr_state r = Some SessionActive \<and> sr_mode r = Dedicated then ret True
            else search_page C jobs))"

lemma next_offset:
  assumes "\<not> sint (MAX_OFFSET - PAGE_SIZE) < sint offset"
  shows "sint (offset + PAGE_SIZE) = sint offset + 200"
proof -
  have "sint (MAX_OFFSET - PAGE_SIZE) = 2147483447" by (simp add: MAX_OFFSET_def PAGE_SIZE_def)
  with assms have le: "sint offset \<le> 2147483447" by simp
  have "- (2 ^ 31) \<le> sint offset" using sint_ge [of offset] by simp
  then show ?thesis
    using le by (simp add: PAGE_SIZE_def sint_word_ariths signed_take_bit_int_eq_self)
qed

function search_pages :: "'w ibm_client \<Rightarrow> i32 \<Rightarrow> ibm_service \<times> 'w \<Rightarrow> (qrmi_error, bool) outcome \<times> (ibm_service \<times> 'w)" where
  "search_pages C offset s =
     (case request (\<lambda>s. api_list_jobs C (svc_config s) (page_query (svc_backend s) offset))
         ibm_resource_kind.Job s of
        (Err e, s1) \<Rightarrow> (Err e, s1)
      | (Panic, s1) \<Rightarrow> (Panic, s1)
      | (Ok page, s1) \<Rightarrow>
          (let jobs = (case page of Some js \<Rightarrow> js | None \<Rightarrow> []) in
           case search_page C jobs s1 of
             (Err e, s2) \<Rightarrow> (Err e, s2)
           | (Panic, s2) \<Rightarrow> (Panic, s2)
           | (Ok found, s2) \<Rightarrow>
               if found then (Ok True, s2)
               else if sint (of_nat (length jobs) :: i32) < sint PAGE_SIZE then (Ok False, s2)
               else if sint (MAX_OFFSET - PAGE_SIZE) < sint offset then (Ok False, s2)
               else search_pages C (offset + PAGE_SIZE) s2))"
  by pat_completeness auto
termination
proof (relation "measure (\<lambda>(C, offset, s). nat (2147483647 - sint offset))", goal_cases)
  case 1
  show ?case by simp
next
  case (2 C offset s)
  from 2 show ?case
    using next_offset [of offset] by (simp add: MAX_OFFSET_def PAGE_SIZE_def)
qed

declare search_pages.simps [simp del]

definition has_dedicated_active_session :: "'w ibm_client \<Rightarrow> ('w, bool) ibm" where
  "has_dedicated_active_session C = search_pages C 0"

text \<open>The two calls that the code joins are made one after the other.\<close>

definition qcs_status :: "'w ibm_client \<Rightarrow> ('w, resource_status) ibm" where
  "qcs_status C =
     andthen (ensure_token C) (\<lambda>_.
     andthen (request (\<lambda>s. api_list_backends C (svc_config s)) ibm_resource_kind.Backend) (\<lambda>backends.
     andthen (has_dedicated_active_session C) (\<lambda>dedicated.
     andthen get_state (\<lambda>(s, _). case backends of
         None \<Rightarrow> throw (ResourceNotFound
           (''backend list response is missing `devices` for '' @ svc_backend s))
       | Some devices \<Rightarrow> (case find (\<lambda>d. di_name d = svc_backend s) devices of
           None \<Rightarrow> throw (ResourceNotFound
             (''backend `'' @ svc_backend s @ ''` not found in device list''))
         | Some device \<Rightarrow>
             (let code = (case di_state device of
                  DeviceOnline \<Rightarrow> Online | DeviceOffline \<Rightarrow> Offline | DevicePaused \<Rightarrow> Paused) in
              ret \<lparr>status_code = code, status_reason = di_reason device, healthy = None,
                   busy = Some (code = Online \<and> dedicated), capacity = None,
                   pending_job_count = (if 0 \<le> sint (di_queue_length device)
                     then Some (scast (di_queue_length device)) else None)\<rparr>))))))"

section \<open>Sessions\<close>

definition session_jobs_query :: "string \<Rightarrow> jobs_query" where
  "session_jobs_query tok =
     \<lparr>jq_limit = None, jq_offset = None, jq_pending = Some True, jq_backend = None,
      jq_session = Some tok, jq_version = None, jq_sort = None, jq_exclude_params = None\<rparr>"

definition qcs_release :: "'w ibm_client \<Rightarrow> string \<Rightarrow> ('w, unit) ibm" where
  "qcs_release C tok =
     andthen (ensure_token C) (\<lambda>_.
     andthen (request (\<lambda>s. api_list_jobs C (svc_config s) (session_jobs_query tok))
               ibm_resource_kind.Session) (\<lambda>jobs.
     let do_cancel = (case jobs of Some js \<Rightarrow> js \<noteq> [] | None \<Rightarrow> False) in
     andthen (if do_cancel
              then request (\<lambda>s. api_close_session C (svc_config s) tok) ibm_resource_kind.Session
              else request (\<lambda>s. api_update_session C (svc_config s) tok False) ibm_resource_kind.Session)
       (\<lambda>_. set_session None)))"

text \<open>\<open>max_ttl / 100\<close> rounds towards zero.\<close>

definition worth_keeping :: "session_response \<Rightarrow> bool" where
  "worth_keeping r \<longleftrightarrow>
     (let active = (case active_ttl r of Some n \<Rightarrow> n | None \<Rightarrow> 1);
          maximum = (case max_ttl r of Some n \<Rightarrow> n | None \<Rightarrow> 1) in
      sint maximum sdiv 100 < sint active)"

definition session_mode_of :: "string \<Rightarrow> qrmi_error + session_mode" where
  "session_mode_of m =
     (let other = to_lowercase m in
      if other = ''batch'' then Inr Batch
      else if other = ''dedicated'' then Inr Dedicated
      else Inl (Ibm (InvalidSessionMode other)))"

definition create_session :: "'w ibm_client \<Rightarrow> ('w, string) ibm" where
  "create_session C =
     andthen get_state (\<lambda>(s, _).
     andthen (from_result (session_mode_of (svc_session_mode s))) (\<lambda>mode.
     andthen (request (\<lambda>s. api_create_session C (svc_config s)
                 \<lparr>rq_max_ttl = svc_session_max_ttl s, rq_mode = mode, rq_backend = svc_backend s\<rparr>)
               ibm_resource_kind.Session) (\<lambda>i.
     andthen (set_session (Some i)) (\<lambda>_. ret i))))"

definition qcs_acquire :: "'w ibm_client \<Rightarrow> ('w, string) ibm" where
  "qcs_acquire C =
     andthen (ensure_token C) (\<lambda>_.
     andthen get_state (\<lambda>(s, _). case svc_session s of
         None \<Rightarrow> create_session C
       | Some existing \<Rightarrow>
           andthen (request (\<lambda>s. api_get_session C (svc_config s) existing None) ibm_resource_kind.Session)
             (\<lambda>r. if worth_keeping r then ret existing
                  else andthen (qcs_release C existing) (\<lambda>_. create_session C))))"

section \<open>Tasks\<close>

definition program_params ::
    "'w ibm_client \<Rightarrow> bool \<Rightarrow> string \<Rightarrow> string \<Rightarrow> qrmi_error + json" where
  "program_params C executor program input =
     (let val = map_sum InvalidJson id (jparse (ibm_serde C) input) in
      if program = ''sampler'' \<or> program = ''estimator'' \<or> program = ''noiselearner'' then
        (case val of
           Inl e \<Rightarrow> Inl e
         | Inr v \<Rightarrow> map_sum InvalidJson id (typed_params C program v))
      else if executor \<and> program = ''executor'' then val
      else Inl (Ibm (UnknownProgramId (debug_str program))))"

definition ibm_task_start :: "bool \<Rightarrow> 'w ibm_client \<Rightarrow> payload \<Rightarrow> ('w, string) ibm" where
  "ibm_task_start executor C p =
     andthen (ensure_token C) (\<lambda>_. case p of
         QiskitPrimitive input program \<Rightarrow>
           andthen (from_result (program_params C executor program input)) (\<lambda>params.
             request (\<lambda>s. api_create_job C (svc_config s)
                 \<lparr>jr_program_id = program, jr_backend = svc_backend s, jr_cost = svc_timeout_secs s,
                  jr_session_id = svc_session s, jr_calibration_id = svc_calibration s,
                  jr_params = params\<rparr>) ibm_resource_kind.Backend)
       | _ \<Rightarrow> throw (UnsupportedPayload (debug_payload p)))"

definition qcs_task_start :: "'w ibm_client \<Rightarrow> payload \<Rightarrow> ('w, string) ibm" where
  "qcs_task_start = ibm_task_start True"

definition get_job :: "'w ibm_client \<Rightarrow> string \<Rightarrow> ('w, job_status) ibm" where
  "get_job C tid =
     andthen (ensure_token C) (\<lambda>_.
       request (\<lambda>s. api_get_job C (svc_config s) tid) ibm_resource_kind.Job)"

definition qcs_task_stop :: "'w ibm_client \<Rightarrow> string \<Rightarrow> ('w, unit) ibm" where
  "qcs_task_stop C tid =
     andthen (get_job C tid) (\<lambda>st.
       if st = JobRunning \<or> st = JobQueued
       then request (\<lambda>s. api_cancel_job C (svc_config s) tid) ibm_resource_kind.Job
       else ret ())"

fun task_status_of_job :: "job_status \<Rightarrow> task_status" where
  "task_status_of_job JobRunning = Running"
| "task_status_of_job JobQueued = Queued"
| "task_status_of_job JobCompleted = Completed"
| "task_status_of_job JobCancelled = Cancelled"
| "task_status_of_job CancelledRanTooLong = Cancelled"
| "task_status_of_job JobFailed = Failed"

definition qcs_task_status :: "'w ibm_client \<Rightarrow> string \<Rightarrow> ('w, task_status) ibm" where
  "qcs_task_status C tid = andthen (get_job C tid) (\<lambda>st. ret (task_status_of_job st))"

definition qcs_task_result :: "'w ibm_client \<Rightarrow> string \<Rightarrow> ('w, string) ibm" where
  "qcs_task_result C tid =
     andthen (get_job C tid) (\<lambda>st.
       if st \<noteq> JobCompleted then
         throw (TaskNotReady tid
           (''task is not completed (current status: '' @ debug_job_status st @ '')''))
       else request (\<lambda>s. api_job_results C (svc_config s) tid) ibm_resource_kind.Job)"

definition qcs_task_logs :: "'w ibm_client \<Rightarrow> string \<Rightarrow> ('w, string) ibm" where
  "qcs_task_logs C tid = request (\<lambda>s. api_job_logs C (svc_config s) tid) ibm_resource_kind.Job"

section \<open>Target and metadata\<close>

text \<open>\<open>if let Ok(v) = call\<close>: a failure stands as null.  \<open>to_value\<close> of a generated model succeeds.\<close>

definition or_null :: "(ibm_service \<Rightarrow> 'w \<Rightarrow> (api_error + json) \<times> 'w) \<Rightarrow> ('w, json) ibm" where
  "or_null f = (\<lambda>(s, w). case f s w of (r, w') \<Rightarrow>
     (Ok (case r of Inr v \<Rightarrow> v | Inl _ \<Rightarrow> JNull), (s, w')))"

definition qcs_target :: "'w ibm_client \<Rightarrow> ('w, string) ibm" where
  "qcs_target C =
     andthen (ensure_token C) (\<lambda>_.
     andthen (or_null (\<lambda>s. api_configuration C (svc_config s) (svc_backend s))) (\<lambda>cfg.
     andthen (or_null (\<lambda>s. api_properties C (svc_config s) (svc_backend s) (svc_calibration s))) (\<lambda>props.
       ret (jdump (ibm_serde C) (JObj [(''configuration'', cfg), (''properties'', props)])))))"

definition qcs_metadata :: "ibm_service \<Rightarrow> string \<rightharpoonup> string" where
  "qcs_metadata s =
     (let m = [''backend_name'' \<mapsto> svc_backend s] in
      case svc_session s of Some sid \<Rightarrow> m(''session_id'' \<mapsto> sid) | None \<Rightarrow> m)"

section \<open>The Qiskit Runtime Service\<close>

text \<open>
  The operations that have the same text as the Quantum Compute Service's; starting a
  task does not know the program \<open>executor\<close>.
\<close>

definition qrs_is_accessible :: "'w ibm_client \<Rightarrow> ('w, bool) ibm" where
  "qrs_is_accessible = qcs_is_accessible"

definition qrs_acquire :: "'w ibm_client \<Rightarrow> ('w, string) ibm" where
  "qrs_acquire = qcs_acquire"

definition qrs_release :: "'w ibm_client \<Rightarrow> string \<Rightarrow> ('w, unit) ibm" where
  "qrs_release = qcs_release"

definition qrs_task_start :: "'w ibm_client \<Rightarrow> payload \<Rightarrow> ('w, string) ibm" where
  "qrs_task_start = ibm_task_start False"

definition qrs_task_stop :: "'w ibm_client \<Rightarrow> string \<Rightarrow> ('w, unit) ibm" where
  "qrs_task_stop = qcs_task_stop"

definition qrs_task_status :: "'w ibm_client \<Rightarrow> string \<Rightarrow> ('w, task_status) ibm" where
  "qrs_task_status = qcs_task_status"

definition qrs_task_result :: "'w ibm_client \<Rightarrow> string \<Rightarrow> ('w, string) ibm" where
  "qrs_task_result = qcs_task_result"

definition qrs_task_logs :: "'w ibm_client \<Rightarrow> string \<Rightarrow> ('w, string) ibm" where
  "qrs_task_logs = qcs_task_logs"

definition qrs_target :: "'w ibm_client \<Rightarrow> ('w, string) ibm" where
  "qrs_target = qcs_target"

definition qrs_metadata :: "ibm_service \<Rightarrow> string \<rightharpoonup> string" where
  "qrs_metadata = qcs_metadata"

section \<open>The search for a dedicated session\<close>

text \<open>
  A server that does not change during the search: the pending jobs of the backend in
  order, served in pages as the query asks, and the sessions.
\<close>

definition steady_server ::
    "'w ibm_client \<Rightarrow> job_response list \<Rightarrow> (string \<Rightarrow> session_response) \<Rightarrow> bool" where
  "steady_server C jobs session_of \<longleftrightarrow>
     (\<forall>cfg backend offset w. api_list_jobs C cfg (page_query backend offset) w =
        (Inr (Some (take 200 (drop (nat (sint offset)) jobs))), w)) \<and>
     (\<forall>cfg sid version w. api_get_session C cfg sid version w = (Inr (session_of sid), w))"

definition holds_backend :: "(string \<Rightarrow> session_response) \<Rightarrow> job_response \<Rightarrow> bool" where
  "holds_backend session_of job \<longleftrightarrow> job_state job = JobRunning \<and>
     (\<exists>sid. job_session job = Some sid \<and> sr_state (session_of sid) = Some SessionActive
        \<and> sr_mode (session_of sid) = Dedicated)"

lemma search_page_steady:
  assumes "steady_server C jobs session_of"
  shows "search_page C js (s, w) = (Ok (\<exists>j \<in> set js. holds_backend session_of j), (s, w))"
proof (induction js)
  case (Cons j js)
  have get: "request (\<lambda>s. api_get_session C (svc_config s) sid (Some ''2025-01-01'')) ibm_resource_kind.Session (s, w)
      = (Ok (session_of sid), (s, w))" for sid
    using assms by (simp add: request_def steady_server_def)
  show ?case
  proof (cases "job_session j")
    case (Some sid)
    with Cons get [of sid] show ?thesis
      by (auto simp: holds_backend_def andthen_def ret_def)
  qed (use Cons in \<open>auto simp: holds_backend_def\<close>)
qed (simp add: ret_def)

lemma list_page_steady:
  assumes "steady_server C jobs session_of"
  shows "request (\<lambda>s. api_list_jobs C (svc_config s) (page_query (svc_backend s) offset))
      ibm_resource_kind.Job (s, w) = (Ok (Some (take 200 (drop (nat (sint offset)) jobs))), (s, w))"
  using assms by (simp add: request_def steady_server_def)

lemma page_length: "length js \<le> 200 \<Longrightarrow> sint (of_nat (length js) :: i32) = int (length js)"
  by (simp add: signed_of_nat signed_take_bit_int_eq_self)

lemma search_pages_step:
  assumes st: "steady_server C jobs session_of" and js: "js = take 200 (drop (nat (sint offset)) jobs)"
  shows "search_pages C offset (s, w) =
    (if \<exists>j \<in> set js. holds_backend session_of j then (Ok True, (s, w))
     else if length js < 200 \<or> 2147483447 < sint offset then (Ok False, (s, w))
     else search_pages C (offset + PAGE_SIZE) (s, w))"
proof -
  have "length js \<le> 200" by (simp add: js)
  note len = page_length [OF this]
  show ?thesis
    unfolding search_pages.simps [of C offset] list_page_steady [OF st] js [symmetric]
    by (simp add: search_page_steady [OF st] len Let_def PAGE_SIZE_def MAX_OFFSET_def)
qed

lemma search_pages_steady:
  assumes st: "steady_server C jobs session_of" and len: "length jobs \<le> 2147483447"
    and "0 \<le> sint offset"
  shows "search_pages C offset (s, w) =
    (Ok (\<exists>j \<in> set (drop (nat (sint offset)) jobs). holds_backend session_of j), (s, w))"
  using assms(3)
proof (induction "nat (2147483647 - sint offset)" arbitrary: offset rule: less_induct)
  case less
  let ?o = "nat (sint offset)"
  define js where "js = take 200 (drop ?o jobs)"
  note step = search_pages_step [OF st js_def]
  show ?case
  proof (cases "length js < 200")
    case True
    then have "drop ?o jobs = js" by (simp add: js_def)
    with True show ?thesis by (simp add: step)
  next
    case False
    then have full: "?o + 200 \<le> length jobs" by (simp add: js_def)
    then have small: "sint offset \<le> 2147483247" using len by linarith
    have max: "sint (MAX_OFFSET - PAGE_SIZE) = 2147483447" by (simp add: MAX_OFFSET_def PAGE_SIZE_def)
    have nxt: "sint (offset + PAGE_SIZE) = sint offset + 200" using next_offset small max by simp
    then have o': "nat (sint (offset + PAGE_SIZE)) = ?o + 200" using less.prems by linarith
    have split: "drop ?o jobs = js @ drop (?o + 200) jobs"
      unfolding js_def by (metis append_take_drop_id drop_drop add.commute)
    have ih: "search_pages C (offset + PAGE_SIZE) (s, w) =
        (Ok (\<exists>j \<in> set (drop (?o + 200) jobs). holds_backend session_of j), (s, w))"
      using less.hyps [of "offset + PAGE_SIZE"] less.prems small nxt o' by simp
    show ?thesis
      unfolding split set_append bex_Un using False small ih by (simp add: step)
  qed
qed

text \<open>
  C27. The paged search is complete: against a server that does not change meanwhile,
  with at most 2147483447 pending jobs, it finds an active dedicated session exactly
  when some running pending job belongs to one, on whatever page, and the 32-bit
  offset neither overflows nor skips a job.
\<close>

theorem dedicated_session_search:
  assumes "steady_server C jobs session_of" and "length jobs \<le> 2147483447"
  shows "has_dedicated_active_session C (s, w) =
    (Ok (\<exists>j \<in> set jobs. holds_backend session_of j), (s, w))"
  using search_pages_steady [OF assms, of 0] by (simp add: has_dedicated_active_session_def)

section \<open>Sessions: facts\<close>

lemma request_Ok:
  "request f k (s, w) = (Ok a, (s', w')) \<longleftrightarrow> s' = s \<and> f s w = (Inr a, w')"
  by (auto simp: request_def split: prod.splits elim!: outcome_of.elims)
    (metis Inl_Inr_False map_sum.simps(1) old.sum.exhaust map_sum.simps(2) id_apply sum.inject(2))

lemma set_session_Ok: "set_session sid (s, w) = (Ok u, (s', w')) \<longleftrightarrow> s' = s\<lparr>svc_session := sid\<rparr> \<and> w' = w"
  by (auto simp: set_session_def modify_def)

lemma qcs_release_forgets:
  "qcs_release C tok (s, w) = (Ok u, (s', w')) \<Longrightarrow> svc_session s' = None"
  by (auto simp: qcs_release_def andthen_Ok set_session_Ok Let_def split: if_splits)

lemma create_session_Ok:
  "create_session C (s, w) = (Ok tok, (s', w')) \<Longrightarrow> svc_session s' = Some tok"
  by (auto simp: create_session_def andthen_Ok set_session_Ok get_state_def ret_def)

lemma ensure_token_session: "ensure_token C (s, w) = (r, (s', w')) \<Longrightarrow> svc_session s' = svc_session s"
  by (auto simp: ensure_token_def split: prod.splits sum.splits)

text \<open>
  The session that \<open>acquire\<close> returns is the one in use: it is the session that
  every task started afterwards is sent with, whether it was kept, because more than
  a hundredth of its time was left, or newly created.
\<close>

lemma acquire_session_in_use:
  assumes "qcs_acquire C (s, w) = (Ok tok, (s', w'))"
  shows "svc_session s' = Some tok"
proof -
  from assms obtain s1 w1 where t: "ensure_token C (s, w) = (Ok (), (s1, w1))"
    and run: "(case svc_session s1 of None \<Rightarrow> create_session C
       | Some existing \<Rightarrow>
           andthen (request (\<lambda>s. api_get_session C (svc_config s) existing None) ibm_resource_kind.Session)
             (\<lambda>r. if worth_keeping r then ret existing
                  else andthen (qcs_release C existing) (\<lambda>_. create_session C))) (s1, w1) = (Ok tok, (s', w'))"
    by (auto simp: qcs_acquire_def andthen_Ok get_state_def)
  show ?thesis
  proof (cases "svc_session s1")
    case None
    with run create_session_Ok show ?thesis by simp
  next
    case (Some existing)
    with run obtain r s2 w2 where "request (\<lambda>s. api_get_session C (svc_config s) existing None)
        ibm_resource_kind.Session (s1, w1) = (Ok r, (s2, w2))"
      and rest: "(if worth_keeping r then ret existing
        else andthen (qcs_release C existing) (\<lambda>_. create_session C)) (s2, w2) = (Ok tok, (s', w'))"
      by (auto simp: andthen_Ok)
    then have "s2 = s1" by (simp add: request_Ok)
    with rest Some show ?thesis
      by (auto simp: ret_def andthen_Ok split: if_splits dest: create_session_Ok)
  qed
qed

text \<open>
  \<open>release\<close> forgets the resource's session whatever token it is given: after the
  release of another session the resource has no session of its own any more, while
  that session stays open on the server.
\<close>

lemma release_forgets_any_session:
  assumes "qcs_release C tok (s, w) = (Ok (), (s', w'))" and "svc_session s = Some own" and "tok \<noteq> own"
  shows "svc_session s' = None"
  using qcs_release_forgets [OF assms(1)] .

end
