(* ===== verification/WitnessesIbm.thy ===== *)
theory WitnessesIbm
  imports Providers IbmService
begin

text \<open>
  The properties of the filters, the providers and the IBM services at concrete
  inputs: an account with two backends, and a service with one session.
\<close>

section \<open>Filters\<close>

definition sample_glob :: "string glob" where
  "sample_glob = \<lparr>pattern_new = Inr, pattern_matches = (\<lambda>p n. p = n)\<rparr>"

lemma ibm_sample_u32: "parse_u32 ''5'' = Inr 5"
  using parse_show_u32 [of 5] by (simp add: show_u32_def show_nat.simps digit_char_def char_of_def bit_0)

lemma sample_trims: "trim ''num_qubits=5 '' = ''num_qubits=5''" "trim ''num_qubits'' = ''num_qubits''" "trim ''5'' = ''5''"
  by (rule trim_graphic | code_simp)+

lemma sample_entries: "entries (split_on (CHR ''&'') ''num_qubits=5 &&'') = Some [(''num_qubits'', ''5'')]"
  by (simp add: sample_trims entry_of_def)

theorem compute_parse_meaning_witness:
  "compute_parse sample_glob ''num_qubits=5 &&'' = Inr (compute_meaning sample_glob [(''num_qubits'', ''5'')])"
  by (subst compute_parse_meaning) (simp add: sample_entries compute_valid_def ibm_sample_u32 del: split_on.simps)

section \<open>Providers\<close>

definition sample_iam :: "'w iam" where
  "sample_iam = \<lparr>unix_now = (\<lambda>_. 1000), fetch_access_token = (\<lambda>_ _ w. (Inr (''t'', 4600, 3600), w))\<rparr>"

definition sample_backend :: backend_configuration where
  "sample_backend = \<lparr>bc_backend_name = [], backend_version = [], n_qubits = 5, basis_gates = [], gates = [],
     local = False, simulator = False, conditional = False, memory = True, bc_max_shots = 100,
     coupling_map = None, max_experiments = None, n_registers = 0, register_map = None, configurable = False,
     credits_required = False, online_date = None, display_name = None, description = None, tags = None,
     rep_delay_range = None, default_rep_delay = None, dynamic_reprate_enabled = False,
     measure_esp_enabled = False, supported_instructions = [], supported_features = [],
     quantum_volume = None, processor = None, qubit_lo_range = None, meas_lo_range = None, timing = None\<rparr>"

definition sample_device :: "string \<Rightarrow> i32 \<Rightarrow> device" where
  "sample_device n q = \<lparr>dev_name = n, dev_is_simulator = None, queue_length = q\<rparr>"

definition sample_account :: "(unit, string, string) compute_lib" where
  "sample_account = \<lparr>globs = sample_glob, iam_calls = sample_iam,
     list_backends = (\<lambda>_ w. (Inr (Some [sample_device ''a'' 9, sample_device ''b'' 2]), w)),
     get_backend_status = (\<lambda>_ _ w. (Inr (Some ''online''), w)),
     get_backend_configuration = (\<lambda>_ _ w. (Inr JNull, w)),
     configuration_of = (\<lambda>_. Inr sample_backend),
     construct = (\<lambda>name env. Inr name)\<rparr>"

definition sample_provider :: compute_provider where
  "sample_provider = \<lparr>cp_config = \<lparr>base_path = [], bearer_access_token = None, crn = None\<rparr>,
     cp_api_key = [], cp_iam_endpoint = [], cp_env = (\<lambda>_. None)\<rparr>"

lemma inject_nothing: "inject_backend_env (\<lambda>_. None) n env = env"
  by (simp add: inject_backend_env_def fun_eq_iff split: option.split)

lemma sample_resources:
  "compute_resources sample_account sample_provider None (env, ()) = (Ok [''b'', ''a''], (env, ()))"
  by (simp add: compute_resources_def compute_parse_def sample_account_def sample_provider_def compute_default_def
      check_token_def sample_iam_def needs_renewal_def Let_def list_candidates_def compute_matches_device_def
      sample_device_def compute_matches_name_def compute_needs_status_check_def sort_by_queue_def
      compute_matches_config_def sample_backend_def inject_nothing)


section \<open>Tokens\<close>


section \<open>Sessions\<close>

definition ibm_sample_job :: job_response where
  "ibm_sample_job = \<lparr>job_state = JobRunning, job_session = Some ''d''\<rparr>"

definition sample_session :: "string \<Rightarrow> session_response" where
  "sample_session sid = \<lparr>sr_id = sid, sr_state = Some SessionActive, sr_mode = Dedicated,
     active_ttl = Some 90, max_ttl = Some 100\<rparr>"

definition sample_ibm :: "unit ibm_client" where
  "sample_ibm = \<lparr>ibm_iam = sample_iam,
     ibm_serde = \<lparr>jparse = (\<lambda>_. Inr JNull), jdump = (\<lambda>_. []), jfrac_u64 = (\<lambda>_. None)\<rparr>,
     typed_params = (\<lambda>_ v. Inr v),
     api_backend_status = (\<lambda>_ _ w. (Inr (Some ''active''), w)),
     api_list_backends = (\<lambda>_ w. (Inr None, w)),
     api_list_jobs = (\<lambda>_ q w. (Inr (Some (take 200 (drop
        (case jq_offset q of Some n \<Rightarrow> nat (sint n) | None \<Rightarrow> 0) [ibm_sample_job]))), w)),
     api_get_session = (\<lambda>_ sid _ w. (Inr (sample_session sid), w)),
     api_create_session = (\<lambda>_ _ w. (Inr ''new'', w)),
     api_close_session = (\<lambda>_ _ w. (Inr (), w)),
     api_update_session = (\<lambda>_ _ _ w. (Inr (), w)),
     api_create_job = (\<lambda>_ _ w. (Inr ''j'', w)),
     api_get_job = (\<lambda>_ _ w. (Inr JobRunning, w)),
     api_cancel_job = (\<lambda>_ _ w. (Inr (), w)),
     api_job_results = (\<lambda>_ _ w. (Inr [], w)),
     api_job_logs = (\<lambda>_ _ w. (Inr [], w)),
     api_configuration = (\<lambda>_ _ w. (Inr JNull, w)),
     api_properties = (\<lambda>_ _ _ w. (Inr JNull, w))\<rparr>"

definition sample_ibm_service :: ibm_service where
  "sample_ibm_service = \<lparr>svc_config = \<lparr>base_path = [], bearer_access_token = Some ''t'', crn = None\<rparr>,
     svc_backend = ''b'', svc_session = Some ''own'', svc_calibration = None, svc_timeout_secs = None,
     svc_session_mode = ''dedicated'', svc_session_max_ttl = 28800, svc_api_key = [], svc_iam_endpoint = [],
     svc_token_expiration = 4600, svc_token_lifetime = 3600\<rparr>"

lemma sample_steady: "steady_server sample_ibm [ibm_sample_job] sample_session"
  by (simp add: steady_server_def sample_ibm_def page_query_def)

theorem dedicated_session_search_witness:
  "has_dedicated_active_session sample_ibm (sample_ibm_service, ()) = (Ok True, (sample_ibm_service, ()))"
  using dedicated_session_search [OF sample_steady, of sample_ibm_service "()"]
  by (simp add: holds_backend_def ibm_sample_job_def sample_session_def)

lemma sample_token: "ensure_token sample_ibm (sample_ibm_service, ()) = (Ok (), (sample_ibm_service, ()))"
  by (simp add: ensure_token_def sample_ibm_def sample_iam_def check_token_def needs_renewal_def sample_ibm_service_def)

lemma sample_requests:
  "request (\<lambda>s. api_get_session sample_ibm (svc_config s) sid v) k (s, w) = (Ok (sample_session sid), (s, w))"
  "request (\<lambda>s. api_list_jobs sample_ibm (svc_config s) (session_jobs_query tok)) k (s, w) =
     (Ok (Some [ibm_sample_job]), (s, w))"
  "request (\<lambda>s. api_close_session sample_ibm (svc_config s) tok) k (s, w) = (Ok (), (s, w))"
  by (simp_all add: request_def sample_ibm_def session_jobs_query_def)

lemma sample_worth: "worth_keeping (sample_session sid)"
  by (simp add: worth_keeping_def sample_session_def)

lemma sample_own: "svc_session sample_ibm_service = Some ''own''"
  by (simp add: sample_ibm_service_def)

lemma ibm_sample_acquired: "qcs_acquire sample_ibm (sample_ibm_service, ()) = (Ok ''own'', (sample_ibm_service, ()))"
  by (simp add: qcs_acquire_def andthen_def sample_token get_state_def sample_own sample_requests sample_worth ret_def)

lemma ibm_sample_released:
  "qcs_release sample_ibm ''other'' (sample_ibm_service, ()) =
     (Ok (), (sample_ibm_service\<lparr>svc_session := None\<rparr>, ()))"
  by (simp add: qcs_release_def andthen_def sample_token sample_requests Let_def set_session_def modify_def
      cong del: outcome.case_cong)

end
