(* ===== verification/Loops.thy ===== *)
theory Loops
  imports Prelude
begin

text \<open>
  Programs that may run for ever.  The runs of the Quantum System client contain
  retry and polling loops without a bound of their own, so a program gives
  \<open>None\<close> when it never returns, and otherwise its outcome with the state it leaves.
  \<open>yields\<close> is the weakest liberal precondition, \<open>halts\<close> says that the run ends.
\<close>

named_theorems lwp \<open>equations that compute the liberal precondition of a combinator\<close>
named_theorems halting \<open>when a combinator's run ends\<close>

type_synonym ('s, 'e, 'a) loop_prog = "'s \<Rightarrow> (('e, 'a) outcome \<times> 's) option"

definition prompt :: "('s, 'e, 'a) prog \<Rightarrow> ('s, 'e, 'a) loop_prog" where
  "prompt m = (\<lambda>s. Some (m s))"

text \<open>\<open>chain m f\<close> is \<open>let x = m.await?; f(x)\<close>.\<close>

definition chain ::
    "('s, 'e, 'a) loop_prog \<Rightarrow> ('a \<Rightarrow> ('s, 'e, 'b) loop_prog) \<Rightarrow> ('s, 'e, 'b) loop_prog" where
  "chain m f = (\<lambda>s. case m s of
      None \<Rightarrow> None
    | Some (r, s') \<Rightarrow> (case r of
          Ok a \<Rightarrow> f a s'
        | Err e \<Rightarrow> Some (Err e, s')
        | Panic \<Rightarrow> Some (Panic, s')))"

text \<open>\<open>settle m f\<close> is \<open>let x = m.await; f(x)\<close>: the \<open>Result\<close> is the value.\<close>

definition settle ::
    "('s, 'e, 'a) loop_prog \<Rightarrow> ('e + 'a \<Rightarrow> ('s, 'f, 'b) loop_prog) \<Rightarrow> ('s, 'f, 'b) loop_prog" where
  "settle m f = (\<lambda>s. case m s of
      None \<Rightarrow> None
    | Some (r, s') \<Rightarrow> (case r of
          Ok a \<Rightarrow> f (Inr a) s'
        | Err e \<Rightarrow> f (Inl e) s'
        | Panic \<Rightarrow> Some (Panic, s')))"

definition map_error :: "('e \<Rightarrow> 'f) \<Rightarrow> ('s, 'e, 'a) loop_prog \<Rightarrow> ('s, 'f, 'a) loop_prog" where
  "map_error h m = settle m (\<lambda>r. prompt (from_result (map_sum h id r)))"

section \<open>Partial correctness\<close>

definition yields :: "('s, 'e, 'a) loop_prog \<Rightarrow> 's \<Rightarrow> (('e, 'a) outcome \<Rightarrow> 's \<Rightarrow> bool) \<Rightarrow> bool" where
  "yields m s Q \<longleftrightarrow> (\<forall>r s'. m s = Some (r, s') \<longrightarrow> Q r s')"

lemma yields_prompt [lwp]: "yields (prompt m) s Q = post m s Q"
  by (auto simp: yields_def prompt_def post_def split_beta prod_eq_iff)

lemma yields_chain [lwp]:
  "yields (chain m f) s Q = yields m s (\<lambda>r s'. case r of
      Ok a \<Rightarrow> yields (f a) s' Q | Err e \<Rightarrow> Q (Err e) s' | Panic \<Rightarrow> Q Panic s')"
  by (cases "m s") (auto simp: yields_def chain_def split: prod.splits outcome.splits)

lemma yields_settle [lwp]:
  "yields (settle m f) s Q = yields m s (\<lambda>r s'. case r of
      Ok a \<Rightarrow> yields (f (Inr a)) s' Q | Err e \<Rightarrow> yields (f (Inl e)) s' Q | Panic \<Rightarrow> Q Panic s')"
  by (cases "m s") (auto simp: yields_def settle_def split: prod.splits outcome.splits)

lemma yields_map_error [lwp]:
  "yields (map_error h m) s Q = yields m s (\<lambda>r s'. case r of
      Ok a \<Rightarrow> Q (Ok a) s' | Err e \<Rightarrow> Q (Err (h e)) s' | Panic \<Rightarrow> Q Panic s')"
  by (simp add: map_error_def lwp wp)

lemma yieldsD: "yields m s Q \<Longrightarrow> m s = Some (r, s') \<Longrightarrow> Q r s'"
  by (simp add: yields_def)

lemma yields_mono:
  assumes "yields m s Q" and "\<And>r s'. Q r s' \<Longrightarrow> Q' r s'"
  shows "yields m s Q'"
  using assms by (simp add: yields_def)

section \<open>Termination\<close>

definition halts :: "('s, 'e, 'a) loop_prog \<Rightarrow> 's \<Rightarrow> bool" where
  "halts m s \<longleftrightarrow> m s \<noteq> None"

lemma halts_prompt [simp]: "halts (prompt m) s"
  by (simp add: halts_def prompt_def)

lemma halts_chain [halting]:
  "halts (chain m f) s \<longleftrightarrow> halts m s \<and> yields m s (\<lambda>r s'. case r of
      Ok a \<Rightarrow> halts (f a) s' | Err _ \<Rightarrow> True | Panic \<Rightarrow> True)"
  by (cases "m s") (auto simp: halts_def yields_def chain_def split: prod.splits outcome.splits)

lemma halts_settle [halting]:
  "halts (settle m f) s \<longleftrightarrow> halts m s \<and> yields m s (\<lambda>r s'. case r of
      Ok a \<Rightarrow> halts (f (Inr a)) s' | Err e \<Rightarrow> halts (f (Inl e)) s' | Panic \<Rightarrow> True)"
  by (cases "m s") (auto simp: halts_def yields_def settle_def split: prod.splits outcome.splits)

lemma halts_map_error [halting]: "halts (map_error h m) s \<longleftrightarrow> halts m s"
  by (auto simp: map_error_def halting yields_def split: outcome.split)

section \<open>Runs\<close>

lemma chain_Some:
  "chain m f s = Some (Ok b, t) \<longleftrightarrow> (\<exists>a s'. m s = Some (Ok a, s') \<and> f a s' = Some (Ok b, t))"
  by (cases "m s") (auto simp: chain_def split: prod.splits outcome.splits)

lemma chain_step: "m s = Some (Ok a, s') \<Longrightarrow> chain m f s = f a s'"
  by (simp add: chain_def)

lemma chain_stop: "m s = Some (Err e, s') \<Longrightarrow> chain m f s = Some (Err e, s')"
  by (simp add: chain_def)

lemma settle_Ok: "m s = Some (Ok a, s') \<Longrightarrow> settle m f s = f (Inr a) s'"
  by (simp add: settle_def)

lemma settle_Err: "m s = Some (Err e, s') \<Longrightarrow> settle m f s = f (Inl e) s'"
  by (simp add: settle_def)

lemma map_error_Err: "m s = Some (Err e, s') \<Longrightarrow> map_error h m s = Some (Err (h e), s')"
  by (simp add: map_error_def settle_def prompt_def from_result_def)

lemma map_error_Ok: "m s = Some (Ok a, s') \<Longrightarrow> map_error h m s = Some (Ok a, s')"
  by (simp add: map_error_def settle_def prompt_def from_result_def)

lemma settle_Some:
  "settle m f s = Some (Ok b, t) \<longleftrightarrow> (\<exists>a s'. m s = Some (Ok a, s') \<and> f (Inr a) s' = Some (Ok b, t))
     \<or> (\<exists>e s'. m s = Some (Err e, s') \<and> f (Inl e) s' = Some (Ok b, t))"
  by (cases "m s") (auto simp: settle_def split: prod.splits outcome.splits)

lemma prompt_stops: "prompt (throw e) s \<noteq> Some (Ok a, t)" "prompt panic s \<noteq> Some (Ok a, t)"
    "prompt (ret b) s = Some (Ok a, t) \<longleftrightarrow> a = b \<and> t = s" "prompt (ret b) s \<noteq> Some (Err e, t)"
  by (auto simp: prompt_def throw_def panic_def ret_def)

section \<open>Frames\<close>

definition keeps :: "('s \<Rightarrow> 's \<Rightarrow> bool) \<Rightarrow> ('s, 'e, 'a) loop_prog \<Rightarrow> bool" where
  "keeps R m \<longleftrightarrow> (\<forall>s. yields m s (\<lambda>_ s'. R s s'))"

lemma keepsD: "keeps R m \<Longrightarrow> m s = Some (r, s') \<Longrightarrow> R s s'"
  by (auto simp: keeps_def yields_def)

context step_order
begin

lemma keeps_prompt: "within R m \<Longrightarrow> keeps R (prompt m)"
  by (simp add: keeps_def lwp within_def post_def)

lemma keeps_chain:
  assumes "keeps R m" and "\<And>a. keeps R (f a)"
  shows "keeps R (chain m f)"
  unfolding keeps_def
proof
  fix s
  from assms(1) have "yields m s (\<lambda>_ s'. R s s')" by (simp add: keeps_def)
  then have "yields m s (\<lambda>r s'. case r of Ok a \<Rightarrow> yields (f a) s' (\<lambda>_ s''. R s s'')
      | Err e \<Rightarrow> R s s' | Panic \<Rightarrow> R s s')"
    by (rule yields_mono) (use assms(2) in \<open>auto simp: keeps_def yields_def split: outcome.split intro: step_trans\<close>)
  then show "yields (chain m f) s (\<lambda>_ s'. R s s')" by (simp add: lwp)
qed

lemma keeps_settle:
  assumes "keeps R m" and "\<And>r. keeps R (f r)"
  shows "keeps R (settle m f)"
  unfolding keeps_def
proof
  fix s
  from assms(1) have "yields m s (\<lambda>_ s'. R s s')" by (simp add: keeps_def)
  then have "yields m s (\<lambda>r s'. case r of Ok a \<Rightarrow> yields (f (Inr a)) s' (\<lambda>_ s''. R s s'')
      | Err e \<Rightarrow> yields (f (Inl e)) s' (\<lambda>_ s''. R s s'') | Panic \<Rightarrow> R s s')"
    by (rule yields_mono) (use assms(2) in \<open>auto simp: keeps_def yields_def split: outcome.split intro: step_trans\<close>)
  then show "yields (settle m f) s (\<lambda>_ s'. R s s')" by (simp add: lwp)
qed

lemma keeps_map_error: "keeps R m \<Longrightarrow> keeps R (map_error h m)"
  unfolding map_error_def by (rule keeps_settle) (auto intro: keeps_prompt within_from_result)

lemma keeps_returns: "keeps R (prompt (ret a))" "keeps R (prompt (throw e))" "keeps R (prompt panic)"
    "keeps R (prompt (from_result r))" "keeps R (prompt get_state)"
  by (auto intro!: keeps_prompt within_rules)

lemmas keeps_rules = keeps_chain keeps_settle keeps_map_error keeps_returns

end

definition ends :: "('s, 'e, 'a) loop_prog \<Rightarrow> bool" where
  "ends m \<longleftrightarrow> (\<forall>s. halts m s)"

lemma ends_prompt: "ends (prompt m)"
  by (simp add: ends_def)

lemma ends_chain: "ends m \<Longrightarrow> (\<And>a. ends (f a)) \<Longrightarrow> ends (chain m f)"
  by (simp add: ends_def halting yields_def split: outcome.split)

lemma ends_settle: "ends m \<Longrightarrow> (\<And>r. ends (f r)) \<Longrightarrow> ends (settle m f)"
  by (simp add: ends_def halting yields_def split: outcome.split)

lemma ends_map_error: "ends m \<Longrightarrow> ends (map_error h m)"
  by (simp add: ends_def halting)

lemmas ends_rules = ends_prompt ends_chain ends_settle ends_map_error

end
