(* ===== verification/QsHttp.thy ===== *)
theory QsHttp
  imports Loops Classify
begin

text \<open>
  The HTTP stack of the Quantum System client: the retrying middleware
  (\<open>dependencies/quantum_system_client/src/middleware/retry.rs\<close>), the two retry
  strategies of \<open>client.rs\<close>, and the authenticating middleware with its token
  manager (\<open>middleware/auth.rs\<close>).  \<open>reqwest\<close> and \<open>reqwest-retry\<close> are crates: sending
  a request (\<open>wire\<close>), the retry policy and the default strategy are parameters, as
  are the clocks, the sleep and reading a JSON reply.
\<close>

section \<open>Requests, replies and errors\<close>

datatype http_method = GET | POST | DELETE

record http_request =
  req_method :: http_method
  req_url :: string
  req_headers :: "(string \<times> string) list"
  req_body :: "string option"

text \<open>\<open>headers_mut().insert\<close> replaces what the header held.\<close>

definition insert_header :: "string \<Rightarrow> string \<Rightarrow> http_request \<Rightarrow> http_request" where
  "insert_header k v rq =
     rq\<lparr>req_headers := (k, v) # filter (\<lambda>(k', _). k' \<noteq> k) (req_headers rq)\<rparr>"

text \<open>A reply shows its status as \<open>503 Service Unavailable\<close>; reading its body may fail.\<close>

record http_reply =
  rep_status :: nat
  rep_shown :: string
  rep_body :: "string + string"

text \<open>\<open>reqwest_middleware::Error\<close>, each variant with the messages of its \<open>source()\<close> chain.\<close>

datatype middleware_error =
    Middleware (mw_message: string) (mw_sources: "string list")
  | ReqwestFailure (mw_message: string) (mw_sources: "string list")

type_synonym ('w, 'a) http = "('w, middleware_error, 'a) loop_prog"
type_synonym 'w handler = "http_request \<Rightarrow> ('w, http_reply) http"

text \<open>
  A retry policy is asked with the time the first attempt started and the number of
  retries so far, and answers when to try again, if at all.
\<close>

type_synonym 'w retry_policy = "nat \<Rightarrow> nat \<Rightarrow> 'w \<Rightarrow> nat option"

datatype retryable = Transient | Fatal

type_synonym strategy = "middleware_error + http_reply \<Rightarrow> retryable option"

record 'w http_env =
  wire :: "http_request \<Rightarrow> 'w \<Rightarrow> (middleware_error + http_reply) \<times> 'w"
  default_strategy :: strategy
  system_now :: "'w \<Rightarrow> nat"
  sleep_for :: "nat \<Rightarrow> 'w \<Rightarrow> 'w"
  instant_now :: "'w \<Rightarrow> nat"
  bad_url :: "string \<Rightarrow> middleware_error option"
  header_value_ok :: "string \<Rightarrow> bool"
  header_error :: string
  canonical_reason :: "nat \<Rightarrow> string option"
  form_encode :: "(string \<times> string) list \<Rightarrow> string"
  read_token :: "string \<Rightarrow> string + string \<times> u64"
  read_iam_error :: "string \<Rightarrow> (string \<times> string \<times> string option) option"
  nine_tenths :: "u64 \<Rightarrow> u64"
  mw_display :: "middleware_error \<Rightarrow> string"

definition raw_send :: "'w http_env \<Rightarrow> 'w handler" where
  "raw_send E rq = prompt (run_result (wire E rq))"

text \<open>A request with an invalid URL fails before any middleware sees it.\<close>

definition built_send ::
    "'w http_env \<Rightarrow> (http_request \<Rightarrow> ('s, middleware_error, http_reply) loop_prog) \<Rightarrow> http_request \<Rightarrow>
     ('s, middleware_error, http_reply) loop_prog" where
  "built_send E send rq = (case bad_url E (req_url rq) of
      Some e \<Rightarrow> prompt (throw e)
    | None \<Rightarrow> send rq)"

section \<open>Retrying\<close>

text \<open>
  What follows an attempt: \<open>None\<close> hands the result back, \<open>Some w\<close> tries again after
  the pause that the policy asked for, in the world \<open>w\<close>.
\<close>

definition retry_after ::
    "'w http_env \<Rightarrow> 'w retry_policy \<Rightarrow> strategy \<Rightarrow> nat \<Rightarrow> nat \<Rightarrow>
     (middleware_error, http_reply) outcome \<Rightarrow> 'w \<Rightarrow> 'w option" where
  "retry_after E P strat start n r w =
     (let decide = (\<lambda>res. if strat res = Some Transient then
            (case P start n w of
               Some execute_after \<Rightarrow> Some (sleep_for E (execute_after - system_now E w) w)
             | None \<Rightarrow> None)
          else None) in
      case r of Ok reply \<Rightarrow> decide (Inr reply) | Err e \<Rightarrow> decide (Inl e) | Panic \<Rightarrow> None)"

partial_function (option) retry_loop ::
    "'w http_env \<Rightarrow> 'w retry_policy \<Rightarrow> strategy \<Rightarrow> 'w handler \<Rightarrow> nat \<Rightarrow> nat \<Rightarrow> http_request \<Rightarrow>
     'w \<Rightarrow> ((middleware_error, http_reply) outcome \<times> 'w) option" where
  "retry_loop E P strat nxt start n rq w =
     Option.bind (nxt rq w) (\<lambda>(r, w1).
       case retry_after E P strat start n r w1 of
         None \<Rightarrow> Some (r, w1)
       | Some w2 \<Rightarrow> retry_loop E P strat nxt start (n + 1) rq w2)"

definition retry_handle ::
    "'w http_env \<Rightarrow> 'w retry_policy \<Rightarrow> strategy \<Rightarrow> 'w handler \<Rightarrow> 'w handler" where
  "retry_handle E P strat nxt rq w = retry_loop E P strat nxt (system_now E w) 0 rq w"

text \<open>\<open>RetryStrategyExcept429\<close> and \<open>RetryStrategy429\<close>.\<close>

definition except_429 :: "'w http_env \<Rightarrow> strategy" where
  "except_429 E res = (case res of
      Inr success \<Rightarrow>
        if rep_status success = 429 \<or> rep_status success = 423 then None
        else default_strategy E (Inr success)
    | Inl e \<Rightarrow> default_strategy E (Inl e))"

definition only_429 :: strategy where
  "only_429 res = (case res of
      Inr success \<Rightarrow>
        if rep_status success = 429 \<or> rep_status success = 423 then Some Transient else None
    | Inl _ \<Rightarrow> None)"

text \<open>
  The layers that \<open>ClientBuilder::build\<close> attaches under the authentication, with the
  feature \<open>iqp_retry_policy\<close> that \<open>qrmi\<close> enables by default.
\<close>

definition retrying ::
    "'w http_env \<Rightarrow> 'w retry_policy option \<Rightarrow> 'w retry_policy \<Rightarrow> 'w handler" where
  "retrying E policy policy_429 = (case policy of
      Some P \<Rightarrow> retry_handle E P (except_429 E) (retry_handle E policy_429 only_429 (raw_send E))
    | None \<Rightarrow> raw_send E)"

section \<open>Tokens\<close>

text \<open>
  \<open>IbmCloudIam\<close> has the API key, the service's CRN and the IAM endpoint.  The token
  manager is shared by the clones of a client and locked during a request.  Adding
  to an \<open>Instant\<close> panics on overflow of its 64-bit seconds.
\<close>

datatype auth_method = NoAuth | IbmCloudIam string string string

record token_manager =
  tm_access_token :: "string option"
  tm_expiry :: "nat option"
  tm_url :: string
  tm_auth :: auth_method

definition token_manager_new :: "string \<Rightarrow> auth_method \<Rightarrow> token_manager" where
  "token_manager_new url auth =
     \<lparr>tm_access_token = None, tm_expiry = None, tm_url = url, tm_auth = auth\<rparr>"

type_synonym ('w, 'a) authed = "(token_manager \<times> 'w, middleware_error, 'a) loop_prog"

text \<open>A handler runs on the world alone.\<close>

definition on_world :: "('w, 'a) http \<Rightarrow> ('w, 'a) authed" where
  "on_world m = (\<lambda>(tm, w). map_option (\<lambda>(r, w'). (r, (tm, w'))) (m w))"

definition token_request :: "'w http_env \<Rightarrow> token_manager \<Rightarrow> string \<Rightarrow> http_request" where
  "token_request E tm apikey =
     \<lparr>req_method = POST, req_url = tm_url tm,
      req_headers = [(''accept'', ''application/json''),
        (''content-type'', ''application/x-www-form-urlencoded'')],
      req_body = Some (form_encode E
        [(''grant_type'', ''urn:ibm:params:oauth:grant-type:apikey''), (''apikey'', apikey)])\<rparr>"

definition is_success :: "http_reply \<Rightarrow> bool" where
  "is_success rep \<longleftrightarrow> 200 \<le> rep_status rep \<and> rep_status rep < 300"

definition refused_token :: "'w http_env \<Rightarrow> token_manager \<Rightarrow> http_reply \<Rightarrow> middleware_error" where
  "refused_token E tm rep =
     (case (case rep_body rep of Inl _ \<Rightarrow> None | Inr text \<Rightarrow> read_iam_error E text) of
        Some (code, message, details) \<Rightarrow>
          Middleware (''Failed to obtain access token. reason: ''
            @ (case details of Some d \<Rightarrow> d | None \<Rightarrow> message) @ '' ('' @ code @ '')'') []
      | None \<Rightarrow>
          Middleware (''Failed to obtain access token. reason: ''
            @ (case canonical_reason E (rep_status rep) of Some x \<Rightarrow> x | None \<Rightarrow> [])
            @ '' ('' @ rep_shown rep @ ''), url: '' @ tm_url tm) [])"

definition store_token :: "'w http_env \<Rightarrow> string \<Rightarrow> u64 \<Rightarrow> ('w, unit) authed" where
  "store_token E token expires_in = prompt (\<lambda>(tm, w).
     let expiry = instant_now E w + unat (nine_tenths E expires_in) in
     if expiry < 2 ^ 63
     then (Ok (), (tm\<lparr>tm_access_token := Some token, tm_expiry := Some expiry\<rparr>, w))
     else (Panic, (tm\<lparr>tm_access_token := Some token\<rparr>, w)))"

text \<open>\<open>token_send\<close> is the token manager's own client, with its retries.\<close>

definition get_access_token :: "'w http_env \<Rightarrow> 'w handler \<Rightarrow> ('w, unit) authed" where
  "get_access_token E token_send = chain (prompt get_state) (\<lambda>(tm, _).
     case tm_auth tm of
       NoAuth \<Rightarrow> prompt (ret ())
     | IbmCloudIam apikey _ _ \<Rightarrow>
         chain (on_world (built_send E token_send (token_request E tm apikey))) (\<lambda>rep.
         if is_success rep then
           (case rep_body rep of
              Inl e \<Rightarrow> prompt (throw (ReqwestFailure e []))
            | Inr text \<Rightarrow> (case read_token E text of
                  Inl e \<Rightarrow> prompt (throw (ReqwestFailure e []))
                | Inr (token, expires_in) \<Rightarrow> store_token E token expires_in))
         else prompt (throw (refused_token E tm rep))))"

definition ensure_token_validity :: "'w http_env \<Rightarrow> 'w handler \<Rightarrow> ('w, unit) authed" where
  "ensure_token_validity E token_send = chain (prompt get_state) (\<lambda>(tm, w).
     if tm_access_token tm = None
        \<or> (case tm_expiry tm of Some e \<Rightarrow> e | None \<Rightarrow> instant_now E w) \<le> instant_now E w
     then get_access_token E token_send
     else prompt (ret ()))"

definition get_token :: "'w http_env \<Rightarrow> 'w handler \<Rightarrow> ('w, string) authed" where
  "get_token E token_send =
     chain (ensure_token_validity E token_send) (\<lambda>_.
     chain (prompt get_state) (\<lambda>(tm, _). case tm_access_token tm of
         Some token \<Rightarrow> prompt (ret token)
       | None \<Rightarrow> prompt panic))"

definition with_bearer :: "'w http_env \<Rightarrow> string \<Rightarrow> http_request \<Rightarrow> ('w, http_request) authed" where
  "with_bearer E token rq =
     (if header_value_ok E (''Bearer '' @ token)
      then prompt (ret (insert_header ''authorization'' (''Bearer '' @ token) rq))
      else prompt panic)"

text \<open>\<open>AuthMiddleware::handle\<close>: a 401 is answered by a new token and one more attempt.\<close>

definition auth_handle ::
    "'w http_env \<Rightarrow> 'w handler \<Rightarrow> 'w handler \<Rightarrow> http_request \<Rightarrow> ('w, http_reply) authed" where
  "auth_handle E token_send nxt rq =
     chain (get_token E token_send) (\<lambda>token.
     chain (with_bearer E token rq) (\<lambda>rq1.
     settle (on_world (nxt rq1)) (\<lambda>response.
     if (case response of Inr resp \<Rightarrow> rep_status resp = 401 | Inl _ \<Rightarrow> False) then
       chain (get_access_token E token_send) (\<lambda>_.
       chain (get_token E token_send) (\<lambda>token2.
       chain (with_bearer E token2 rq) (\<lambda>rq2.
         on_world (nxt rq2))))
     else prompt (from_result response))))"

section \<open>The retry loop\<close>

text \<open>A loop invariant, indexed by the number of retries so far.\<close>

lemma retry_loop_rule:
  assumes "I n w"
    and "\<And>n w r w1. I n w \<Longrightarrow> nxt rq w = Some (r, w1) \<Longrightarrow>
      (case retry_after E P strat start n r w1 of None \<Rightarrow> Q r w1 | Some w2 \<Rightarrow> I (n + 1) w2)"
  shows "yields (\<lambda>w. retry_loop E P strat nxt start n rq w) w Q"
proof -
  have "(\<lambda>(((((((E', P'), strat'), nxt'), start'), n), rq'), w) res.
      (E', P', strat', nxt', start', rq') = (E, P, strat, nxt, start, rq) \<longrightarrow> I n w \<longrightarrow> Q (fst res) (snd res))
      (((((((E, P), strat), nxt), start), n), rq), w) res"
    if "retry_loop E P strat nxt start n rq w = Some res" for res
    using that
  proof (rule retry_loop.raw_induct [rotated], goal_cases)
    case (1 loop E' P' strat' nxt' start' n rq' w res)
    show ?case
    proof (simp only: prod.case, intro impI)
      assume eq: "(E', P', strat', nxt', start', rq') = (E, P, strat, nxt, start, rq)" and I: "I n w"
      from 1(2) obtain r w1 where m: "nxt rq w = Some (r, w1)"
        and k: "(case retry_after E P strat start n r w1 of None \<Rightarrow> Some (r, w1)
           | Some w2 \<Rightarrow> loop E P strat nxt start (n + 1) rq w2) = Some res"
        using eq by (auto simp: bind_eq_Some_conv)
      show "Q (fst res) (snd res)"
      proof (cases "retry_after E P strat start n r w1")
        case None
        with assms(2) [OF I m] k show ?thesis by auto
      next
        case (Some w2)
        with assms(2) [OF I m] have "I (n + 1) w2" by simp
        moreover from k Some have "loop E P strat nxt start (n + 1) rq w2 = Some res" by simp
        ultimately show ?thesis using 1(1) by simp
      qed
    qed
  qed
  with assms(1) show ?thesis by (fastforce simp: yields_def)
qed

text \<open>The loop ends when the policy gives up after some number of retries.\<close>

lemma retry_loop_halts:
  assumes "\<And>n w. bound \<le> n \<Longrightarrow> P start n w = None" and "\<And>w. halts (nxt rq) w"
  shows "halts (\<lambda>w. retry_loop E P strat nxt start n rq w) w"
proof (induction "bound - n" arbitrary: n w rule: less_induct)
  case (less n w)
  obtain r w1 where m: "nxt rq w = Some (r, w1)" using assms(2) [of w] by (auto simp: halts_def)
  show ?case
  proof (cases "retry_after E P strat start n r w1")
    case None
    with m have "retry_loop E P strat nxt start n rq w = Some (r, w1)" by (subst retry_loop.simps) simp
    then show ?thesis by (simp add: halts_def)
  next
    case (Some w2)
    then have "P start n w1 \<noteq> None"
      by (auto simp: retry_after_def Let_def split: outcome.splits if_splits option.splits)
    with assms(1) have "n < bound" by (metis not_le)
    then have "halts (\<lambda>w. retry_loop E P strat nxt start (n + 1) rq w) w2" by (intro less) simp
    moreover from m Some have "retry_loop E P strat nxt start n rq w = retry_loop E P strat nxt start (n + 1) rq w2"
      by (subst retry_loop.simps) simp
    ultimately show ?thesis by (simp add: halts_def)
  qed
qed

text \<open>The loop is transparent: its result is the result of its last attempt.\<close>

lemma retry_loop_last:
  "yields (\<lambda>w. retry_loop E P strat nxt start n rq w) w
     (\<lambda>r w'. (\<exists>w0 m. nxt rq w0 = Some (r, w') \<and> retry_after E P strat start m r w' = None))"
  by (rule retry_loop_rule [where I = "\<lambda>_ _. True"]) (auto split: option.split)

end
