(* ===== verification/QsClient.thy ===== *)
theory QsClient
  imports QsHttp
begin

text \<open>
  The client of the IBM Quantum System API
  (\<open>dependencies/quantum_system_client/src/client.rs\<close>, \<open>src/api/\<close>, \<open>src/error.rs\<close>).
  The state is the token manager with the world.  S3 is the AWS crate and a
  parameter, as are fresh UUIDs and the derived deserialization of the replies.
  Signing a URL (\<open>src/storages/s3.rs\<close>) gives the URL or the error's message.
\<close>

datatype qs_job_status = JobRunning | JobCompleted | JobFailed | JobCancelled
datatype backend_status = BackendOnline | BackendOffline | BackendPaused
datatype program_id = Estimator | Sampler | Executor
datatype log_level = LogCritical | LogError | LogWarning | LogInfo | LogDebug

definition program_id_from_str :: "string \<Rightarrow> program_id option" where
  "program_id_from_str s =
     (if s = ''estimator'' then Some Estimator
      else if s = ''sampler'' then Some Sampler
      else if s = ''executor'' then Some Executor
      else None)"

fun show_program_id :: "program_id \<Rightarrow> string" where
  "show_program_id Estimator = ''estimator''"
| "show_program_id Sampler = ''sampler''"
| "show_program_id Executor = ''executor''"

fun show_log_level :: "log_level \<Rightarrow> string" where
  "show_log_level LogCritical = ''critical''"
| "show_log_level LogError = ''error''"
| "show_log_level LogWarning = ''warning''"
| "show_log_level LogInfo = ''info''"
| "show_log_level LogDebug = ''debug''"

lemma program_id_from_show [simp]: "program_id_from_str (show_program_id p) = Some p"
  by (cases p) (simp_all add: program_id_from_str_def)

text \<open>The parts of a job, a backend and the lanes configuration that are read.\<close>

record qs_job =
  qj_id :: string
  qj_backend :: string
  qj_status :: qs_job_status
  qj_reason_code :: "int option"
  qj_reason_message :: "string option"
  qj_reason_solution :: "string option"

record qs_backend =
  qb_status :: backend_status
  qb_locked :: "bool option"

record s3_config =
  s3_access_key_id :: string
  s3_secret_access_key :: string
  s3_endpoint :: string
  s3_region :: string

record 'w qs_client =
  qs_base_url :: string
  qs_auth :: auth_method
  qs_policy :: "'w retry_policy option"
  qs_s3_config :: "s3_config option"
  qs_s3_bucket :: "string option"
  qs_s3_config_for_qsapi :: "s3_config option"

record 'w qs_env =
  http :: "'w http_env"
  token_policy :: "'w retry_policy"
  lane_policy :: "'w retry_policy"
  qs_serde :: json_lib
  error_body :: "string \<Rightarrow> string option"
  debug_json :: "json \<Rightarrow> string"
  read_job :: "string \<Rightarrow> string + qs_job"
  read_jobs :: "string \<Rightarrow> string + qs_job list"
  read_backend :: "string \<Rightarrow> string + qs_backend"
  read_lanes :: "string \<Rightarrow> string + u64"
  read_versions :: "string \<Rightarrow> string + string list option"
  read_version :: "string \<Rightarrow> string + string"
  s3_put :: "s3_config \<Rightarrow> string \<Rightarrow> string \<Rightarrow> string \<Rightarrow> 'w \<Rightarrow> (string + unit) \<times> 'w"
  s3_get :: "s3_config \<Rightarrow> string \<Rightarrow> string \<Rightarrow> 'w \<Rightarrow> (string + string) \<times> 'w"
  presign_get :: "s3_config \<Rightarrow> string \<Rightarrow> string \<Rightarrow> u64 \<Rightarrow> 'w \<Rightarrow> (string + string) \<times> 'w"
  presign_put :: "s3_config \<Rightarrow> string \<Rightarrow> string \<Rightarrow> u64 \<Rightarrow> 'w \<Rightarrow> (string + string) \<times> 'w"
  new_uuid :: "'w \<Rightarrow> string \<times> 'w"

type_synonym ('w, 'a) qs = "(token_manager \<times> 'w, qs_error, 'a) loop_prog"

section \<open>Sending\<close>

definition token_send :: "'w qs_env \<Rightarrow> 'w qs_client \<Rightarrow> 'w handler" where
  "token_send E C = retry_handle (http E)
     (case qs_policy C of Some P \<Rightarrow> P | None \<Rightarrow> token_policy E) (default_strategy (http E)) (raw_send (http E))"

definition client_send :: "'w qs_env \<Rightarrow> 'w qs_client \<Rightarrow> http_request \<Rightarrow> ('w, http_reply) authed" where
  "client_send E C = built_send (http E) (\<lambda>rq. case qs_auth C of
      NoAuth \<Rightarrow> on_world (retrying (http E) (qs_policy C) (lane_policy E) rq)
    | IbmCloudIam _ _ _ \<Rightarrow>
        auth_handle (http E) (token_send E C) (retrying (http E) (qs_policy C) (lane_policy E)) rq)"

definition plain_send :: "'w qs_env \<Rightarrow> 'w qs_client \<Rightarrow> http_request \<Rightarrow> ('w, http_reply) authed" where
  "plain_send E C = built_send (http E) (\<lambda>rq. on_world (case qs_policy C of
      Some P \<Rightarrow> retry_handle (http E) P (default_strategy (http E)) (raw_send (http E)) rq
    | None \<Rightarrow> raw_send (http E) rq))"

definition api_request :: "'w qs_client \<Rightarrow> http_method \<Rightarrow> string \<Rightarrow> http_request" where
  "api_request C m path =
     \<lparr>req_method = m, req_url = qs_base_url C @ path,
      req_headers = (''accept'', ''application/json'') #
        (case qs_auth C of IbmCloudIam _ service_crn _ \<Rightarrow> [(''service-crn'', service_crn)] | NoAuth \<Rightarrow> []),
      req_body = None\<rparr>"

definition plain_request :: "string \<Rightarrow> http_request" where
  "plain_request url = \<lparr>req_method = GET, req_url = url, req_headers = [], req_body = None\<rparr>"

text \<open>\<open>explain_reqwest_middleware_error\<close> and \<open>from_middleware_error\<close>.\<close>

definition explain :: "'w http_env \<Rightarrow> middleware_error \<Rightarrow> string" where
  "explain H e = (if mw_sources e = [] then mw_display H e
     else join '', '' (map (\<lambda>(i, err). ''reasons['' @ show_nat i @ '']: '' @ err)
            (enumerate 0 (mw_sources e))))"

definition from_middleware_error :: "'w http_env \<Rightarrow> middleware_error \<Rightarrow> qs_error" where
  "from_middleware_error H e = (case e of
      Middleware _ _ \<Rightarrow> QsAuthenticationFailed (explain H e)
    | ReqwestFailure _ _ \<Rightarrow> Request (explain H e))"

definition extract_body :: "'w qs_env \<Rightarrow> http_reply \<Rightarrow> string \<Rightarrow> string" where
  "extract_body E rep url =
     (case (case rep_body rep of Inl _ \<Rightarrow> None | Inr text \<Rightarrow> error_body E text) of
        Some body \<Rightarrow> body
      | None \<Rightarrow> ''(no error body available; request URL: '' @ url @ '')'')"

definition reply_error :: "'w qs_env \<Rightarrow> http_reply \<Rightarrow> string \<Rightarrow> qs_resource_kind \<Rightarrow> qs_error" where
  "reply_error E rep url k = from_response (rep_status rep) (rep_shown rep) (extract_body E rep url) k"

text \<open>A request whose only success is \<open>204 No Content\<close>, and \<open>Client::get\<close>.\<close>

definition expect_no_content ::
    "'w qs_env \<Rightarrow> string \<Rightarrow> ('w, http_reply) authed \<Rightarrow> ('w, 'a) qs \<Rightarrow> ('w, 'a) qs" where
  "expect_no_content E url sent success = settle sent (\<lambda>r. case r of
      Inr resp \<Rightarrow>
        if rep_status resp = 204 then success
        else prompt (throw (reply_error E resp url qs_resource_kind.Job))
    | Inl e \<Rightarrow> prompt (throw (from_middleware_error (http E) e)))"

definition client_get ::
    "'w qs_env \<Rightarrow> ('w, http_reply) authed \<Rightarrow> string \<Rightarrow> (string \<Rightarrow> string + 'a) \<Rightarrow> qs_resource_kind \<Rightarrow>
     ('w, 'a) qs" where
  "client_get E sent url parse k = settle sent (\<lambda>r. prompt (case r of
      Inr resp \<Rightarrow>
        if is_success resp then
          (case rep_body resp of
             Inl e \<Rightarrow> throw (QsReqwest e)
           | Inr json_text \<Rightarrow> from_result (map_sum QsJson id (parse json_text)))
        else throw (reply_error E resp url k)
    | Inl e \<Rightarrow> throw (from_middleware_error (http E) e)))"

section \<open>Calls\<close>

definition api_get ::
    "'w qs_env \<Rightarrow> 'w qs_client \<Rightarrow> string \<Rightarrow> (string \<Rightarrow> string + 'a) \<Rightarrow> qs_resource_kind \<Rightarrow> ('w, 'a) qs" where
  "api_get E C path parse k =
     client_get E (client_send E C (api_request C GET path)) (qs_base_url C @ path) parse k"

definition get_job :: "'w qs_env \<Rightarrow> 'w qs_client \<Rightarrow> string \<Rightarrow> ('w, qs_job) qs" where
  "get_job E C jid = api_get E C (''/v1/jobs/'' @ jid) (read_job E) qs_resource_kind.Job"

definition list_jobs :: "'w qs_env \<Rightarrow> 'w qs_client \<Rightarrow> ('w, qs_job list) qs" where
  "list_jobs E C = api_get E C ''/v1/jobs'' (read_jobs E) qs_resource_kind.Other"

definition get_backend :: "'w qs_env \<Rightarrow> 'w qs_client \<Rightarrow> string \<Rightarrow> ('w, qs_backend) qs" where
  "get_backend E C b = api_get E C (''/v1/backends/'' @ b) (read_backend E) qs_resource_kind.Backend"

definition get_backend_lanes_configuration :: "'w qs_env \<Rightarrow> 'w qs_client \<Rightarrow> string \<Rightarrow> ('w, u64) qs" where
  "get_backend_lanes_configuration E C b =
     api_get E C (''/v1/backends/'' @ b @ ''/lanes'') (read_lanes E) qs_resource_kind.Backend"

definition get_backend_configuration :: "'w qs_env \<Rightarrow> 'w qs_client \<Rightarrow> string \<Rightarrow> ('w, json) qs" where
  "get_backend_configuration E C b =
     api_get E C (''/v1/backends/'' @ b @ ''/configuration'') (jparse (qs_serde E)) qs_resource_kind.Backend"

definition get_backend_properties :: "'w qs_env \<Rightarrow> 'w qs_client \<Rightarrow> string \<Rightarrow> ('w, json) qs" where
  "get_backend_properties E C b =
     api_get E C (''/v1/backends/'' @ b @ ''/properties'') (jparse (qs_serde E)) qs_resource_kind.Backend"

definition get_backend_pulse_defaults :: "'w qs_env \<Rightarrow> 'w qs_client \<Rightarrow> string \<Rightarrow> ('w, json) qs" where
  "get_backend_pulse_defaults E C b =
     api_get E C (''/v1/backends/'' @ b @ ''/defaults'') (jparse (qs_serde E)) qs_resource_kind.Backend"

definition list_backends :: "'w qs_env \<Rightarrow> 'w qs_client \<Rightarrow> ('w, json) qs" where
  "list_backends E C = api_get E C ''/v1/backends'' (jparse (qs_serde E)) qs_resource_kind.Other"

definition get_service_version :: "'w qs_env \<Rightarrow> 'w qs_client \<Rightarrow> ('w, string) qs" where
  "get_service_version E C =
     (let url = qs_base_url C @ ''/version'' in
      client_get E (plain_send E C (plain_request url)) url (read_version E) qs_resource_kind.Other)"

definition list_api_versions :: "'w qs_env \<Rightarrow> 'w qs_client \<Rightarrow> ('w, string list) qs" where
  "list_api_versions E C =
     (let url = qs_base_url C @ ''/versions'' in
      chain (client_get E (plain_send E C (plain_request url)) url (read_versions E) qs_resource_kind.Other)
        (\<lambda>versions. prompt (ret (case versions of Some vs \<Rightarrow> vs | None \<Rightarrow> []))))"

definition delete_job :: "'w qs_env \<Rightarrow> 'w qs_client \<Rightarrow> string \<Rightarrow> ('w, unit) qs" where
  "delete_job E C jid =
     (let path = ''/v1/jobs/'' @ jid in
      expect_no_content E (qs_base_url C @ path) (client_send E C (api_request C DELETE path))
        (prompt (ret ())))"

definition cancel_job :: "'w qs_env \<Rightarrow> 'w qs_client \<Rightarrow> string \<Rightarrow> bool \<Rightarrow> ('w, unit) qs" where
  "cancel_job E C jid also_delete =
     (let path = ''/v1/jobs/'' @ jid @ ''/cancel'' in
      expect_no_content E (qs_base_url C @ path) (client_send E C (api_request C POST path))
        (if \<not> also_delete then prompt (ret ()) else delete_job E C jid))"

definition get_job_status :: "'w qs_env \<Rightarrow> 'w qs_client \<Rightarrow> string \<Rightarrow> ('w, qs_job_status) qs" where
  "get_job_status E C jid = chain (get_job E C jid) (\<lambda>job. prompt (ret (qj_status job)))"

definition is_in_final_state :: "'w qs_env \<Rightarrow> 'w qs_client \<Rightarrow> string \<Rightarrow> ('w, bool) qs" where
  "is_in_final_state E C jid = chain (get_job E C jid) (\<lambda>job. prompt (ret (qj_status job \<noteq> JobRunning)))"

text \<open>The request of \<open>run_job\<close> carries the printed document.\<close>

definition run_job :: "'w qs_env \<Rightarrow> 'w qs_client \<Rightarrow> json \<Rightarrow> ('w, string) qs" where
  "run_job E C payload =
     (let path = ''/v1/jobs'' in
      expect_no_content E (qs_base_url C @ path)
        (client_send E C ((insert_header ''content-type'' ''application/json'' (api_request C POST path))
           \<lparr>req_body := Some (jdump (qs_serde E) payload)\<rparr>))
        (prompt (case as_str (jindex payload ''id'') of Some i \<Rightarrow> ret i | None \<Rightarrow> panic)))"

section \<open>Waiting\<close>

text \<open>
  \<open>wait_for_job_final_state\<close>, with times in milliseconds: \<open>timeout\<close> is what
  \<open>Duration::from_secs_f64\<close> makes of the number, which is nothing when it panics.
\<close>

definition overdue ::
    "nat option option \<Rightarrow> nat \<Rightarrow> nat \<Rightarrow> (qs_error, qs_job) outcome option" where
  "overdue timeout start now = (case timeout of
      None \<Rightarrow> None
    | Some None \<Rightarrow> Some Panic
    | Some (Some t) \<Rightarrow>
        if t \<le> now - start
        then Some (Err (JobNotReady ''timeout occurred while waiting for completion''))
        else None)"

definition still_running :: "(qs_error, qs_job) outcome \<Rightarrow> bool" where
  "still_running r \<longleftrightarrow> (case r of Ok job \<Rightarrow> qj_status job = JobRunning | Err _ \<Rightarrow> False | Panic \<Rightarrow> False)"

partial_function (option) wait_loop ::
    "'w qs_env \<Rightarrow> 'w qs_client \<Rightarrow> ('w \<Rightarrow> nat) \<Rightarrow> ('w \<Rightarrow> 'w) \<Rightarrow> string \<Rightarrow> nat option option \<Rightarrow> nat \<Rightarrow>
     token_manager \<times> 'w \<Rightarrow> ((qs_error, qs_job) outcome \<times> (token_manager \<times> 'w)) option" where
  "wait_loop E C now pause jid timeout start s =
     (case overdue timeout start (now (snd s)) of
        Some r \<Rightarrow> Some (r, s)
      | None \<Rightarrow> Option.bind (get_job E C jid s) (\<lambda>(r, s1).
          if still_running r
          then wait_loop E C now pause jid timeout start (fst s1, pause (snd s1))
          else Some (r, s1)))"

definition wait_for_job_final_state ::
    "'w qs_env \<Rightarrow> 'w qs_client \<Rightarrow> ('w \<Rightarrow> nat) \<Rightarrow> ('w \<Rightarrow> 'w) \<Rightarrow> string \<Rightarrow> nat option option \<Rightarrow> ('w, qs_job) qs" where
  "wait_for_job_final_state E C now pause jid timeout s =
     wait_loop E C now pause jid timeout (now (snd s)) s"

section \<open>Primitive jobs\<close>

text \<open>
  \<open>run_primitive\<close>: the input is uploaded, the three URLs are signed, and the job is
  submitted under an identifier that the client chooses.
\<close>

definition world_call :: "(qs_error \<Rightarrow> 'e) \<Rightarrow> ('w \<Rightarrow> (qs_error + 'a) \<times> 'w) \<Rightarrow> (token_manager \<times> 'w, 'e, 'a) loop_prog" where
  "world_call h f = prompt (\<lambda>(tm, w). case f w of (r, w') \<Rightarrow> (outcome_of (map_sum h id r), (tm, w')))"

definition s3_call :: "string \<Rightarrow> ('w \<Rightarrow> (string + 'a) \<times> 'w) \<Rightarrow> ('w, 'a) qs" where
  "s3_call doing f = world_call id (\<lambda>w. case f w of (r, w') \<Rightarrow>
     (map_sum (\<lambda>e. QsOther (doing @ '': '' @ e)) id r, w'))"

definition input_key :: "string \<Rightarrow> string" where
  "input_key jid = ''input_'' @ jid @ ''.json''"

definition results_key :: "string \<Rightarrow> string" where
  "results_key jid = ''results_'' @ jid @ ''.json''"

definition logs_key :: "string \<Rightarrow> string" where
  "logs_key jid = ''logs_'' @ jid @ ''.json''"

definition stored :: "string \<Rightarrow> json" where
  "stored url = JObj [(''presigned_url'', JStr url), (''type'', JStr ''s3_compatible'')]"

definition job_param ::
    "string \<Rightarrow> string \<Rightarrow> program_id \<Rightarrow> log_level \<Rightarrow> u64 \<Rightarrow> string \<Rightarrow> string \<Rightarrow> string \<Rightarrow> json" where
  "job_param jid backend program level timeout_secs input results logs =
     JObj [(''id'', JStr jid), (''backend'', JStr backend),
       (''program_id'', JStr (show_program_id program)), (''log_level'', JStr (show_log_level level)),
       (''timeout_secs'', JInt (uint timeout_secs)),
       (''storage'', JObj [(''input'', stored input), (''results'', stored results), (''logs'', stored logs)])]"

text \<open>A call of the S3 helpers, whose error is its whole message.\<close>

definition s3_op :: "('w \<Rightarrow> (string + 'a) \<times> 'w) \<Rightarrow> ('w, 'a) qs" where
  "s3_op f = world_call id (\<lambda>w. case f w of (r, w') \<Rightarrow> (map_sum QsOther id r, w'))"

definition run_primitive ::
    "'w qs_env \<Rightarrow> 'w qs_client \<Rightarrow> string \<Rightarrow> program_id \<Rightarrow> u64 \<Rightarrow> log_level \<Rightarrow> json \<Rightarrow> string option \<Rightarrow>
     ('w, string) qs" where
  "run_primitive E C backend program timeout_secs level payload jid = (case qs_s3_config C of
      None \<Rightarrow> prompt (throw (QsOther
        ''S3 bucket is not configured. Use ClientBuilder.with_s3_bucket() to use this function.''))
    | Some s3 \<Rightarrow>
        let remote = (case qs_s3_config_for_qsapi C of Some v \<Rightarrow> v | None \<Rightarrow> s3) in
        chain (case jid of Some value \<Rightarrow> prompt (ret value)
          | None \<Rightarrow> world_call id (\<lambda>w. case new_uuid E w of (u, w') \<Rightarrow> (Inr u, w'))) (\<lambda>i.
        case qs_s3_bucket C of
          None \<Rightarrow> prompt panic
        | Some bucket \<Rightarrow>
            chain (s3_call ''failed to upload to S3''
                     (s3_put E s3 bucket (input_key i) (jdump (qs_serde E) payload))) (\<lambda>_.
            chain (s3_op (presign_get E remote bucket (input_key i) timeout_secs)) (\<lambda>input.
            chain (s3_op (presign_put E remote bucket (results_key i) timeout_secs)) (\<lambda>results.
            chain (s3_op (presign_put E remote bucket (logs_key i) timeout_secs)) (\<lambda>logs.
              run_job E C (job_param i backend program level timeout_secs input results logs)))))))"

text \<open>The operations of a \<open>PrimitiveJob\<close>, whose S3 client and bucket are \<open>s3\<close> and \<open>bucket\<close>.\<close>

definition fetch_stored ::
    "'w qs_env \<Rightarrow> 'w qs_client \<Rightarrow> s3_config \<Rightarrow> string \<Rightarrow> string \<Rightarrow> (http_reply \<Rightarrow> (token_manager \<times> 'w, qs_error, 'a) prog) \<Rightarrow>
     ('w, 'a) qs" where
  "fetch_stored E C s3 bucket key f =
     chain (s3_op (presign_get E s3 bucket key 3600)) (\<lambda>url.
     chain (map_error (from_middleware_error (http E))
       (plain_send E C (insert_header ''content-type'' ''application/json'' (plain_request url)))) (\<lambda>resp.
     prompt (f resp)))"

definition read_reply :: "(string \<Rightarrow> string + 'a) \<Rightarrow> http_reply \<Rightarrow> qs_error + 'a" where
  "read_reply parse resp = (case rep_body resp of
      Inl e \<Rightarrow> Inl (QsReqwest e)
    | Inr text \<Rightarrow> map_sum QsReqwest id (parse text))"

definition job_get_result ::
    "'w qs_env \<Rightarrow> 'w qs_client \<Rightarrow> s3_config \<Rightarrow> string \<Rightarrow> (string \<Rightarrow> string + 'a) \<Rightarrow> string \<Rightarrow> ('w, 'a) qs" where
  "job_get_result E C s3 bucket parse jid =
     chain (get_job_status E C jid) (\<lambda>st.
     if st = JobCancelled \<or> st = JobFailed then
       prompt (throw (JobNotReady ''result is not available since job was not succeeded''))
     else if st = JobRunning then
       prompt (throw (JobNotReady ''result is not available until the job is completed''))
     else fetch_stored E C s3 bucket (results_key jid) (\<lambda>resp.
       if is_success resp then from_result (read_reply parse resp)
       else andthen (from_result (read_reply (jparse (qs_serde E)) resp)) (\<lambda>v.
         throw (Api (rep_status resp) (rep_shown resp) (debug_json E v)))))"

definition job_get_logs ::
    "'w qs_env \<Rightarrow> 'w qs_client \<Rightarrow> s3_config \<Rightarrow> string \<Rightarrow> string \<Rightarrow> ('w, string) qs" where
  "job_get_logs E C s3 bucket jid =
     chain (is_in_final_state E C jid) (\<lambda>final.
     if \<not> final then
       prompt (throw (JobNotReady ''logs are not available until the job is in its final state''))
     else fetch_stored E C s3 bucket (logs_key jid) (\<lambda>resp.
       andthen (from_result (read_reply Inr resp)) (\<lambda>text_data.
         if is_success resp then ret text_data
         else throw (Api (rep_status resp) (rep_shown resp) text_data))))"

section \<open>Building a client\<close>

text \<open>
  \<open>ClientBuilder\<close> as the resource uses it: the settings given, and \<open>build\<close>, which
  fails on a service CRN that is no header value.  That the TLS backend can be set
  up is \<open>builds\<close>.
\<close>

definition with_s3bucket ::
    "string \<Rightarrow> string \<Rightarrow> string \<Rightarrow> string \<Rightarrow> string \<Rightarrow> string option \<Rightarrow> 'w qs_client \<Rightarrow> 'w qs_client" where
  "with_s3bucket key_id secret endpoint bucket region endpoint_for_qsapi C =
     C\<lparr>qs_s3_config := Some \<lparr>s3_access_key_id = key_id, s3_secret_access_key = secret,
                              s3_endpoint = endpoint, s3_region = region\<rparr>,
       qs_s3_config_for_qsapi := (case endpoint_for_qsapi of
          Some e \<Rightarrow> Some \<lparr>s3_access_key_id = key_id, s3_secret_access_key = secret,
                          s3_endpoint = e, s3_region = region\<rparr>
        | None \<Rightarrow> qs_s3_config_for_qsapi C),
       qs_s3_bucket := Some bucket\<rparr>"

definition client_build ::
    "'w http_env \<Rightarrow> string option \<Rightarrow> 'w qs_client \<Rightarrow> qs_error + 'w qs_client \<times> token_manager" where
  "client_build H builds C =
     (case (case qs_auth C of
              IbmCloudIam _ service_crn _ \<Rightarrow>
                if header_value_ok H service_crn then None else Some (QsOther (''invalid header value: '' @ header_error H))
            | NoAuth \<Rightarrow> None) of
        Some e \<Rightarrow> Inl e
      | None \<Rightarrow> (case builds of
          Some e \<Rightarrow> Inl (QsReqwest e)
        | None \<Rightarrow> Inr (C, token_manager_new
            (case qs_auth C of IbmCloudIam _ _ iam \<Rightarrow> iam @ ''/identity/token'' | NoAuth \<Rightarrow> [])
            (qs_auth C))))"

end
