(* ===== verification/QuantumSystem.thy ===== *)
theory QuantumSystem
  imports QsClient CommonConfig
begin

text \<open>
  The resource \<open>IBMQuantumSystem\<close> (\<open>src/ibm/quantum_system.rs\<close>).  The state is the
  token manager of its client with the world; the process environment is a part of
  the world, since a setting is read again when a task is started.  The requests
  that the code joins are made in the order of their names.
\<close>

section \<open>Settings\<close>

record settings =
  set_prefix :: string
  set_config :: "config_map option"

definition settings_env :: "string \<Rightarrow> settings" where
  "settings_env rid = \<lparr>set_prefix = rid @ ''_'', set_config = None\<rparr>"

definition settings_map :: "config_map \<Rightarrow> settings" where
  "settings_map config = \<lparr>set_prefix = [], set_config = Some config\<rparr>"

definition settings_key :: "settings \<Rightarrow> string \<Rightarrow> string" where
  "settings_key S name = set_prefix S @ name"

definition settings_get :: "env \<Rightarrow> settings \<Rightarrow> string \<Rightarrow> string option" where
  "settings_get env S name = resolve_opt env (settings_key S name) (set_config S)"

definition settings_require :: "env \<Rightarrow> settings \<Rightarrow> string \<Rightarrow> qrmi_error + string" where
  "settings_require env S name = resolve_opt_required env (settings_key S name) (set_config S)"

text \<open>\<open>require_all\<close> reads a list of settings up to the first that is missing.\<close>

fun require_all :: "env \<Rightarrow> settings \<Rightarrow> string list \<Rightarrow> qrmi_error + string list" where
  "require_all env S [] = Inr []"
| "require_all env S (name # names) = (case settings_require env S name of
      Inl e \<Rightarrow> Inl e
    | Inr v \<Rightarrow> map_sum id ((#) v) (require_all env S names))"

record s3_env =
  s3e_bucket :: string
  s3e_config :: s3_config

definition s3_env_of :: "env \<Rightarrow> settings \<Rightarrow> qrmi_error + s3_env" where
  "s3_env_of env S =
     map_sum id (\<lambda>vs. \<lparr>s3e_bucket = vs ! 0,
         s3e_config = \<lparr>s3_access_key_id = vs ! 2, s3_secret_access_key = vs ! 3,
                       s3_endpoint = vs ! 1, s3_region = vs ! 4\<rparr>\<rparr>)
       (require_all env S [''QRMI_IBM_QS_S3_BUCKET'', ''QRMI_IBM_QS_S3_ENDPOINT'',
          ''QRMI_IBM_QS_AWS_ACCESS_KEY_ID'', ''QRMI_IBM_QS_AWS_SECRET_ACCESS_KEY'',
          ''QRMI_IBM_QS_S3_REGION''])"

section \<open>The resource\<close>

record 'w quantum_system =
  qsys_client :: "'w qs_client"
  qsys_backend :: string
  qsys_settings :: settings
  qsys_s3 :: "s3_env option"

text \<open>
  \<open>qsys_retry_policy\<close> is the exponential backoff that the resource asks for,
  \<open>environ\<close> the process environment in the world.
\<close>

record 'w qsys_env =
  qsys_api :: "'w qs_env"
  environ :: "'w \<Rightarrow> env"
  qsys_retry_policy :: "'w retry_policy"
  http_builds :: "string option"
  utf8_error :: "string \<Rightarrow> string"

definition qsys_from_settings ::
    "'w qsys_env \<Rightarrow> env \<Rightarrow> string \<Rightarrow> settings \<Rightarrow> qrmi_error + 'w quantum_system \<times> token_manager" where
  "qsys_from_settings E env rid S =
     (case require_all env S [''QRMI_IBM_QS_ENDPOINT'', ''QRMI_IBM_QS_IAM_APIKEY'',
          ''QRMI_IBM_QS_SERVICE_CRN'', ''QRMI_IBM_QS_IAM_ENDPOINT''] of
        Inl e \<Rightarrow> Inl e
      | Inr vs \<Rightarrow>
          let s3 = (case s3_env_of env S of Inr s3 \<Rightarrow> Some s3 | Inl _ \<Rightarrow> None);
              plain = \<lparr>qs_base_url = vs ! 0, qs_auth = IbmCloudIam (vs ! 1) (vs ! 2) (vs ! 3),
                qs_policy = Some (qsys_retry_policy E), qs_s3_config = None, qs_s3_bucket = None,
                qs_s3_config_for_qsapi = None\<rparr>;
              client = (case s3 of None \<Rightarrow> plain | Some x \<Rightarrow>
                with_s3bucket (s3_access_key_id (s3e_config x)) (s3_secret_access_key (s3e_config x))
                  (s3_endpoint (s3e_config x)) (s3e_bucket x) (s3_region (s3e_config x))
                  (settings_get env S ''QRMI_IBM_QS_S3_ENDPOINT_FOR_QSAPI'') plain) in
          (case client_build (http (qsys_api E)) (http_builds E) client of
             Inl e \<Rightarrow> Inl (qrmi_of_qs e)
           | Inr (C, tm) \<Rightarrow> Inr (\<lparr>qsys_client = C, qsys_backend = rid, qsys_settings = S, qsys_s3 = s3\<rparr>, tm)))"

definition qsys_new :: "'w qsys_env \<Rightarrow> env \<Rightarrow> string \<Rightarrow> qrmi_error + 'w quantum_system \<times> token_manager" where
  "qsys_new E env rid = qsys_from_settings E env rid (settings_env rid)"

definition qsys_from_config ::
    "'w qsys_env \<Rightarrow> env \<Rightarrow> string \<Rightarrow> config_map \<Rightarrow> qrmi_error + 'w quantum_system \<times> token_manager" where
  "qsys_from_config E env rid config = qsys_from_settings E env rid (settings_map config)"

type_synonym ('w, 'a) qsys = "(token_manager \<times> 'w, qrmi_error, 'a) loop_prog"

text \<open>\<open>call(...).await?\<close> on the client.\<close>

definition api :: "('w, 'a) qs \<Rightarrow> ('w, 'a) qsys" where
  "api m = map_error qrmi_of_qs m"

definition the_env :: "'w qsys_env \<Rightarrow> ('w, env) qsys" where
  "the_env E = chain (prompt get_state) (\<lambda>(_, w). prompt (ret (environ E w)))"

definition s3_store :: "'w qsys_env \<Rightarrow> 'w quantum_system \<Rightarrow> ('w, s3_env) qsys" where
  "s3_store E R = (case qsys_s3 R of
      Some s3 \<Rightarrow> prompt (ret s3)
    | None \<Rightarrow> chain (the_env E) (\<lambda>env. prompt (throw
        (case s3_env_of env (qsys_settings R) of
           Inl e \<Rightarrow> e
         | Inr _ \<Rightarrow> InvalidConfig (''S3 bucket was not configured when '' @ [CHR 0x27]
             @ qsys_backend R @ [CHR 0x27] @ '' was created'')))))"

definition qsys_is_accessible :: "'w qsys_env \<Rightarrow> 'w quantum_system \<Rightarrow> ('w, bool) qsys" where
  "qsys_is_accessible E R =
     chain (api (get_backend (qsys_api E) (qsys_client R) (qsys_backend R))) (\<lambda>b.
       prompt (ret (qb_status b = BackendOnline)))"

definition saturating_sub :: "u64 \<Rightarrow> u64 \<Rightarrow> u64" where
  "saturating_sub a b = (if b \<le> a then a - b else 0)"

definition qsys_status :: "'w qsys_env \<Rightarrow> 'w quantum_system \<Rightarrow> ('w, resource_status) qsys" where
  "qsys_status E R =
     chain (api (get_backend (qsys_api E) (qsys_client R) (qsys_backend R))) (\<lambda>backend.
     chain (api (get_backend_lanes_configuration (qsys_api E) (qsys_client R) (qsys_backend R))) (\<lambda>lanes.
     chain (api (list_jobs (qsys_api E) (qsys_client R))) (\<lambda>jobs.
       let count = of_nat (length (filter (\<lambda>job. qj_status job = JobRunning)
             (filter (\<lambda>job. qj_backend job = qsys_backend R) jobs))) :: u64 in
       prompt (ret
         \<lparr>status_code = (case qb_status backend of
              BackendOnline \<Rightarrow> Online | BackendOffline \<Rightarrow> Offline | BackendPaused \<Rightarrow> Paused),
          status_reason = None, healthy = None, busy = qb_locked backend,
          capacity = Some \<lparr>available_slots = saturating_sub lanes count, max_slots = lanes\<rparr>,
          pending_job_count = None\<rparr>))))"

definition timeout_of :: "settings \<Rightarrow> string \<Rightarrow> qrmi_error + u64" where
  "timeout_of S timeout =
     map_sum (\<lambda>source. ParseError (settings_key S ''QRMI_JOB_TIMEOUT_SECONDS'') timeout source) id
       (parse_u64 timeout)"

definition qsys_task_start :: "'w qsys_env \<Rightarrow> 'w quantum_system \<Rightarrow> payload \<Rightarrow> ('w, string) qsys" where
  "qsys_task_start E R p =
     chain (the_env E) (\<lambda>env.
     chain (prompt (from_result (settings_require env (qsys_settings R) ''QRMI_JOB_TIMEOUT_SECONDS''))) (\<lambda>timeout.
     chain (prompt (from_result (timeout_of (qsys_settings R) timeout))) (\<lambda>timeout_secs.
     case p of
       QiskitPrimitive input program \<Rightarrow>
         chain (prompt (from_result (map_sum InvalidJson id (jparse (qs_serde (qsys_api E)) input)))) (\<lambda>job_input.
         (case program_id_from_str program of
            None \<Rightarrow> prompt (throw (Ibm (UnknownProgramId program)))
          | Some program_id \<Rightarrow>
              api (run_primitive (qsys_api E) (qsys_client R) (qsys_backend R) program_id
                timeout_secs LogDebug job_input None)))
     | _ \<Rightarrow> prompt (throw (UnsupportedPayload (debug_payload p))))))"

definition qsys_task_stop :: "'w qsys_env \<Rightarrow> 'w quantum_system \<Rightarrow> string \<Rightarrow> ('w, unit) qsys" where
  "qsys_task_stop E R tid =
     chain (api (get_job_status (qsys_api E) (qsys_client R) tid)) (\<lambda>st.
     settle (if st = JobRunning then cancel_job (qsys_api E) (qsys_client R) tid False
             else prompt (ret ())) (\<lambda>_.
       api (delete_job (qsys_api E) (qsys_client R) tid)))"

fun task_status_of :: "qs_job_status \<Rightarrow> task_status" where
  "task_status_of JobRunning = Running"
| "task_status_of JobCompleted = Completed"
| "task_status_of JobCancelled = Cancelled"
| "task_status_of JobFailed = Failed"

definition qsys_task_status :: "'w qsys_env \<Rightarrow> 'w quantum_system \<Rightarrow> string \<Rightarrow> ('w, task_status) qsys" where
  "qsys_task_status E R tid =
     chain (api (get_job_status (qsys_api E) (qsys_client R) tid)) (\<lambda>st. prompt (ret (task_status_of st)))"

definition failed_reason :: "qs_job \<Rightarrow> string" where
  "failed_reason job =
     ''task failed. code: ''
       @ (case qj_reason_code job of None \<Rightarrow> []
          | Some v \<Rightarrow> if v < 0 then ''-'' @ show_nat (nat (- v)) else show_nat (nat v))
       @ '', message: '' @ (case qj_reason_message job of None \<Rightarrow> [] | Some m \<Rightarrow> m)
       @ '', solution: '' @ (case qj_reason_solution job of None \<Rightarrow> [] | Some m \<Rightarrow> m)"

definition stored_text :: "'w qsys_env \<Rightarrow> s3_env \<Rightarrow> string \<Rightarrow> ('w, string) qsys" where
  "stored_text E s3 key =
     chain (api (s3_op (s3_get (qsys_api E) (s3e_config s3) (s3e_bucket s3) key))) (\<lambda>bytes.
     prompt (if utf8_ok (map byte bytes) then ret bytes else throw (InvalidUtf8 (utf8_error E bytes))))"

definition qsys_task_result :: "'w qsys_env \<Rightarrow> 'w quantum_system \<Rightarrow> string \<Rightarrow> ('w, string) qsys" where
  "qsys_task_result E R tid =
     chain (s3_store E R) (\<lambda>s3.
     chain (api (get_job (qsys_api E) (qsys_client R) tid)) (\<lambda>job.
     case qj_status job of
       JobFailed \<Rightarrow> prompt (throw (TaskNotReady tid (failed_reason job)))
     | JobCancelled \<Rightarrow> prompt (throw (TaskNotReady tid ''task was cancelled''))
     | JobRunning \<Rightarrow> prompt (throw (TaskNotReady tid ''task is running''))
     | JobCompleted \<Rightarrow> stored_text E s3 (results_key tid)))"

definition qsys_task_logs :: "'w qsys_env \<Rightarrow> 'w quantum_system \<Rightarrow> string \<Rightarrow> ('w, string) qsys" where
  "qsys_task_logs E R tid = chain (s3_store E R) (\<lambda>s3. stored_text E s3 (logs_key tid))"

definition qsys_target :: "'w qsys_env \<Rightarrow> 'w quantum_system \<Rightarrow> ('w, string) qsys" where
  "qsys_target E R =
     chain (api (get_backend_configuration (qsys_api E) (qsys_client R) (qsys_backend R))) (\<lambda>config.
     chain (api (get_backend_properties (qsys_api E) (qsys_client R) (qsys_backend R))) (\<lambda>props.
       prompt (ret (jdump (qs_serde (qsys_api E))
         (JObj [(''configuration'', config), (''properties'', props)])))))"

definition qsys_metadata :: "'w quantum_system \<Rightarrow> string \<rightharpoonup> string" where
  "qsys_metadata R = [''backend_name'' \<mapsto> qsys_backend R]"

end
