(* ===== verification/QsRuns.thy ===== *)
theory QsRuns
  imports QsClient
begin

text \<open>
  What holds of every run of the Quantum System client: the relations on the world
  that its requests keep, when its runs end, and that a wait with a timeout returns.
\<close>

section \<open>Sending a request\<close>

text \<open>
  \<open>allowed\<close> are the requests that keep the relation; the token requests are, and
  authorizing a request does not change that it is.
\<close>

definition quiet_wire :: "('w \<Rightarrow> 'w \<Rightarrow> bool) \<Rightarrow> 'w http_env \<Rightarrow> (http_request \<Rightarrow> bool) \<Rightarrow> bool" where
  "quiet_wire R H allowed \<longleftrightarrow>
     (\<forall>rq w. allowed rq \<longrightarrow> R w (snd (wire H rq w)))
   \<and> (\<forall>t w. R w (sleep_for H t w))
   \<and> (\<forall>tm k. allowed (token_request H tm k))
   \<and> (\<forall>rq v. allowed rq \<longrightarrow> allowed (insert_header ''authorization'' v rq))"

definition on_snd :: "('w \<Rightarrow> 'w \<Rightarrow> bool) \<Rightarrow> 'x \<times> 'w \<Rightarrow> 'x \<times> 'w \<Rightarrow> bool" where
  "on_snd R s t \<longleftrightarrow> R (snd s) (snd t)"

text \<open>A policy that gives up after some number of retries.\<close>

definition gives_up :: "'w retry_policy \<Rightarrow> bool" where
  "gives_up P \<longleftrightarrow> (\<forall>start. \<exists>bound. \<forall>n w. bound \<le> n \<longrightarrow> P start n w = None)"

lemma keeps_on_world: "keeps R m \<Longrightarrow> keeps (on_snd R) (on_world m)"
  by (auto simp: keeps_def yields_def on_world_def on_snd_def)

lemma ends_on_world: "ends m \<Longrightarrow> ends (on_world m)"
  by (auto simp: ends_def halts_def on_world_def)

lemma retry_after_pause:
  "retry_after H P strat start n r w = Some w' \<Longrightarrow> \<exists>t. w' = sleep_for H t w"
  by (auto simp: retry_after_def Let_def split: outcome.splits if_splits option.splits)

context step_order
begin

lemma keeps_raw_send: "quiet_wire R H allowed \<Longrightarrow> allowed rq \<Longrightarrow> keeps R (raw_send H rq)"
  unfolding raw_send_def
  by (rule keeps_prompt) (auto simp: within_def run_result_def quiet_wire_def split: prod.split, metis snd_conv)

lemma keeps_retry:
  assumes "quiet_wire R H allowed" and "keeps R (nxt rq)"
  shows "keeps R (retry_handle H P strat nxt rq)"
  unfolding keeps_def
proof
  fix s
  have "yields (\<lambda>w. retry_loop H P strat nxt (system_now H s) 0 rq w) s (\<lambda>_ s'. R s s')"
  proof (rule retry_loop_rule [where I = "\<lambda>_ w. R s w"])
    fix n w r w1
    assume "R s w" and "nxt rq w = Some (r, w1)"
    with assms(2) have "R s w1" by (blast intro: step_trans dest: keepsD)
    moreover from assms(1) have "R w1 (sleep_for H t w1)" for t by (simp add: quiet_wire_def)
    ultimately show "case retry_after H P strat (system_now H s) n r w1 of None \<Rightarrow> R s w1 | Some w2 \<Rightarrow> R s w2"
      by (auto split: option.split dest!: retry_after_pause intro: step_trans)
  qed (rule step_refl)
  then show "yields (retry_handle H P strat nxt rq) s (\<lambda>_ s'. R s s')"
    by (simp add: yields_def retry_handle_def)
qed

lemma keeps_retrying: "quiet_wire R H allowed \<Longrightarrow> allowed rq \<Longrightarrow> keeps R (retrying H P P429 rq)"
  by (auto simp: retrying_def split: option.split intro!: keeps_retry keeps_raw_send)

lemma keeps_built:
  "(\<And>rq. allowed rq \<Longrightarrow> keeps R (send rq)) \<Longrightarrow> allowed rq \<Longrightarrow> keeps R (built_send H send rq)"
  by (auto simp: built_send_def split: option.split intro: keeps_returns)

end

lemma on_snd_order: "step_order R \<Longrightarrow> step_order (on_snd R)"
  by (fastforce simp: step_order_def on_snd_def)

lemma ends_retry:
  assumes "gives_up P" and "ends (nxt rq)"
  shows "ends (retry_handle H P strat nxt rq)"
  unfolding ends_def
proof
  fix s
  from assms(1) obtain bound where "\<And>n w. bound \<le> n \<Longrightarrow> P (system_now H s) n w = None"
    by (auto simp: gives_up_def) metis
  moreover from assms(2) have "halts (nxt rq) w" for w by (simp add: ends_def)
  ultimately have "halts (\<lambda>w. retry_loop H P strat nxt (system_now H s) 0 rq w) s"
    by (rule retry_loop_halts)
  then show "halts (retry_handle H P strat nxt rq) s" by (simp add: halts_def retry_handle_def)
qed

lemma ends_raw_send: "ends (raw_send H rq)"
  by (simp add: raw_send_def ends_prompt)

lemma ends_built: "(\<And>rq. ends (send rq)) \<Longrightarrow> ends (built_send H send rq)"
  by (auto simp: built_send_def split: option.split intro: ends_rules)

subsection \<open>With a token\<close>

lemma ends_authenticated:
  assumes "\<And>rq. ends (tsend rq)" and "\<And>rq. ends (nxt rq)"
  shows "ends (auth_handle H tsend nxt rq)"
proof -
  have get: "ends (get_access_token H tsend)"
    unfolding get_access_token_def store_token_def
    by (auto intro!: ends_rules ends_on_world ends_built assms split: auth_method.split sum.split prod.split)
  then have tok: "ends (get_token H tsend)"
    unfolding get_token_def ensure_token_validity_def
    by (auto intro!: ends_rules split: option.split)
  show ?thesis
    unfolding auth_handle_def with_bearer_def
    by (auto intro!: ends_rules ends_on_world get tok assms)
qed

lemma chain_bearer:
  "chain (with_bearer H token rq) f =
     (if header_value_ok H (''Bearer '' @ token)
      then f (insert_header ''authorization'' (''Bearer '' @ token) rq) else prompt panic)"
  by (auto simp: fun_eq_iff with_bearer_def chain_def prompt_def ret_def panic_def)

context step_order
begin

lemma keeps_tokens:
  assumes quiet: "quiet_wire R H allowed" and tsend: "\<And>rq. allowed rq \<Longrightarrow> keeps R (tsend rq)"
  shows "keeps (on_snd R) (get_access_token H tsend)" and "keeps (on_snd R) (get_token H tsend)"
proof -
  have so: "step_order (on_snd R)" by (rule on_snd_order) unfold_locales
  note k = step_order.keeps_rules [OF so]
  have tr: "allowed (token_request H tm key)" for tm key using quiet by (simp add: quiet_wire_def)
  have store: "keeps (on_snd R) (store_token H token expires)" for token expires
    unfolding store_token_def
    by (rule step_order.keeps_prompt [OF so])
      (auto simp: within_def on_snd_def Let_def step_refl split: prod.split)
  show get: "keeps (on_snd R) (get_access_token H tsend)"
    unfolding get_access_token_def
    by (auto intro!: k keeps_on_world keeps_built [of allowed] tsend tr store
        split: auth_method.split sum.split prod.split)
  then show "keeps (on_snd R) (get_token H tsend)"
    unfolding get_token_def ensure_token_validity_def
    by (auto intro!: k split: option.split)
qed

lemma keeps_authenticated:
  assumes quiet: "quiet_wire R H allowed" and tsend: "\<And>rq. allowed rq \<Longrightarrow> keeps R (tsend rq)"
    and nxt: "\<And>rq. allowed rq \<Longrightarrow> keeps R (nxt rq)" and rq: "allowed rq"
  shows "keeps (on_snd R) (auth_handle H tsend nxt rq)"
proof -
  have so: "step_order (on_snd R)" by (rule on_snd_order) unfold_locales
  have al: "allowed rq \<Longrightarrow> allowed (insert_header ''authorization'' v rq)" for v rq
    using quiet by (simp add: quiet_wire_def)
  show ?thesis
    unfolding auth_handle_def chain_bearer
    by (auto intro!: step_order.keeps_rules [OF so] keeps_tokens [OF quiet tsend] keeps_on_world nxt al [OF rq])
qed

end

subsection \<open>Requests of the client\<close>

text \<open>The clock of the world never goes back while requests are made.\<close>

definition forward :: "('w \<Rightarrow> nat) \<Rightarrow> 'w \<Rightarrow> 'w \<Rightarrow> bool" where
  "forward now w w' \<longleftrightarrow> now w \<le> now w'"

interpretation clock: step_order "forward now" for now
  by unfold_locales (auto simp: forward_def)

definition policies_give_up :: "'w qs_env \<Rightarrow> 'w qs_client \<Rightarrow> bool" where
  "policies_give_up E C \<longleftrightarrow> (\<forall>P. qs_policy C = Some P \<longrightarrow> gives_up P) \<and> gives_up (token_policy E)"

text \<open>
  The policy for full lanes (429) and locked backends (423) has no maximal number of
  retries: \<open>build\<close> sets \<open>max_n_retries\<close> to \<open>None\<close>.  Those retries end when the service
  stops answering so from some time on, and each pause takes time.
\<close>

definition lane_full :: "http_reply \<Rightarrow> bool" where
  "lane_full rep \<longleftrightarrow> rep_status rep = 429 \<or> rep_status rep = 423"

definition lanes_free :: "('w \<Rightarrow> nat) \<Rightarrow> 'w qs_env \<Rightarrow> bool" where
  "lanes_free now E \<longleftrightarrow>
     (\<exists>T. \<forall>rq w rep w'. wire (http E) rq w = (Inr rep, w') \<longrightarrow> T \<le> now w \<longrightarrow> \<not> lane_full rep)
   \<and> (\<forall>start n w t. lane_policy E start n w = Some t \<longrightarrow>
        now w < now (sleep_for (http E) (t - system_now (http E) w) w))"

lemma retry_429:
  "retry_after H P only_429 start n r w = Some w' \<Longrightarrow>
     \<exists>rep t. r = Ok rep \<and> lane_full rep \<and> P start n w = Some t \<and> w' = sleep_for H (t - system_now H w) w"
  by (auto simp: retry_after_def only_429_def lane_full_def Let_def split: outcome.splits if_splits option.splits)

lemma ends_lanes:
  assumes quiet: "quiet_wire (forward now) (http E) (\<lambda>_. True)" and free: "lanes_free now E"
  shows "ends (retry_handle (http E) (lane_policy E) only_429 (raw_send (http E)) rq)"
proof -
  from free obtain T where
    T: "\<And>rq w rep w'. wire (http E) rq w = (Inr rep, w') \<Longrightarrow> T \<le> now w \<Longrightarrow> \<not> lane_full rep"
    and pause: "\<And>start n w t. lane_policy E start n w = Some t \<Longrightarrow>
      now w < now (sleep_for (http E) (t - system_now (http E) w) w)"
    unfolding lanes_free_def by blast
  have "halts (\<lambda>w. retry_loop (http E) (lane_policy E) only_429 (raw_send (http E)) start n rq w) w" for start n w
  proof (induction "T - now w" arbitrary: n w rule: less_induct)
    case (less w n)
    obtain x w1 where x: "wire (http E) rq w = (x, w1)" by (cases "wire (http E) rq w")
    then have m: "raw_send (http E) rq w = Some (outcome_of x, w1)"
      by (simp add: raw_send_def prompt_def run_result_def)
    from quiet x have mono: "now w \<le> now w1" by (auto simp: quiet_wire_def forward_def) (metis snd_conv)
    show ?case
    proof (cases "retry_after (http E) (lane_policy E) only_429 start n (outcome_of x) w1")
      case None
      with m show ?thesis unfolding halts_def by (subst retry_loop.simps) simp
    next
      case (Some w2)
      from retry_429 [OF this] obtain rep t where rep: "x = Inr rep" "lane_full rep"
        and t: "lane_policy E start n w1 = Some t" "w2 = sleep_for (http E) (t - system_now (http E) w1) w1"
        by (cases x) auto
      from T x rep have "now w < T" by (meson not_le)
      with mono pause [OF t(1)] t(2) have "T - now w2 < T - now w" by simp
      from less [OF this, of "n + 1"] m Some show ?thesis
        unfolding halts_def by (subst retry_loop.simps) simp
    qed
  qed
  then show ?thesis by (simp add: ends_def retry_handle_def halts_def)
qed

definition client_ends :: "('w \<Rightarrow> nat) \<Rightarrow> 'w qs_env \<Rightarrow> 'w qs_client \<Rightarrow> bool" where
  "client_ends now E C \<longleftrightarrow>
     policies_give_up E C \<and> quiet_wire (forward now) (http E) (\<lambda>_. True) \<and> lanes_free now E"

lemma ends_retrying: "client_ends now E C \<Longrightarrow> ends (retrying (http E) (qs_policy C) (lane_policy E) rq)"
  by (auto simp: retrying_def client_ends_def policies_give_up_def split: option.split
      intro!: ends_retry ends_raw_send ends_lanes)

lemma ends_token_send: "policies_give_up E C \<Longrightarrow> ends (token_send E C rq)"
  by (auto simp: token_send_def policies_give_up_def split: option.split intro!: ends_retry ends_raw_send)

lemma ends_client_send:
  assumes "client_ends now E C"
  shows "ends (client_send E C rq)"
proof -
  from assms have "policies_give_up E C" by (simp add: client_ends_def)
  then show ?thesis
    unfolding client_send_def
    by (auto split: auth_method.split intro!: ends_built ends_on_world ends_authenticated ends_token_send
        ends_retrying [OF assms])
qed

lemma ends_client_get: "ends sent \<Longrightarrow> ends (client_get E sent url parse k)"
  unfolding client_get_def by (intro ends_rules)

lemma ends_get_job: "client_ends now E C \<Longrightarrow> ends (get_job E C jid)"
  unfolding get_job_def api_get_def by (intro ends_client_get ends_client_send)

context step_order
begin

lemma keeps_token_send: "quiet_wire R (http E) allowed \<Longrightarrow> allowed rq \<Longrightarrow> keeps R (token_send E C rq)"
  unfolding token_send_def by (rule keeps_retry) (auto intro: keeps_raw_send)

lemma keeps_client_send:
  "quiet_wire R (http E) allowed \<Longrightarrow> allowed rq \<Longrightarrow> keeps (on_snd R) (client_send E C rq)"
  unfolding client_send_def
  by (rule step_order.keeps_built [OF on_snd_order, of _ allowed], unfold_locales)
    (auto split: auth_method.split intro!: keeps_authenticated [of _ allowed] keeps_on_world
      keeps_token_send keeps_retrying)

lemma keeps_client_get:
  assumes "keeps (on_snd R) sent"
  shows "keeps (on_snd R) (client_get E sent url parse k)"
proof -
  have so: "step_order (on_snd R)" by (rule on_snd_order) unfold_locales
  show ?thesis
    unfolding client_get_def
    by (auto intro!: step_order.keeps_settle [OF so] step_order.keeps_prompt [OF so] assms
        step_order.within_rules [OF so] split: sum.split)
qed

lemma keeps_get_job:
  "quiet_wire R (http E) allowed \<Longrightarrow> allowed (api_request C GET (''/v1/jobs/'' @ jid)) \<Longrightarrow>
     keeps (on_snd R) (get_job E C jid)"
  unfolding get_job_def api_get_def by (intro keeps_client_get keeps_client_send)

end

section \<open>Waiting for a job\<close>

lemma wait_loop_step:
  "get_job E C jid s = Some (r, s1) \<Longrightarrow>
   wait_loop E C now pause jid timeout start s =
     (case overdue timeout start (now (snd s)) of
        Some x \<Rightarrow> Some (x, s)
      | None \<Rightarrow> if still_running r
          then wait_loop E C now pause jid timeout start (fst s1, pause (snd s1))
          else Some (r, s1))"
  by (subst wait_loop.simps) (simp split: option.split)

lemma endsD: "ends m \<Longrightarrow> \<exists>r s'. m s = Some (r, s')"
  unfolding ends_def halts_def by (metis not_None_eq prod.collapse)

lemma wait_loop_ends:
  assumes job: "ends (get_job E C jid)" "keeps (on_snd (forward now)) (get_job E C jid)"
    and tick: "\<And>w. now w < now (pause w)"
  shows "\<exists>r s'. wait_loop E C now pause jid (Some (Some t)) start s = Some (r, s') \<and>
    (\<forall>job. r = Ok job \<longrightarrow> qj_status job \<noteq> JobRunning)"
proof (induction "t + start - now (snd s)" arbitrary: s rule: less_induct)
  case (less s)
  obtain r s1 where g: "get_job E C jid s = Some (r, s1)"
    using endsD [OF job(1)] by blast
  with job(2) have mono: "now (snd s) \<le> now (snd s1)"
    by (auto dest!: keepsD simp: on_snd_def forward_def)
  note step = wait_loop_step [OF g, of now pause "Some (Some t)" start]
  show ?case
  proof (cases "t \<le> now (snd s) - start \<or> \<not> still_running r")
    case True
    then show ?thesis by (auto simp: step overdue_def still_running_def split: outcome.splits)
  next
    case False
    then have "now (snd s) < t + start" by (simp add: less_diff_conv2) arith
    with mono tick [of "snd s1"]
    have "t + start - now (snd (fst s1, pause (snd s1))) < t + start - now (snd s)" by simp
    from less [OF this] False show ?thesis by (simp add: step overdue_def)
  qed
qed


section \<open>Full lanes\<close>

lemma lane_retry_open:
  assumes "\<And>start n w. lane_policy E start n w \<noteq> None"
  shows "yields (retry_handle (http E) (lane_policy E) only_429 nxt rq) w (\<lambda>r _. \<forall>rep. r = Ok rep \<longrightarrow> \<not> lane_full rep)"
proof -
  have "retry_after (http E) (lane_policy E) only_429 start n (Ok rep) w' = None \<Longrightarrow> \<not> lane_full rep" for start n rep w'
    using assms [of start n w'] by (auto simp: retry_after_def only_429_def lane_full_def split: option.splits)
  then have "yields (\<lambda>w. retry_loop (http E) (lane_policy E) only_429 nxt start 0 rq w) w
      (\<lambda>r _. \<forall>rep. r = Ok rep \<longrightarrow> \<not> lane_full rep)" for start
    by (intro yields_mono [OF retry_loop_last]) blast
  then show ?thesis by (simp add: retry_handle_def yields_def)
qed

lemma retrying_open:
  assumes "qs_policy C = Some P" and "\<And>start n w. lane_policy E start n w \<noteq> None"
  shows "yields (retrying (http E) (qs_policy C) (lane_policy E) rq) w (\<lambda>r _. \<forall>rep. r = Ok rep \<longrightarrow> \<not> lane_full rep)"
proof -
  let ?inner = "retry_handle (http E) (lane_policy E) only_429 (raw_send (http E))"
  have "yields (\<lambda>w. retry_loop (http E) P (except_429 (http E)) ?inner start 0 rq w) w
      (\<lambda>r _. \<forall>rep. r = Ok rep \<longrightarrow> \<not> lane_full rep)" for start
    by (rule yields_mono [OF retry_loop_last]) (use yieldsD [OF lane_retry_open [OF assms(2)]] in blast)
  then show ?thesis by (simp add: retrying_def assms(1) retry_handle_def yields_def)
qed

definition replies :: "('a \<Rightarrow> bool) \<Rightarrow> ('s, 'e, 'a) loop_prog \<Rightarrow> bool" where
  "replies Q m \<longleftrightarrow> (\<forall>s a s'. m s = Some (Ok a, s') \<longrightarrow> Q a)"

lemma replies_stop: "replies Q (prompt (throw e))" "replies Q (prompt panic)"
  by (simp_all add: replies_def prompt_stops)

lemma replies_chain: "(\<And>a. replies Q (f a)) \<Longrightarrow> replies Q (chain m f)"
  by (auto simp: replies_def chain_Some)

lemma replies_settle:
  assumes "replies Q m" and "replies Q again"
  shows "replies Q (settle m (\<lambda>r. if c r then again else prompt (from_result r)))"
proof -
  have "prompt (from_result r) s = Some (Ok a, s') \<Longrightarrow> r = Inr a" for r s a s'
    by (cases r) (auto simp: prompt_def from_result_def)
  with assms show ?thesis by (fastforce simp: replies_def settle_Some split: if_splits)
qed

lemma replies_on_world: "replies Q m \<Longrightarrow> replies Q (on_world m)"
  by (auto simp: replies_def on_world_def)

lemma replies_retrying:
  assumes "qs_policy C = Some P" and "\<And>start n w. lane_policy E start n w \<noteq> None"
  shows "replies (\<lambda>rep. \<not> lane_full rep) (retrying (http E) (qs_policy C) (lane_policy E) rq)"
  unfolding replies_def using yieldsD [OF retrying_open [OF assms]] by blast

lemma replies_client_send:
  assumes "\<And>rq. replies Q (retrying (http E) (qs_policy C) (lane_policy E) rq)"
  shows "replies Q (client_send E C rq)"
  unfolding client_send_def built_send_def auth_handle_def chain_bearer
  by (auto split: option.split auth_method.split
      intro!: replies_stop replies_chain replies_settle replies_on_world assms)

lemma full_lanes_never_return:
  assumes "qs_policy C = Some P" and "\<And>start n w. lane_policy E start n w \<noteq> None"
    and full: "\<And>rq w. \<exists>rep w'. wire (http E) rq w = (Inr rep, w') \<and> lane_full rep"
  shows "retrying (http E) (qs_policy C) (lane_policy E) rq w = None"
proof -
  let ?inner = "retry_handle (http E) (lane_policy E) only_429 (raw_send (http E))"
  have "yields (\<lambda>w. retry_loop (http E) (lane_policy E) only_429 (raw_send (http E)) start 0 rq w) v (\<lambda>_ _. False)"
    for start v
  proof (rule retry_loop_rule [where I = "\<lambda>_ _. True"])
    fix n w r w1
    assume "raw_send (http E) rq w = Some (r, w1)"
    then have "\<exists>rep. r = Ok rep \<and> lane_full rep"
      using full [of rq w] by (auto simp: raw_send_def prompt_def run_result_def)
    with assms(2) [of start n w1] show "case retry_after (http E) (lane_policy E) only_429 start n r w1 of
        None \<Rightarrow> False | Some w2 \<Rightarrow> True"
      by (auto simp: retry_after_def only_429_def lane_full_def split: option.split)
  qed simp
  then have "?inner rq v = None" for v
    by (cases "?inner rq v") (auto simp: yields_def retry_handle_def)
  then show ?thesis
    by (simp add: retrying_def assms(1) retry_handle_def [of _ P] retry_loop.simps [of _ P])
qed

text \<open>
  C33. A client with a retry policy never returns a reply that says that the execution
  lanes are full or the backend is locked (429, 423): since the policy for these has no
  maximal number of retries, the call waits for a lane instead, and while the service
  keeps answering so it does not return at all.
\<close>

theorem full_lanes_wait:
  assumes "qs_policy C = Some P" and "\<And>start n w. lane_policy E start n w \<noteq> None"
  shows "(client_send E C rq s = Some (Ok rep, s') \<longrightarrow> \<not> lane_full rep)
    \<and> ((\<forall>rq w. \<exists>rep w'. wire (http E) rq w = (Inr rep, w') \<and> lane_full rep) \<longrightarrow>
        retrying (http E) (qs_policy C) (lane_policy E) rq w = None)"
  using replies_client_send [OF replies_retrying [OF assms], of rq] full_lanes_never_return [OF assms, of rq w]
  unfolding replies_def by blast

end
