(* ===== verification/QuantumResource.thy ===== *)
theory QuantumResource
  imports Loops Classify CommonConfig
begin

text \<open>
  The trait \<open>QuantumResource\<close> (\<open>src/lib.rs\<close>): the defaults of its operations, and the
  contract that its documentation puts on \<open>task_start\<close>.  The locale
  \<open>start_contract\<close> states that contract; every vendor's theory interprets it on the
  vendor's own \<open>task_start\<close>.
\<close>

section \<open>Default operations\<close>

definition default_status :: "('s, qrmi_error, bool) prog \<Rightarrow> ('s, qrmi_error, resource_status) prog" where
  "default_status is_accessible = andthen is_accessible (\<lambda>accessible. ret
     \<lparr>status_code = (if accessible then Online else Offline), status_reason = None, healthy = None,
      busy = None, capacity = None, pending_job_count = None\<rparr>)"

text \<open>\<open>uuid\<close> is \<open>Uuid::new_v4\<close>; the warnings are logged.\<close>

definition default_acquire :: "('s \<Rightarrow> string \<times> 's) \<Rightarrow> ('s, qrmi_error, string) prog" where
  "default_acquire uuid = (\<lambda>s. case uuid s of (u, s') \<Rightarrow> (Ok u, s'))"

definition default_release :: "string \<Rightarrow> ('s, qrmi_error, unit) prog" where
  "default_release rid = ret ()"

definition unsupported :: "string \<Rightarrow> ('s, qrmi_error, 'a) prog" where
  "unsupported name = throw (UnsupportedFunction (''qrmi::QuantumResource::'' @ name))"

definition default_task_start :: "payload \<Rightarrow> ('s, qrmi_error, string) prog" where
  "default_task_start p = unsupported ''task_start''"

definition default_task_stop :: "string \<Rightarrow> ('s, qrmi_error, unit) prog" where
  "default_task_stop tid = unsupported ''task_stop''"

definition default_task_status :: "string \<Rightarrow> ('s, qrmi_error, task_status) prog" where
  "default_task_status tid = unsupported ''task_status''"

definition default_task_result :: "string \<Rightarrow> ('s, qrmi_error, string) prog" where
  "default_task_result tid = unsupported ''task_result''"

definition default_task_logs :: "string \<Rightarrow> ('s, qrmi_error, string) prog" where
  "default_task_logs tid = unsupported ''task_logs''"

definition default_target :: "('s, qrmi_error, string) prog" where
  "default_target = unsupported ''target''"

definition default_metadata :: "string \<rightharpoonup> string" where
  "default_metadata = (\<lambda>_. None)"

lemma default_status_code:
  "default_status acc s = (Ok st, s') \<Longrightarrow> \<exists>a. acc s = (Ok a, s') \<and> (status_code st = Online \<longleftrightarrow> a)"
  by (auto simp: default_status_def andthen_Ok ret_def)

section \<open>Calls of a vendor's client\<close>

text \<open>
  \<open>client_call(...).await.map_err(classify)?\<close>, on the world: the resource itself is
  not changed by its calls.
\<close>

definition call_api :: "('x \<Rightarrow> qrmi_error) \<Rightarrow> ('w \<Rightarrow> ('x + 'a) \<times> 'w) \<Rightarrow> ('w, qrmi_error, 'a) prog" where
  "call_api h f = run_result (\<lambda>w. case f w of (r, w') \<Rightarrow> (map_sum h id r, w'))"

lemma post_call_api [wp]:
  "post (call_api h f) w Q = (case f w of (r, w') \<Rightarrow> Q (outcome_of (map_sum h id r)) w')"
  by (auto simp: call_api_def wp split: prod.split)

lemma map_sum_Inl: "map_sum h id r = Inl e \<longleftrightarrow> (\<exists>x. r = Inl x \<and> e = h x)"
  by (cases r) auto

lemma map_sum_Inr: "map_sum h id r = Inr a \<longleftrightarrow> r = Inr a"
  by (cases r) auto

lemma call_api_Ok: "call_api h f w = (Ok a, w') \<longleftrightarrow> f w = (Inr a, w')"
  by (auto simp: call_api_def run_result_Ok map_sum_Inr split: prod.splits)

lemma call_api_Err: "call_api h f w = (Err e, w') \<longleftrightarrow> (\<exists>x. f w = (Inl x, w') \<and> e = h x)"
  by (auto simp: call_api_def run_result_Err map_sum_Inl split: prod.splits)

lemma returns_call_api [intro]: "returns (call_api h f)"
  by (simp add: call_api_def returns_rules)

section \<open>The contract of task_start\<close>

text \<open>
  An error whose kind is not \<open>Other\<close> means that no task was created.  \<open>tasks\<close> is
  what exists on the vendor's side, and \<open>careful\<close> what is relied on of the vendor's
  service and client, which are outside of the code.
\<close>

locale start_contract =
  fixes start :: "'x \<Rightarrow> payload \<Rightarrow> ('s, qrmi_error, string) loop_prog"
    and careful :: "'x \<Rightarrow> ('s \<Rightarrow> 't) \<Rightarrow> bool"
  assumes refused:
    "careful x tasks \<Longrightarrow> start x p s = Some (Err e, s') \<Longrightarrow> kind e \<noteq> error_kind.Other \<Longrightarrow> tasks s' = tasks s"
begin

lemma created_is_other:
  "careful x tasks \<Longrightarrow> start x p s = Some (Err e, s') \<Longrightarrow> tasks s' \<noteq> tasks s \<Longrightarrow> kind e = error_kind.Other"
  using refused by blast

text \<open>The C binding reports such an error as \<open>QRMI_RETURN_CODE_ERROR\<close>.\<close>

lemma created_return_code:
  "careful x tasks \<Longrightarrow> start x p s = Some (Err e, s') \<Longrightarrow> tasks s' \<noteq> tasks s \<Longrightarrow>
     return_code_of_kind (kind e) = Error"
  using created_is_other by (metis return_code_of_kind.simps(13))

text \<open>A submission repeated after a refusal does not double the task.\<close>

lemma repeated_after_refusal:
  assumes "careful x tasks" and "start x p s = Some (Err e, s')" and "kind e \<noteq> error_kind.Other"
    and "start x p' s' = Some (r, s'')" and "tasks s'' \<noteq> tasks s"
  shows "tasks s'' \<noteq> tasks s'"
  using refused [OF assms(1-3)] assms(5) by simp

end

text \<open>The default refuses everything, and so keeps the contract of any vendor.\<close>

interpretation default_start: start_contract "\<lambda>_ p. prompt (default_task_start p)" "\<lambda>_ _. True"
  by unfold_locales (auto simp: prompt_def default_task_start_def unsupported_def throw_def)

end
