(* ===== verification/QsysProofs.thy ===== *)
theory QsysProofs
  imports QuantumSystem QsRuns QuantumResource
begin

text \<open>
  What holds of the resource \<open>IBMQuantumSystem\<close>: the contract of \<open>task_start\<close> with the
  case in which it is broken, and the results of \<open>task_stop\<close> and \<open>status\<close>.
\<close>

section \<open>The contract of task_start\<close>

text \<open>\<open>same jobs\<close> relates the worlds in which the same jobs exist.\<close>

definition same :: "('w \<Rightarrow> 't) \<Rightarrow> 'w \<Rightarrow> 'w \<Rightarrow> bool" where
  "same jobs w w' \<longleftrightarrow> jobs w' = jobs w"

interpretation same: step_order "same jobs" for jobs
  by unfold_locales (auto simp: same_def)

interpretation same_snd: step_order "on_snd (same jobs)" for jobs
  by unfold_locales (auto simp: same_def on_snd_def)

lemma chain_same:
  assumes "keeps (on_snd (same jobs)) m" and "jobs (snd s) = j"
    and "\<And>a s. jobs (snd s) = j \<Longrightarrow> yields (f a) s Q" and "\<And>r s. jobs (snd s) = j \<Longrightarrow> Q r s"
  shows "yields (chain m f) s Q"
proof -
  from assms(1,2) have "yields m s (\<lambda>_ s'. jobs (snd s') = j)"
    unfolding yields_def by (auto dest!: keepsD simp: on_snd_def same_def)
  then have "yields m s (\<lambda>r s'. case r of Ok a \<Rightarrow> yields (f a) s' Q | Err e \<Rightarrow> Q (Err e) s' | Panic \<Rightarrow> Q Panic s')"
    by (rule yields_mono) (auto intro: assms(3,4) split: outcome.split)
  then show ?thesis by (simp add: lwp)
qed

lemma yields_if:
  "(c \<Longrightarrow> yields m s Q) \<Longrightarrow> (\<not> c \<Longrightarrow> yields m' s Q) \<Longrightarrow> yields (if c then m else m') s Q"
  by simp

lemma yields_stop: "Q Panic s \<Longrightarrow> yields (prompt panic) s Q" "Q (Err e) s \<Longrightarrow> yields (prompt (throw e)) s Q"
    "Q (Ok a) s \<Longrightarrow> yields (prompt (ret a)) s Q"
  by (simp_all add: lwp wp)

text \<open>
  What the client takes for a refusal: a client error, an error of a middleware, and
  whatever makes it try again.
\<close>

definition refusal :: "'w http_env \<Rightarrow> middleware_error + http_reply \<Rightarrow> bool" where
  "refusal H res \<longleftrightarrow> default_strategy H res = Some Transient
     \<or> (case res of Inr rep \<Rightarrow> 400 \<le> rep_status rep \<and> rep_status rep < 500
        | Inl (Middleware _ _) \<Rightarrow> True | Inl (ReqwestFailure _ _) \<Rightarrow> False)"

definition submission :: "http_request \<Rightarrow> bool" where
  "submission rq \<longleftrightarrow> req_method rq = POST \<and> (''content-type'', ''application/json'') \<in> set (req_headers rq)"

definition honest_service :: "'w qs_env \<Rightarrow> ('w \<Rightarrow> 't) \<Rightarrow> bool" where
  "honest_service E jobs \<longleftrightarrow>
     quiet_wire (same jobs) (http E) (\<lambda>rq. \<not> submission rq)
   \<and> (\<forall>rq w res w'. wire (http E) rq w = (res, w') \<longrightarrow> refusal (http E) res \<longrightarrow> jobs w' = jobs w)
   \<and> (\<forall>w. jobs (snd (new_uuid E w)) = jobs w)
   \<and> (\<forall>s3 b k x w. jobs (snd (s3_put E s3 b k x w)) = jobs w
        \<and> jobs (snd (s3_get E s3 b k w)) = jobs w)
   \<and> (\<forall>s3 b k t w. jobs (snd (presign_get E s3 b k t w)) = jobs w
        \<and> jobs (snd (presign_put E s3 b k t w)) = jobs w)"

text \<open>After the attempt that \<open>r\<close> is the result of, a refusal has created no job.\<close>

definition told ::
    "'w http_env \<Rightarrow> ('w \<Rightarrow> 't) \<Rightarrow> 't \<Rightarrow> (middleware_error, http_reply) outcome \<Rightarrow> 'w \<Rightarrow> bool" where
  "told H jobs j r w \<longleftrightarrow> jobs w = j \<or> (case r of
      Ok rep \<Rightarrow> \<not> refusal H (Inr rep) | Err e \<Rightarrow> \<not> refusal H (Inl e) | Panic \<Rightarrow> False)"

lemma told_raw_send: "honest_service E jobs \<Longrightarrow> yields (raw_send (http E) rq) w (told (http E) jobs (jobs w))"
  by (auto simp: raw_send_def lwp wp told_def honest_service_def split: outcome.split elim!: outcome_of.elims)
    (metis prod.collapse)+

lemma told_retry:
  assumes "\<And>w. yields (nxt rq) w (told H jobs (jobs w))"
    and "\<And>res. strat res = Some Transient \<Longrightarrow> refusal H res"
    and "\<And>t w. jobs (sleep_for H t w) = jobs w"
  shows "yields (retry_handle H P strat nxt rq) w (told H jobs (jobs w))"
proof -
  have "yields (\<lambda>w. retry_loop H P strat nxt (system_now H w0) 0 rq w) w (told H jobs (jobs w))" for w0
  proof (rule retry_loop_rule [where I = "\<lambda>_ w'. jobs w' = jobs w"])
    fix n w' r w1
    assume "jobs w' = jobs w" and "nxt rq w' = Some (r, w1)"
    with yieldsD [OF assms(1) this(2)] have t: "told H jobs (jobs w) r w1" by simp
    show "case retry_after H P strat (system_now H w0) n r w1 of
        None \<Rightarrow> told H jobs (jobs w) r w1 | Some w2 \<Rightarrow> jobs w2 = jobs w"
      using t assms(2,3)
      by (auto simp: retry_after_def Let_def told_def split: option.split outcome.splits)
  qed simp
  then show ?thesis by (simp add: yields_def retry_handle_def)
qed

lemma transient_refusal:
  "except_429 H res = Some Transient \<Longrightarrow> refusal H res" "only_429 res = Some Transient \<Longrightarrow> refusal H res"
  by (auto simp: except_429_def only_429_def refusal_def split: sum.splits if_splits)

lemma told_retrying:
  assumes "honest_service E jobs"
  shows "yields (retrying (http E) P P429 rq) w (told (http E) jobs (jobs w))"
proof -
  from assms have "jobs (sleep_for (http E) t w) = jobs w" for t w
    by (simp add: honest_service_def quiet_wire_def same_def)
  note retry = told_retry [OF _ _ this]
  show ?thesis
  proof (cases P)
    case None
    with assms show ?thesis by (simp add: retrying_def told_raw_send)
  next
    case (Some Q)
    have "yields (retry_handle (http E) P429 only_429 (raw_send (http E)) rq) v (told (http E) jobs (jobs v))" for v
      by (rule retry) (auto intro: told_raw_send [OF assms] transient_refusal)
    then show ?thesis
      unfolding retrying_def Some option.case by (rule retry) (rule transient_refusal)
  qed
qed

lemma honest_quiet: "honest_service E jobs \<Longrightarrow> quiet_wire (same jobs) (http E) (\<lambda>rq. \<not> submission rq)"
  by (simp add: honest_service_def)

lemma told_auth:
  assumes "honest_service E jobs" and "jobs (snd s) = j"
    and tsend: "\<And>rq. \<not> submission rq \<Longrightarrow> keeps (same jobs) (tsend rq)"
    and nxt: "\<And>rq w. yields (nxt rq) w (told (http E) jobs (jobs w))"
  shows "yields (auth_handle (http E) tsend nxt rq) s (\<lambda>r s'. told (http E) jobs j r (snd s'))"
proof -
  let ?Q = "\<lambda>r s'. told (http E) jobs j r (snd s')"
  have unchanged: "jobs (snd s') = j \<Longrightarrow> ?Q r s'" for r s' by (simp add: told_def)
  note quiet = same.keeps_tokens [OF honest_quiet [OF assms(1)] tsend]
  have send: "yields (on_world (nxt rq)) s' ?Q" if "jobs (snd s') = j" for s' rq
    using nxt [of rq "snd s'"] that by (cases s') (auto simp: yields_def on_world_def)
  have again: "yields (chain (get_access_token (http E) tsend) (\<lambda>_. chain (get_token (http E) tsend) (\<lambda>token2.
      chain (with_bearer (http E) token2 rq) (\<lambda>rq2. on_world (nxt rq2))))) s' ?Q" if "jobs (snd s') = j" for s'
    unfolding chain_bearer
    by (intro chain_same [OF quiet(1) that] chain_same [OF quiet(2)] yields_if yields_stop unchanged send)
  have first: "yields (settle (on_world (nxt rq1)) (\<lambda>response.
      if (case response of Inr resp \<Rightarrow> rep_status resp = 401 | Inl _ \<Rightarrow> False)
      then F else prompt (from_result response))) s' ?Q"
    if s': "jobs (snd s') = j" and F: "\<And>s'. jobs (snd s') = j \<Longrightarrow> yields F s' ?Q" for rq1 s' F
    unfolding yields_settle
  proof (rule yields_mono [OF send [OF s']], goal_cases)
    case (1 r s')
    show ?case
    proof (cases r)
      case (Ok rep)
      with 1 have "rep_status rep = 401 \<Longrightarrow> jobs (snd s') = j" by (simp add: told_def refusal_def)
      with 1 F Ok show ?thesis by (simp add: yields_prompt wp)
    qed (use 1 in \<open>simp_all add: yields_prompt wp\<close>)
  qed
  show ?thesis
    unfolding auth_handle_def chain_bearer
    by (intro chain_same [OF quiet(2) assms(2)] yields_if yields_stop unchanged first again [unfolded chain_bearer])
qed

lemma told_client_send:
  assumes "honest_service E jobs" and "jobs (snd s) = j"
  shows "yields (client_send E C rq) s (\<lambda>r s'. told (http E) jobs j r (snd s'))"
proof -
  have tsend: "\<not> submission rq \<Longrightarrow> keeps (same jobs) (token_send E C rq)" for rq
    by (rule same.keeps_token_send [OF honest_quiet [OF assms(1)]])
  have "yields (on_world (retrying (http E) P P429 rq)) s (\<lambda>r s'. told (http E) jobs j r (snd s'))" for P P429
    using told_retrying [OF assms(1), of P P429 rq "snd s"] assms(2)
    by (cases s) (auto simp: yields_def on_world_def)
  then show ?thesis
    unfolding client_send_def built_send_def
    by (auto split: option.split auth_method.split intro!: yields_stop told_auth [OF assms tsend told_retrying [OF assms(1)]])
      (simp_all add: told_def assms(2))
qed

text \<open>An error whose kind is not \<open>Other\<close> leaves the jobs as they were.\<close>

definition honest :: "('e \<Rightarrow> error_kind) \<Rightarrow> ('w \<Rightarrow> 't) \<Rightarrow> 't \<Rightarrow> ('e, 'a) outcome \<Rightarrow> 'x \<times> 'w \<Rightarrow> bool" where
  "honest k jobs j r s \<longleftrightarrow> jobs (snd s) = j \<or> (case r of
      Err e \<Rightarrow> k e = error_kind.Other | Ok _ \<Rightarrow> True | Panic \<Rightarrow> True)"

abbreviation qs_kind :: "qs_error \<Rightarrow> error_kind" where
  "qs_kind e \<equiv> kind (qrmi_of_qs e)"

lemma told_from_middleware:
  "told H jobs j (Err e) w \<Longrightarrow> jobs w = j \<or> qs_kind (from_middleware_error H e) = error_kind.Other"
  by (cases e) (auto simp: told_def refusal_def from_middleware_error_def)

lemma told_reply_error:
  "told H jobs j (Ok rep) w \<Longrightarrow> jobs w = j \<or> qs_kind (reply_error E rep url k) = error_kind.Other"
  by (auto simp: told_def refusal_def reply_error_def dest: qs_not_other_is_client_error)

lemma honest_run_job:
  assumes "honest_service E jobs" and "jobs (snd s) = j"
  shows "yields (run_job E C doc) s (honest qs_kind jobs j)"
  unfolding run_job_def Let_def expect_no_content_def yields_settle
  by (rule yields_mono [OF told_client_send [OF assms]])
    (auto simp: lwp wp honest_def told_def [of _ _ _ Panic] dest: told_from_middleware told_reply_error
      split: outcome.split option.split)

lemma keeps_world_call:
  "(\<And>w. jobs (snd (f w)) = jobs w) \<Longrightarrow> keeps (on_snd (same jobs)) (world_call h f)"
  by (auto simp: world_call_def keeps_def lwp post_def on_snd_def same_def split: prod.split) (metis snd_conv)

lemma keeps_s3:
  assumes "\<And>w. jobs (snd (f w)) = jobs w"
  shows "keeps (on_snd (same jobs)) (s3_call doing f)" "keeps (on_snd (same jobs)) (s3_op f)"
  using assms unfolding s3_call_def s3_op_def
  by (auto intro!: keeps_world_call split: prod.split) (metis snd_conv)+

lemma honest_run_primitive:
  assumes "honest_service E jobs" and "jobs (snd s) = j"
  shows "yields (run_primitive E C b program t level doc jid) s (honest qs_kind jobs j)"
proof -
  have unchanged: "jobs (snd s) = j \<Longrightarrow> honest qs_kind jobs j r s" for r and s :: "token_manager \<times> 'a"
    by (simp add: honest_def)
  have uuid: "keeps (on_snd (same jobs)) (world_call id (\<lambda>w. case new_uuid E w of (u, w') \<Rightarrow> (Inr u, w')))"
    by (rule keeps_world_call) (use assms(1) in \<open>auto simp: honest_service_def split: prod.split, metis snd_conv\<close>)
  have s3: "jobs (snd (s3_put E c x k d w)) = jobs w" "jobs (snd (presign_get E c x k y w)) = jobs w"
      "jobs (snd (presign_put E c x k y w)) = jobs w" for c x k d y w
    using assms(1) by (simp_all add: honest_service_def)
  have start: "keeps (on_snd (same jobs)) (case jid of Some value \<Rightarrow> prompt (ret value)
      | None \<Rightarrow> world_call id (\<lambda>w. case new_uuid E w of (u, w') \<Rightarrow> (Inr u, w')))"
    by (cases jid) (simp_all add: uuid same_snd.keeps_returns)
  note calls = keeps_s3 [of jobs, OF s3(1)] keeps_s3 [of jobs, OF s3(2)] keeps_s3 [of jobs, OF s3(3)]
  show ?thesis
  proof (cases "qs_s3_config C")
    case None
    then show ?thesis by (simp add: run_primitive_def yields_stop unchanged assms(2))
  next
    case s3_config: (Some s3)
    show ?thesis
    proof (cases "qs_s3_bucket C")
      case None
      show ?thesis
        unfolding run_primitive_def s3_config None option.case Let_def
        by (intro chain_same [OF start assms(2)] yields_stop unchanged)
    next
      case (Some bucket)
      show ?thesis
        unfolding run_primitive_def s3_config Some option.case Let_def
        by (intro chain_same [OF start assms(2)] chain_same [OF calls(1)] chain_same [OF calls(4)]
            chain_same [OF calls(6)] honest_run_job [OF assms(1)] unchanged)
    qed
  qed
qed

lemma honest_api:
  "yields m s (honest qs_kind jobs j) \<Longrightarrow> yields (api m) s (honest kind jobs j)"
  unfolding api_def map_error_def yields_settle
  by (erule yields_mono) (auto simp: honest_def lwp wp split: outcome.split)

text \<open>
  \<open>qsys_careful\<close> says which observations of the state the honest service guarantees:
  those of the world, not of the token.
\<close>

definition qsys_careful :: "'w qsys_env \<times> 'w quantum_system \<Rightarrow> (token_manager \<times> 'w \<Rightarrow> 't) \<Rightarrow> bool" where
  "qsys_careful = (\<lambda>(E, R) tasks. \<exists>jobs. tasks = (\<lambda>s. jobs (snd s)) \<and> honest_service (qsys_api E) jobs)"

lemma honest_qsys_task_start:
  assumes "honest_service (qsys_api E) jobs" and "jobs (snd s) = j"
  shows "yields (qsys_task_start E R p) s (honest kind jobs j)"
proof -
  have unchanged: "jobs (snd s) = j \<Longrightarrow> honest kind jobs j r s" for r and s :: "token_manager \<times> 'a"
    by (simp add: honest_def)
  have env: "keeps (on_snd (same jobs)) (the_env E)"
    unfolding the_env_def by (auto intro!: same_snd.keeps_chain same_snd.keeps_returns)
  note result = chain_same [where jobs = jobs and j = j, OF same_snd.keeps_returns(4)]
  show ?thesis
    unfolding qsys_task_start_def
  proof (intro chain_same [OF env assms(2)] result unchanged, assumption+)
    fix env timeout secs and s' :: "token_manager \<times> 'a"
    assume s': "jobs (snd s') = j"
    show "yields (case p of
         QiskitPrimitive input program \<Rightarrow>
           chain (prompt (from_result (map_sum InvalidJson id (jparse (qs_serde (qsys_api E)) input)))) (\<lambda>job_input.
           case program_id_from_str program of None \<Rightarrow> prompt (throw (Ibm (UnknownProgramId program)))
           | Some program_id \<Rightarrow> api (run_primitive (qsys_api E) (qsys_client R) (qsys_backend R) program_id
                secs LogDebug job_input None))
       | _ \<Rightarrow> prompt (throw (UnsupportedPayload (debug_payload p)))) s' (honest kind jobs j)"
    proof (cases p)
      case (QiskitPrimitive input program)
      show ?thesis
        unfolding QiskitPrimitive payload.case
      proof (rule result [OF s'])
        fix job_input and s'' :: "token_manager \<times> 'a"
        assume "jobs (snd s'') = j"
        then show "yields (case program_id_from_str program of
            None \<Rightarrow> prompt (throw (Ibm (UnknownProgramId program)))
          | Some program_id \<Rightarrow> api (run_primitive (qsys_api E) (qsys_client R) (qsys_backend R) program_id
              secs LogDebug job_input None)) s'' (honest kind jobs j)"
          by (simp split: option.split add: yields_stop unchanged honest_api honest_run_primitive [OF assms(1)])
      qed (rule unchanged)
    qed (simp_all add: yields_stop unchanged s')
  qed
qed

interpretation qsys_start: start_contract "\<lambda>(E, R) p. qsys_task_start E R p" qsys_careful
  by unfold_locales (auto simp: qsys_careful_def honest_def dest!: yieldsD [OF honest_qsys_task_start [OF _ refl]])


section \<open>A submission that is repeated\<close>

text \<open>The request that \<open>run_job\<close> sends with a token.\<close>

definition submitted :: "'w qs_env \<Rightarrow> 'w qs_client \<Rightarrow> json \<Rightarrow> string \<Rightarrow> http_request" where
  "submitted E C doc token = insert_header ''authorization'' (''Bearer '' @ token)
     ((insert_header ''content-type'' ''application/json'' (api_request C POST ''/v1/jobs''))
        \<lparr>req_body := Some (jdump (qs_serde E) doc)\<rparr>)"

lemma retry_loop_done:
  "nxt rq w = Some (r, w1) \<Longrightarrow> retry_after H P strat start n r w1 = None \<Longrightarrow>
     retry_loop H P strat nxt start n rq w = Some (r, w1)"
  by (subst retry_loop.simps) simp

lemma retry_loop_again:
  "nxt rq w = Some (r, w1) \<Longrightarrow> retry_after H P strat start n r w1 = Some w2 \<Longrightarrow>
     retry_loop H P strat nxt start n rq w = retry_loop H P strat nxt start (n + 1) rq w2"
  by (subst retry_loop.simps) simp

lemma retry_handle_done:
  "nxt rq w = Some (Ok rep, w1) \<Longrightarrow> strat (Inr rep) \<noteq> Some Transient \<Longrightarrow>
     retry_handle H P strat nxt rq w = Some (Ok rep, w1)"
  unfolding retry_handle_def by (rule retry_loop_done) (simp_all add: retry_after_def)

lemma retry_handle_twice:
  assumes "nxt rq w = Some (Ok rep, w1)" and "strat (Inr rep) = Some Transient"
    and "P (system_now H w) 0 w1 = Some t"
    and "nxt rq (sleep_for H (t - system_now H w1) w1) = Some (Ok rep', w2)" and "strat (Inr rep') \<noteq> Some Transient"
  shows "retry_handle H P strat nxt rq w = Some (Ok rep', w2)"
proof -
  have "retry_loop H P strat nxt (system_now H w) 0 rq w
      = retry_loop H P strat nxt (system_now H w) (0 + 1) rq (sleep_for H (t - system_now H w1) w1)"
    by (rule retry_loop_again, rule assms(1)) (simp add: retry_after_def assms(2,3))
  also have "\<dots> = Some (Ok rep', w2)"
    by (rule retry_loop_done, rule assms(4)) (simp add: retry_after_def assms(5))
  finally show ?thesis by (simp add: retry_handle_def)
qed

lemma get_token_held:
  "tm_access_token tm = Some token \<Longrightarrow> tm_expiry tm = Some e \<Longrightarrow> instant_now H w < e \<Longrightarrow>
     get_token H tsend (tm, w) = Some (Ok token, (tm, w))"
  by (simp add: get_token_def ensure_token_validity_def chain_def prompt_def get_state_def ret_def)

text \<open>
  C31. A submission that is repeated is taken for a duplicate of itself: when the reply
  to the first attempt is lost behind a transient server failure, the policy allows a
  retry, and the service answers 409 because the job of that identifier now exists,
  the caller gets \<open>InvalidInput\<close>, as if the input had been refused.
\<close>

theorem repeated_submission_conflicts:
  assumes "qs_auth C = IbmCloudIam apikey crn iam" and "qs_policy C = Some P"
    and "tm_access_token tm = Some token" and "tm_expiry tm = Some expiry" and "instant_now (http E) w < expiry"
    and "header_value_ok (http E) (''Bearer '' @ token)" and "bad_url (http E) (qs_base_url C @ ''/v1/jobs'') = None"
    and first: "wire (http E) (submitted E C doc token) w = (Inr lost, w1)" "rep_status lost = 503"
      "default_strategy (http E) (Inr lost) = Some Transient"
    and again: "P (system_now (http E) w) 0 w1 = Some t"
      "wire (http E) (submitted E C doc token) (sleep_for (http E) (t - system_now (http E) w1) w1) = (Inr conflict, w2)"
      "rep_status conflict = 409" "default_strategy (http E) (Inr conflict) \<noteq> Some Transient"
  shows "api (run_job E C doc) (tm, w) =
    Some (Err (InvalidInput (extract_body E conflict (qs_base_url C @ ''/v1/jobs''))), (tm, w2))"
proof -
  let ?H = "http E" and ?rq = "submitted E C doc token"
  have lane: "retry_handle ?H (lane_policy E) only_429 (raw_send ?H) ?rq v = Some (Ok rep, v')"
    if "wire ?H ?rq v = (Inr rep, v')" "rep_status rep \<notin> {429, 423}" for v rep v'
    using that by (intro retry_handle_done) (simp_all add: raw_send_def prompt_def run_result_def only_429_def)
  have "retrying ?H (qs_policy C) (lane_policy E) ?rq w = Some (Ok conflict, w2)"
    unfolding retrying_def assms(2) option.case
  proof (rule retry_handle_twice)
    show "retry_handle ?H (lane_policy E) only_429 (raw_send ?H) ?rq w = Some (Ok lost, w1)"
      by (rule lane) (simp_all add: first)
    show "retry_handle ?H (lane_policy E) only_429 (raw_send ?H) ?rq (sleep_for ?H (t - system_now ?H w1) w1)
        = Some (Ok conflict, w2)"
      by (rule lane) (simp_all add: again)
  qed (use first again in \<open>simp_all add: except_429_def\<close>)
  then have "on_world (retrying ?H (qs_policy C) (lane_policy E) ?rq) (tm, w) = Some (Ok conflict, (tm, w2))"
    by (simp add: on_world_def)
  then have sent: "settle (on_world (retrying ?H (qs_policy C) (lane_policy E) ?rq)) f (tm, w) = f (Inr conflict) (tm, w2)"
    for f :: "middleware_error + http_reply \<Rightarrow> (token_manager \<times> 'a, middleware_error, http_reply) loop_prog"
    by (rule settle_Ok)
  let ?plain = "(insert_header ''content-type'' ''application/json'' (api_request C POST ''/v1/jobs''))
        \<lparr>req_body := Some (jdump (qs_serde E) doc)\<rparr>"
  have url: "req_url ?plain = qs_base_url C @ ''/v1/jobs''" by (simp add: insert_header_def api_request_def)
  have "client_send E C ?plain (tm, w) = Some (Ok conflict, (tm, w2))"
    using assms(6,7) url again(3)
    by (simp add: client_send_def assms(1) built_send_def auth_handle_def chain_bearer sent [unfolded submitted_def append_Cons append_Nil]
        chain_def [of "get_token _ _"] get_token_held [OF assms(3-5)] prompt_def from_result_def)
  then have "run_job E C doc (tm, w) =
      Some (Err (reply_error E conflict (qs_base_url C @ ''/v1/jobs'') qs_resource_kind.Job), (tm, w2))"
    unfolding run_job_def Let_def expect_no_content_def using again(3)
    by (simp add: settle_Ok prompt_def throw_def)
  then show ?thesis
    unfolding api_def using again(3)
    by (simp add: map_error_Err reply_error_def from_response_def)
qed

section \<open>Stopping a task\<close>

lemma api_Ok: "api m s = Some (Ok a, t) \<longleftrightarrow> m s = Some (Ok a, t)"
  by (cases t) (auto simp: api_def map_error_def settle_Some prompt_def from_result_def)

lemma delete_job_Ok:
  "delete_job E C jid s = Some (Ok (), t) \<longleftrightarrow>
     (\<exists>rep. client_send E C (api_request C DELETE (''/v1/jobs/'' @ jid)) s = Some (Ok rep, t) \<and> rep_status rep = 204)"
  unfolding delete_job_def Let_def expect_no_content_def settle_Some
  by (auto simp: prompt_stops split: if_splits)

text \<open>
  C34. A task that is stopped is deleted: \<open>task_stop\<close> of a Quantum System succeeds
  only when its last request, the deletion of the job, was answered 204, and a job
  that was not running is deleted without a request to cancel it.
\<close>

theorem qsys_stop_deletes:
  assumes "qsys_task_stop E R tid s = Some (Ok (), t)"
  shows "\<exists>st s1 s2 rep. get_job_status (qsys_api E) (qsys_client R) tid s = Some (Ok st, s1)
    \<and> (st \<noteq> JobRunning \<longrightarrow> s2 = s1)
    \<and> client_send (qsys_api E) (qsys_client R) (api_request (qsys_client R) DELETE (''/v1/jobs/'' @ tid)) s2
        = Some (Ok rep, t) \<and> rep_status rep = 204"
  using assms
  by (auto simp: qsys_task_stop_def chain_Some settle_Some api_Ok delete_job_Ok prompt_stops split: if_splits) blast+

section \<open>The capacity of a Quantum System\<close>

definition running_here :: "string \<Rightarrow> qs_job list \<Rightarrow> nat" where
  "running_here backend jobs = length (filter (\<lambda>job. qj_backend job = backend \<and> qj_status job = JobRunning) jobs)"

lemma saturating_sub_le: "saturating_sub a b \<le> a"
  by (simp add: saturating_sub_def word_sub_le)

lemma unat_saturating_sub: "n < 2 ^ 64 \<Longrightarrow> unat (saturating_sub a (of_nat n)) = unat a - n"
  by (auto simp: saturating_sub_def unat_sub word_le_nat_alt take_bit_nat_eq_self unat_of_nat)

text \<open>
  The capacity that \<open>status\<close> reports: the free slots never exceed the lanes of the
  backend, and are the lanes that the running jobs of this backend leave, none when
  there are more jobs than lanes.
\<close>

lemma qsys_capacity:
  assumes "qsys_status E R s = Some (Ok st, t)"
  shows "\<exists>jobs s1 slots lanes. list_jobs (qsys_api E) (qsys_client R) s1 = Some (Ok jobs, t)
    \<and> capacity st = Some \<lparr>available_slots = slots, max_slots = lanes\<rparr> \<and> slots \<le> lanes
    \<and> (running_here (qsys_backend R) jobs < 2 ^ 64 \<longrightarrow>
        unat slots = unat lanes - running_here (qsys_backend R) jobs)"
proof -
  from assms obtain lanes jobs s1 where
    jobs: "list_jobs (qsys_api E) (qsys_client R) s1 = Some (Ok jobs, t)"
    and st: "capacity st = Some \<lparr>available_slots =
        saturating_sub lanes (of_nat (running_here (qsys_backend R) jobs)), max_slots = lanes\<rparr>"
    by (auto simp: qsys_status_def chain_Some api_Ok prompt_stops Let_def running_here_def conj_commute)
  then show ?thesis by (blast intro: saturating_sub_le unat_saturating_sub)
qed

end
