(* ===== verification/WitnessesQs.thy ===== *)
theory WitnessesQs
  imports QsysProofs
begin

text \<open>
  The properties of the Quantum System and its client at concrete inputs: services that
  count, in the world, the requests they have received.
\<close>

section \<open>A sample service\<close>

definition sample_lib :: json_lib where
  "sample_lib = \<lparr>jparse = (\<lambda>_. Inr (JObj [])), jdump = (\<lambda>_. []), jfrac_u64 = (\<lambda>_. None)\<rparr>"

definition sample_reply :: "nat \<Rightarrow> http_reply" where
  "sample_reply st = \<lparr>rep_status = st, rep_shown = [], rep_body = Inr []\<rparr>"

text \<open>
  The world is a clock and the number of jobs, by which the service decides its answer.
  Server failures are transient.
\<close>

definition sample_http :: "(http_request \<Rightarrow> nat \<Rightarrow> nat \<times> nat) \<Rightarrow> (nat \<times> nat) http_env" where
  "sample_http serve = \<lparr>wire = (\<lambda>rq (c, n). case serve rq n of (st, n') \<Rightarrow> (Inr (sample_reply st), (Suc c, n'))),
     default_strategy = (\<lambda>res. case res of Inr rep \<Rightarrow> if rep_status rep = 503 then Some Transient else None
       | Inl _ \<Rightarrow> None),
     system_now = fst, sleep_for = (\<lambda>t (c, n). (c + t, n)), instant_now = fst, bad_url = (\<lambda>_. None),
     header_value_ok = (\<lambda>_. True), header_error = [], canonical_reason = (\<lambda>_. None), form_encode = (\<lambda>_. []),
     read_token = Inl, read_iam_error = (\<lambda>_. None), nine_tenths = id, mw_display = (\<lambda>_. [])\<rparr>"

definition sample_job :: "qs_job_status \<Rightarrow> qs_job" where
  "sample_job st = \<lparr>qj_id = ''t'', qj_backend = ''b'', qj_status = st, qj_reason_code = None,
     qj_reason_message = None, qj_reason_solution = None\<rparr>"

definition sample_qs :: "qs_job_status \<Rightarrow> (http_request \<Rightarrow> nat \<Rightarrow> nat \<times> nat) \<Rightarrow> (nat \<times> nat) qs_env" where
  "sample_qs st serve = \<lparr>http = sample_http serve, token_policy = (\<lambda>_ _ _. None),
     lane_policy = (\<lambda>_ _ w. Some (Suc (fst w))), qs_serde = sample_lib, error_body = (\<lambda>_. Some ''refused''),
     debug_json = (\<lambda>_. []), read_job = (\<lambda>_. Inr (sample_job st)),
     read_jobs = (\<lambda>_. Inr [sample_job st, sample_job JobRunning]),
     read_backend = (\<lambda>_. Inr \<lparr>qb_status = BackendOnline, qb_locked = None\<rparr>), read_lanes = (\<lambda>_. Inr 5),
     read_versions = Inl, read_version = Inl, s3_put = (\<lambda>_ _ _ _ w. (Inr (), w)), s3_get = (\<lambda>_ _ _ w. (Inr [], w)),
     presign_get = (\<lambda>_ _ _ _ w. (Inr ''url'', w)), presign_put = (\<lambda>_ _ _ _ w. (Inr ''url'', w)),
     new_uuid = (\<lambda>w. (''id'', w))\<rparr>"

definition sample_client :: "(nat \<times> nat) retry_policy option \<Rightarrow> auth_method \<Rightarrow> (nat \<times> nat) qs_client" where
  "sample_client P auth = \<lparr>qs_base_url = ''u'', qs_auth = auth, qs_policy = P,
     qs_s3_config = Some \<lparr>s3_access_key_id = [], s3_secret_access_key = [], s3_endpoint = [], s3_region = []\<rparr>,
     qs_s3_bucket = Some ''bucket'', qs_s3_config_for_qsapi = None\<rparr>"

lemmas sample_qs_defs = sample_http_def sample_qs_def sample_client_def sample_reply_def sample_job_def sample_lib_def

section \<open>The client\<close>


theorem full_lanes_wait_witness:
  "retrying (sample_http (\<lambda>_ n. (429, n))) (Some (\<lambda>_ _ _. None)) (\<lambda>_ _ w. Some (Suc (fst w))) (plain_request ''u'') (0, 0) = None"
  using full_lanes_wait [of "sample_client (Some (\<lambda>_ _ _. None)) NoAuth" _ "sample_qs JobRunning (\<lambda>_ n. (429, n))"
      "plain_request ''u''" _ _ _ "(0, 0)"]
  by (simp add: sample_qs_defs lane_full_def)

section \<open>The resource\<close>

definition sample_settings :: settings where
  "sample_settings = settings_map [''QRMI_JOB_TIMEOUT_SECONDS'' \<mapsto> ''5'']"

definition sample_qsys_env :: "qs_job_status \<Rightarrow> (http_request \<Rightarrow> nat \<Rightarrow> nat \<times> nat) \<Rightarrow> (nat \<times> nat) qsys_env" where
  "sample_qsys_env st serve = \<lparr>qsys_api = sample_qs st serve, environ = (\<lambda>_ _. NotPresent),
     qsys_retry_policy = (\<lambda>_ _ _. None), http_builds = None, utf8_error = id\<rparr>"

definition sample_qsys :: "(nat \<times> nat) retry_policy option \<Rightarrow> auth_method \<Rightarrow> (nat \<times> nat) quantum_system" where
  "sample_qsys P auth = \<lparr>qsys_client = sample_client P auth, qsys_backend = ''b'', qsys_settings = sample_settings,
     qsys_s3 = None\<rparr>"

text \<open>A service that deletes jobs, and answers everything else with a document.\<close>

definition deleting :: "http_request \<Rightarrow> nat \<Rightarrow> nat \<times> nat" where
  "deleting rq n = (if req_method rq = DELETE then 204 else 200, n)"

lemmas sample_qsys_defs = sample_qs_defs sample_qsys_env_def sample_qsys_def sample_settings_def deleting_def

lemmas run_defs = chain_def settle_def prompt_def ret_def throw_def from_result_def map_error_def api_def
  get_state_def run_result_def Let_def

lemma sample_status_run:
  "qsys_status (sample_qsys_env JobRunning deleting) (sample_qsys None NoAuth) (token_manager_new [] NoAuth, (0, 0)) =
     Some (Ok \<lparr>status_code = Online, status_reason = None, healthy = None, busy = None,
         capacity = Some \<lparr>available_slots = 3, max_slots = 5\<rparr>, pending_job_count = None\<rparr>,
       (token_manager_new [] NoAuth, (3, 0)))"
  by (simp add: qsys_status_def get_backend_def get_backend_lanes_configuration_def list_jobs_def api_get_def
      client_get_def client_send_def built_send_def retrying_def raw_send_def on_world_def api_request_def
      is_success_def saturating_sub_def run_defs sample_qsys_defs)

lemma sample_stop_run:
  "qsys_task_stop (sample_qsys_env JobCompleted deleting) (sample_qsys None NoAuth) ''t'' (token_manager_new [] NoAuth, (0, 0)) =
     Some (Ok (), (token_manager_new [] NoAuth, (2, 0)))"
  by (simp add: qsys_task_stop_def get_job_status_def get_job_def delete_job_def expect_no_content_def api_get_def
      client_get_def client_send_def built_send_def retrying_def raw_send_def on_world_def api_request_def
      is_success_def run_defs sample_qsys_defs)

theorem qsys_stop_deletes_witness:
  "\<exists>s rep. client_send (sample_qs JobCompleted deleting) (sample_client None NoAuth)
      (api_request (sample_client None NoAuth) DELETE ''/v1/jobs/t'') s
      = Some (Ok rep, (token_manager_new [] NoAuth, (2, 0))) \<and> rep_status rep = 204"
  using qsys_stop_deletes [OF sample_stop_run] by (auto simp: sample_qsys_env_def sample_qsys_def)

text \<open>A service that holds one job at most, and refuses a submission when it has one.\<close>

definition one_job :: "http_request \<Rightarrow> nat \<Rightarrow> nat \<times> nat" where
  "one_job rq n = (if submission rq then (if n = 0 then (204, 1) else (400, n)) else (200, n))"

lemma one_job_honest: "honest_service (sample_qs JobRunning one_job) snd"
  by (auto simp: honest_service_def quiet_wire_def same_def one_job_def refusal_def submission_def token_request_def
      insert_header_def sample_qs_defs split: if_splits)

lemma refused_run:
  "run_job (sample_qs JobRunning one_job) (sample_client None NoAuth) doc (tm, (c, 1)) =
     Some (Err (InvalidJobInput ''refused''), (tm, (Suc c, 1)))"
  by (simp add: run_job_def expect_no_content_def client_send_def built_send_def
      retrying_def raw_send_def on_world_def api_request_def insert_header_def reply_error_def from_response_def
      extract_body_def one_job_def submission_def run_defs sample_qsys_defs)

lemma sample_parts:
  "new_uuid (sample_qs st serve) = (\<lambda>w. (''id'', w))" "s3_put (sample_qs st serve) = (\<lambda>_ _ _ _ w. (Inr (), w))"
  "presign_get (sample_qs st serve) = (\<lambda>_ _ _ _ w. (Inr ''url'', w))"
  "presign_put (sample_qs st serve) = (\<lambda>_ _ _ _ w. (Inr ''url'', w))"
  "jparse (qs_serde (sample_qs st serve)) x = Inr (JObj [])"
  "qs_s3_config (sample_client P a) = Some \<lparr>s3_access_key_id = [], s3_secret_access_key = [], s3_endpoint = [], s3_region = []\<rparr>"
  "qs_s3_bucket (sample_client P a) = Some ''bucket''" "qs_s3_config_for_qsapi (sample_client P a) = None"
  by (simp_all add: sample_qs_defs)

lemma world_call_run:
  "f w = (Inr a, w') \<Longrightarrow> chain (world_call h f) g (tm, w) = g a (tm, w')"
  by (simp add: chain_def world_call_def prompt_def)

lemma sample_primitive:
  "run_primitive (sample_qs JobRunning one_job) (sample_client None NoAuth) b k t l doc None (tm, (c, 1)) =
     Some (Err (InvalidJobInput ''refused''), (tm, (Suc c, 1)))"
  by (simp add: run_primitive_def s3_call_def s3_op_def sample_parts world_call_run refused_run
      del: One_nat_def)

lemma sample_start_run:
  "qsys_task_start (sample_qsys_env JobRunning one_job) (sample_qsys None NoAuth)
     (QiskitPrimitive [] ''sampler'') (token_manager_new [] NoAuth, (0, 1)) =
     Some (Err (InvalidInput ''refused''), (token_manager_new [] NoAuth, (1, 1)))"
proof -
  have r: "settings_require env sample_settings ''QRMI_JOB_TIMEOUT_SECONDS'' = Inr ''5''" for env
    by (simp add: settings_require_def resolve_opt_required_def resolve_opt_def settings_key_def settings_map_def
        sample_settings_def)
  have t: "timeout_of sample_settings ''5'' = Inr 5"
  proof -
    have "show_nat 5 = ''5''" by (simp add: show_nat.simps digit_char_def char_of_def bit_0)
    then have "parse_u64 ''5'' = Inr 5" using parse_unsigned_show [of 5 18446744073709551615] by (simp add: parse_u64_def)
    then show ?thesis by (simp add: timeout_of_def)
  qed
  have q: "program_id_from_str ''sampler'' = Some Sampler" by (simp add: program_id_from_str_def)
  have parts: "qsys_api (sample_qsys_env JobRunning one_job) = sample_qs JobRunning one_job"
      "qsys_client (sample_qsys None NoAuth) = sample_client None NoAuth"
      "qsys_settings (sample_qsys None NoAuth) = sample_settings"
    by (simp_all add: sample_qsys_env_def sample_qsys_def)
  have primitive: "api (run_primitive (sample_qs JobRunning one_job) (sample_client None NoAuth) b k t l doc None)
      (tm, (0, 1)) = Some (Err (InvalidInput ''refused''), (tm, (1, 1)))" for b k t l doc tm
    unfolding api_def by (simp add: map_error_Err sample_primitive del: One_nat_def)
  have pure: "chain (prompt (from_result (Inr a))) f s = f a s" for a s and f :: "'x \<Rightarrow> ('s, 'e, 'b) loop_prog"
    by (simp add: chain_def prompt_def from_result_def)
  have env: "chain (the_env E) f s = f (environ E (snd s)) s" for E s and f :: "env \<Rightarrow> ('w, 'b) qsys"
    by (simp add: the_env_def chain_def prompt_def get_state_def ret_def split: prod.split)
  show ?thesis
    unfolding qsys_task_start_def parts env r pure t payload.case
    by (simp only: sample_parts map_sum.simps id_apply pure q option.case primitive)
qed


text \<open>A service that creates a job but fails behind it, and then knows the job.\<close>

definition losing :: "http_request \<Rightarrow> nat \<Rightarrow> nat \<times> nat" where
  "losing rq n = (if n = 0 then (503, 1) else (409, n))"

definition sample_token :: token_manager where
  "sample_token = \<lparr>tm_access_token = Some ''k'', tm_expiry = Some 100, tm_url = [], tm_auth = IbmCloudIam [] [] []\<rparr>"

theorem repeated_submission_conflicts_witness:
  "api (run_job (sample_qs JobRunning losing)
      (sample_client (Some (\<lambda>_ n w. if n < 5 then Some (fst w + 1) else None)) (IbmCloudIam [] [] [])) JNull)
     (sample_token, (0, 0)) = Some (Err (InvalidInput ''refused''), (sample_token, (3, 1)))"
  by (subst repeated_submission_conflicts [where P = "\<lambda>_ n w. if n < 5 then Some (fst w + 1) else None"
        and apikey = "[]" and crn = "[]" and iam = "[]" and token = "''k''" and expiry = 100 and w = "(0, 0)"
        and lost = "sample_reply 503" and ?w1.0 = "(1, 1)" and t = 2 and conflict = "sample_reply 409" and ?w2.0 = "(3, 1)"])
    (simp_all add: sample_token_def losing_def extract_body_def sample_qs_defs)

end
