(* ===== verification/StartContracts.thy ===== *)
theory StartContracts
  imports QuantumResource IbmService MaestroServer
begin

text \<open>
  The contract of \<open>task_start\<close> for the IBM Quantum Compute and Qiskit Runtime services
  and for a local Maestro simulator.
\<close>

section \<open>IBM\<close>

text \<open>
  What is relied on: a client error to a submission means that it created nothing, and
  renewing the token creates nothing.
\<close>

definition ibm_careful :: "'w ibm_client \<Rightarrow> (ibm_service \<times> 'w \<Rightarrow> 't) \<Rightarrow> bool" where
  "ibm_careful C tasks \<longleftrightarrow> (\<exists>jobs. tasks = (\<lambda>s. jobs (snd s))
     \<and> (\<forall>key url w. jobs (snd (fetch_access_token (ibm_iam C) key url w)) = jobs w)
     \<and> (\<forall>cfg rq w st sh body w'. api_create_job C cfg rq w = (Inl (ResponseError st sh body), w') \<longrightarrow>
          400 \<le> st \<longrightarrow> st < 500 \<longrightarrow> jobs w' = jobs w))"

lemma check_token_jobs:
  assumes "\<And>key url w. jobs (snd (fetch_access_token I key url w)) = jobs w"
    and "check_token I key url ts w = (r, w')"
  shows "jobs w' = jobs w"
  using assms(1) [of key url w] assms(2) by (auto simp: check_token_def split: if_splits prod.splits sum.splits)

lemma ensure_token_Ok:
  "ensure_token C (s, w) = (r, t) \<Longrightarrow> \<exists>s' x w'. t = (s', w') \<and> r = Ok () \<and>
     check_token (ibm_iam C) (svc_api_key s) (svc_iam_endpoint s)
       \<lparr>current_token = bearer_access_token (svc_config s),
        token_expiration = svc_token_expiration s, token_lifetime = svc_token_lifetime s\<rparr> w = (x, w')"
  by (auto simp: ensure_token_def split: prod.splits sum.splits)

lemma request_Err:
  "request f k (s, w) = (Err e, t) \<Longrightarrow> \<exists>x w'. f s w = (Inl x, w') \<and> e = ibm_classify x k \<and> snd t = w'"
  by (auto simp: request_def map_sum_Inl split: prod.splits elim: outcome_of.elims)

lemma ibm_refused:
  assumes careful: "ibm_careful C tasks" and run: "ibm_task_start executor C p s = (Err e, s')"
    and kind: "kind e \<noteq> error_kind.Other"
  shows "tasks s' = tasks s"
proof -
  from careful obtain jobs where tasks: "tasks = (\<lambda>s. jobs (snd s))"
    and token: "\<And>key url w. jobs (snd (fetch_access_token (ibm_iam C) key url w)) = jobs w"
    and create: "\<And>cfg rq w st sh body w'. api_create_job C cfg rq w = (Inl (ResponseError st sh body), w') \<Longrightarrow>
      400 \<le> st \<Longrightarrow> st < 500 \<Longrightarrow> jobs w' = jobs w"
    unfolding ibm_careful_def by blast
  obtain R w where s: "s = (R, w)" by (cases s)
  obtain r t where et: "ensure_token C (R, w) = (r, t)" by (cases "ensure_token C (R, w)")
  from ensure_token_Ok [OF this] obtain R1 w1 where t: "t = (R1, w1)" "r = Ok ()" and w1: "jobs w1 = jobs w"
    using check_token_jobs [OF token] by metis
  show ?thesis
  proof (cases "\<exists>input program params. p = QiskitPrimitive input program
      \<and> program_params C executor program input = Inr params")
    case False
    with run et t have "snd s' = w1"
      by (cases p) (auto simp: ibm_task_start_def s andthen_step from_result_def throw_def andthen_def
          split: sum.splits prod.splits outcome.splits elim: outcome_of.elims)
    with w1 show ?thesis by (simp add: tasks s)
  next
    case True
    then obtain input program params where p: "p = QiskitPrimitive input program"
      and params: "program_params C executor program input = Inr params" by blast
    from run et t obtain x w' where x: "\<exists>cfg rq. api_create_job C cfg rq w1 = (Inl x, w')"
      "e = ibm_classify x ibm_resource_kind.Backend" "snd s' = w'"
      by (auto simp: ibm_task_start_def s p params andthen_step from_result_def andthen_def dest!: request_Err)
    from x(2) kind ibm.not_other_is_client_error [of x] obtain st where
      "http_status x = Some st" "400 \<le> st" "st < 500" by blast
    with x(1) have "jobs w' = jobs w1" by (cases x) (auto dest: create)
    with x(3) w1 show ?thesis by (simp add: tasks s)
  qed
qed

interpretation qcs_start: start_contract "\<lambda>C p. prompt (qcs_task_start C p)" ibm_careful
  by unfold_locales (auto simp: prompt_def qcs_task_start_def intro: ibm_refused)

interpretation qrs_start: start_contract "\<lambda>C p. prompt (qrs_task_start C p)" ibm_careful
  by unfold_locales (auto simp: prompt_def qrs_task_start_def intro: ibm_refused)

section \<open>Maestro\<close>

definition maestro_careful :: "'w maestro_env \<Rightarrow> (maestro_local \<times> 'w \<Rightarrow> 't) \<Rightarrow> bool" where
  "maestro_careful E tasks \<longleftrightarrow> json_lib_ok (json_crate E)
     \<and> (\<exists>jobs. tasks = (\<lambda>s. jobs (snd s)) \<and> creates_when_asked E jobs)"

interpretation maestro_start: start_contract "\<lambda>E p. prompt (maestro_task_start E p)" maestro_careful
  by unfold_locales (auto simp: prompt_def maestro_careful_def dest: maestro_start_created)

text \<open>
  The contract of \<open>task_start\<close> for the IBM services: when a client error to a
  submission means that nothing was created and renewing the token creates nothing, an
  error whose kind is not \<open>Other\<close> leaves the jobs as they were, and so the C binding
  never reports a created job by another code than \<open>QRMI_RETURN_CODE_ERROR\<close>.
\<close>

lemma ibm_start_contract:
  assumes "ibm_careful C tasks" and "qcs_task_start C p s = (Err e, s') \<or> qrs_task_start C p s = (Err e, s')"
  shows "(kind e \<noteq> error_kind.Other \<longrightarrow> tasks s' = tasks s)
    \<and> (tasks s' \<noteq> tasks s \<longrightarrow> return_code_of_kind (kind e) = Error)"
proof -
  consider "prompt (qcs_task_start C p) s = Some (Err e, s')" | "prompt (qrs_task_start C p) s = Some (Err e, s')"
    using assms(2) by (auto simp: prompt_def)
  then have "kind e \<noteq> error_kind.Other \<longrightarrow> tasks s' = tasks s"
    by cases (use qcs_start.refused [OF assms(1)] qrs_start.refused [OF assms(1)] in blast)+
  then show ?thesis by (metis return_code_of_kind.simps(13))
qed

end
