(* ===== verification/IqmServer.thy ===== *)
theory IqmServer
  imports QuantumResource
begin

text \<open>
  The resource \<open>IQMServer\<close> (\<open>src/iqm/server.rs\<close>).  Its operations do not change the
  resource, so they act on the world.  The generated client and the derived
  deserialization of its models are parameters.
\<close>

section \<open>Construction\<close>

record iqm_server =
  iqm_base_path :: string
  iqm_token :: "string option"
  iqm_backend :: string
  iqm_calibration_set :: string
  iqm_acquisition_token :: "string option"

text \<open>
  The first two pieces between commas.  \<open>split\<close> gives at least one piece, so that the
  branch the code marks as unreachable is not reached.
\<close>

definition parse_backend_and_calset :: "string \<Rightarrow> string \<times> string" where
  "parse_backend_and_calset resource_id =
     (let buf = split_on (CHR '','') resource_id in
      (hd buf, case tl buf of i # _ \<Rightarrow> i | [] \<Rightarrow> ''default''))"

text \<open>The last underscore becomes a colon: \<open>rfind\<close> and \<open>replace_range\<close>.\<close>

definition colon_for_last_underscore :: "string \<Rightarrow> string" where
  "colon_for_last_underscore s =
     (let after = takeWhile (\<lambda>c. c \<noteq> CHR ''_'') (rev s) in
      if length after = length s then s
      else take (length s - length after - 1) s @ '':'' @ rev after)"

definition iqm_from_opt :: "env \<Rightarrow> string \<Rightarrow> config_map option \<Rightarrow> qrmi_error + iqm_server" where
  "iqm_from_opt env resource_id config =
     (case parse_backend_and_calset resource_id of (backend_name, calset_id) \<Rightarrow>
      let prefix = (if config \<noteq> None then [] else backend_name @ ''_'') in
      case resolve_opt_required env (prefix @ ''QRMI_IQM_ISA_ENDPOINT'') config of
        Inl e \<Rightarrow> Inl e
      | Inr iqm_endpoint \<Rightarrow>
        (case resolve_opt_required env (prefix @ ''QRMI_IQM_ISA_TOKEN'') config of
          Inl e \<Rightarrow> Inl e
        | Inr token \<Rightarrow>
            Inr \<lparr>iqm_base_path = iqm_endpoint, iqm_token = Some token,
                 iqm_backend = colon_for_last_underscore backend_name,
                 iqm_calibration_set = calset_id,
                 iqm_acquisition_token = resolve_opt env (prefix @ ''QRMI_JOB_ACQUISITION_TOKEN'') config\<rparr>))"

definition iqm_new :: "env \<Rightarrow> string \<Rightarrow> qrmi_error + iqm_server" where
  "iqm_new env resource_id = iqm_from_opt env resource_id None"

definition iqm_from_config :: "env \<Rightarrow> string \<Rightarrow> config_map \<Rightarrow> qrmi_error + iqm_server" where
  "iqm_from_config env resource_id config = iqm_from_opt env resource_id (Some config)"

section \<open>The client\<close>

datatype iqm_job_status = IqmWaiting | IqmProcessing | IqmCompleted | IqmFailed | IqmCancelled

record iqm_job =
  ij_status :: iqm_job_status
  ij_timeline :: "(string \<times> string \<times> string) list"
  ij_messages :: "(string \<times> string) list"
  ij_document :: json

text \<open>
  A timeline event is its formatted timestamp, its source and its status, a message
  its source and its text; \<open>ij_document\<close> is what the derived \<open>Serialize\<close> makes of the
  job.  \<open>read_details\<close> is the deserialization at \<open>IqmServerQuantumComputerDetails\<close>: the
  operational state, the health reading and the queue length; \<open>read_health\<close> the one
  at \<open>Option<QcHealthDetail>\<close>.  \<open>fetch_qc\<close> is the bare request of \<open>fetch_qc_details\<close>.
\<close>

record 'w iqm_client =
  iqm_serde :: json_lib
  pretty :: "json \<Rightarrow> string"
  read_details :: "json \<Rightarrow> string + string \<times> (bool \<times> string) option \<times> i32"
  read_health :: "json \<Rightarrow> string + (bool \<times> string) option"
  fetch_qc :: "iqm_server \<Rightarrow> string \<Rightarrow> 'w \<Rightarrow> (string + nat \<times> string \<times> (string + string)) \<times> 'w"
  api_job_submit :: "iqm_server \<Rightarrow> string \<Rightarrow> bool option \<Rightarrow> string option \<Rightarrow> json \<Rightarrow> 'w \<Rightarrow> (api_error + string) \<times> 'w"
  api_get_iqm_job :: "iqm_server \<Rightarrow> string \<Rightarrow> bool \<Rightarrow> nat option \<Rightarrow> 'w \<Rightarrow> (api_error + iqm_job) \<times> 'w"
  api_cancel_iqm_job :: "iqm_server \<Rightarrow> string \<Rightarrow> 'w \<Rightarrow> (api_error + unit) \<times> 'w"
  api_job_artifact :: "iqm_server \<Rightarrow> string \<Rightarrow> string \<Rightarrow> 'w \<Rightarrow> (api_error + string) \<times> 'w"
  api_qc_artifact :: "iqm_server \<Rightarrow> string \<Rightarrow> 'w \<Rightarrow> (api_error + string) \<times> 'w"
  api_dynamic_architecture :: "iqm_server \<Rightarrow> 'w \<Rightarrow> (api_error + string) \<times> 'w"
  api_calibration_set :: "iqm_server \<Rightarrow> 'w \<Rightarrow> (api_error + string) \<times> 'w"
  api_quality_metrics :: "iqm_server \<Rightarrow> 'w \<Rightarrow> (api_error + string) \<times> 'w"

definition iqm_call :: "iqm_resource_kind \<Rightarrow> ('w \<Rightarrow> (api_error + 'a) \<times> 'w) \<Rightarrow> ('w, qrmi_error, 'a) prog" where
  "iqm_call k f = call_api (\<lambda>e. iqm_classify e k) f"

definition iqm_parse :: "'w iqm_client \<Rightarrow> string \<Rightarrow> qrmi_error + json" where
  "iqm_parse C text = map_sum InvalidJson id (jparse (iqm_serde C) text)"

definition job_metadata :: "iqm_job \<Rightarrow> json" where
  "job_metadata job = JObj (map (\<lambda>k. (k, jindex (ij_document job) k))
     [''id'', ''status'', ''queue_position'', ''runtime_ms'', ''timeline'', ''compilation''])"

definition parse_optional_artifact ::
    "'w iqm_client \<Rightarrow> api_error + string \<Rightarrow> iqm_resource_kind \<Rightarrow> qrmi_error + json" where
  "parse_optional_artifact C result k = (case result of
      Inr bytes \<Rightarrow> iqm_parse C bytes
    | Inl e \<Rightarrow> if http_status e = Some 404 then Inr JNull else Inl (iqm_classify e k))"

section \<open>Status\<close>

text \<open>A failure of the bare request is built as the generated client would build it.\<close>

definition fetch_qc_details :: "'w iqm_client \<Rightarrow> iqm_server \<Rightarrow> ('w, qrmi_error, json) prog" where
  "fetch_qc_details C R = iqm_call iqm_resource_kind.Backend (\<lambda>w.
     case fetch_qc C R (iqm_base_path R @ ''/api/v1/quantum-computers/'' @ iqm_backend R) w of
       (Inl e, w') \<Rightarrow> (Inl (Reqwest e), w')
     | (Inr (st, shown, Inl e), w') \<Rightarrow> (Inl (Reqwest e), w')
     | (Inr (st, shown, Inr content), w') \<Rightarrow>
         (if 400 \<le> st \<and> st < 600 then Inl (ResponseError st shown content)
          else map_sum Serde id (jparse (iqm_serde C) content), w'))"

definition as_i64 :: "json \<Rightarrow> int option" where
  "as_i64 v = (case v of JInt i \<Rightarrow> if - (2 ^ 63) \<le> i \<and> i < 2 ^ 63 then Some i else None | _ \<Rightarrow> None)"

definition pointer_status_health :: "json \<Rightarrow> json option" where
  "pointer_status_health body = Option.bind (jget body ''status'') (\<lambda>st. jget st ''health'')"

definition qc_reading ::
    "'w iqm_client \<Rightarrow> json \<Rightarrow> qrmi_error + string \<times> (bool \<times> string) option \<times> int option" where
  "qc_reading C body = (case read_details C body of
      Inr (operational, health, queue_length) \<Rightarrow> Inr (operational, health, Some (sint queue_length))
    | Inl spec_err \<Rightarrow>
        (case pointer_status_health body of
           None \<Rightarrow> Inl (InvalidJson spec_err)
         | Some legacy_health \<Rightarrow>
             (case read_health C legacy_health of
                Inl e \<Rightarrow> Inl (InvalidJson e)
              | Inr health \<Rightarrow>
                  Inr (''online'', health, Option.bind (jget body ''queue_length'') as_i64))))"

definition resource_status_from_qc_details :: "'w iqm_client \<Rightarrow> json \<Rightarrow> qrmi_error + resource_status" where
  "resource_status_from_qc_details C body =
     map_sum id (\<lambda>(operational, health, queue_length).
       \<lparr>status_code = (if operational = ''online'' then Online
          else if operational = ''maintenance'' then Paused else Offline),
        status_reason = map_option (\<lambda>(_, updated_at). ''healthy updated at '' @ updated_at) health,
        healthy = map_option fst health,
        busy = None, capacity = None,
        pending_job_count = Option.bind queue_length (\<lambda>n. if 0 \<le> n then Some (of_int n) else None)\<rparr>)
     (qc_reading C body)"

definition iqm_status :: "'w iqm_client \<Rightarrow> iqm_server \<Rightarrow> ('w, qrmi_error, resource_status) prog" where
  "iqm_status C R = andthen (fetch_qc_details C R) (\<lambda>body.
     from_result (resource_status_from_qc_details C body))"

definition iqm_is_accessible :: "'w iqm_client \<Rightarrow> iqm_server \<Rightarrow> ('w, qrmi_error, bool) prog" where
  "iqm_is_accessible C R = andthen (iqm_status C R) (\<lambda>st.
     ret (status_code st = Online \<and> healthy st = Some True))"

section \<open>Tasks\<close>

definition iqm_task_start :: "'w iqm_client \<Rightarrow> iqm_server \<Rightarrow> payload \<Rightarrow> ('w, qrmi_error, string) prog" where
  "iqm_task_start C R p = (case p of
      payload.IQMServer iqmjson job_type use_timeslot tag \<Rightarrow>
        andthen (from_result (iqm_parse C iqmjson)) (\<lambda>job.
          iqm_call iqm_resource_kind.Backend (api_job_submit C R job_type use_timeslot tag job))
    | _ \<Rightarrow> throw (UnsupportedPayload (debug_payload p)))"

definition current_job :: "'w iqm_client \<Rightarrow> iqm_server \<Rightarrow> string \<Rightarrow> ('w, qrmi_error, iqm_job) prog" where
  "current_job C R tid = iqm_call iqm_resource_kind.Job (api_get_iqm_job C R tid True (Some 30))"

definition iqm_task_stop :: "'w iqm_client \<Rightarrow> iqm_server \<Rightarrow> string \<Rightarrow> ('w, qrmi_error, unit) prog" where
  "iqm_task_stop C R tid = andthen (current_job C R tid) (\<lambda>job.
     if ij_status job = IqmWaiting \<or> ij_status job = IqmProcessing
     then iqm_call iqm_resource_kind.Job (api_cancel_iqm_job C R tid)
     else ret ())"

fun iqm_task_status_of :: "iqm_job_status \<Rightarrow> task_status" where
  "iqm_task_status_of IqmWaiting = Queued"
| "iqm_task_status_of IqmProcessing = Running"
| "iqm_task_status_of IqmCompleted = Completed"
| "iqm_task_status_of IqmFailed = Failed"
| "iqm_task_status_of IqmCancelled = Cancelled"

definition iqm_task_status :: "'w iqm_client \<Rightarrow> iqm_server \<Rightarrow> string \<Rightarrow> ('w, qrmi_error, task_status) prog" where
  "iqm_task_status C R tid =
     andthen (current_job C R tid) (\<lambda>job. ret (iqm_task_status_of (ij_status job)))"

text \<open>The three requests are made in the order in which they are joined.\<close>

definition iqm_task_result :: "'w iqm_client \<Rightarrow> iqm_server \<Rightarrow> string \<Rightarrow> ('w, qrmi_error, string) prog" where
  "iqm_task_result C R tid = (\<lambda>w.
     case api_job_artifact C R tid ''measurements'' w of (measurements0, w1) \<Rightarrow>
     case api_job_artifact C R tid ''measurement_counts'' w1 of (counts0, w2) \<Rightarrow>
     case api_get_iqm_job C R tid False None w2 of (job0, w3) \<Rightarrow>
     andthen (from_result (parse_optional_artifact C measurements0 iqm_resource_kind.Job)) (\<lambda>measurements.
     andthen (from_result (parse_optional_artifact C counts0 iqm_resource_kind.Job)) (\<lambda>counts.
       ret (pretty C (JObj [(''measurements'', measurements), (''measurement_counts'', counts),
         (''job'', case job0 of Inr job \<Rightarrow> job_metadata job | Inl _ \<Rightarrow> JNull)])))) w3)"

text \<open>\<open>{:<24}\<close>: spaces up to 24 characters.\<close>

definition pad_right :: "nat \<Rightarrow> string \<Rightarrow> string" where
  "pad_right n s = s @ replicate (n - length (char_pieces s)) (CHR '' '')"

definition iqm_log :: "iqm_job \<Rightarrow> string" where
  "iqm_log job =
     ''Timeline   :'' @ [nl]
     @ concat (map (\<lambda>(timestamp, source, status).
         ''  '' @ timestamp @ '' ['' @ pad_right 24 source @ ''] '' @ status @ [nl]) (ij_timeline job))
     @ (if ij_messages job = [] then ''Messages   : (none)'' @ [nl]
        else ''Messages   :'' @ [nl]
          @ concat (map (\<lambda>(source, message). ''  ['' @ pad_right 24 source @ ''] '' @ message @ [nl])
              (ij_messages job)))"

definition iqm_task_logs :: "'w iqm_client \<Rightarrow> iqm_server \<Rightarrow> string \<Rightarrow> ('w, qrmi_error, string) prog" where
  "iqm_task_logs C R tid = andthen (current_job C R tid) (\<lambda>job. ret (iqm_log job))"

definition fetched :: "'w iqm_client \<Rightarrow> ('w \<Rightarrow> (api_error + string) \<times> 'w) \<Rightarrow> ('w, qrmi_error, json) prog" where
  "fetched C f = andthen (iqm_call iqm_resource_kind.Backend f) (\<lambda>bytes. from_result (iqm_parse C bytes))"

definition iqm_target :: "'w iqm_client \<Rightarrow> iqm_server \<Rightarrow> ('w, qrmi_error, string) prog" where
  "iqm_target C R =
     andthen (fetched C (api_dynamic_architecture C R)) (\<lambda>dynamic.
     andthen (fetched C (api_calibration_set C R)) (\<lambda>calibration.
     andthen (fetched C (api_quality_metrics C R)) (\<lambda>quality.
     andthen (\<lambda>w. case api_qc_artifact C R ''static-quantum-architectures'' w of (r, w') \<Rightarrow>
         (outcome_of (parse_optional_artifact C r iqm_resource_kind.Backend), w')) (\<lambda>static.
       ret (jdump (iqm_serde C) (JObj [(''dynamic_quantum_architecture'', dynamic),
         (''calibration_set'', calibration), (''quality_metrics'', quality),
         (''static_quantum_architecture'', static)]))))))"

definition iqm_metadata :: "iqm_server \<Rightarrow> string \<rightharpoonup> string" where
  "iqm_metadata R = (case iqm_acquisition_token R of
      None \<Rightarrow> [''backend_name'' \<mapsto> iqm_backend R]
    | Some t \<Rightarrow> [''backend_name'' \<mapsto> iqm_backend R, ''acquisition_token'' \<mapsto> t])"

section \<open>Stopping a task\<close>

text \<open>
  A request to stop a task reaches a job that can still run: \<open>task_stop\<close> of an IQM
  server succeeds exactly when the job's status was read, and the job was either in its
  final state already or its cancellation was accepted; it asks for a cancellation
  only while the job waits or is processed, and a refused cancellation is the caller's
  error.
\<close>

lemma iqm_stop_outcome:
  "iqm_task_stop C R tid w = (r, w') \<longleftrightarrow>
     (case api_get_iqm_job C R tid True (Some 30) w of
        (Inl e, w1) \<Rightarrow> r = Err (iqm_classify e iqm_resource_kind.Job) \<and> w' = w1
      | (Inr job, w1) \<Rightarrow>
          if ij_status job \<in> {IqmCompleted, IqmFailed, IqmCancelled} then r = Ok () \<and> w' = w1
          else (case api_cancel_iqm_job C R tid w1 of
              (Inr _, w2) \<Rightarrow> r = Ok () \<and> w' = w2
            | (Inl e, w2) \<Rightarrow> r = Err (iqm_classify e iqm_resource_kind.Job) \<and> w' = w2))"
proof -
  have running: "s = IqmWaiting \<or> s = IqmProcessing \<longleftrightarrow> s \<notin> {IqmCompleted, IqmFailed, IqmCancelled}" for s
    by (cases s) simp_all
  show ?thesis
    unfolding iqm_task_stop_def current_job_def iqm_call_def running
    by (auto simp: andthen_def call_api_def run_result_def ret_def split: prod.split sum.split)
qed

section \<open>Starting keeps the contract\<close>

text \<open>
  What is relied on of the server and its generated client: a client error to a
  submission means that it created nothing.
\<close>

definition iqm_careful :: "'w iqm_client \<times> iqm_server \<Rightarrow> ('w \<Rightarrow> 't) \<Rightarrow> bool" where
  "iqm_careful = (\<lambda>(C, R) tasks. \<forall>jt ts tag job w st sh body w'.
     api_job_submit C R jt ts tag job w = (Inl (ResponseError st sh body), w') \<longrightarrow>
     400 \<le> st \<longrightarrow> st < 500 \<longrightarrow> tasks w' = tasks w)"

lemma iqm_refused:
  assumes "iqm_careful (C, R) tasks" and "iqm_task_start C R p w = (Err e, w')"
    and "kind e \<noteq> error_kind.Other"
  shows "tasks w' = tasks w"
proof (cases p)
  case (IQMServer iqmjson job_type use_timeslot tag)
  show ?thesis
  proof (cases "iqm_parse C iqmjson")
    case (Inl a)
    with assms(2) IQMServer show ?thesis by (simp add: iqm_task_start_def andthen_def from_result_def)
  next
    case (Inr job)
    with assms(2) IQMServer obtain x where
      x: "api_job_submit C R job_type use_timeslot tag job w = (Inl x, w')" "e = iqm_classify x iqm_resource_kind.Backend"
      by (auto simp: iqm_task_start_def iqm_call_def andthen_Err from_result_Ok from_result_Err call_api_Err)
    with assms(3) iqm.not_other_is_client_error [of x] obtain st where
      "http_status x = Some st" "400 \<le> st" "st < 500" by blast
    with x(1) assms(1) show ?thesis by (cases x) (auto simp: iqm_careful_def)
  qed
qed (use assms(2) in \<open>auto simp: iqm_task_start_def throw_def\<close>)

interpretation iqm_start: start_contract
  "\<lambda>(C, R) p. prompt (iqm_task_start C R p)" "iqm_careful"
  by unfold_locales (auto simp: prompt_def intro: iqm_refused)

end
