(* ===== verification/RestClient.thy ===== *)
theory RestClient
  imports Classify Json
begin

text \<open>
  What the three generated REST clients share (\<open>apis/mod.rs\<close> and \<open>apis/configuration.rs\<close>
  of \<open>quantum_compute_client\<close>, \<open>iqm_client\<close> and \<open>felis_generated\<close>, the same code but for
  their headers): the request that a function builds, step by step in the order of the
  code, and what becomes of the response.  \<open>reqwest\<close> and the percent encoder of the \<open>url\<close>
  crate are parameters, as is the deserialization at the type of the result.
\<close>

section \<open>Requests and responses\<close>

datatype rest_method = GET | POST | PUT | DELETE | PATCH

datatype rest_body = NoBody | JsonBody json | EmptyForm | FormBody "(string \<times> string) list" | InputForm string

record rest_request =
  rest_method :: rest_method
  rest_url :: string
  rest_query :: "(string \<times> string) list"
  rest_headers :: "(string \<times> string) list"
  rest_basic :: "(string \<times> string option) option"
  rest_body :: rest_body

text \<open>The status with the text that shows it, the content type as far as it is text, and
  the body or the error of reading it.\<close>

record rest_response =
  rsp_status :: nat
  rsp_shown :: string
  rsp_content_type :: "string option"
  rsp_body :: "string + string"

text \<open>\<open>Configuration\<close>, without the fields that no function reads.\<close>

record rest_config =
  rc_base_path :: string
  rc_user_agent :: "string option"
  rc_basic_auth :: "(string \<times> string option) option"
  rc_bearer :: "string option"
  rc_crn :: "string option"

text \<open>
  \<open>build_error\<close> is the error of \<open>RequestBuilder::build\<close>, for instance for a URL that cannot be
  parsed; nothing is sent then.
\<close>

record 'w http =
  byte_serialize :: "string \<Rightarrow> string"
  build_error :: "rest_request \<Rightarrow> string option"
  http_execute :: "rest_request \<Rightarrow> 'w \<Rightarrow> (string + rest_response) \<times> 'w"

definition urlencode :: "'w http \<Rightarrow> string \<Rightarrow> string" where
  "urlencode H s = byte_serialize H s"

text \<open>
  \<open>parse_deep_object\<close>, which no function calls.  \<open>None\<close> is the panic of \<open>unimplemented!\<close>: at
  a value that is no object, and so at an array with an element that is none.
\<close>

definition bracketed :: "string \<Rightarrow> string \<Rightarrow> string" where
  "bracketed prefix k = prefix @ ''['' @ k @ '']''"

function parse_deep_object :: "(json \<Rightarrow> string) \<Rightarrow> string \<Rightarrow> json \<Rightarrow> (string \<times> string) list option"
  and deep_fields :: "(json \<Rightarrow> string) \<Rightarrow> string \<Rightarrow> (string \<times> json) list \<Rightarrow> (string \<times> string) list option"
  and deep_items :: "(json \<Rightarrow> string) \<Rightarrow> string \<Rightarrow> nat \<Rightarrow> json list \<Rightarrow> (string \<times> string) list option"
  where
  "parse_deep_object dump prefix v = (case v of JObj kvs \<Rightarrow> deep_fields dump prefix kvs | _ \<Rightarrow> None)"
| "deep_fields dump prefix [] = Some []"
| "deep_fields dump prefix (kv # kvs) =
     (case (case snd kv of
          JObj _ \<Rightarrow> parse_deep_object dump (bracketed prefix (fst kv)) (snd kv)
        | JArr vs \<Rightarrow> deep_items dump (bracketed prefix (fst kv)) 0 vs
        | JStr s \<Rightarrow> Some [(bracketed prefix (fst kv), s)]
        | v \<Rightarrow> Some [(bracketed prefix (fst kv), dump v)]) of
        None \<Rightarrow> None
      | Some params \<Rightarrow> map_option ((@) params) (deep_fields dump prefix kvs))"
| "deep_items dump name i [] = Some []"
| "deep_items dump name i (v # vs) =
     (case parse_deep_object dump (bracketed name (show_nat i)) v of
        None \<Rightarrow> None
      | Some params \<Rightarrow> map_option ((@) params) (deep_items dump name (Suc i) vs))"
  by pat_completeness auto
termination
  by (relation "measure (\<lambda>x. case x of Inl (_, _, v) \<Rightarrow> 2 * size v
      | Inr (Inl (_, _, kvs)) \<Rightarrow> 2 * size_list (size_prod (\<lambda>_. 0) size) kvs + 1
      | Inr (Inr (_, _, _, vs)) \<Rightarrow> 2 * size_list size vs + 1)") (auto split: json.splits)

declare parse_deep_object.simps [simp del]

text \<open>\<open>Configuration::default()\<close> of the three clients.\<close>

definition qc_default_config :: rest_config where
  "qc_default_config = \<lparr>rc_base_path = ''/api'', rc_user_agent = Some ''SLURM-QRMI-QRS'',
     rc_basic_auth = None, rc_bearer = None, rc_crn = Some ''crn:v1''\<rparr>"

definition iqm_default_config :: rest_config where
  "iqm_default_config = \<lparr>rc_base_path = ''http://localhost'', rc_user_agent = Some ''OpenAPI-Generator/v1/rust'',
     rc_basic_auth = None, rc_bearer = None, rc_crn = None\<rparr>"

definition felis_default_config :: rest_config where
  "felis_default_config = \<lparr>rc_base_path = ''/external'', rc_user_agent = Some ''OpenAPI-Generator/0.1.0/rust'',
     rc_basic_auth = None, rc_bearer = None, rc_crn = None\<rparr>"

section \<open>Building a request\<close>

type_synonym build_step = "rest_request \<Rightarrow> rest_request"

definition add_header :: "string \<Rightarrow> string \<Rightarrow> build_step" where
  "add_header k v rq = rq\<lparr>rest_headers := rest_headers rq @ [(k, v)]\<rparr>"

definition opt_header :: "string \<Rightarrow> string option \<Rightarrow> build_step" where
  "opt_header k v rq = (case v of Some x \<Rightarrow> add_header k x rq | None \<Rightarrow> rq)"

definition accept_json :: build_step where
  "accept_json = add_header ''accept'' ''application/json''"

definition add_query :: "string \<Rightarrow> string \<Rightarrow> build_step" where
  "add_query k v rq = rq\<lparr>rest_query := rest_query rq @ [(k, v)]\<rparr>"

definition opt_query :: "string \<Rightarrow> string option \<Rightarrow> build_step" where
  "opt_query k v rq = (case v of Some x \<Rightarrow> add_query k x rq | None \<Rightarrow> rq)"

text \<open>A list is sent as one parameter per element, the collection format \<open>multi\<close>.\<close>

definition opt_query_multi :: "string \<Rightarrow> string list option \<Rightarrow> build_step" where
  "opt_query_multi k v rq = (case v of
      Some xs \<Rightarrow> rq\<lparr>rest_query := rest_query rq @ map (Pair k) xs\<rparr>
    | None \<Rightarrow> rq)"

definition agent_header :: "rest_config \<Rightarrow> build_step" where
  "agent_header cfg = opt_header ''user-agent'' (rc_user_agent cfg)"

definition bearer_header :: "rest_config \<Rightarrow> build_step" where
  "bearer_header cfg = opt_header ''authorization'' (map_option (\<lambda>t. ''Bearer '' @ t) (rc_bearer cfg))"

definition basic_login :: "rest_config \<Rightarrow> build_step" where
  "basic_login cfg rq = (case rc_basic_auth cfg of Some a \<Rightarrow> rq\<lparr>rest_basic := Some a\<rparr> | None \<Rightarrow> rq)"

definition service_crn :: "rest_config \<Rightarrow> build_step" where
  "service_crn cfg = opt_header ''Service-CRN'' (rc_crn cfg)"

definition json_body :: "json \<Rightarrow> build_step" where
  "json_body j rq = rq\<lparr>rest_body := JsonBody j\<rparr>"

definition form_body :: "(string \<times> string) list \<Rightarrow> build_step" where
  "form_body ps rq = rq\<lparr>rest_body := FormBody ps\<rparr>"

text \<open>A multipart form with one part, the file \<open>input\<close>.\<close>

definition input_form :: "string \<Rightarrow> build_step" where
  "input_form content rq = rq\<lparr>rest_body := InputForm content\<rparr>"

definition multipart_empty :: build_step where
  "multipart_empty rq = rq\<lparr>rest_body := EmptyForm\<rparr>"

definition build_request :: "rest_method \<Rightarrow> string \<Rightarrow> build_step list \<Rightarrow> rest_request" where
  "build_request m url steps = fold (\<lambda>f rq. f rq) steps
     \<lparr>rest_method = m, rest_url = url, rest_query = [], rest_headers = [], rest_basic = None, rest_body = NoBody\<rparr>"

definition show_bool :: "bool \<Rightarrow> string" where
  "show_bool b = (if b then ''true'' else ''false'')"

section \<open>Responses\<close>

text \<open>\<open>ContentType\<close>.\<close>

datatype content_type = JsonContent | TextContent | Unsupported string

fun contains :: "string \<Rightarrow> string \<Rightarrow> bool" where
  "contains p [] = (p = [])"
| "contains p (c # cs) = (starts_with p (c # cs) \<or> contains p cs)"

definition content_type_from :: "string \<Rightarrow> content_type" where
  "content_type_from s =
     (if starts_with ''application'' s \<and> contains ''json'' s then JsonContent
      else if starts_with ''text/plain'' s then TextContent
      else Unsupported s)"

definition not_convertible_to :: "string \<Rightarrow> string \<Rightarrow> string" where
  "not_convertible_to target t = ''Received `'' @ t
     @ ''` content type response that cannot be converted to `'' @ target @ ''`''"

definition is_failure :: "nat \<Rightarrow> bool" where
  "is_failure st \<longleftrightarrow> 400 \<le> st \<and> st < 500 \<or> 500 \<le> st \<and> st < 600"

text \<open>\<open>build()?\<close> and \<open>execute(..).await?\<close>, then \<open>f\<close> for the response.\<close>

definition send ::
    "'w http \<Rightarrow> rest_request \<Rightarrow> (rest_response \<Rightarrow> api_error + 'a) \<Rightarrow> 'w \<Rightarrow> (api_error + 'a) \<times> 'w" where
  "send H rq f w = (case build_error H rq of
      Some e \<Rightarrow> (Inl (Reqwest e), w)
    | None \<Rightarrow> (case http_execute H rq w of
          (Inl e, w') \<Rightarrow> (Inl (Reqwest e), w')
        | (Inr rsp, w') \<Rightarrow> (f rsp, w')))"

definition refuse :: "rest_response \<Rightarrow> api_error + 'a" where
  "refuse rsp = (case rsp_body rsp of
      Inl e \<Rightarrow> Inl (Reqwest e)
    | Inr content \<Rightarrow> Inl (ResponseError (rsp_status rsp) (rsp_shown rsp) content))"

text \<open>The five shapes of the end of a function, by the type of its result.\<close>

definition unit_reply :: "rest_response \<Rightarrow> api_error + unit" where
  "unit_reply rsp = (if \<not> is_failure (rsp_status rsp) then Inr () else refuse rsp)"

definition bytes_reply :: "rest_response \<Rightarrow> api_error + string" where
  "bytes_reply rsp = (if \<not> is_failure (rsp_status rsp) then map_sum Reqwest id (rsp_body rsp) else refuse rsp)"

definition typed_reply ::
    "string \<Rightarrow> (string \<Rightarrow> api_error + 'a) \<Rightarrow> string \<Rightarrow> (string \<Rightarrow> string + 'a) \<Rightarrow> rest_response \<Rightarrow> api_error + 'a" where
  "typed_reply fallback as_text target decode rsp =
     (let content_type = content_type_from (case rsp_content_type rsp of Some t \<Rightarrow> t | None \<Rightarrow> fallback) in
      if \<not> is_failure (rsp_status rsp) then
        (case rsp_body rsp of
           Inl e \<Rightarrow> Inl (Reqwest e)
         | Inr content \<Rightarrow> (case content_type of
             JsonContent \<Rightarrow> map_sum Serde id (decode content)
           | TextContent \<Rightarrow> as_text content
           | Unsupported t \<Rightarrow> Inl (Serde (not_convertible_to target t))))
      else refuse rsp)"

definition json_reply :: "string \<Rightarrow> string \<Rightarrow> (string \<Rightarrow> string + 'a) \<Rightarrow> rest_response \<Rightarrow> api_error + 'a" where
  "json_reply fallback target =
     typed_reply fallback (\<lambda>_. Inl (Serde (not_convertible_to target ''text/plain''))) target"

definition text_reply :: "string \<Rightarrow> (string \<Rightarrow> string + string) \<Rightarrow> rest_response \<Rightarrow> api_error + string" where
  "text_reply fallback = typed_reply fallback Inr ''String''"

end
