(* ===== verification/Felis.thy ===== *)
theory Felis
  imports QuantumResource RestClient
begin

text \<open>
  The resource \<open>AliceBobFelis\<close> (\<open>src/alice_bob/felis.rs\<close>), and the two parts of its
  client that are written by hand: decoding the API key and uploading a program
  (\<open>dependencies/alice_bob_felis_client/src\<close>).  Base64
  and the requests are parameters.
\<close>

section \<open>Names of devices and targets\<close>

definition replace_char :: "char \<Rightarrow> string \<Rightarrow> string \<Rightarrow> string" where
  "replace_char x r s = replace_chars [x] r s"

text \<open>\<open>replacen\<close> with a one-character pattern: the first \<open>n\<close> occurrences.\<close>

fun replacen :: "char \<Rightarrow> char \<Rightarrow> nat \<Rightarrow> string \<Rightarrow> string" where
  "replacen x y n [] = []"
| "replacen x y 0 s = s"
| "replacen x y (Suc n) (c # cs) = (if c = x then y # replacen x y n cs else c # replacen x y (Suc n) cs)"

definition target_to_device :: "string \<Rightarrow> string" where
  "target_to_device target = ''ab_'' @ to_lowercase (replace_char (CHR '':'') ''_'' target)"

definition device_to_target :: "string \<Rightarrow> string" where
  "device_to_target device =
     to_uppercase (replacen (CHR ''_'') (CHR '':'') 2
       (case strip_prefix ''ab_'' device of Some s \<Rightarrow> s | None \<Rightarrow> device))"

section \<open>Construction\<close>

record felis =
  felis_base_path :: string
  felis_basic_auth :: "(string \<times> string option) option"
  felis_backend :: string
  felis_target :: string

text \<open>\<open>splitn(2, ':')\<close>: at most two pieces, divided at the first colon.\<close>

definition decode_api_key ::
    "(string \<Rightarrow> string + string) \<Rightarrow> (string \<Rightarrow> string) \<Rightarrow> string \<Rightarrow> string + (string \<times> string option) option" where
  "decode_api_key base64_decode utf8_error encoded = (case base64_decode encoded of
      Inl e \<Rightarrow> Inl e
    | Inr decoded \<Rightarrow>
        if \<not> utf8_ok (map byte decoded) then Inl (utf8_error decoded)
        else (case split_once (CHR '':'') decoded of
            Some (username, password) \<Rightarrow> Inr (Some (username, Some password))
          | None \<Rightarrow> Inl ''missing password part''))"

definition felis_from_opt ::
    "(string \<Rightarrow> string + (string \<times> string option) option) \<Rightarrow> env \<Rightarrow> string \<Rightarrow> config_map option \<Rightarrow>
     qrmi_error + felis" where
  "felis_from_opt decode env backend config =
     (let prefix = (if config \<noteq> None then [] else backend @ ''_'') in
      case resolve_opt_required_any env
          [prefix @ ''QRMI_AB_FELIS_API_KEY'', ''QRMI_AB_FELIS_API_KEY''] config of
        Inl e \<Rightarrow> Inl e
      | Inr api_key \<Rightarrow>
        (case resolve_opt_required_any env
            [prefix @ ''QRMI_AB_FELIS_BASE_ENDPOINT'', ''QRMI_AB_FELIS_BASE_ENDPOINT''] config of
          Inl e \<Rightarrow> Inl e
        | Inr endpoint \<Rightarrow>
          (case decode api_key of
            Inl err \<Rightarrow> Inl (InvalidConfig (''QRMI_AB_FELIS_API_KEY is not a base64-encoded ''
                @ [CHR 0x27] @ ''user:password'' @ [CHR 0x27] @ '' API key: '' @ err))
          | Inr basic_auth \<Rightarrow>
              Inr \<lparr>felis_base_path = endpoint, felis_basic_auth = basic_auth,
                   felis_backend = backend, felis_target = device_to_target backend\<rparr>)))"

section \<open>The client\<close>

datatype event_type =
    Created | FetchingInput | InputReady | Compiling | Compiled | Transpiling | Transpiled
  | Executing | Succeeded | EventCancelled | TimedOut | CompilationFailed | ExecutionFailed
  | TranspilationFailed

text \<open>
  A target is its name and its document.  \<open>post_input\<close> is the multipart request of
  \<open>upload_input\<close>, for the URL and the input: the status, its text, the content type
  and the body.
\<close>

record 'w felis_client =
  felis_serde :: json_lib
  felis_urlencode :: "string \<Rightarrow> string"
  api_create_felis_job :: "felis \<Rightarrow> json \<Rightarrow> 'w \<Rightarrow> (api_error + string) \<times> 'w"
  post_input :: "felis \<Rightarrow> string \<Rightarrow> string \<Rightarrow> 'w \<Rightarrow> (string + nat \<times> string \<times> string option \<times> (string + string)) \<times> 'w"
  api_get_events :: "felis \<Rightarrow> string \<Rightarrow> 'w \<Rightarrow> (api_error + event_type list) \<times> 'w"
  api_cancel_felis_job :: "felis \<Rightarrow> string \<Rightarrow> 'w \<Rightarrow> (api_error + unit) \<times> 'w"
  api_download_output :: "felis \<Rightarrow> string \<Rightarrow> 'w \<Rightarrow> (api_error + string) \<times> 'w"
  api_list_targets :: "felis \<Rightarrow> 'w \<Rightarrow> (api_error + (string \<times> json) list) \<times> 'w"

definition felis_call :: "felis_resource_kind \<Rightarrow> ('w \<Rightarrow> (api_error + 'a) \<times> 'w) \<Rightarrow> ('w, qrmi_error, 'a) prog" where
  "felis_call k f = call_api (\<lambda>e. felis_classify e k) f"

definition upload_input :: "'w felis_client \<Rightarrow> felis \<Rightarrow> string \<Rightarrow> string \<Rightarrow> 'w \<Rightarrow> (api_error + json) \<times> 'w" where
  "upload_input C R job_id input w =
     (case post_input C R (felis_base_path R @ ''/v1/jobs/'' @ felis_urlencode C job_id @ ''/input'') input w of
        (Inl e, w') \<Rightarrow> (Inl (Reqwest e), w')
      | (Inr (st, shown, ct, Inl e), w') \<Rightarrow> (Inl (Reqwest e), w')
      | (Inr (st, shown, ct, Inr content), w') \<Rightarrow>
          (if \<not> (400 \<le> st \<and> st < 600) then
             (case content_type_from (case ct of Some t \<Rightarrow> t | None \<Rightarrow> ''application/octet-stream'') of
                JsonContent \<Rightarrow> map_sum Serde id (jparse (felis_serde C) content)
              | TextContent \<Rightarrow> Inl (Serde (not_convertible_to ''serde_json::Value'' ''text/plain''))
              | Unsupported t \<Rightarrow> Inl (Serde (not_convertible_to ''serde_json::Value'' t)))
           else Inl (ResponseError st shown content), w'))"

section \<open>Operations\<close>

definition list_backends :: "'w felis_client \<Rightarrow> felis \<Rightarrow> ('w, qrmi_error, string list) prog" where
  "list_backends C R = andthen (felis_call felis_resource_kind.Backend (api_list_targets C R)) (\<lambda>targets.
     ret (map (\<lambda>t. target_to_device (fst t)) targets))"

definition most_recent_event :: "'w felis_client \<Rightarrow> felis \<Rightarrow> string \<Rightarrow> ('w, qrmi_error, event_type) prog" where
  "most_recent_event C R tid =
     andthen (felis_call felis_resource_kind.Job (api_get_events C R tid)) (\<lambda>events.
       if events = [] then panic else ret (last events))"

definition felis_is_accessible :: "('w, qrmi_error, bool) prog" where
  "felis_is_accessible = ret True"

definition created_job :: "string \<Rightarrow> json \<Rightarrow> json" where
  "created_job target input_params =
     JObj [(''input_data_format'', JStr ''HUMAN_QIR''), (''output_data_format'', JStr ''HISTOGRAM''),
           (''target'', JStr target), (''input_params'', input_params)]"

definition upload_failed :: "string \<Rightarrow> api_error \<Rightarrow> qrmi_error" where
  "upload_failed job_id e = qrmi_error.Other
     [''input upload failed for created job '' @ job_id, error_display (felis_classify e felis_resource_kind.Job)]"

definition felis_task_start :: "'w felis_client \<Rightarrow> felis \<Rightarrow> payload \<Rightarrow> ('w, qrmi_error, string) prog" where
  "felis_task_start C R p = (case p of
      payload.AliceBobFelis human_qir input_params \<Rightarrow>
        andthen (from_result (map_sum InvalidJson id (jparse (felis_serde C) input_params))) (\<lambda>params.
        andthen (felis_call felis_resource_kind.Backend
                   (api_create_felis_job C R (created_job (felis_target R) params))) (\<lambda>job_id.
        andthen (call_api (upload_failed job_id) (upload_input C R job_id human_qir)) (\<lambda>_.
          ret job_id)))
    | _ \<Rightarrow> throw (UnsupportedPayload (debug_payload p)))"

definition felis_task_stop :: "'w felis_client \<Rightarrow> felis \<Rightarrow> string \<Rightarrow> ('w, qrmi_error, unit) prog" where
  "felis_task_stop C R tid = andthen (most_recent_event C R tid) (\<lambda>event.
     if event \<noteq> Succeeded \<and> event \<noteq> EventCancelled
     then felis_call felis_resource_kind.Job (api_cancel_felis_job C R tid)
     else ret ())"

fun status_of_event :: "event_type \<Rightarrow> task_status" where
  "status_of_event Created = Queued"
| "status_of_event FetchingInput = Queued"
| "status_of_event InputReady = Queued"
| "status_of_event Compiling = Running"
| "status_of_event Compiled = Running"
| "status_of_event Transpiling = Running"
| "status_of_event Transpiled = Running"
| "status_of_event Executing = Running"
| "status_of_event Succeeded = Completed"
| "status_of_event EventCancelled = Cancelled"
| "status_of_event TimedOut = Failed"
| "status_of_event CompilationFailed = Failed"
| "status_of_event ExecutionFailed = Failed"
| "status_of_event TranspilationFailed = Failed"

definition felis_task_status :: "'w felis_client \<Rightarrow> felis \<Rightarrow> string \<Rightarrow> ('w, qrmi_error, task_status) prog" where
  "felis_task_status C R tid = andthen (most_recent_event C R tid) (\<lambda>event. ret (status_of_event event))"

definition felis_task_result :: "'w felis_client \<Rightarrow> felis \<Rightarrow> string \<Rightarrow> ('w, qrmi_error, string) prog" where
  "felis_task_result C R tid = felis_call felis_resource_kind.Job (api_download_output C R tid)"

definition felis_target_doc :: "'w felis_client \<Rightarrow> felis \<Rightarrow> ('w, qrmi_error, string) prog" where
  "felis_target_doc C R =
     andthen (felis_call felis_resource_kind.Backend (api_list_targets C R)) (\<lambda>targets.
       case find (\<lambda>(name, _). name = felis_target R) targets of
         Some (_, document) \<Rightarrow> ret (jdump (felis_serde C) document)
       | None \<Rightarrow> panic)"

definition felis_metadata :: "felis \<Rightarrow> string \<rightharpoonup> string" where
  "felis_metadata R = [''felis_target'' \<mapsto> felis_target R]"

section \<open>Starting keeps the contract\<close>

text \<open>
  What is relied on of the service: a client error to the creation of a job means
  that it created nothing.  Nothing is relied on of the upload that follows.
\<close>

definition felis_careful :: "'w felis_client \<times> felis \<Rightarrow> ('w \<Rightarrow> 't) \<Rightarrow> bool" where
  "felis_careful = (\<lambda>(C, R) tasks. \<forall>doc w st sh body w'.
     api_create_felis_job C R doc w = (Inl (ResponseError st sh body), w') \<longrightarrow>
     400 \<le> st \<longrightarrow> st < 500 \<longrightarrow> tasks w' = tasks w)"

lemma felis_start_cases:
  assumes "felis_task_start C R p w = (Err e, w')"
  obtains "w' = w"
    | doc x where "api_create_felis_job C R doc w = (Inl x, w')" "e = felis_classify x felis_resource_kind.Backend"
    | "kind e = error_kind.Other"
proof (cases p)
  case (AliceBobFelis qir params)
  with assms show ?thesis
    by (auto simp: felis_task_start_def felis_call_def andthen_Err from_result_Ok from_result_Err call_api_Err
        call_api_Ok upload_failed_def ret_def intro: that)
qed (use assms in \<open>auto simp: felis_task_start_def throw_def intro: that\<close>)

lemma felis_refused:
  assumes "felis_careful (C, R) tasks" and "felis_task_start C R p w = (Err e, w')"
    and "kind e \<noteq> error_kind.Other"
  shows "tasks w' = tasks w"
  using assms(2)
proof (cases rule: felis_start_cases)
  case (2 doc x)
  with assms(3) felis.not_other_is_client_error [of x] obtain st where
    "http_status x = Some st" "400 \<le> st" "st < 500" by blast
  with 2(1) assms(1) show ?thesis by (cases x) (auto simp: felis_careful_def)
qed (use assms(3) in auto)

interpretation felis_start: start_contract
  "\<lambda>(C, R) p. prompt (felis_task_start C R p)" felis_careful
  by unfold_locales (auto simp: prompt_def intro: felis_refused)

text \<open>
  C35. Starting a task on Felis creates a job and then uploads the program.  An error
  reported as anything but \<open>Other\<close> means that no job was created, even though the
  upload of an existing job may be refused with any status; an upload that fails
  after the job was created is reported as \<open>Other\<close>, with the job's identifier in
  the message.
\<close>

theorem felis_start_contract:
  assumes "felis_careful (C, R) tasks" and "felis_task_start C R p w = (Err e, w')"
  shows "(kind e \<noteq> error_kind.Other \<longrightarrow> tasks w' = tasks w)
    \<and> (\<forall>qir params v job_id w1. p = payload.AliceBobFelis qir params \<and> jparse (felis_serde C) params = Inr v
         \<and> api_create_felis_job C R (created_job (felis_target R) v) w = (Inr job_id, w1) \<longrightarrow>
         kind e = error_kind.Other
         \<and> error_display e = ''input upload failed for created job '' @ job_id)"
proof (intro conjI impI allI)
  assume "kind e \<noteq> error_kind.Other"
  then show "tasks w' = tasks w" by (rule felis_refused [OF assms])
next
  fix qir params v job_id w1
  assume "p = payload.AliceBobFelis qir params \<and> jparse (felis_serde C) params = Inr v
    \<and> api_create_felis_job C R (created_job (felis_target R) v) w = (Inr job_id, w1)"
  with assms(2) obtain x where "e = upload_failed job_id x"
    by (auto simp: felis_task_start_def felis_call_def andthen_Err from_result_Ok from_result_Err call_api_Err
        call_api_Ok ret_def)
  then show "kind e = error_kind.Other"
    and "error_display e = ''input upload failed for created job '' @ job_id"
    by (simp_all add: upload_failed_def)
qed

section \<open>Stopping\<close>

text \<open>
  Felis is asked to cancel a task exactly when its last event is neither success
  nor cancellation: a task that timed out or whose compilation, transpilation or
  execution failed, and which is reported as \<open>Failed\<close>, is asked to be cancelled too,
  and the answer to that decides what \<open>task_stop\<close> returns.
\<close>

lemma felis_stop_cancels:
  assumes "api_get_events C R tid w = (Inr events, w1)" and "events \<noteq> []"
  shows "felis_task_stop C R tid w =
     (if last events = Succeeded \<or> last events = EventCancelled then (Ok (), w1)
      else case api_cancel_felis_job C R tid w1 of (r, w2) \<Rightarrow>
        (outcome_of (map_sum (\<lambda>e. felis_classify e felis_resource_kind.Job) id r), w2))"
  using assms
  by (auto simp: felis_task_stop_def most_recent_event_def felis_call_def call_api_def andthen_def run_result_def
      ret_def split: prod.split)

section \<open>Names\<close>

text \<open>A target as Felis names it: three parts between colons, in upper case.\<close>

definition felis_name :: "string \<Rightarrow> bool" where
  "felis_name t \<longleftrightarrow> (\<exists>a b c. t = a @ '':'' @ b @ '':'' @ c
     \<and> CHR '':'' \<notin> set a \<and> CHR ''_'' \<notin> set a \<and> CHR '':'' \<notin> set b \<and> CHR ''_'' \<notin> set b \<and> CHR '':'' \<notin> set c)
     \<and> to_uppercase t = t"

lemma replacen_skip: "x \<notin> set a \<Longrightarrow> replacen x y (Suc n) (a @ s) = a @ replacen x y (Suc n) s"
  by (induction a) auto

lemma upper_lower: "upper_char (lower_char c) = upper_char c"
  by (cases "65 \<le> byte c \<and> byte c \<le> 90") (auto simp: upper_char_def lower_char_def byte_def take_bit_eq_mod)

lemma lower_underscore: "lower_char c = CHR ''_'' \<longleftrightarrow> c = CHR ''_''"
proof
  assume "lower_char c = CHR ''_''"
  then have "byte (lower_char c) = 95" by (simp add: byte_def)
  then have "\<not> (65 \<le> byte c \<and> byte c \<le> 90)"
    by (auto simp: lower_char_def byte_def take_bit_eq_mod split: if_splits)
  with \<open>lower_char c = CHR ''_''\<close> show "c = CHR ''_''" by (simp add: lower_char_def)
qed (simp add: lower_char_def byte_def)

lemma to_lowercase_underscore: "CHR ''_'' \<in> set (to_lowercase s) \<longleftrightarrow> CHR ''_'' \<in> set s"
  by (auto simp: to_lowercase_def image_iff) (metis lower_underscore)+

lemma to_case_append:
  "to_lowercase (s @ t) = to_lowercase s @ to_lowercase t" "to_uppercase (s @ t) = to_uppercase s @ to_uppercase t"
  by (simp_all add: to_lowercase_def to_uppercase_def)

lemma upper_of_lower: "to_uppercase (to_lowercase s) = to_uppercase s"
  by (simp add: to_lowercase_def to_uppercase_def upper_lower)

lemma replace_char_id: "x \<notin> set s \<Longrightarrow> replace_char x r s = s"
  by (induction s) (auto simp: replace_char_def replace_chars_def)

lemma replace_char_append: "replace_char x r (s @ t) = replace_char x r s @ replace_char x r t"
  by (simp add: replace_char_def replace_chars_def)

text \<open>
  The name of a device determines the target it was derived from: for every
  target named by three parts between colons, with no underscore in the first two,
  the resource constructed for the device that \<open>list_backends\<close> reports addresses that
  target.
\<close>

lemma device_target_roundtrip:
  assumes "felis_name t" shows "device_to_target (target_to_device t) = t"
proof -
  from assms obtain a b c where t: "t = a @ '':'' @ b @ '':'' @ c" and up: "to_uppercase t = t"
    and ab: "CHR '':'' \<notin> set a" "CHR ''_'' \<notin> set a" "CHR '':'' \<notin> set b" "CHR ''_'' \<notin> set b" "CHR '':'' \<notin> set c"
    by (auto simp: felis_name_def)
  have r: "replace_char (CHR '':'') ''_'' t = a @ ''_'' @ b @ ''_'' @ c"
  proof -
    have "replace_char (CHR '':'') ''_'' '':'' = ''_''" by (simp add: replace_char_def replace_chars_def)
    with ab show ?thesis unfolding t replace_char_append by (simp add: replace_char_id)
  qed
  have l: "to_lowercase ''_'' = ''_''" "to_uppercase '':'' = '':''"
    by (simp_all add: to_lowercase_def to_uppercase_def lower_char_def upper_char_def byte_def)
  have "replacen (CHR ''_'') (CHR '':'') 2 (to_lowercase a @ ''_'' @ to_lowercase b @ ''_'' @ to_lowercase c)
      = to_lowercase a @ '':'' @ to_lowercase b @ '':'' @ to_lowercase c"
    using ab by (simp add: numeral_2_eq_2 replacen_skip to_lowercase_underscore) (cases "to_lowercase c"; simp)
  moreover have "to_lowercase (a @ ''_'' @ b @ ''_'' @ c)
      = to_lowercase a @ ''_'' @ to_lowercase b @ ''_'' @ to_lowercase c"
    unfolding to_case_append l ..
  ultimately have "device_to_target (target_to_device t)
      = to_uppercase (to_lowercase a @ '':'' @ to_lowercase b @ '':'' @ to_lowercase c)"
    unfolding device_to_target_def target_to_device_def r by simp
  also have "\<dots> = to_uppercase t"
    unfolding t to_case_append upper_of_lower ..
  finally show ?thesis using up by simp
qed

end
