(* ===== verification/PasqalConfig.thy ===== *)
theory PasqalConfig
  imports QuantumResource
begin

text \<open>
  The configuration of the Pasqal Cloud resource (\<open>src/pasqal/cloud_config.rs\<close>): where
  the configuration file is looked for, how it is read, and which of its values are
  used.  \<open>read_file\<close> is \<open>fs::read_to_string\<close>, nothing when it fails.
\<close>

record pasqal_config =
  pc_config :: "config_map option"
  pc_username :: "string option"
  pc_password :: "string option"
  pc_client_id :: "string option"
  pc_client_secret :: "string option"
  pc_token :: "string option"
  pc_project_id :: "string option"
  pc_auth_endpoint :: "string option"

definition no_pasqal_config :: pasqal_config where
  "no_pasqal_config = \<lparr>pc_config = None, pc_username = None, pc_password = None, pc_client_id = None,
     pc_client_secret = None, pc_token = None, pc_project_id = None, pc_auth_endpoint = None\<rparr>"

section \<open>Values\<close>

text \<open>\<open>.filter(|v| !v.trim().is_empty())\<close> and \<open>Option::or\<close>.\<close>

definition nonblank :: "string option \<Rightarrow> string option" where
  "nonblank v = (case v of Some s \<Rightarrow> if trim s = [] then None else Some s | None \<Rightarrow> None)"

definition or_else :: "'a option \<Rightarrow> 'a option \<Rightarrow> 'a option" where
  "or_else a b = (case a of Some x \<Rightarrow> Some x | None \<Rightarrow> b)"

definition resolve_backend_prefixed_param ::
    "env \<Rightarrow> string \<Rightarrow> string \<Rightarrow> config_map option \<Rightarrow> string option" where
  "resolve_backend_prefixed_param env backend name config =
     nonblank (resolve_opt env ((if config \<noteq> None then [] else backend @ ''_'') @ name) config)"

definition pasqal_project_id :: "env \<Rightarrow> pasqal_config \<Rightarrow> string \<Rightarrow> string option" where
  "pasqal_project_id env c b = or_else
     (resolve_backend_prefixed_param env b ''QRMI_PASQAL_CLOUD_PROJECT_ID'' (pc_config c)) (nonblank (pc_project_id c))"

definition pasqal_auth_token :: "env \<Rightarrow> pasqal_config \<Rightarrow> string \<Rightarrow> string option" where
  "pasqal_auth_token env c b = or_else
     (resolve_backend_prefixed_param env b ''QRMI_PASQAL_CLOUD_AUTH_TOKEN'' (pc_config c)) (nonblank (pc_token c))"

definition DEFAULT_AUTH_ENDPOINT :: string where
  "DEFAULT_AUTH_ENDPOINT = ''authenticate.pasqal.cloud/oauth/token''"

definition pasqal_auth_endpoint :: "env \<Rightarrow> pasqal_config \<Rightarrow> string \<Rightarrow> string" where
  "pasqal_auth_endpoint env c b = (case or_else
      (resolve_backend_prefixed_param env b ''QRMI_PASQAL_CLOUD_AUTH_ENDPOINT'' (pc_config c))
      (nonblank (pc_auth_endpoint c)) of Some v \<Rightarrow> v | None \<Rightarrow> DEFAULT_AUTH_ENDPOINT)"

definition pasqal_base_url :: "env \<Rightarrow> pasqal_config \<Rightarrow> string \<Rightarrow> string option" where
  "pasqal_base_url env c b =
     resolve_backend_prefixed_param env b ''QRMI_PASQAL_CLOUD_BASE_URL'' (pc_config c)"

definition pasqal_credentials :: "env \<Rightarrow> pasqal_config \<Rightarrow> string option \<times> string option" where
  "pasqal_credentials env c =
     (or_else (nonblank (resolve_opt env ''PASQAL_USERNAME'' (pc_config c))) (nonblank (pc_username c)),
      or_else (nonblank (resolve_opt env ''PASQAL_PASSWORD'' (pc_config c))) (nonblank (pc_password c)))"

definition service_account_credentials ::
    "env \<Rightarrow> pasqal_config \<Rightarrow> string \<Rightarrow> string option \<times> string option" where
  "service_account_credentials env c b =
     (or_else (resolve_backend_prefixed_param env b ''QRMI_PASQAL_CLOUD_CLIENT_ID'' (pc_config c))
        (nonblank (pc_client_id c)),
      or_else (resolve_backend_prefixed_param env b ''QRMI_PASQAL_CLOUD_CLIENT_SECRET'' (pc_config c))
        (nonblank (pc_client_secret c)))"

section \<open>The text of the file\<close>

text \<open>
  The slice between the quotes starts at 1 and ends one before the end: on a value
  that is a single quote it panics, which is \<open>None\<close>.
\<close>

definition strip_quotes :: "string \<Rightarrow> string option" where
  "strip_quotes s0 =
     (let s = trim s0; quoted = (\<lambda>q. s \<noteq> [] \<and> hd s = q \<and> last s = q) in
      if quoted (CHR 0x22) \<or> quoted (CHR 0x27)
      then (if length s < 2 then None else Some (butlast (tl s)))
      else Some s)"

text \<open>\<open>str::lines\<close>.\<close>

definition strip_cr :: "string \<Rightarrow> string" where
  "strip_cr l = (if ends_with_char cr l then butlast l else l)"

definition str_lines :: "string \<Rightarrow> string list" where
  "str_lines s =
     (let ls = split_on nl s; ls' = (if last ls = [] then butlast ls else ls) in map strip_cr ls')"

text \<open>A line is skipped, or gives a key, in lower case, and a value.\<close>

definition config_entry :: "string \<Rightarrow> (string \<times> string option) option" where
  "config_entry line0 =
     (let line = trim line0 in
      if line = [] \<or> hd line = CHR ''#'' \<or> hd line = CHR '';'' then None
      else (case split_once (CHR ''='') line of
          None \<Rightarrow> None
        | Some (k, v) \<Rightarrow>
            (case strip_quotes v of
               None \<Rightarrow> Some (to_lowercase (trim k), None)
             | Some u \<Rightarrow> if trim k = [] then None else Some (to_lowercase (trim k), Some (trim u)))))"

definition set_config_entry :: "string \<Rightarrow> string \<Rightarrow> pasqal_config \<Rightarrow> pasqal_config" where
  "set_config_entry k v c =
     (if k = ''username'' then c\<lparr>pc_username := Some v\<rparr>
      else if k = ''password'' then c\<lparr>pc_password := Some v\<rparr>
      else if k = ''client_id'' then c\<lparr>pc_client_id := Some v\<rparr>
      else if k = ''client_secret'' then c\<lparr>pc_client_secret := Some v\<rparr>
      else if k = ''token'' then c\<lparr>pc_token := Some v\<rparr>
      else if k = ''project_id'' then c\<lparr>pc_project_id := Some v\<rparr>
      else if k = ''auth_endpoint'' then c\<lparr>pc_auth_endpoint := Some v\<rparr>
      else c)"

fun parse_lines :: "string list \<Rightarrow> pasqal_config \<Rightarrow> pasqal_config option" where
  "parse_lines [] c = Some c"
| "parse_lines (l # ls) c = (case config_entry l of
      None \<Rightarrow> parse_lines ls c
    | Some (k, None) \<Rightarrow> None
    | Some (k, Some v) \<Rightarrow> parse_lines ls (set_config_entry k v c))"

definition parse_pasqal_config_content :: "string \<Rightarrow> pasqal_config option" where
  "parse_pasqal_config_content content = parse_lines (str_lines content) no_pasqal_config"

section \<open>Where the file is\<close>

definition key_char :: "char \<Rightarrow> bool" where
  "key_char c \<longleftrightarrow> c = CHR ''_'' \<or> 48 \<le> byte c \<and> byte c \<le> 57 \<or> 65 \<le> byte c \<and> byte c \<le> 90
     \<or> 97 \<le> byte c \<and> byte c \<le> 122"

definition env_text :: "env \<Rightarrow> string \<Rightarrow> string" where
  "env_text env key = (case env_ok (env key) of Some v \<Rightarrow> v | None \<Rightarrow> [])"

definition malformed :: "string \<Rightarrow> qrmi_error" where
  "malformed what = InvalidInput (''malformed environment variable in path: '' @ what)"

lemma split_once_shorter: "split_once x s = Some (a, b) \<Longrightarrow> length b < length s"
  by (auto simp: split_once_Some)

function expand_env_vars :: "env \<Rightarrow> string \<Rightarrow> qrmi_error + string" where
  "expand_env_vars env [] = Inr []"
| "expand_env_vars env (c # cs) =
     (if c \<noteq> CHR ''$'' then map_sum id ((#) c) (expand_env_vars env cs)
      else if cs \<noteq> [] \<and> hd cs = CHR ''$'' then map_sum id ((#) (CHR ''$'')) (expand_env_vars env (tl cs))
      else if cs \<noteq> [] \<and> hd cs = CHR ''{'' then
        (case split_once (CHR ''}'') (tl cs) of
           None \<Rightarrow> Inl (malformed (''missing closing brace after ${'' @ tl cs @ ''}''))
         | Some (key, rest) \<Rightarrow>
             if key = [] \<or> \<not> list_all key_char key then Inl (malformed (''${'' @ key @ ''}''))
             else map_sum id ((@) (env_text env key)) (expand_env_vars env rest))
      else
        (let key = takeWhile key_char cs; rest = dropWhile key_char cs in
         if key = [] then map_sum id ((#) (CHR ''$'')) (expand_env_vars env cs)
         else map_sum id ((@) (env_text env key)) (expand_env_vars env rest)))"
  by pat_completeness auto

termination
proof (relation "measure (\<lambda>(env, s). length s)", goal_cases)
  case (4 env c cs x a b)
  then have "length b < length (tl cs)" by (auto dest: split_once_shorter)
  then show ?case by simp
next
  case (6 env c cs key rest)
  then show ?case using length_dropWhile_le [of key_char cs] by simp
qed auto

definition expand_config_root :: "env \<Rightarrow> string \<Rightarrow> qrmi_error + string" where
  "expand_config_root env root = expand_env_vars env
     (if root = ''~'' then (case env_ok (env ''HOME'') of Some home \<Rightarrow> home | None \<Rightarrow> root)
      else if starts_with ''~/'' root
      then (case env_ok (env ''HOME'') of Some home \<Rightarrow> home @ tl root | None \<Rightarrow> root)
      else root)"

text \<open>\<open>PathBuf::push\<close> of a relative component.\<close>

definition path_push :: "string \<Rightarrow> string \<Rightarrow> string" where
  "path_push p c = (if p = [] \<or> last p = CHR ''/'' then p @ c else p @ ''/'' @ c)"

definition pasqal_config_path_from_root :: "env \<Rightarrow> string \<Rightarrow> qrmi_error + string option" where
  "pasqal_config_path_from_root env root0 =
     (let root = trim root0 in
      if root = [] then Inr None
      else map_sum id (\<lambda>p. Some (path_push (path_push p ''.pasqal'') ''config'')) (expand_config_root env root))"

definition path_of_setting :: "env \<Rightarrow> string \<Rightarrow> config_map option \<Rightarrow> qrmi_error + string option" where
  "path_of_setting env key config = (case resolve_opt env key config of
      Some root \<Rightarrow> pasqal_config_path_from_root env root
    | None \<Rightarrow> Inr None)"

definition resolve_pasqal_config :: "(string \<Rightarrow> string option) \<Rightarrow> string list \<Rightarrow> pasqal_config option" where
  "resolve_pasqal_config read_file candidates = (case find_map read_file candidates of
      Some content \<Rightarrow> parse_pasqal_config_content content
    | None \<Rightarrow> Some no_pasqal_config)"

definition read_pasqal_config ::
    "env \<Rightarrow> (string \<Rightarrow> string option) \<Rightarrow> string \<Rightarrow> config_map option \<Rightarrow> (qrmi_error, pasqal_config) outcome" where
  "read_pasqal_config env read_file backend hashmap_config =
     (case path_of_setting env ''PASQAL_CONFIG_ROOT'' hashmap_config of
        Inl e \<Rightarrow> Err e
      | Inr root0 \<Rightarrow>
        (case (if root0 = None \<and> hashmap_config = None
               then path_of_setting env (backend @ ''_PASQAL_CONFIG_ROOT'') None else Inr root0) of
           Inl e \<Rightarrow> Err e
         | Inr root \<Rightarrow>
           (case path_of_setting env ''HOME'' hashmap_config of
              Inl e \<Rightarrow> Err e
            | Inr home \<Rightarrow>
                (case resolve_pasqal_config read_file
                    ((case root of Some p \<Rightarrow> [p] | None \<Rightarrow> []) @ (case home of Some p \<Rightarrow> [p] | None \<Rightarrow> [])) of
                   None \<Rightarrow> Panic
                 | Some c \<Rightarrow> Ok (c\<lparr>pc_config := hashmap_config\<rparr>)))))"

section \<open>Facts\<close>

lemma nonblank_Some: "nonblank v = Some s \<longleftrightarrow> v = Some s \<and> trim s \<noteq> []"
  by (auto simp: nonblank_def split: option.splits)

lemma or_else_Some: "or_else a b = Some x \<longleftrightarrow> a = Some x \<or> a = None \<and> b = Some x"
  by (auto simp: or_else_def split: option.splits)

lemma resolve_backend_nonblank: "resolve_backend_prefixed_param env b k c = Some v \<Longrightarrow> trim v \<noteq> []"
  by (simp add: resolve_backend_prefixed_param_def nonblank_Some)

lemma strip_quotes_None:
  "strip_quotes s = None \<longleftrightarrow> trim s = [CHR 0x22] \<or> trim s = [CHR 0x27]"
proof -
  have "length t < 2 \<and> t \<noteq> [] \<and> hd t = q \<and> last t = q \<longleftrightarrow> t = [q]" for t and q :: char
    by (cases t) auto
  then show ?thesis by (auto simp: strip_quotes_def Let_def)
qed

lemma config_entry_panics:
  "(\<exists>k. config_entry l = Some (k, None)) \<longleftrightarrow>
     (let t = trim l in t \<noteq> [] \<and> hd t \<noteq> CHR ''#'' \<and> hd t \<noteq> CHR '';''
        \<and> (\<exists>k v. split_once (CHR ''='') t = Some (k, v) \<and> (trim v = [CHR 0x22] \<or> trim v = [CHR 0x27])))"
  by (auto simp: config_entry_def Let_def strip_quotes_None split: option.splits if_splits)
     (auto dest: strip_quotes_None [THEN iffD2, OF disjI1] strip_quotes_None [THEN iffD2, OF disjI2])

lemma parse_lines_None: "parse_lines ls c = None \<longleftrightarrow> (\<exists>l \<in> set ls. \<exists>k. config_entry l = Some (k, None))"
  by (induction ls arbitrary: c) (auto split: option.splits)

text \<open>
  C40. Reading a Pasqal configuration file panics exactly when one of its lines, not a
  comment, assigns a value that is nothing but one quotation mark: the slice that
  strips the quotes then starts behind its end.  Every other text gives a
  configuration.
\<close>

theorem pasqal_config_panic_iff:
  "parse_pasqal_config_content content = None \<longleftrightarrow>
     (\<exists>line \<in> set (str_lines content). let t = trim line in
        t \<noteq> [] \<and> hd t \<noteq> CHR ''#'' \<and> hd t \<noteq> CHR '';''
        \<and> (\<exists>k v. split_once (CHR ''='') t = Some (k, v) \<and> (trim v = [CHR 0x22] \<or> trim v = [CHR 0x27])))"
  unfolding parse_pasqal_config_content_def parse_lines_None config_entry_panics ..

section \<open>Expanding variables\<close>

text \<open>The way to write a text so that expansion gives it back: every dollar twice.\<close>

fun dollar_escape :: "string \<Rightarrow> string" where
  "dollar_escape [] = []"
| "dollar_escape (c # cs) = (if c = CHR ''$'' then ''$$'' @ dollar_escape cs else c # dollar_escape cs)"

text \<open>
  Doubling every dollar sign protects a path from the expansion of variables,
  whatever the environment holds.
\<close>

lemma expand_escaped: "expand_env_vars env (dollar_escape s) = Inr s"
  by (induction s) simp_all

lemma expand_plain: "CHR ''$'' \<notin> set s \<Longrightarrow> expand_env_vars env s = Inr s"
  by (induction s) auto

end
