(* ===== verification/PasqalCloud.thy ===== *)
theory PasqalCloud
  imports PasqalConfig
begin

text \<open>
  The resource \<open>PasqalCloud\<close> (\<open>src/pasqal/cloud.rs\<close>) and its client
  (\<open>dependencies/pasqal_cloud_client/src\<close>: \<open>client.rs\<close>, \<open>auth/auth.rs\<close>).  The state is
  the resource, with its client, and the world.  The HTTP stack, Base64 and the
  derived deserialization of replies are parameters; an error of the client is an
  \<open>anyhow\<close> chain.
\<close>

section \<open>The client\<close>

datatype device_type = Fresnel | FresnelCan1 | EmuMps | EmuFree | EmuFresnel

fun show_device_type :: "device_type \<Rightarrow> string" where
  "show_device_type Fresnel = ''FRESNEL''"
| "show_device_type FresnelCan1 = ''FRESNEL_CAN1''"
| "show_device_type EmuMps = ''EMU_MPS''"
| "show_device_type EmuFree = ''EMU_FREE''"
| "show_device_type EmuFresnel = ''EMU_FRESNEL''"

fun debug_device_type :: "device_type \<Rightarrow> string" where
  "debug_device_type Fresnel = ''Fresnel''"
| "debug_device_type FresnelCan1 = ''FresnelCan1''"
| "debug_device_type EmuMps = ''EmuMps''"
| "debug_device_type EmuFree = ''EmuFree''"
| "debug_device_type EmuFresnel = ''EmuFresnel''"

definition device_type_from_str :: "string \<Rightarrow> device_type option" where
  "device_type_from_str s0 =
     (let s = to_uppercase s0 in
      if s = ''FRESNEL'' then Some Fresnel
      else if s = ''FRESNEL_CAN1'' then Some FresnelCan1
      else if s = ''EMU_MPS'' then Some EmuMps
      else if s = ''EMU_FRESNEL'' then Some EmuFresnel
      else if s = ''EMU_FREE'' then Some EmuFree
      else None)"

datatype pasqal_job_status = Pending | PasqalRunning | Canceling | Done | Canceled | PasqalFailure

record pasqal_client =
  pq_base_url :: string
  pq_project_id :: string
  pq_auth_token :: string
  pq_auth_header :: "string option"
  pq_auth_endpoint :: string
  pq_username :: "string option"
  pq_password :: "string option"
  pq_client_id :: "string option"
  pq_client_secret :: "string option"

datatype pasqal_method = GET | POST | PATCH

text \<open>
  \<open>pq_send\<close> sends a request with its authorization header and body, and gives the
  status, its text and the body; \<open>pq_token_request\<close> posts the form of a token request.
\<close>

record 'w pasqal_env =
  pq_send :: "pasqal_method \<Rightarrow> string \<Rightarrow> string option \<Rightarrow> string option \<Rightarrow> 'w \<Rightarrow>
    (anyhow + nat \<times> string \<times> (string + string)) \<times> 'w"
  pq_token_request :: "string \<Rightarrow> (string \<times> string) list \<Rightarrow> 'w \<Rightarrow>
    (anyhow + nat \<times> string \<times> (string + string)) \<times> 'w"
  pq_unix_now :: "'w \<Rightarrow> anyhow + int"
  pq_serde :: json_lib
  base64url :: "string \<Rightarrow> anyhow + string"
  pq_header_ok :: "string \<Rightarrow> bool"
  pq_header_error :: string
  read_access_token :: "string \<Rightarrow> string + string"
  read_created :: "string \<Rightarrow> string + string"
  read_cancelled :: "string \<Rightarrow> string + unit"
  read_batch :: "string \<Rightarrow> string + string list"
  read_job_state :: "string \<Rightarrow> string + pasqal_job_status"
  read_cudaq :: "string \<Rightarrow> string + json"
  read_devices :: "string \<Rightarrow> string + string list"
  read_results :: "string \<Rightarrow> string + string list"
  read_public_specs :: "string \<Rightarrow> string + string"
  read_specs :: "string \<Rightarrow> string + string"

type_synonym ('w, 'a) pasqal_api = "(pasqal_client \<times> 'w, anyhow, 'a) prog"

section \<open>Tokens\<close>

definition make_auth_header :: "'w pasqal_env \<Rightarrow> string \<Rightarrow> anyhow + string option" where
  "make_auth_header E token =
     (if trim token = [] then Inr None
      else if pq_header_ok E (''Bearer '' @ token) then Inr (Some (''Bearer '' @ token))
      else Inl [pq_header_error E])"

definition jwt_expiry_unix_seconds :: "'w pasqal_env \<Rightarrow> string \<Rightarrow> anyhow + int option" where
  "jwt_expiry_unix_seconds E token0 =
     (let token = trim token0 in
      if token = [] then Inr None
      else (case split_on (CHR ''.'') token of
          header # payload # _ # _ \<Rightarrow>
            if header = [] \<or> payload = [] then Inr None
            else (case base64url E payload of
                Inl e \<Rightarrow> Inl e
              | Inr payload_bytes \<Rightarrow>
                (case jparse (pq_serde E) payload_bytes of
                   Inl e \<Rightarrow> Inl [e]
                 | Inr v \<Rightarrow>
                   (case jget v ''exp'' of
                      None \<Rightarrow> Inr None
                    | Some (JInt n) \<Rightarrow> if - (2 ^ 63) \<le> n \<and> n < 2 ^ 63 then Inr (Some n) else Inr None
                    | Some (JStr s) \<Rightarrow>
                        map_sum (\<lambda>e. [int_error_display e]) Some (parse_signed 9223372036854775807 s)
                    | Some _ \<Rightarrow> Inr None)))
        | _ \<Rightarrow> Inr None))"

definition is_auth_token_usable :: "'w pasqal_env \<Rightarrow> string \<Rightarrow> int \<Rightarrow> bool" where
  "is_auth_token_usable E token now =
     (if trim token = [] then False
      else (case jwt_expiry_unix_seconds E token of
          Inr (Some exp) \<Rightarrow> exp > now + 10
        | Inr None \<Rightarrow> True
        | Inl _ \<Rightarrow> False))"

definition user_form :: "string \<Rightarrow> string \<Rightarrow> (string \<times> string) list" where
  "user_form username password =
     [(''grant_type'', ''http://auth0.com/oauth/grant-type/password-realm''), (''realm'', ''pcs-users''),
      (''client_id'', ''PeZvo7Atx7IVv3iel59asJSb4Ig7vuSB''),
      (''audience'', ''https://apis.pasqal.cloud/account/api/v1''),
      (''username'', username), (''password'', password)]"

definition service_form :: "string \<Rightarrow> string \<Rightarrow> (string \<times> string) list" where
  "service_form client_id client_secret =
     [(''grant_type'', ''client_credentials''), (''client_id'', client_id),
      (''client_secret'', client_secret), (''audience'', ''https://apis.pasqal.cloud/account/api/v1'')]"

fun has_scheme :: "string \<Rightarrow> bool" where
  "has_scheme [] = False"
| "has_scheme (c # cs) = (starts_with ''://'' (c # cs) \<or> has_scheme cs)"

definition normalize_auth_endpoint :: "string \<Rightarrow> anyhow + string" where
  "normalize_auth_endpoint endpoint =
     (if trim endpoint = [] then Inl [''auth endpoint must be configured when requesting an access token'']
      else if has_scheme endpoint then Inr (trim endpoint)
      else Inr (''https://'' @ trim endpoint))"

definition succeeded :: "nat \<Rightarrow> bool" where
  "succeeded st \<longleftrightarrow> 200 \<le> st \<and> st < 300"

definition request_access_token :: "'w pasqal_env \<Rightarrow> string \<Rightarrow> (string \<times> string) list \<Rightarrow> 'w \<Rightarrow> (anyhow + string) \<times> 'w" where
  "request_access_token E endpoint form w = (case normalize_auth_endpoint endpoint of
      Inl e \<Rightarrow> (Inl e, w)
    | Inr url \<Rightarrow>
        (case pq_token_request E url form w of
           (Inl e, w') \<Rightarrow> (Inl e, w')
         | (Inr (st, shown, body), w') \<Rightarrow>
             (if succeeded st then
                (case body of Inl e \<Rightarrow> Inl [e] | Inr text \<Rightarrow> map_sum (\<lambda>e. [e]) id (read_access_token E text))
              else Inl [''Token request failed: '' @ shown @ '' '' @ (case body of Inl _ \<Rightarrow> [] | Inr t \<Rightarrow> t)],
              w')))"

text \<open>
  \<open>ensure_authenticated\<close>: a token that is not usable is replaced, unless its expiry
  cannot be read.  The new token is stored before its header is built.
\<close>

definition ensure_authenticated :: "'w pasqal_env \<Rightarrow> ('w, unit) pasqal_api" where
  "ensure_authenticated E = (\<lambda>(c, w).
     case pq_unix_now E w of
       Inl e \<Rightarrow> (Err e, (c, w))
     | Inr now \<Rightarrow>
         if is_auth_token_usable E (pq_auth_token c) now then (Ok (), (c, w))
         else (case jwt_expiry_unix_seconds E (pq_auth_token c) of
             Inl e \<Rightarrow> (Err e, (c, w))
           | Inr _ \<Rightarrow>
             (case (case (pq_username c, pq_password c) of
                      (Some u, Some p) \<Rightarrow> Some (user_form u p)
                    | _ \<Rightarrow> (case (pq_client_id c, pq_client_secret c) of
                         (Some i, Some s) \<Rightarrow> Some (service_form i s)
                       | _ \<Rightarrow> None)) of
                None \<Rightarrow> (Err [''auth token is missing or expired and refresh credentials are not configured''], (c, w))
              | Some form \<Rightarrow>
                  (case request_access_token E (pq_auth_endpoint c) form w of
                     (Inl e, w') \<Rightarrow> (Err e, (c, w'))
                   | (Inr token, w') \<Rightarrow>
                       (case make_auth_header E token of
                          Inl e \<Rightarrow> (Err e, (c\<lparr>pq_auth_token := token\<rparr>, w'))
                        | Inr h \<Rightarrow> (Ok (), (c\<lparr>pq_auth_token := token, pq_auth_header := h\<rparr>, w')))))))"

section \<open>Requests\<close>

definition handle_request :: "(string \<Rightarrow> string + 'a) \<Rightarrow> nat \<times> string \<times> (string + string) \<Rightarrow> anyhow + 'a" where
  "handle_request parse = (\<lambda>(st, shown, body). case body of
      Inl e \<Rightarrow> Inl [e]
    | Inr json_text \<Rightarrow>
        if succeeded st then map_sum (\<lambda>e. [e]) id (parse json_text)
        else Inl [''Status: '' @ shown @ '', Fail '' @ json_text])"

definition pq_exchange ::
    "'w pasqal_env \<Rightarrow> (string \<Rightarrow> string + 'a) \<Rightarrow> pasqal_method \<Rightarrow> string \<Rightarrow> string option \<Rightarrow> string option \<Rightarrow>
     ('w, 'a) pasqal_api" where
  "pq_exchange E parse m url auth body = run_result (\<lambda>(c, w).
     case pq_send E m (pq_base_url c @ url) auth body w of
       (Inl e, w') \<Rightarrow> (Inl e, (c, w'))
     | (Inr resp, w') \<Rightarrow> (handle_request parse resp, (c, w')))"

text \<open>\<open>authenticated(...).await?\<close>, then the request with the header.\<close>

definition pq_request ::
    "'w pasqal_env \<Rightarrow> (string \<Rightarrow> string + 'a) \<Rightarrow> pasqal_method \<Rightarrow> string \<Rightarrow> string option \<Rightarrow> ('w, 'a) pasqal_api" where
  "pq_request E parse m url body =
     andthen (ensure_authenticated E) (\<lambda>_.
     andthen get_state (\<lambda>(c, _). case pq_auth_header c of
         None \<Rightarrow> throw [''authorization header is not available'']
       | Some auth \<Rightarrow> pq_exchange E parse m url (Some auth) body))"

definition get_unauthenticated :: "'w pasqal_env \<Rightarrow> (string \<Rightarrow> string + 'a) \<Rightarrow> string \<Rightarrow> ('w, 'a) pasqal_api" where
  "get_unauthenticated E parse url = pq_exchange E parse GET url None None"

definition get_device :: "'w pasqal_env \<Rightarrow> device_type \<Rightarrow> ('w, string) pasqal_api" where
  "get_device E dt = andthen
     (get_unauthenticated E (read_devices E)
        (''/core-fast/api/v1/devices?device_type='' @ show_device_type dt)) (\<lambda>devices.
     case devices of d # _ \<Rightarrow> ret d
     | [] \<Rightarrow> throw [''No devices found for type '' @ debug_device_type dt])"

definition batch_doc :: "string \<Rightarrow> i32 \<Rightarrow> device_type \<Rightarrow> string \<Rightarrow> json" where
  "batch_doc sequence job_runs dt project_id =
     JObj [(''sequence_builder'', JStr sequence), (''jobs'', JArr [JObj [(''runs'', JInt (sint job_runs))]]),
           (''device_type'', JStr (show_device_type dt)), (''project_id'', JStr project_id)]"

definition cudaq_doc :: "json \<Rightarrow> i32 \<Rightarrow> device_type \<Rightarrow> string \<Rightarrow> json" where
  "cudaq_doc sequence shots dt project_id =
     JObj [(''machine'', JStr (show_device_type dt)), (''shots'', JInt (sint shots)),
           (''project_id'', JStr project_id), (''sequence'', sequence)]"

definition create_batch :: "'w pasqal_env \<Rightarrow> string \<Rightarrow> i32 \<Rightarrow> device_type \<Rightarrow> ('w, string) pasqal_api" where
  "create_batch E sequence job_runs dt = andthen get_state (\<lambda>(c, _).
     pq_request E (read_created E) POST ''/core-fast/api/v1/batches''
       (Some (jdump (pq_serde E) (batch_doc sequence job_runs dt (pq_project_id c)))))"

definition create_cudaq_job :: "'w pasqal_env \<Rightarrow> json \<Rightarrow> i32 \<Rightarrow> device_type \<Rightarrow> ('w, string) pasqal_api" where
  "create_cudaq_job E sequence shots dt = andthen get_state (\<lambda>(c, _).
     pq_request E (read_created E) POST ''/core-fast/api/v1/cudaq/job''
       (Some (jdump (pq_serde E) (cudaq_doc sequence shots dt (pq_project_id c)))))"

definition cancel_batch :: "'w pasqal_env \<Rightarrow> string \<Rightarrow> ('w, unit) pasqal_api" where
  "cancel_batch E bid =
     pq_request E (read_cancelled E) PATCH (''/core-fast/api/v2/batches/'' @ bid @ ''/cancel'') None"

definition get_batch :: "'w pasqal_env \<Rightarrow> string \<Rightarrow> ('w, string list) pasqal_api" where
  "get_batch E bid = pq_request E (read_batch E) GET (''/core-fast/api/v2/batches/'' @ bid) None"

definition get_cudaq_job :: "'w pasqal_env \<Rightarrow> string \<Rightarrow> ('w, json) pasqal_api" where
  "get_cudaq_job E jid = pq_request E (read_cudaq E) GET (''/core-fast/api/v1/cudaq/job/'' @ jid) None"

definition get_job :: "'w pasqal_env \<Rightarrow> string \<Rightarrow> ('w, pasqal_job_status) pasqal_api" where
  "get_job E jid = pq_request E (read_job_state E) GET (''/core-fast/api/v2/jobs/'' @ jid) None"

definition get_batch_results :: "'w pasqal_env \<Rightarrow> string \<Rightarrow> ('w, string) pasqal_api" where
  "get_batch_results E bid = andthen
     (pq_request E (read_results E) GET (''/core-fast/api/v1/batches/'' @ bid @ ''/full_results'') None) (\<lambda>data.
     case data of
       [] \<Rightarrow> throw [''No results found'']
     | [first_job_result] \<Rightarrow> ret first_job_result
     | _ \<Rightarrow> throw [''Unexpected multiple jobs in one Pasqal cloud batch''])"

definition get_device_specs :: "'w pasqal_env \<Rightarrow> device_type \<Rightarrow> ('w, string) pasqal_api" where
  "get_device_specs E dt =
     (if starts_with ''EMU'' (show_device_type dt)
      then get_unauthenticated E (read_public_specs E) ''/core-fast/api/v1/devices/public-specs''
      else pq_request E (read_specs E) GET (''/core-fast/api/v1/devices/specs/'' @ show_device_type dt) None)"

section \<open>The resource\<close>

datatype task_kind = Pulser | Cudaq

record pasqal_cloud =
  pcl_client :: pasqal_client
  pcl_backend :: string
  pcl_kinds :: "string \<rightharpoonup> task_kind"

type_synonym ('w, 'a) pasqal_cloud_prog = "(pasqal_cloud \<times> 'w, qrmi_error, 'a) prog"

definition from_pasqal_cloud_config ::
    "'w pasqal_env \<Rightarrow> anyhow option \<Rightarrow> env \<Rightarrow> string \<Rightarrow> pasqal_config \<Rightarrow> qrmi_error + pasqal_cloud" where
  "from_pasqal_cloud_config E builds env backend cfg =
     (let project_id = (case pasqal_project_id env cfg backend of Some v \<Rightarrow> v | None \<Rightarrow> []);
          token = (case pasqal_auth_token env cfg backend of Some t \<Rightarrow> t | None \<Rightarrow> []);
          (username, password) = pasqal_credentials env cfg;
          (client_id, client_secret) = service_account_credentials env cfg backend;
          both = (\<lambda>a b. if a \<noteq> None \<and> b \<noteq> None then (a, b) else (None, None)) in
      case builds of
        Some e \<Rightarrow> Inl (qrmi_error.Other e)
      | None \<Rightarrow>
        (case make_auth_header E token of
           Inl e \<Rightarrow> Inl (qrmi_error.Other e)
         | Inr h \<Rightarrow> Inr
             \<lparr>pcl_client = \<lparr>pq_base_url = (case pasqal_base_url env cfg backend of
                    Some u \<Rightarrow> u | None \<Rightarrow> ''https://apis.pasqal.cloud''),
                pq_project_id = project_id, pq_auth_token = token, pq_auth_header = h,
                pq_auth_endpoint = pasqal_auth_endpoint env cfg backend,
                pq_username = fst (both username password), pq_password = snd (both username password),
                pq_client_id = fst (both client_id client_secret),
                pq_client_secret = snd (both client_id client_secret)\<rparr>,
              pcl_backend = backend, pcl_kinds = (\<lambda>_. None)\<rparr>))"

definition pasqal_cloud_from_opt ::
    "'w pasqal_env \<Rightarrow> anyhow option \<Rightarrow> env \<Rightarrow> (string \<Rightarrow> string option) \<Rightarrow> string \<Rightarrow> config_map option \<Rightarrow>
     (qrmi_error, pasqal_cloud) outcome" where
  "pasqal_cloud_from_opt E builds env read_file backend config =
     (case read_pasqal_config env read_file backend config of
        Ok cfg \<Rightarrow> outcome_of (from_pasqal_cloud_config E builds env backend cfg)
      | Err e \<Rightarrow> Err e
      | Panic \<Rightarrow> Panic)"

text \<open>\<open>self.api_client.call(...).await?\<close>.\<close>

definition on_client :: "('w, 'a) pasqal_api \<Rightarrow> ('w, 'a) pasqal_cloud_prog" where
  "on_client m = (\<lambda>(R, w). case m (pcl_client R, w) of (r, (c, w')) \<Rightarrow>
     (case r of Ok a \<Rightarrow> Ok a | Err e \<Rightarrow> Err (qrmi_error.Other e) | Panic \<Rightarrow> Panic,
      (R\<lparr>pcl_client := c\<rparr>, w')))"

definition parse_device_type :: "pasqal_cloud \<Rightarrow> qrmi_error + device_type" where
  "parse_device_type R = (case device_type_from_str (pcl_backend R) of
      Some dt \<Rightarrow> Inr dt
    | None \<Rightarrow> Inl (Pasqal (InvalidDeviceType (''device '' @ [CHR 0x27] @ pcl_backend R @ [CHR 0x27]
        @ '' is invalid. Valid devices: '' @ join '', ''
            [''FRESNEL'', ''FRESNEL_CAN1'', ''EMU_MPS'', ''EMU_FREE'', ''EMU_FRESNEL'']))))"

definition the_device :: "('w, device_type) pasqal_cloud_prog" where
  "the_device = andthen get_state (\<lambda>(R, _). from_result (parse_device_type R))"

definition is_cudaq_sequence :: "json_lib \<Rightarrow> string \<Rightarrow> bool" where
  "is_cudaq_sequence L sequence = (case jparse L sequence of
      Inl _ \<Rightarrow> False
    | Inr value \<Rightarrow> jget value ''setup'' \<noteq> None \<and> jget value ''hamiltonian'' \<noteq> None)"

fun map_job_status :: "pasqal_job_status \<Rightarrow> task_status" where
  "map_job_status Pending = Queued"
| "map_job_status PasqalRunning = Running"
| "map_job_status Canceling = Cancelled"
| "map_job_status Done = Completed"
| "map_job_status Canceled = Cancelled"
| "map_job_status PasqalFailure = Failed"

fun is_number :: "json \<Rightarrow> bool" where
  "is_number (JInt _) = True"
| "is_number (JFrac _) = True"
| "is_number _ = False"

definition normalized_counter :: "json \<Rightarrow> json" where
  "normalized_counter result =
     (let counter = (case jget result ''counter'' of Some c \<Rightarrow> c | None \<Rightarrow> result) in
      case as_object counter of
        None \<Rightarrow> counter
      | Some counter_obj \<Rightarrow>
          if list_all (\<lambda>(_, value). is_number value) counter_obj then counter
          else (case counter_obj of
              [(_, nested)] \<Rightarrow>
                (case jget nested ''counter'' of
                   Some inner \<Rightarrow> if is_object inner then inner
                     else if is_object nested then nested else counter
                 | None \<Rightarrow> if is_object nested then nested else counter)
            | _ \<Rightarrow> counter))"

definition normalize_cudaq_result :: "json_lib \<Rightarrow> json \<Rightarrow> string" where
  "normalize_cudaq_result L result = jdump L (JObj [(''counter'', normalized_counter result)])"

definition pasqal_is_accessible :: "'w pasqal_env \<Rightarrow> ('w, bool) pasqal_cloud_prog" where
  "pasqal_is_accessible E = andthen the_device (\<lambda>dt.
     andthen (on_client (map_err (\<lambda>e. ''failed to get device'' # e) (get_device E dt))) (\<lambda>availability.
       ret (availability = ''ACTIVE'')))"

definition insert_kind :: "string \<Rightarrow> task_kind \<Rightarrow> ('w, unit) pasqal_cloud_prog" where
  "insert_kind tid k = modify (\<lambda>(R, w). (R\<lparr>pcl_kinds := (pcl_kinds R)(tid \<mapsto> k)\<rparr>, w))"

definition pasqal_task_start :: "'w pasqal_env \<Rightarrow> payload \<Rightarrow> ('w, string) pasqal_cloud_prog" where
  "pasqal_task_start E p = (case p of
      payload.PasqalCloud sequence job_runs \<Rightarrow>
        andthen the_device (\<lambda>dt.
        if is_cudaq_sequence (pq_serde E) sequence then
          andthen (from_result (map_sum (\<lambda>e. Pasqal (InvalidCudaqSequence e)) id (jparse (pq_serde E) sequence))) (\<lambda>value.
          andthen (on_client (create_cudaq_job E value job_runs dt)) (\<lambda>jid.
          andthen (insert_kind jid Cudaq) (\<lambda>_. ret jid)))
        else
          andthen (on_client (create_batch E sequence job_runs dt)) (\<lambda>bid.
          andthen (insert_kind bid Pulser) (\<lambda>_. ret bid)))
    | _ \<Rightarrow> throw (UnsupportedPayload (debug_payload p)))"

definition pasqal_task_stop :: "'w pasqal_env \<Rightarrow> string \<Rightarrow> ('w, unit) pasqal_cloud_prog" where
  "pasqal_task_stop E tid = on_client (cancel_batch E tid)"

definition task_status_from_job_id :: "'w pasqal_env \<Rightarrow> string \<Rightarrow> ('w, task_status) pasqal_cloud_prog" where
  "task_status_from_job_id E jid = andthen (on_client (get_job E jid)) (\<lambda>st. ret (map_job_status st))"

definition pasqal_task_status :: "'w pasqal_env \<Rightarrow> string \<Rightarrow> ('w, task_status) pasqal_cloud_prog" where
  "pasqal_task_status E tid = andthen (on_client (get_batch E tid)) (\<lambda>job_ids. case job_ids of
      jid # _ \<Rightarrow> task_status_from_job_id E jid
    | [] \<Rightarrow> throw (TaskNotReady tid ''no jobs found for this batch''))"

definition task_kind_of :: "pasqal_cloud \<Rightarrow> string \<Rightarrow> task_kind" where
  "task_kind_of R tid = (case pcl_kinds R tid of Some k \<Rightarrow> k | None \<Rightarrow> Pulser)"

definition pasqal_task_result :: "'w pasqal_env \<Rightarrow> string \<Rightarrow> ('w, string) pasqal_cloud_prog" where
  "pasqal_task_result E tid = andthen get_state (\<lambda>(R, _). case task_kind_of R tid of
      Pulser \<Rightarrow> on_client (get_batch_results E tid)
    | Cudaq \<Rightarrow> andthen (on_client (get_cudaq_job E tid)) (\<lambda>result.
        ret (normalize_cudaq_result (pq_serde E) result)))"

definition pasqal_task_logs :: "string \<Rightarrow> ('w, string) pasqal_cloud_prog" where
  "pasqal_task_logs tid = ret ''There are no logs for this job.''"

definition pasqal_target :: "'w pasqal_env \<Rightarrow> ('w, string) pasqal_cloud_prog" where
  "pasqal_target E = andthen the_device (\<lambda>dt. on_client (get_device_specs E dt))"

definition pasqal_metadata :: "pasqal_cloud \<Rightarrow> string \<rightharpoonup> string" where
  "pasqal_metadata R = [''backend_name'' \<mapsto> pcl_backend R]"

section \<open>Starting keeps the contract\<close>

lemma on_client_Ok: "on_client m (R, w) = (Ok a, s') \<longleftrightarrow>
   (\<exists>c w'. m (pcl_client R, w) = (Ok a, (c, w')) \<and> s' = (R\<lparr>pcl_client := c\<rparr>, w'))"
  by (auto simp: on_client_def split: prod.splits outcome.splits)

lemma on_client_Err: "on_client m (R, w) = (Err e, s') \<longleftrightarrow>
   (\<exists>x c w'. m (pcl_client R, w) = (Err x, (c, w')) \<and> e = qrmi_error.Other x \<and> s' = (R\<lparr>pcl_client := c\<rparr>, w'))"
  by (auto simp: on_client_def split: prod.splits outcome.splits)

lemma the_device_run: "the_device (R, w) = (outcome_of (parse_device_type R), (R, w))"
  by (simp add: the_device_def andthen_def get_state_def from_result_def)

lemma insert_kind_run:
  "insert_kind tid k (R, w) = (Ok (), (R\<lparr>pcl_kinds := (pcl_kinds R)(tid \<mapsto> k)\<rparr>, w))"
  by (simp add: insert_kind_def modify_def)

lemma pasqal_start_refused:
  assumes "pasqal_task_start E p s = (Err e, s')" and "kind e \<noteq> error_kind.Other"
  shows "s' = s"
proof (cases p)
  case (PasqalCloud sequence job_runs)
  obtain R w where s: "s = (R, w)" by (cases s)
  show ?thesis
  proof (cases "parse_device_type R")
    case (Inl x)
    with assms(1) s PasqalCloud show ?thesis
      by (simp add: pasqal_task_start_def andthen_def the_device_run)
  next
    case (Inr dt)
    with assms s PasqalCloud show ?thesis
      by (auto simp: pasqal_task_start_def andthen_Err the_device_run from_result_Err from_result_Ok
          on_client_Err insert_kind_def modify_def ret_def split: if_splits)
  qed
qed (use assms(1) in \<open>auto simp: pasqal_task_start_def throw_def\<close>)

interpretation pasqal_start: start_contract "\<lambda>E p. prompt (pasqal_task_start E p)" "\<lambda>_ _. True"
  by unfold_locales (auto simp: prompt_def dest: pasqal_start_refused)

section \<open>Task kinds\<close>

text \<open>
  \<open>task_start\<close> of the Pasqal Cloud resource remembers under the identifier it
  returns which of the two endpoints created the task, forgets no other task, and
  \<open>task_result\<close> of the resource it leaves asks the endpoint of that kind: the CUDA-Q
  job for a sequence with a setup and a Hamiltonian, the batch otherwise.
\<close>

lemma pasqal_kind_remembered:
  assumes "pasqal_task_start E (payload.PasqalCloud sequence job_runs) (R, w) = (Ok tid, (R', w'))"
  shows "pcl_kinds R' = (pcl_kinds R)(tid \<mapsto> (if is_cudaq_sequence (pq_serde E) sequence then Cudaq else Pulser))
    \<and> pcl_backend R' = pcl_backend R
    \<and> pasqal_task_result E tid (R', w') =
        (if is_cudaq_sequence (pq_serde E) sequence
         then andthen (on_client (get_cudaq_job E tid)) (\<lambda>result.
                ret (normalize_cudaq_result (pq_serde E) result)) (R', w')
         else on_client (get_batch_results E tid) (R', w'))"
proof -
  have k: "pcl_kinds R' = (pcl_kinds R)(tid \<mapsto> (if is_cudaq_sequence (pq_serde E) sequence then Cudaq else Pulser))
      \<and> pcl_backend R' = pcl_backend R"
  proof (cases "parse_device_type R")
    case (Inl x)
    with assms show ?thesis by (simp add: pasqal_task_start_def andthen_def the_device_run)
  next
    case (Inr dt)
    with assms show ?thesis
      by (auto simp: pasqal_task_start_def andthen_Ok the_device_run from_result_Ok on_client_Ok insert_kind_def
          modify_def ret_def split: if_splits)
  qed
  then have "task_kind_of R' tid = (if is_cudaq_sequence (pq_serde E) sequence then Cudaq else Pulser)"
    by (simp add: task_kind_of_def)
  with k show ?thesis by (simp add: pasqal_task_result_def andthen_def get_state_def)
qed

section \<open>Tokens\<close>

text \<open>
  C36. A token whose expiry cannot be read is judged unusable by \<open>is_auth_token_usable\<close>,
  but it is not replaced, whatever credentials are configured: the second reading of the expiry fails, so that every authenticated
  request fails without a token being asked for or anything being sent.
\<close>

theorem unreadable_token_blocks:
  assumes "pq_unix_now E w = Inr now" and "jwt_expiry_unix_seconds E (pq_auth_token c) = Inl e"
  shows "\<not> is_auth_token_usable E (pq_auth_token c) now
    \<and> pq_request E parse m url body (c, w) = (Err e, (c, w))"
  using assms by (simp add: is_auth_token_usable_def pq_request_def andthen_def ensure_authenticated_def)

text \<open>
  The header is that of the token.  A token from the service that is no header value
  breaks this, since it is stored before the header is built.
\<close>

definition header_current :: "'w pasqal_env \<Rightarrow> pasqal_client \<Rightarrow> bool" where
  "header_current E c \<longleftrightarrow> make_auth_header E (pq_auth_token c) = Inr (pq_auth_header c)"

definition printable_tokens :: "'w pasqal_env \<Rightarrow> bool" where
  "printable_tokens E \<longleftrightarrow> (\<forall>text token. read_access_token E text = Inr token \<longrightarrow> pq_header_ok E (''Bearer '' @ token))"

lemma request_access_token_printable:
  assumes "printable_tokens E" and "request_access_token E ep form w = (Inr token, w')"
  shows "make_auth_header E token \<noteq> Inl e"
proof -
  from assms(2) obtain reply where "read_access_token E reply = Inr token"
    by (auto simp: request_access_token_def map_sum_Inr split: sum.splits if_splits prod.splits)
  with assms(1) show ?thesis by (auto simp: printable_tokens_def make_auth_header_def)
qed

lemma ensure_authenticated_header:
  assumes "printable_tokens E" and "header_current E c" and "ensure_authenticated E (c, w) = (r, (c', w'))"
  shows "header_current E c'"
  using assms request_access_token_printable [OF assms(1)]
  by (auto simp: ensure_authenticated_def header_current_def split: sum.splits if_splits option.splits prod.splits)

definition keeps_header :: "'w pasqal_env \<Rightarrow> pasqal_client \<times> 'w \<Rightarrow> pasqal_client \<times> 'w \<Rightarrow> bool" where
  "keeps_header E s t \<longleftrightarrow> (header_current E (fst s) \<longrightarrow> header_current E (fst t))"

interpretation hdr: step_order "keeps_header E" for E
  by unfold_locales (auto simp: keeps_header_def)

lemma within_exchange_header: "within (keeps_header E) (pq_exchange E parse m url auth body)"
  by (auto simp: within_def keeps_header_def pq_exchange_def run_result_def split: prod.splits sum.splits)

lemma within_request_header:
  assumes "printable_tokens E" shows "within (keeps_header E) (pq_request E parse m url body)"
proof -
  have "within (keeps_header E) (ensure_authenticated E)"
    using ensure_authenticated_header [OF assms]
    by (auto simp: within_def keeps_header_def) (metis prod.collapse)
  then show ?thesis
    unfolding pq_request_def
    by (intro hdr.within_rules) (auto intro: hdr.within_rules within_exchange_header split: option.split)
qed

lemma within_client_header:
  assumes "printable_tokens E"
  shows "within (keeps_header E) (get_device E dt)" "within (keeps_header E) (create_batch E sq n dt)"
    "within (keeps_header E) (create_cudaq_job E v n dt)" "within (keeps_header E) (cancel_batch E i)"
    "within (keeps_header E) (get_batch E i)" "within (keeps_header E) (get_cudaq_job E i)"
    "within (keeps_header E) (get_job E i)" "within (keeps_header E) (get_batch_results E i)"
    "within (keeps_header E) (get_device_specs E dt)"
  using within_request_header [OF assms]
  by (auto simp: get_device_def create_batch_def create_cudaq_job_def cancel_batch_def get_batch_def
      get_cudaq_job_def get_job_def get_batch_results_def get_device_specs_def get_unauthenticated_def
      intro!: hdr.within_rules within_exchange_header split: list.split)

definition keeps_resource_header :: "'w pasqal_env \<Rightarrow> pasqal_cloud \<times> 'w \<Rightarrow> pasqal_cloud \<times> 'w \<Rightarrow> bool" where
  "keeps_resource_header E s t \<longleftrightarrow>
     (header_current E (pcl_client (fst s)) \<longrightarrow> header_current E (pcl_client (fst t)))"

interpretation rhdr: step_order "keeps_resource_header E" for E
  by unfold_locales (auto simp: keeps_resource_header_def)

lemma within_on_client:
  assumes within_m: "within (keeps_header E) m"
  shows "within (keeps_resource_header E) (on_client m)"
proof (unfold within_def, rule allI, goal_cases)
  case (1 s)
  from within_m have keeps: "\<forall>s. keeps_header E s (snd (m s))" by (simp add: within_def)
  obtain R w where s: "s = (R, w)" by (cases s)
  obtain r c w' where m: "m (pcl_client R, w) = (r, (c, w'))" by (cases "m (pcl_client R, w)") auto
  with keeps have "keeps_header E (pcl_client R, w) (c, w')" by (metis snd_conv)
  then show "keeps_resource_header E s (snd (on_client m s))"
    by (simp add: s on_client_def m keeps_header_def keeps_resource_header_def)
qed

lemma within_the_device: "within (keeps_resource_header E) the_device"
  unfolding the_device_def by (auto intro!: rhdr.within_rules)

lemma within_insert_kind: "within (keeps_resource_header E) (insert_kind i k)"
  by (auto simp: within_def keeps_resource_header_def insert_kind_def modify_def split: prod.split)

datatype pasqal_op =
    AccessibleOp | StartOp payload | StopOp string | StatusOp string | ResultOp string | TargetOp

definition pasqal_exec :: "'w pasqal_env \<Rightarrow> pasqal_op \<Rightarrow> pasqal_cloud \<times> 'w \<Rightarrow> pasqal_cloud \<times> 'w" where
  "pasqal_exec E oper s = (case oper of
      AccessibleOp \<Rightarrow> snd (pasqal_is_accessible E s)
    | StartOp p \<Rightarrow> snd (pasqal_task_start E p s)
    | StopOp i \<Rightarrow> snd (pasqal_task_stop E i s)
    | StatusOp i \<Rightarrow> snd (pasqal_task_status E i s)
    | ResultOp i \<Rightarrow> snd (pasqal_task_result E i s)
    | TargetOp \<Rightarrow> snd (pasqal_target E s))"

lemma within_pasqal_ops:
  assumes "printable_tokens E"
  shows "within (keeps_resource_header E) (pasqal_is_accessible E)"
    "within (keeps_resource_header E) (pasqal_task_start E p)"
    "within (keeps_resource_header E) (pasqal_task_stop E i)"
    "within (keeps_resource_header E) (pasqal_task_status E i)"
    "within (keeps_resource_header E) (pasqal_task_result E i)"
    "within (keeps_resource_header E) (pasqal_target E)"
proof -
  note c = within_client_header [OF assms]
  note r = rhdr.within_rules within_on_client within_the_device within_insert_kind hdr.within_map_err c
  show "within (keeps_resource_header E) (pasqal_is_accessible E)"
    unfolding pasqal_is_accessible_def by (intro r)
  show "within (keeps_resource_header E) (pasqal_task_start E p)"
    unfolding pasqal_task_start_def by (cases p) (auto intro!: r)
  show "within (keeps_resource_header E) (pasqal_task_stop E i)"
    unfolding pasqal_task_stop_def by (intro r)
  show "within (keeps_resource_header E) (pasqal_task_status E i)"
    unfolding pasqal_task_status_def task_status_from_job_id_def by (auto intro!: r split: list.split)
  show "within (keeps_resource_header E) (pasqal_task_result E i)"
    unfolding pasqal_task_result_def by (auto intro!: r split: task_kind.split)
  show "within (keeps_resource_header E) (pasqal_target E)"
    unfolding pasqal_target_def by (intro r)
qed

text \<open>
  C39. Authorization of the Pasqal Cloud client: when every token the service issues is
  a header value, a resource that was just constructed authenticates with its
  configured token, and after any sequence of operations the header it sends is the
  one of the token that it judges for expiry.
\<close>

theorem pasqal_authorization:
  assumes "printable_tokens E" and "from_pasqal_cloud_config E builds env backend cfg = Inr R"
  shows "header_current E (pcl_client (fst (fold (pasqal_exec E) opers (R, w))))"
proof -
  from assms(2) have "header_current E (pcl_client R)"
    by (auto simp: from_pasqal_cloud_config_def header_current_def Let_def split: prod.splits option.splits sum.splits)
  moreover have "header_current E (pcl_client (fst s)) \<Longrightarrow>
      header_current E (pcl_client (fst (fold (pasqal_exec E) opers s)))" for s
  proof (induction opers arbitrary: s)
    case (Cons oper opers)
    have keep: "within (keeps_resource_header E) m \<Longrightarrow> header_current E (pcl_client (fst (snd (m s))))"
      for m
      using Cons.prems unfolding within_def keeps_resource_header_def by blast
    have "header_current E (pcl_client (fst (pasqal_exec E oper s)))"
      unfolding pasqal_exec_def by (cases oper) (simp_all add: keep within_pasqal_ops [OF assms(1)])
    from Cons.IH [OF this] show ?case by simp
  qed simp
  ultimately show ?thesis by simp
qed

end
