(* ===== verification/WitnessesVendors.thy ===== *)
theory WitnessesVendors
  imports StartContracts IqmServer Felis PasqalCloud
begin

text \<open>The properties of the Felis and Pasqal resources at concrete inputs.\<close>

definition no_json :: json_lib where
  "no_json = \<lparr>jparse = (\<lambda>_. Inr JNull), jdump = (\<lambda>_. []), jfrac_u64 = (\<lambda>_. None)\<rparr>"

section \<open>Felis\<close>

text \<open>The world counts the jobs; the upload fails, and a failed job cannot be cancelled.\<close>

definition sample_felis_client :: "nat felis_client" where
  "sample_felis_client = \<lparr>felis_serde = no_json, felis_urlencode = id,
     api_create_felis_job = (\<lambda>_ _ n. (Inr ''j1'', Suc n)), post_input = (\<lambda>_ _ _ n. (Inl ''timeout'', n)),
     api_get_events = (\<lambda>_ _ n. (Inr [Created, TimedOut], n)),
     api_cancel_felis_job = (\<lambda>_ _ n. (Inl (ResponseError 409 [] []), n)),
     api_download_output = (\<lambda>_ _ n. (Inr [], n)), api_list_targets = (\<lambda>_ n. (Inr [], n))\<rparr>"

definition sample_felis :: felis where
  "sample_felis = \<lparr>felis_base_path = [], felis_basic_auth = None, felis_backend = ''ab_emu'', felis_target = ''EMU''\<rparr>"

lemma sample_felis_start:
  "felis_task_start sample_felis_client sample_felis (payload.AliceBobFelis [] []) 0 =
     (Err (upload_failed ''j1'' (Reqwest ''timeout'')), 1)"
  by (simp add: felis_task_start_def felis_call_def call_api_def upload_input_def prog_defs sample_felis_client_def
      no_json_def)

theorem felis_start_contract_witness:
  "kind (upload_failed ''j1'' (Reqwest ''timeout'')) = error_kind.Other
   \<and> error_display (upload_failed ''j1'' (Reqwest ''timeout'')) = ''input upload failed for created job j1''"
proof -
  have "felis_careful (sample_felis_client, sample_felis) id"
    by (simp add: felis_careful_def sample_felis_client_def)
  from felis_start_contract [OF this sample_felis_start] show ?thesis
    by (simp add: sample_felis_client_def no_json_def)
qed

section \<open>Pasqal\<close>

definition sample_pasqal_env :: "unit pasqal_env" where
  "sample_pasqal_env = \<lparr>pq_send = (\<lambda>_ _ _ _ w. (Inr (200, ''200 OK'', Inr ''b1''), w)),
     pq_token_request = (\<lambda>_ _ w. (Inr (200, ''200 OK'', Inr ''tok''), w)), pq_unix_now = (\<lambda>_. Inr 0),
     pq_serde = no_json, base64url = (\<lambda>_. Inl [''not base64'']), pq_header_ok = (\<lambda>_. True), pq_header_error = [],
     read_access_token = Inr, read_created = Inr, read_cancelled = (\<lambda>_. Inr ()), read_batch = (\<lambda>_. Inr []),
     read_job_state = (\<lambda>_. Inr Done), read_cudaq = (\<lambda>_. Inr JNull), read_devices = (\<lambda>_. Inr [''ACTIVE'']),
     read_results = (\<lambda>_. Inr []), read_public_specs = Inr, read_specs = Inr\<rparr>"

definition sample_pasqal_client :: "string \<Rightarrow> pasqal_client" where
  "sample_pasqal_client tok = \<lparr>pq_base_url = [], pq_project_id = [], pq_auth_token = tok, pq_auth_header = Some [],
     pq_auth_endpoint = ''e'', pq_username = Some ''u'', pq_password = Some ''p'', pq_client_id = None,
     pq_client_secret = None\<rparr>"

theorem unreadable_token_blocks_witness:
  "pq_request sample_pasqal_env Inr GET ''/x'' None (sample_pasqal_client ''h.p.s'', ()) =
     (Err [''not base64''], (sample_pasqal_client ''h.p.s'', ()))"
proof -
  have "trim ''h.p.s'' = ''h.p.s''" by (rule trim_graphic | code_simp)+
  then have "jwt_expiry_unix_seconds sample_pasqal_env (pq_auth_token (sample_pasqal_client ''h.p.s'')) = Inl [''not base64'']"
    by (simp add: jwt_expiry_unix_seconds_def sample_pasqal_client_def sample_pasqal_env_def)
  moreover have "pq_unix_now sample_pasqal_env () = Inr 0" by (simp add: sample_pasqal_env_def)
  ultimately show ?thesis by (intro unreadable_token_blocks [THEN conjunct2])
qed

definition sample_pasqal :: pasqal_cloud where
  "sample_pasqal = \<lparr>pcl_client = sample_pasqal_client ''t'', pcl_backend = ''EMU_MPS'', pcl_kinds = (\<lambda>_. None)\<rparr>"

lemma sample_pasqal_start:
  "pasqal_task_start sample_pasqal_env (payload.PasqalCloud ''seq'' 10) (sample_pasqal, ()) =
     (Ok ''b1'', (sample_pasqal\<lparr>pcl_kinds := [''b1'' \<mapsto> Pulser]\<rparr>, ()))"
proof -
  have "trim ''t'' = ''t''" "to_uppercase ''EMU_MPS'' = ''EMU_MPS''" by (rule trim_graphic | code_simp)+
  then show ?thesis
    by (simp add: pasqal_task_start_def the_device_run parse_device_type_def device_type_from_str_def
        is_cudaq_sequence_def jget_def on_client_def create_batch_def pq_request_def ensure_authenticated_def
        is_auth_token_usable_def jwt_expiry_unix_seconds_def pq_exchange_def handle_request_def succeeded_def
        insert_kind_def prog_defs sample_pasqal_env_def sample_pasqal_def sample_pasqal_client_def no_json_def)
qed

definition fresh_pasqal :: pasqal_cloud where
  "fresh_pasqal = \<lparr>pcl_client = \<lparr>pq_base_url = ''https://apis.pasqal.cloud'', pq_project_id = [], pq_auth_token = [],
       pq_auth_header = None, pq_auth_endpoint = DEFAULT_AUTH_ENDPOINT, pq_username = None, pq_password = None,
       pq_client_id = None, pq_client_secret = None\<rparr>, pcl_backend = ''EMU_MPS'', pcl_kinds = (\<lambda>_. None)\<rparr>"

theorem pasqal_authorization_witness:
  "header_current sample_pasqal_env (pcl_client (fst (fold (pasqal_exec sample_pasqal_env)
      [AccessibleOp, StartOp (payload.PasqalCloud ''seq'' 10), ResultOp ''b1''] (fresh_pasqal, ()))))"
proof (rule pasqal_authorization)
  show "printable_tokens sample_pasqal_env" by (simp add: printable_tokens_def sample_pasqal_env_def)
  show "from_pasqal_cloud_config sample_pasqal_env None (\<lambda>_. NotPresent) ''EMU_MPS'' no_pasqal_config = Inr fresh_pasqal"
    by (simp add: from_pasqal_cloud_config_def pasqal_project_id_def pasqal_auth_token_def pasqal_credentials_def
        service_account_credentials_def pasqal_base_url_def pasqal_auth_endpoint_def resolve_backend_prefixed_param_def
        resolve_opt_def nonblank_def or_else_def make_auth_header_def trim_def trim_start_def trim_end_def drop_ws.simps no_pasqal_config_def
        fresh_pasqal_def)
qed

end
