(* ===== verification/PasqalLocal.thy ===== *)
theory PasqalLocal
  imports PasqalConfig
begin

text \<open>
  The resource \<open>PasqalLocal\<close> (\<open>src/pasqal/local.rs\<close>) and its client
  (\<open>dependencies/pasqal_local_client/src/client.rs\<close>).  Every request but the one for
  accessibility carries a fresh Munge credential.  The HTTP stack, Munge and the
  derived deserialization of replies are parameters.
\<close>

section \<open>The client\<close>

datatype local_job_status = LocalPending | LocalRunning | LocalDone | LocalCanceled | LocalError

fun debug_local_status :: "local_job_status \<Rightarrow> string" where
  "debug_local_status LocalPending = ''Pending''"
| "debug_local_status LocalRunning = ''Running''"
| "debug_local_status LocalDone = ''Done''"
| "debug_local_status LocalCanceled = ''Canceled''"
| "debug_local_status LocalError = ''Error''"

record job_response =
  jr_id :: i32
  jr_status :: local_job_status
  jr_results :: "string option"

datatype local_method = GET | POST | DELETE

text \<open>
  \<open>wd_send\<close> sends a request with its headers and body.  \<open>munge_encode\<close> gives a
  credential, \<open>munge_header_ok\<close> whether it is a header value: the code panics on one
  that is not.
\<close>

record 'w warden =
  wd_send :: "local_method \<Rightarrow> string \<Rightarrow> (string \<times> string) list \<Rightarrow> string option \<Rightarrow> 'w \<Rightarrow>
    (anyhow + nat \<times> string \<times> (string + string)) \<times> 'w"
  munge_encode :: "'w \<Rightarrow> (anyhow + string) \<times> 'w"
  munge_header_ok :: "string \<Rightarrow> bool"
  wd_serde :: json_lib
  read_job_response :: "string \<Rightarrow> string + job_response"
  read_job_responses :: "string \<Rightarrow> string + job_response list"
  read_accessible :: "string \<Rightarrow> string + bool"
  read_session :: "string \<Rightarrow> string + string"
  read_logs :: "string \<Rightarrow> string + string"
  read_device_specs :: "string \<Rightarrow> string + string"
  read_specs_name :: "string \<Rightarrow> string + string"

type_synonym ('w, 'a) warden_api = "('w, anyhow, 'a) prog"

definition create_headers :: "'w warden \<Rightarrow> ('w, (string \<times> string) list) warden_api" where
  "create_headers E = andthen (run_result (munge_encode E)) (\<lambda>token.
     if munge_header_ok E token
     then ret [(''content-type'', ''application/json''), (''x-munge-cred'', token)]
     else panic)"

definition wd_handle :: "(string \<Rightarrow> string + 'a) \<Rightarrow> nat \<times> string \<times> (string + string) \<Rightarrow> anyhow + 'a" where
  "wd_handle parse = (\<lambda>(st, shown, body). case body of
      Inl e \<Rightarrow> Inl [e]
    | Inr json_text \<Rightarrow>
        if 200 \<le> st \<and> st < 300 then map_sum (\<lambda>e. [e]) id (parse json_text)
        else Inl [''Status: '' @ shown @ '', Fail '' @ json_text])"

definition wd_exchange ::
    "'w warden \<Rightarrow> (string \<Rightarrow> string + 'a) \<Rightarrow> local_method \<Rightarrow> string \<Rightarrow> (string \<times> string) list \<Rightarrow> string option \<Rightarrow>
     ('w, 'a) warden_api" where
  "wd_exchange E parse m url headers body = run_result (\<lambda>w.
     case wd_send E m url headers body w of
       (Inl e, w') \<Rightarrow> (Inl e, w')
     | (Inr resp, w') \<Rightarrow> (wd_handle parse resp, w'))"

definition wd_request ::
    "'w warden \<Rightarrow> (string \<Rightarrow> string + 'a) \<Rightarrow> local_method \<Rightarrow> string \<Rightarrow> (string \<times> string) list \<Rightarrow> string option \<Rightarrow>
     ('w, 'a) warden_api" where
  "wd_request E parse m url extra body = andthen (create_headers E) (\<lambda>headers.
     wd_exchange E parse m url (headers @ extra) body)"

definition wd_get_jobs :: "'w warden \<Rightarrow> string \<Rightarrow> ('w, job_response list) warden_api" where
  "wd_get_jobs E base = wd_request E (read_job_responses E) GET (base @ ''/jobs'') [] None"

definition wd_get_job :: "'w warden \<Rightarrow> string \<Rightarrow> string \<Rightarrow> ('w, job_response) warden_api" where
  "wd_get_job E base jid = wd_request E (read_job_response E) GET (base @ ''/jobs/'' @ jid) [] None"

definition wd_create_job :: "'w warden \<Rightarrow> string \<Rightarrow> string \<Rightarrow> i32 \<Rightarrow> string \<Rightarrow> ('w, job_response) warden_api" where
  "wd_create_job E base sequence shots session_id =
     wd_request E (read_job_response E) POST (base @ ''/jobs'') [(''X-Warden-Session'', session_id)]
       (Some (jdump (wd_serde E) (JObj [(''sequence'', JStr sequence), (''shots'', JInt (sint shots))])))"

definition wd_cancel_job :: "'w warden \<Rightarrow> string \<Rightarrow> string \<Rightarrow> ('w, job_response) warden_api" where
  "wd_cancel_job E base jid =
     wd_request E (read_job_response E) POST (base @ ''/jobs/'' @ jid @ ''/cancel'') [] None"

definition wd_get_accessible :: "'w warden \<Rightarrow> string \<Rightarrow> ('w, bool) warden_api" where
  "wd_get_accessible E base = wd_exchange E (read_accessible E) GET (base @ ''/accessible'') [] None"

definition wd_create_session :: "'w warden \<Rightarrow> string \<Rightarrow> i32 \<Rightarrow> string \<Rightarrow> ('w, string) warden_api" where
  "wd_create_session E base user_id slurm_job_id =
     wd_request E (read_session E) POST (base @ ''/sessions'') []
       (Some (jdump (wd_serde E) (JObj [(''user_id'', JStr (show_i32 user_id)),
          (''slurm_job_id'', JStr slurm_job_id)])))"

definition wd_revoke_session :: "'w warden \<Rightarrow> string \<Rightarrow> string \<Rightarrow> ('w, string) warden_api" where
  "wd_revoke_session E base sid =
     wd_request E (read_session E) DELETE (base @ ''/sessions/'' @ sid) [] None"

definition wd_get_device_specs :: "'w warden \<Rightarrow> string \<Rightarrow> ('w, string) warden_api" where
  "wd_get_device_specs E base =
     andthen (wd_request E (read_device_specs E) GET (base @ ''/qpu/specs'') [] None) (\<lambda>specs.
     andthen (from_result (map_sum (\<lambda>e. [e]) id (read_specs_name E specs))) (\<lambda>name.
       ret (jdump (wd_serde E) (JArr [JObj [(''device_type'', JStr name), (''specs'', JStr specs)]]))))"

definition wd_get_task_logs :: "'w warden \<Rightarrow> string \<Rightarrow> string \<Rightarrow> ('w, string) warden_api" where
  "wd_get_task_logs E base tid = wd_request E (read_logs E) GET (base @ ''/jobs/'' @ tid @ ''/logs'') [] None"

section \<open>The resource\<close>

record pasqal_local =
  pl_base_url :: string
  pl_backend :: string
  pl_job_uid :: i32
  pl_job_id :: string
  pl_acquisition_token :: "string option"

definition pl_from_opt :: "bool \<Rightarrow> env \<Rightarrow> string \<Rightarrow> config_map option \<Rightarrow> (qrmi_error, pasqal_local) outcome" where
  "pl_from_opt http_builds env backend config =
     (let prefix = (if config \<noteq> None then [] else backend @ ''_'') in
      case (case resolve_opt_required env (prefix @ ''QRMI_WARDEN_URL'') config of
              Inr url \<Rightarrow> Inr url
            | Inl err \<Rightarrow> (case resolve_opt env (prefix @ ''QRMI_URL'') config of
                Some url \<Rightarrow> Inr url | None \<Rightarrow> Inl err)) of
        Inl e \<Rightarrow> Err e
      | Inr url \<Rightarrow>
        (case resolve_opt_required env ''QRMI_JOB_UID'' config of
          Inl e \<Rightarrow> Err e
        | Inr uid \<Rightarrow>
          (case parse_i32 uid of
            Inl source \<Rightarrow> Err (ParseError ''QRMI_JOB_UID'' uid source)
          | Inr job_uid \<Rightarrow>
            (case resolve_opt_required env ''QRMI_JOB_ID'' config of
              Inl e \<Rightarrow> Err e
            | Inr job_id \<Rightarrow>
                if \<not> http_builds then Panic
                else Ok \<lparr>pl_base_url = url, pl_backend = backend, pl_job_uid = job_uid, pl_job_id = job_id,
                         pl_acquisition_token =
                           resolve_opt env (prefix @ ''QRMI_JOB_ACQUISITION_TOKEN'') config\<rparr>))))"

text \<open>The process environment is part of the world, since it is read again.\<close>

record 'w pl_env =
  pl_warden :: "'w warden"
  pl_environ :: "'w \<Rightarrow> env"

definition from_anyhow :: "('w, 'a) warden_api \<Rightarrow> ('w, qrmi_error, 'a) prog" where
  "from_anyhow m = map_err qrmi_error.Other m"

definition pl_token :: "'w pl_env \<Rightarrow> pasqal_local \<Rightarrow> ('w, qrmi_error, string) prog" where
  "pl_token E R = (case pl_acquisition_token R of
      Some token \<Rightarrow> ret token
    | None \<Rightarrow> andthen get_state (\<lambda>w.
        from_result (required_env (pl_environ E w) (pl_backend R @ ''_QRMI_JOB_ACQUISITION_TOKEN''))))"

definition pl_is_accessible :: "'w pl_env \<Rightarrow> pasqal_local \<Rightarrow> ('w, qrmi_error, bool) prog" where
  "pl_is_accessible E R = from_anyhow (wd_get_accessible (pl_warden E) (pl_base_url R))"

definition pl_acquire :: "'w pl_env \<Rightarrow> pasqal_local \<Rightarrow> ('w, qrmi_error, string) prog" where
  "pl_acquire E R = from_anyhow (wd_create_session (pl_warden E) (pl_base_url R) (pl_job_uid R) (pl_job_id R))"

definition pl_release :: "'w pl_env \<Rightarrow> pasqal_local \<Rightarrow> string \<Rightarrow> ('w, qrmi_error, unit) prog" where
  "pl_release E R rid = andthen (if rid = [] then pl_token E R else ret rid) (\<lambda>session_id.
     andthen (from_anyhow (wd_revoke_session (pl_warden E) (pl_base_url R) session_id)) (\<lambda>_. ret ()))"

definition pl_task_start :: "'w pl_env \<Rightarrow> pasqal_local \<Rightarrow> payload \<Rightarrow> ('w, qrmi_error, string) prog" where
  "pl_task_start E R p = andthen (pl_token E R) (\<lambda>session_id. case p of
      payload.PasqalCloud sequence job_runs \<Rightarrow>
        andthen (from_anyhow (wd_create_job (pl_warden E) (pl_base_url R) sequence job_runs session_id)) (\<lambda>job.
          ret (show_i32 (jr_id job)))
    | _ \<Rightarrow> throw (UnsupportedPayload (debug_payload p)))"

definition pl_task_stop :: "'w pl_env \<Rightarrow> pasqal_local \<Rightarrow> string \<Rightarrow> ('w, qrmi_error, unit) prog" where
  "pl_task_stop E R tid =
     andthen (from_anyhow (wd_cancel_job (pl_warden E) (pl_base_url R) tid)) (\<lambda>_. ret ())"

fun local_status_of :: "local_job_status \<Rightarrow> task_status" where
  "local_status_of LocalPending = Queued"
| "local_status_of LocalRunning = Running"
| "local_status_of LocalDone = Completed"
| "local_status_of LocalCanceled = Cancelled"
| "local_status_of LocalError = Failed"

definition pl_task_status :: "'w pl_env \<Rightarrow> pasqal_local \<Rightarrow> string \<Rightarrow> ('w, qrmi_error, task_status) prog" where
  "pl_task_status E R tid =
     andthen (from_anyhow (wd_get_job (pl_warden E) (pl_base_url R) tid)) (\<lambda>job.
       ret (local_status_of (jr_status job)))"

definition pl_task_result :: "'w pl_env \<Rightarrow> pasqal_local \<Rightarrow> string \<Rightarrow> ('w, qrmi_error, string) prog" where
  "pl_task_result E R tid =
     andthen (from_anyhow (wd_get_job (pl_warden E) (pl_base_url R) tid)) (\<lambda>job. case jr_results job of
         Some results \<Rightarrow> ret results
       | None \<Rightarrow> throw (TaskNotReady tid (''results not available (current status: ''
           @ debug_local_status (jr_status job) @ '')'')))"

definition pl_task_logs :: "'w pl_env \<Rightarrow> pasqal_local \<Rightarrow> string \<Rightarrow> ('w, qrmi_error, string) prog" where
  "pl_task_logs E R tid = from_anyhow (wd_get_task_logs (pl_warden E) (pl_base_url R) tid)"

definition pl_target :: "'w pl_env \<Rightarrow> pasqal_local \<Rightarrow> ('w, qrmi_error, string) prog" where
  "pl_target E R = from_anyhow (wd_get_device_specs (pl_warden E) (pl_base_url R))"

definition pl_metadata :: "pasqal_local \<Rightarrow> string \<rightharpoonup> string" where
  "pl_metadata R = [''backend_name'' \<mapsto> pl_backend R]"

section \<open>Starting keeps the contract\<close>

lemma map_err_kind:
  "map_err qrmi_error.Other m s = (Err e, s') \<Longrightarrow> kind e = error_kind.Other"
  by (auto simp: map_err_def attempt_Err throw_def ret_def)

lemma pl_token_keeps: "pl_token E R w = (r, w') \<Longrightarrow> w' = w"
  by (auto simp: pl_token_def andthen_def get_state_def ret_def from_result_def split: option.splits)

lemma pl_refused:
  assumes "pl_task_start E R p w = (Err e, w')" and "kind e \<noteq> error_kind.Other"
  shows "w' = w"
proof -
  from assms(1) consider "pl_token E R w = (Err e, w')"
    | sid w1 where "pl_token E R w = (Ok sid, w1)"
        "(case p of payload.PasqalCloud sequence job_runs \<Rightarrow>
            andthen (from_anyhow (wd_create_job (pl_warden E) (pl_base_url R) sequence job_runs sid)) (\<lambda>job.
              ret (show_i32 (jr_id job)))
          | _ \<Rightarrow> throw (UnsupportedPayload (debug_payload p))) w1 = (Err e, w')"
    by (auto simp: pl_task_start_def andthen_Err)
  then show ?thesis
  proof cases
    case 1
    then show ?thesis by (rule pl_token_keeps)
  next
    case 2
    from pl_token_keeps [OF 2(1)] have "w1 = w" .
    with 2(2) assms(2) show ?thesis
      by (cases p) (auto simp: throw_def andthen_Err ret_def from_anyhow_def dest: map_err_kind)
  qed
qed

interpretation pl_start: start_contract "\<lambda>(E, R) p. prompt (pl_task_start E R p)" "\<lambda>_ _. True"
  by unfold_locales (auto simp: prompt_def dest: pl_refused)

end
