(* ===== verification/Oqtopus.thy ===== *)
theory Oqtopus
  imports QuantumResource
begin

text \<open>
  The resource \<open>Oqtopus\<close> (\<open>src/oqtopus/lib.rs\<close>): loading the Python library and the
  bridge, the configuration document, and the operations, each of which is one call
  of the bridge's C interface.  The dynamic linker, the file system and the bridge
  are parameters, as is whether the program was built for macOS.
\<close>

section \<open>Finding libpython\<close>

text \<open>
  An entry of a directory is its path and its file name, if that is Unicode: a name
  that is not ends the search.
\<close>

fun has_part :: "string \<Rightarrow> string \<Rightarrow> bool" where
  "has_part p [] = (p = [])"
| "has_part p (c # cs) = (starts_with p (c # cs) \<or> has_part p cs)"

fun best_libpython :: "(string \<times> string option) list \<Rightarrow> string option \<Rightarrow> string option" where
  "best_libpython [] best = best"
| "best_libpython ((path, None) # es) best = None"
| "best_libpython ((path, Some name) # es) best =
     (if starts_with ''libpython'' name \<and> has_part ''.so'' name
      then best_libpython es (if best = None \<or> has_part ''.so.'' name then Some path else best)
      else best_libpython es best)"

definition ends_with :: "string \<Rightarrow> string \<Rightarrow> bool" where
  "ends_with p s = starts_with (rev p) (rev s)"

definition is_digit :: "char \<Rightarrow> bool" where
  "is_digit c \<longleftrightarrow> 48 \<le> byte c \<and> byte c \<le> 57"

text \<open>The variants for macOS: a dynamic library, or the binary of a framework.\<close>

fun best_libpython_macos :: "(string \<times> string option) list \<Rightarrow> string option \<Rightarrow> string option" where
  "best_libpython_macos [] best = best"
| "best_libpython_macos ((path, None) # es) best = None"
| "best_libpython_macos ((path, Some name) # es) best =
     (if starts_with ''libpython'' name \<and> ends_with ''.dylib'' name
      then best_libpython_macos es
        (if best = None \<or> (case strip_prefix ''libpython'' name of Some (c # _) \<Rightarrow> is_digit c | _ \<Rightarrow> False)
         then Some path else best)
      else best_libpython_macos es best)"

definition find_libpython_in_macos ::
    "(string \<Rightarrow> (string \<times> string option) list option) \<Rightarrow> string \<Rightarrow> string option" where
  "find_libpython_in_macos read_dir lib_dir = (case read_dir lib_dir of
      None \<Rightarrow> None
    | Some entries \<Rightarrow> best_libpython_macos entries None)"

definition find_libpython_in :: "(string \<Rightarrow> (string \<times> string option) list option) \<Rightarrow> string \<Rightarrow> string option" where
  "find_libpython_in read_dir lib_dir = (case read_dir lib_dir of
      None \<Rightarrow> None
    | Some entries \<Rightarrow> best_libpython entries None)"

definition join_path :: "string \<Rightarrow> string \<Rightarrow> string" where
  "join_path p c = (if p = [] \<or> last p = CHR ''/'' then p @ c else p @ ''/'' @ c)"

definition pythonhome_lib_candidate ::
    "(string \<Rightarrow> (string \<times> string option) list option) \<Rightarrow> string \<Rightarrow> string option" where
  "pythonhome_lib_candidate read_dir home =
     find_map (\<lambda>subdir. find_libpython_in read_dir (join_path home subdir)) [''lib64'', ''lib'']"

definition pythonhome_lib_candidate_macos ::
    "(string \<Rightarrow> (string \<times> string option) list option) \<Rightarrow> (string \<Rightarrow> bool) \<Rightarrow> string \<Rightarrow> string option" where
  "pythonhome_lib_candidate_macos read_dir is_file home =
     (case find_libpython_in_macos read_dir (join_path home ''lib'') of
        Some found \<Rightarrow> Some found
      | None \<Rightarrow>
          if is_file (join_path home ''Python'') then Some (join_path home ''Python'') else None)"

definition fallback_soname_candidates_macos :: "string list" where
  "fallback_soname_candidates_macos =
     [''libpython3.13.dylib'', ''libpython3.12.dylib'', ''libpython3.11.dylib'',
      ''libpython3.10.dylib'', ''libpython3.dylib'']"

definition default_bridge_path :: "bool \<Rightarrow> string" where
  "default_bridge_path macos =
     (if macos then ''liboqtopus_py_bridge.dylib'' else ''liboqtopus_py_bridge.so'')"

definition fallback_soname_candidates :: "string list" where
  "fallback_soname_candidates =
     [''libpython3.13.so.1.0'', ''libpython3.12.so.1.0'', ''libpython3.11.so.1.0'',
      ''libpython3.10.so.1.0'', ''libpython3.so'']"

section \<open>The configuration document\<close>

text \<open>
  A number of the type \<open>f64\<close> is the document that it prints as.  Exact keys only:
  the lookup does not fall back to lower case.
\<close>

definition oq_key :: "string \<Rightarrow> config_map option \<Rightarrow> string \<Rightarrow> string" where
  "oq_key device_id config suffix = (case config of
      Some _ \<Rightarrow> ''QRMI_OQTOPUS_'' @ suffix
    | None \<Rightarrow> device_id @ ''_QRMI_OQTOPUS_'' @ suffix)"

definition oq_lookup :: "env \<Rightarrow> string \<Rightarrow> config_map option \<Rightarrow> string \<Rightarrow> string option" where
  "oq_lookup env device_id config suffix = (case config of
      Some params \<Rightarrow> params (oq_key device_id config suffix)
    | None \<Rightarrow> env_ok (env (oq_key device_id config suffix)))"

definition parse_value :: "(string \<Rightarrow> string + json) \<Rightarrow> string option \<Rightarrow> string \<Rightarrow> qrmi_error + json option" where
  "parse_value parse raw key = (case raw of
      None \<Rightarrow> Inr None
    | Some text \<Rightarrow> map_sum (\<lambda>e. anyhow (''invalid value for '' @ key @ '': '' @ e)) Some (parse (trim text)))"

definition parse_value_list :: "string option \<Rightarrow> string list option" where
  "parse_value_list raw = map_option (\<lambda>r. filter (\<lambda>s. s \<noteq> []) (map trim (split_on (CHR '','') r))) raw"

fun parse_codes :: "string \<Rightarrow> string list \<Rightarrow> qrmi_error + json list" where
  "parse_codes key [] = Inr []"
| "parse_codes key (s # ss) = (case parse_signed 9223372036854775807 s of
      Inl e \<Rightarrow> Inl (anyhow (''invalid value in '' @ key @ '': '' @ int_error_display e))
    | Inr n \<Rightarrow> map_sum id ((#) (JInt n)) (parse_codes key ss))"

definition json_u32 :: "string \<Rightarrow> string + json" where
  "json_u32 s = map_sum int_error_display of_u32 (parse_u32 s)"

definition member :: "string \<Rightarrow> json option \<Rightarrow> (string \<times> json) list" where
  "member k v = (case v of Some x \<Rightarrow> [(k, x)] | None \<Rightarrow> [])"

definition config_document ::
    "(string \<Rightarrow> string + json) \<Rightarrow> env \<Rightarrow> string \<Rightarrow> config_map option \<Rightarrow> qrmi_error + json" where
  "config_document parse_f64 env device_id config =
     (let look = oq_lookup env device_id config; key = oq_key device_id config in
      case parse_value parse_f64 (look ''TIMEOUT'') (key ''TIMEOUT'') of
        Inl e \<Rightarrow> Inl e
      | Inr timeout \<Rightarrow>
        (case parse_value json_u32 (look ''RETRY_MAX_ATTEMPTS'') (key ''RETRY_MAX_ATTEMPTS'') of
          Inl e \<Rightarrow> Inl e
        | Inr attempts \<Rightarrow>
          (case parse_value parse_f64 (look ''RETRY_BACKOFF_SECONDS'') (key ''RETRY_BACKOFF_SECONDS'') of
            Inl e \<Rightarrow> Inl e
          | Inr backoff \<Rightarrow>
            (case (case parse_value_list (look ''RETRY_STATUS_CODES'') of
                     None \<Rightarrow> Inr None
                   | Some items \<Rightarrow> map_sum id Some (parse_codes (key ''RETRY_STATUS_CODES'') items)) of
              Inl e \<Rightarrow> Inl e
            | Inr codes \<Rightarrow> Inr (JObj
                (member ''url'' (map_option JStr (look ''URL''))
                 @ member ''api_token'' (map_option JStr (look ''API_TOKEN''))
                 @ member ''proxy'' (map_option JStr (look ''PROXY''))
                 @ member ''timeout'' timeout
                 @ member ''retry_max_attempts'' attempts
                 @ member ''retry_backoff_seconds'' backoff
                 @ member ''retry_status_codes'' (map_option JArr codes)
                 @ member ''retry_methods'' (map_option (\<lambda>ms. JArr (map (\<lambda>m. JStr (to_uppercase m)) ms))
                     (parse_value_list (look ''RETRY_METHODS'')))))))))"

text \<open>\<open>CString::new\<close> refuses a text with a zero byte.\<close>

definition cstring :: "string \<Rightarrow> string + string" where
  "cstring s = (if char_of (0::nat) \<in> set s
     then Inl (''nul byte found in provided data at position: ''
            @ show_nat (length (takeWhile (\<lambda>c. c \<noteq> char_of (0::nat)) s)))
     else Inr s)"

definition c_text :: "string \<Rightarrow> string \<Rightarrow> qrmi_error + string" where
  "c_text what s = map_sum (\<lambda>e. anyhow (what @ '': '' @ e)) id (cstring s)"

section \<open>The bridge\<close>

text \<open>
  \<open>bridge\<close> looks up a symbol, and calls it with the argument and the configuration:
  the return code, the output string and the error string.  A successful call sets
  the output string; the strings are read with replacement characters (\<open>lossy\<close>).
\<close>

record oqtopus =
  oq_device_id :: string
  oq_config_json :: string

record oq_reply =
  or_ret :: int
  or_out :: string
  or_err :: "string option"

record 'w oq_env =
  oq_serde :: json_lib
  dl_open :: "string \<Rightarrow> 'w \<Rightarrow> (string + unit) \<times> 'w"
  list_dir :: "string \<Rightarrow> (string \<times> string option) list option"
  is_file :: "string \<Rightarrow> bool"
  on_macos :: bool
  oq_parse_f64 :: "string \<Rightarrow> string + json"
  lossy :: "string \<Rightarrow> string"
  bridge :: "string \<Rightarrow> string + (string \<Rightarrow> string \<Rightarrow> 'w \<Rightarrow> oq_reply \<times> 'w)"
  read_device :: "string \<Rightarrow> string + bool \<times> string option \<times> string option \<times> u64"

text \<open>The first of the fallback names that can be loaded.\<close>

fun load_first :: "'w oq_env \<Rightarrow> string list \<Rightarrow> ('w, qrmi_error, bool) prog" where
  "load_first E [] = ret False"
| "load_first E (name # names) = attempt (run_result (dl_open E name)) (\<lambda>r. case r of
      Inr _ \<Rightarrow> ret True
    | Inl _ \<Rightarrow> load_first E names)"

definition load_libpython :: "'w oq_env \<Rightarrow> env \<Rightarrow> ('w, qrmi_error, bool) prog" where
  "load_libpython E env = (case env_ok (env ''PYTHON_LIBRARY'') of
      Some path \<Rightarrow> andthen (call_api (\<lambda>e. qrmi_error.Other [''failed to load PYTHON_LIBRARY='' @ path, e])
                      (dl_open E path)) (\<lambda>_. ret True)
    | None \<Rightarrow> (case env_ok (env ''PYTHONHOME'') of
          Some home \<Rightarrow> (case (if on_macos E then pythonhome_lib_candidate_macos (list_dir E) (is_file E) home
                else pythonhome_lib_candidate (list_dir E) home) of
              Some path \<Rightarrow> andthen (call_api (\<lambda>e. qrmi_error.Other [''failed to load '' @ path, e])
                             (dl_open E path)) (\<lambda>_. ret True)
            | None \<Rightarrow> throw (anyhow (''PYTHONHOME='' @ home @ '' is set, but no libpython was found under it'')))
        | None \<Rightarrow> load_first E
            (if on_macos E then fallback_soname_candidates_macos else fallback_soname_candidates)))"

definition oq_from_opt :: "'w oq_env \<Rightarrow> env \<Rightarrow> string \<Rightarrow> config_map option \<Rightarrow> ('w, qrmi_error, oqtopus) prog" where
  "oq_from_opt E env device_id config =
     andthen (from_result (config_document (oq_parse_f64 E) env device_id config)) (\<lambda>document.
     andthen (from_result (c_text ''invalid config json'' (jdump (oq_serde E) document))) (\<lambda>config_json.
     andthen (load_libpython E env) (\<lambda>loaded.
     if \<not> loaded then
       throw (anyhow ''libpython not found (set PYTHON_LIBRARY or PYTHONHOME to an explicit path)'')
     else
       let path = (case env_ok (env ''PY_BRIDGE_PATH'') of Some p \<Rightarrow> p | None \<Rightarrow> default_bridge_path (on_macos E)) in
       andthen (call_api (\<lambda>e. anyhow (''failed to load '' @ path @ '': '' @ e)) (dl_open E path)) (\<lambda>_.
         ret \<lparr>oq_device_id = device_id, oq_config_json = config_json\<rparr>))))"

definition call_bridge ::
    "'w oq_env \<Rightarrow> oqtopus \<Rightarrow> string \<Rightarrow> string \<Rightarrow> ('w, qrmi_error, string) prog" where
  "call_bridge E R op_name arg = (case bridge E op_name of
      Inl e \<Rightarrow> throw (anyhow (''symbol not found: '' @ e))
    | Inr func \<Rightarrow> (\<lambda>w. case func arg (oq_config_json R) w of (reply, w') \<Rightarrow>
        if or_ret reply \<noteq> 0
        then (Err (anyhow (op_name @ '' failed: ''
                @ (case or_err reply of Some m \<Rightarrow> lossy E m | None \<Rightarrow> ''unknown error''))), w')
        else (Ok (lossy E (or_out reply)), w')))"

definition bridged :: "'w oq_env \<Rightarrow> oqtopus \<Rightarrow> string \<Rightarrow> string \<Rightarrow> string \<Rightarrow> ('w, qrmi_error, string) prog" where
  "bridged E R what op_name arg =
     andthen (from_result (c_text what arg)) (\<lambda>c. call_bridge E R op_name c)"

section \<open>Operations\<close>

definition oq_is_accessible :: "'w oq_env \<Rightarrow> oqtopus \<Rightarrow> ('w, qrmi_error, bool) prog" where
  "oq_is_accessible E R =
     andthen (bridged E R ''invalid device_id'' ''get_device_status'' (oq_device_id R)) (\<lambda>st.
       ret (st = ''available''))"

definition oq_status :: "'w oq_env \<Rightarrow> oqtopus \<Rightarrow> ('w, qrmi_error, resource_status) prog" where
  "oq_status E R =
     andthen (bridged E R ''invalid device_id'' ''get_device_json'' (oq_device_id R)) (\<lambda>v.
     andthen (from_result (map_sum (\<lambda>e. anyhow (''invalid device json: '' @ e)) id (read_device E v)))
       (\<lambda>(available, available_at, calibrated_at, n_pending_jobs). ret
         \<lparr>status_code = (if available then Online else Offline),
          status_reason = (case (available_at, calibrated_at) of
              (Some a, Some c) \<Rightarrow> Some (''available at '' @ a @ '', calibrated at '' @ c)
            | (Some a, None) \<Rightarrow> Some (''available at '' @ a)
            | (None, Some c) \<Rightarrow> Some (''calibrated at '' @ c)
            | (None, None) \<Rightarrow> None),
          healthy = None, busy = None, capacity = None, pending_job_count = Some n_pending_jobs\<rparr>))"

definition oq_job_status :: "string \<Rightarrow> qrmi_error + task_status" where
  "oq_job_status st =
     (if st = ''registered'' \<or> st = ''submitted'' \<or> st = ''ready'' then Inr Queued
      else if st = ''running'' then Inr Running
      else if st = ''succeeded'' then Inr Completed
      else if st = ''failed'' then Inr Failed
      else if st = ''cancelled'' then Inr Cancelled
      else Inl (anyhow (''unknown job status from oqtopus_client: '' @ st)))"

definition oq_task_stop :: "'w oq_env \<Rightarrow> oqtopus \<Rightarrow> string \<Rightarrow> ('w, qrmi_error, unit) prog" where
  "oq_task_stop E R tid = andthen (bridged E R ''invalid job_id'' ''cancel_job'' tid) (\<lambda>_. ret ())"

definition oq_task_status :: "'w oq_env \<Rightarrow> oqtopus \<Rightarrow> string \<Rightarrow> ('w, qrmi_error, task_status) prog" where
  "oq_task_status E R tid =
     andthen (bridged E R ''invalid job_id'' ''get_job_status'' tid) (\<lambda>st. from_result (oq_job_status st))"

definition oq_target :: "'w oq_env \<Rightarrow> oqtopus \<Rightarrow> ('w, qrmi_error, string) prog" where
  "oq_target E R = bridged E R ''invalid device_id'' ''get_device_json'' (oq_device_id R)"

definition oq_task_result :: "'w oq_env \<Rightarrow> oqtopus \<Rightarrow> string \<Rightarrow> ('w, qrmi_error, string) prog" where
  "oq_task_result E R tid = bridged E R ''invalid job_id'' ''get_job_result_json'' tid"

text \<open>\<open>Map::insert\<close>.\<close>

definition insert_member :: "string \<Rightarrow> json \<Rightarrow> (string \<times> json) list \<Rightarrow> (string \<times> json) list" where
  "insert_member k v kvs = (if map_of kvs k = None then kvs @ [(k, v)]
     else map (\<lambda>(k', v'). if k' = k then (k', v) else (k', v')) kvs)"

definition job_spec_for :: "oqtopus \<Rightarrow> json \<Rightarrow> qrmi_error + json" where
  "job_spec_for R spec = (case as_object spec of
      None \<Rightarrow> Inl (anyhow ''job_spec must be a JSON object'')
    | Some kvs \<Rightarrow> Inr (JObj (insert_member ''device_id'' (JStr (oq_device_id R)) kvs)))"

definition oq_task_start :: "'w oq_env \<Rightarrow> oqtopus \<Rightarrow> payload \<Rightarrow> ('w, qrmi_error, string) prog" where
  "oq_task_start E R p = (case p of
      payload.Oqtopus job_spec \<Rightarrow>
        andthen (from_result (map_sum (\<lambda>e. anyhow (''invalid job_spec JSON: '' @ e)) id
                   (jparse (oq_serde E) job_spec))) (\<lambda>spec.
        andthen (from_result (job_spec_for R spec)) (\<lambda>full.
          bridged E R ''invalid job_spec json'' ''submit_job'' (jdump (oq_serde E) full)))
    | _ \<Rightarrow> throw (anyhow ''unsupported payload for Oqtopus backend''))"

section \<open>Facts\<close>

lemma c_text_kind: "c_text what s = Inl e \<Longrightarrow> kind e = error_kind.Other"
  by (auto simp: c_text_def cstring_def split: if_splits)

lemma call_bridge_kind: "call_bridge E R n a w = (Err e, w') \<Longrightarrow> kind e = error_kind.Other"
  by (auto simp: call_bridge_def throw_def split: sum.splits prod.splits if_splits)

lemma bridged_kind: "bridged E R what n a w = (Err e, w') \<Longrightarrow> kind e = error_kind.Other"
  by (auto simp: bridged_def andthen_Err from_result_Err dest: c_text_kind call_bridge_kind)

lemma oq_task_start_kind: "oq_task_start E R p w = (Err e, w') \<Longrightarrow> kind e = error_kind.Other"
  by (cases p)
    (auto simp: oq_task_start_def throw_def andthen_Err from_result_Err map_sum_Inl job_spec_for_def
      split: option.splits dest: bridged_kind)

interpretation oq_start: start_contract "\<lambda>(E, R) p. prompt (oq_task_start E R p)" "\<lambda>_ _. True"
  by unfold_locales (auto simp: prompt_def dest: oq_task_start_kind)

lemma map_of_insert_member: "map_of (insert_member k v kvs) = (map_of kvs)(k \<mapsto> v)"
proof (cases "map_of kvs k")
  case None
  then show ?thesis by (auto simp: insert_member_def map_add_def fun_eq_iff split: option.split)
next
  case (Some x)
  have "map_of (map (\<lambda>(k', v'). if k' = k then (k', v) else (k', v')) kvs) =
      (if k \<in> fst ` set kvs then (map_of kvs)(k \<mapsto> v) else map_of kvs)"
    by (induction kvs) (auto simp: fun_eq_iff)
  with Some show ?thesis by (auto simp: insert_member_def weak_map_of_SomeI dest: map_of_SomeD intro: rev_image_eqI)
qed

end
