(* ===== verification/Utf8.thy ===== *)
theory Utf8
  imports RustStr
begin

text \<open>
  The verdict of the standard library on bytes that should be UTF-8: where the first
  malformed sequence starts and how long it is (\<open>Utf8Error\<close>), its \<open>Display\<close>, and
  the lossy conversion, which replaces each malformed sequence by U+FFFD.
\<close>

section \<open>One character\<close>

definition cont :: "nat \<Rightarrow> bool" where
  "cont b \<longleftrightarrow> 0x80 \<le> b \<and> b \<le> 0xBF"

text \<open>
  The first character of a non-empty text: its length, or how the sequence fails:
  \<open>Some n\<close> when its first \<open>n\<close> bytes are malformed, \<open>None\<close> when the text ends in
  the middle of it.
\<close>

fun utf8_char :: "nat \<Rightarrow> nat list \<Rightarrow> nat option + nat" where
  "utf8_char a bs =
     (if a < 0x80 then Inr 1
      else if 0xC2 \<le> a \<and> a \<le> 0xDF then (case bs of
          [] \<Rightarrow> Inl None
        | b # _ \<Rightarrow> if cont b then Inr 2 else Inl (Some 1))
      else if 0xE0 \<le> a \<and> a \<le> 0xEF then (case bs of
          [] \<Rightarrow> Inl None
        | b # cs \<Rightarrow>
            if (if a = 0xE0 then 0xA0 else 0x80) \<le> b \<and> b \<le> (if a = 0xED then 0x9F else 0xBF)
            then (case cs of
                [] \<Rightarrow> Inl None
              | c # _ \<Rightarrow> if cont c then Inr 3 else Inl (Some 2))
            else Inl (Some 1))
      else if 0xF0 \<le> a \<and> a \<le> 0xF4 then (case bs of
          [] \<Rightarrow> Inl None
        | b # cs \<Rightarrow>
            if (if a = 0xF0 then 0x90 else 0x80) \<le> b \<and> b \<le> (if a = 0xF4 then 0x8F else 0xBF)
            then (case cs of
                [] \<Rightarrow> Inl None
              | c # ds \<Rightarrow>
                  if cont c
                  then (case ds of
                      [] \<Rightarrow> Inl None
                    | d # _ \<Rightarrow> if cont d then Inr 4 else Inl (Some 3))
                  else Inl (Some 2))
            else Inl (Some 1))
      else Inl (Some 1))"

declare utf8_char.simps [simp del]

lemma utf8_char_Inr: "utf8_char a bs = Inr n \<Longrightarrow> 0 < n \<and> n \<le> Suc (length bs)"
  by (auto simp: utf8_char.simps split: if_splits list.splits)

lemma utf8_char_Inl: "utf8_char a bs = Inl (Some n) \<Longrightarrow> 0 < n \<and> n \<le> Suc (length bs)"
  by (auto simp: utf8_char.simps split: if_splits list.splits)

section \<open>The first error\<close>

function utf8_fail :: "nat \<Rightarrow> nat list \<Rightarrow> (nat \<times> nat option) option" where
  "utf8_fail i [] = None"
| "utf8_fail i (a # bs) = (case utf8_char a bs of
      Inl e \<Rightarrow> Some (i, e)
    | Inr n \<Rightarrow> utf8_fail (i + n) (drop n (a # bs)))"
  by pat_completeness auto
termination by (relation "measure (\<lambda>(i, bs). length bs)") (auto dest: utf8_char_Inr)

declare utf8_fail.simps(2) [simp del]

text \<open>\<open>Utf8Error\<close>'s \<open>Display\<close>.\<close>

definition utf8_error_display :: "nat \<Rightarrow> nat option \<Rightarrow> string" where
  "utf8_error_display at len = (case len of
      Some n \<Rightarrow> ''invalid utf-8 sequence of '' @ show_nat n @ '' bytes from index '' @ show_nat at
    | None \<Rightarrow> ''incomplete utf-8 byte sequence from index '' @ show_nat at)"

text \<open>\<open>CStr::to_str\<close> and \<open>str::from_utf8\<close>.\<close>

definition to_str :: "string \<Rightarrow> string + string" where
  "to_str s = (case utf8_fail 0 (map byte s) of
      None \<Rightarrow> Inr s
    | Some (at, len) \<Rightarrow> Inl (utf8_error_display at len))"

text \<open>The scan accepts exactly the texts that \<open>utf8_ok\<close> accepts.\<close>

lemma utf8_ok_char:
  "utf8_ok (a # bs) \<longleftrightarrow> (\<exists>n. utf8_char a bs = Inr n \<and> utf8_ok (drop n (a # bs)))"
proof -
  consider "a < 0x80" | "0xC2 \<le> a" "a \<le> 0xDF" | "0xE0 \<le> a" "a \<le> 0xEF"
    | "0xF0 \<le> a" "a \<le> 0xF4" | "0x80 \<le> a" "a < 0xC2 \<or> 0xF4 < a"
    by linarith
  then show ?thesis
  proof cases
    case 1
    then show ?thesis by (simp add: utf8_char.simps)
  next
    case 2
    then show ?thesis by (cases bs) (auto simp: utf8_char.simps cont_def)
  next
    case 3
    then have r: "\<not> a < 0x80" "\<not> a \<le> 0xDF" by simp_all
    show ?thesis
    proof (cases bs)
      case (Cons b cs)
      define lo hi where "lo = (if a = 0xE0 then 0xA0 else 0x80 :: nat)"
        and "hi = (if a = 0xED then 0x9F else 0xBF :: nat)"
      show ?thesis
        unfolding Cons utf8_char.simps utf8_ok.simps lo_def [symmetric] hi_def [symmetric]
        by (cases cs; cases "lo \<le> b \<and> b \<le> hi"; cases "cont (hd cs)")
          (use 3 r in \<open>auto simp: cont_def numeral_3_eq_3\<close>)
    qed (use 3 r in \<open>simp add: utf8_char.simps\<close>)
  next
    case 4
    then have r: "\<not> a < 0x80" "\<not> a \<le> 0xDF" "\<not> a \<le> 0xEF" by simp_all
    show ?thesis
    proof (cases bs)
      case (Cons b cs)
      define lo hi where "lo = (if a = 0xF0 then 0x90 else 0x80 :: nat)"
        and "hi = (if a = 0xF4 then 0x8F else 0xBF :: nat)"
      show ?thesis
        unfolding Cons utf8_char.simps utf8_ok.simps lo_def [symmetric] hi_def [symmetric]
        by (cases cs; cases "tl cs"; cases "lo \<le> b \<and> b \<le> hi"; cases "cont (hd cs)";
            cases "cont (hd (tl cs))")
          (use 4 r in \<open>auto simp: cont_def eval_nat_numeral\<close>)
    qed (use 4 r in \<open>simp add: utf8_char.simps\<close>)
  next
    case 5
    then have "utf8_char a bs = Inl (Some 1)" by (auto simp: utf8_char.simps)
    moreover have "\<not> utf8_ok (a # bs)"
    proof -
      from 5 have r: "\<not> a < 0x80" "\<not> (0xC2 \<le> a \<and> a \<le> 0xDF)" "\<not> (0xE0 \<le> a \<and> a \<le> 0xEF)"
          and no4: "\<And>P. (0xF0 \<le> a \<and> a \<le> 0xF4 \<and> P) = False"
        by auto
      show ?thesis
        unfolding utf8_ok.simps(2) if_not_P [OF r(1)] if_not_P [OF r(2)] if_not_P [OF r(3)]
        by (simp only: no4 simp_thms split: list.split)
    qed
    ultimately show ?thesis by simp
  qed
qed

lemma utf8_fail_ok: "utf8_fail i bs = None \<longleftrightarrow> utf8_ok bs"
proof (induction i bs rule: utf8_fail.induct)
  case (2 i a bs)
  then show ?case
    by (auto simp: utf8_fail.simps(2) utf8_ok_char [of a bs] simp del: utf8_ok.simps split: sum.split)
qed simp

lemma to_str_Inr: "to_str s = Inr t \<longleftrightarrow> t = s \<and> utf8_ok (map byte s)"
  using utf8_fail_ok [of 0 "map byte s"] by (auto simp: to_str_def split: option.split)

lemma to_str_Inl: "(\<exists>e. to_str s = Inl e) \<longleftrightarrow> \<not> utf8_ok (map byte s)"
  using utf8_fail_ok [of 0 "map byte s"] by (auto simp: to_str_def split: option.split)

lemma to_str_cases:
  obtains "to_str s = Inr s" "utf8_ok (map byte s)" | e where "to_str s = Inl e" "\<not> utf8_ok (map byte s)"
  using to_str_Inr [of s s] to_str_Inl [of s] by blast

section \<open>The lossy conversion\<close>

lemma utf8_fail_shift: "utf8_fail i bs = Some (j, e) \<Longrightarrow> i \<le> j \<and> j < i + length bs"
proof (induction i bs rule: utf8_fail.induct)
  case (2 i a bs)
  then show ?case
    by (auto simp: utf8_fail.simps(2) split: sum.splits dest: utf8_char_Inr)
qed simp

lemma utf8_fail_len: "utf8_fail i bs = Some (j, Some n) \<Longrightarrow> 0 < n"
proof (induction i bs rule: utf8_fail.induct)
  case (2 i a bs)
  then show ?case
    by (auto simp: utf8_fail.simps(2) split: sum.splits dest: utf8_char_Inl)
qed simp

definition replacement :: string where
  "replacement = [char_of (0xEF :: nat), char_of (0xBF :: nat), char_of (0xBD :: nat)]"

function to_string_lossy :: "string \<Rightarrow> string" where
  "to_string_lossy s = (case utf8_fail 0 (map byte s) of
      None \<Rightarrow> s
    | Some (at, None) \<Rightarrow> take at s @ replacement
    | Some (at, Some n) \<Rightarrow> take at s @ replacement @ to_string_lossy (drop (at + n) s))"
  by pat_completeness auto
termination
proof (relation "measure length", simp)
  fix s :: string and p :: "nat \<times> nat option" and at :: nat and len n
  assume "utf8_fail 0 (map byte s) = Some p" "(at, len) = p" "len = Some n"
  then have "at < length s" "0 < n"
    using utf8_fail_shift [of 0 "map byte s" at len] utf8_fail_len [of 0 "map byte s" at n] by auto
  then show "(drop (at + n) s, s) \<in> measure length" by simp
qed

declare to_string_lossy.simps [simp del]

lemma to_string_lossy_valid [simp]: "utf8_ok (map byte s) \<Longrightarrow> to_string_lossy s = s"
  by (simp add: to_string_lossy.simps utf8_fail_ok [THEN iffD2])

end
