(* ===== verification/CHeap.thy ===== *)
theory CHeap
  imports Loops CommonConfig Utf8
begin

text \<open>
  The memory that a C program and the library share (\<open>src/src/cext.rs\<close>), as a map
  from addresses to cells.  A cell is what one allocation, or one variable of the C
  program, holds.  Addresses are never reused, so that a use of freed memory is always
  a use of an address without a cell; the allocator frees by address and ignores the
  layout, as the system allocator does.  Undefined behaviour is the error
  \<open>Misuse\<close>, a panic across the boundary (which aborts the process) is
  \<open>Panic\<close>.
\<close>

named_theorems cells \<open>which cells a typed access accepts\<close>

section \<open>Addresses and cells\<close>

type_synonym addr = nat

abbreviation null :: addr where "null \<equiv> 0"

text \<open>The pointer of an empty \<open>Vec\<close> or boxed slice: not null, aligned, without memory.\<close>

definition dangling :: addr where
  "dangling = 8"

text \<open>The payload of \<open>qrmi_resource_task_start\<close>, with pointers for strings.\<close>

datatype c_payload =
    CQiskitPrimitive addr addr
  | CPasqalCloud addr i32
  | CAliceBobFelis addr addr
  | CIQMServer addr addr i32 addr
  | COqtopus addr
  | CMaestroLocal addr addr u32 u32 u32 addr addr

record c_resource_def =
  cd_name :: addr
  cd_type :: resource_type
  cd_is_dynamic :: bool
  cd_variables :: addr
  cd_length :: nat

text \<open>
  The cells: \<open>CStr\<close> is a \<open>CString\<close> given away with \<open>into_raw\<close>, \<open>Text\<close> any other
  \<open>char\<close> array of the C program or of the library's statics; the boxes and arrays that
  the library allocates; and the variables of the C program that calls write to or read
  from, a table of environment variables (\<open>PairTable\<close>) among them.  \<open>'r\<close> is a boxed resource and \<open>'p\<close> a boxed provider.
\<close>

datatype ('r, 'p) cell =
    CStr string
  | Text string
  | ConfigBox "string \<rightharpoonup> resource_def"
  | DefBox c_resource_def
  | PairArray "(addr \<times> addr) list"
  | PairTable "(addr \<times> addr) list"
  | StrArray "addr list"
  | HandleBox 'r
  | HandleArray "addr list"
  | StatusBox resource_status
  | CapacityBox resource_capacity
  | MetadataBox "string \<rightharpoonup> string"
  | ProviderBox 'p
  | PayloadVar c_payload
  | EnvVar addr nat
  | ResourcesVar addr nat
  | PtrVar addr
  | SizeVar nat
  | CountVar u64
  | BoolVar bool
  | TypeVar resource_type
  | TaskVar task_status
  | CodeVar resource_status_code

section \<open>The state\<close>

text \<open>
  \<open>last_error\<close> and \<open>last_kind\<close> are the thread-local values of the calling thread;
  \<open>world\<close> is everything on the Rust side, the resources' own state included.
\<close>

record ('r, 'p, 'w) c_state =
  heap :: "addr \<Rightarrow> ('r, 'p) cell option"
  brk :: addr
  last_error :: "string option"
  last_kind :: error_kind
  world :: 'w

datatype misuse = Misuse

type_synonym ('r, 'p, 'w, 'a) c_prog = "(('r, 'p, 'w) c_state, misuse, 'a) loop_prog"

definition give :: "'a \<Rightarrow> ('r, 'p, 'w, 'a) c_prog" where
  "give a = prompt (ret a)"

definition misused :: "('r, 'p, 'w, 'a) c_prog" where
  "misused = prompt (throw Misuse)"

section \<open>Typed accesses\<close>

text \<open>
  An access names the type it expects of the cell; any other cell, and an address
  without one, is undefined behaviour.
\<close>

definition load :: "(('r, 'p) cell \<Rightarrow> 'a option) \<Rightarrow> addr \<Rightarrow> ('r, 'p, 'w, 'a) c_prog" where
  "load pick p = (\<lambda>s. case Option.bind (heap s p) pick of
      Some a \<Rightarrow> Some (Ok a, s)
    | None \<Rightarrow> Some (Err Misuse, s))"

definition store ::
    "(('r, 'p) cell \<Rightarrow> 'a option) \<Rightarrow> addr \<Rightarrow> ('r, 'p) cell \<Rightarrow> ('r, 'p, 'w, unit) c_prog" where
  "store pick p c = (\<lambda>s. case Option.bind (heap s p) pick of
      Some _ \<Rightarrow> Some (Ok (), s\<lparr>heap := (heap s)(p \<mapsto> c)\<rparr>)
    | None \<Rightarrow> Some (Err Misuse, s))"

text \<open>\<open>Box::into_raw(Box::new(..))\<close> and \<open>CString::into_raw\<close>.\<close>

definition alloc :: "('r, 'p) cell \<Rightarrow> ('r, 'p, 'w, addr) c_prog" where
  "alloc c = (\<lambda>s. Some (Ok (brk s), s\<lparr>heap := (heap s)(brk s \<mapsto> c), brk := Suc (brk s)\<rparr>))"

text \<open>\<open>drop(Box::from_raw(..))\<close> and \<open>drop(CString::from_raw(..))\<close>.\<close>

definition free :: "(('r, 'p) cell \<Rightarrow> 'a option) \<Rightarrow> addr \<Rightarrow> ('r, 'p, 'w, 'a) c_prog" where
  "free pick p = (\<lambda>s. case Option.bind (heap s p) pick of
      Some a \<Rightarrow> Some (Ok a, s\<lparr>heap := (heap s)(p := None)\<rparr>)
    | None \<Rightarrow> Some (Err Misuse, s))"

text \<open>A call of the Rust side.\<close>

definition on_world :: "('w, 'e, 'a) loop_prog \<Rightarrow> (('r, 'p, 'w) c_state, 'e, 'a) loop_prog" where
  "on_world m = (\<lambda>s. case m (world s) of
      None \<Rightarrow> None
    | Some (r, w) \<Rightarrow> Some (r, s\<lparr>world := w\<rparr>))"

section \<open>The types\<close>

text \<open>A string is read up to its first NUL.\<close>

definition NUL :: char where
  "NUL = CHR 0x00"

definition text_of :: "('r, 'p) cell \<Rightarrow> string option" where
  "text_of c = (case c of CStr b \<Rightarrow> Some b | Text b \<Rightarrow> Some (takeWhile (\<lambda>x. x \<noteq> NUL) b) | _ \<Rightarrow> None)"

definition cstring_of :: "('r, 'p) cell \<Rightarrow> string option" where
  "cstring_of c = (case c of CStr b \<Rightarrow> Some b | _ \<Rightarrow> None)"

definition config_of :: "('r, 'p) cell \<Rightarrow> (string \<rightharpoonup> resource_def) option" where
  "config_of c = (case c of ConfigBox m \<Rightarrow> Some m | _ \<Rightarrow> None)"

definition def_of :: "('r, 'p) cell \<Rightarrow> c_resource_def option" where
  "def_of c = (case c of DefBox d \<Rightarrow> Some d | _ \<Rightarrow> None)"

definition pairs_of :: "('r, 'p) cell \<Rightarrow> (addr \<times> addr) list option" where
  "pairs_of c = (case c of PairArray ps \<Rightarrow> Some ps | PairTable ps \<Rightarrow> Some ps | _ \<Rightarrow> None)"

definition own_pairs_of :: "('r, 'p) cell \<Rightarrow> (addr \<times> addr) list option" where
  "own_pairs_of c = (case c of PairArray ps \<Rightarrow> Some ps | _ \<Rightarrow> None)"

definition strings_of :: "('r, 'p) cell \<Rightarrow> addr list option" where
  "strings_of c = (case c of StrArray ps \<Rightarrow> Some ps | _ \<Rightarrow> None)"

definition handle_of :: "('r, 'p) cell \<Rightarrow> 'r option" where
  "handle_of c = (case c of HandleBox r \<Rightarrow> Some r | _ \<Rightarrow> None)"

definition handles_of :: "('r, 'p) cell \<Rightarrow> addr list option" where
  "handles_of c = (case c of HandleArray ps \<Rightarrow> Some ps | _ \<Rightarrow> None)"

definition status_of :: "('r, 'p) cell \<Rightarrow> resource_status option" where
  "status_of c = (case c of StatusBox st \<Rightarrow> Some st | _ \<Rightarrow> None)"

definition capacity_of :: "('r, 'p) cell \<Rightarrow> resource_capacity option" where
  "capacity_of c = (case c of CapacityBox x \<Rightarrow> Some x | _ \<Rightarrow> None)"

definition metadata_of :: "('r, 'p) cell \<Rightarrow> (string \<rightharpoonup> string) option" where
  "metadata_of c = (case c of MetadataBox m \<Rightarrow> Some m | _ \<Rightarrow> None)"

definition provider_of :: "('r, 'p) cell \<Rightarrow> 'p option" where
  "provider_of c = (case c of ProviderBox p \<Rightarrow> Some p | _ \<Rightarrow> None)"

definition payload_of :: "('r, 'p) cell \<Rightarrow> c_payload option" where
  "payload_of c = (case c of PayloadVar p \<Rightarrow> Some p | _ \<Rightarrow> None)"

definition env_of :: "('r, 'p) cell \<Rightarrow> (addr \<times> nat) option" where
  "env_of c = (case c of EnvVar p n \<Rightarrow> Some (p, n) | _ \<Rightarrow> None)"

definition resources_of :: "('r, 'p) cell \<Rightarrow> (addr \<times> nat) option" where
  "resources_of c = (case c of ResourcesVar p n \<Rightarrow> Some (p, n) | _ \<Rightarrow> None)"

definition ptr_of :: "('r, 'p) cell \<Rightarrow> addr option" where
  "ptr_of c = (case c of PtrVar p \<Rightarrow> Some p | _ \<Rightarrow> None)"

definition size_of :: "('r, 'p) cell \<Rightarrow> nat option" where
  "size_of c = (case c of SizeVar n \<Rightarrow> Some n | _ \<Rightarrow> None)"

definition count_of :: "('r, 'p) cell \<Rightarrow> u64 option" where
  "count_of c = (case c of CountVar n \<Rightarrow> Some n | _ \<Rightarrow> None)"

definition bool_of :: "('r, 'p) cell \<Rightarrow> bool option" where
  "bool_of c = (case c of BoolVar b \<Rightarrow> Some b | _ \<Rightarrow> None)"

definition type_of :: "('r, 'p) cell \<Rightarrow> resource_type option" where
  "type_of c = (case c of TypeVar t \<Rightarrow> Some t | _ \<Rightarrow> None)"

definition task_of :: "('r, 'p) cell \<Rightarrow> task_status option" where
  "task_of c = (case c of TaskVar t \<Rightarrow> Some t | _ \<Rightarrow> None)"

definition code_of :: "('r, 'p) cell \<Rightarrow> resource_status_code option" where
  "code_of c = (case c of CodeVar x \<Rightarrow> Some x | _ \<Rightarrow> None)"

lemmas pick_defs = text_of_def cstring_of_def config_of_def def_of_def pairs_of_def own_pairs_of_def strings_of_def
  handle_of_def handles_of_def status_of_def capacity_of_def metadata_of_def provider_of_def
  payload_of_def env_of_def resources_of_def ptr_of_def size_of_def count_of_def bool_of_def
  type_of_def task_of_def code_of_def

lemma pick_Some [cells]:
  "cstring_of c = Some b \<longleftrightarrow> c = CStr b"
  "config_of c = Some m \<longleftrightarrow> c = ConfigBox m"
  "def_of c = Some d \<longleftrightarrow> c = DefBox d"
  "own_pairs_of c = Some kvs \<longleftrightarrow> c = PairArray kvs"
  "strings_of c = Some ps \<longleftrightarrow> c = StrArray ps"
  "handle_of c = Some r \<longleftrightarrow> c = HandleBox r"
  "handles_of c = Some ps \<longleftrightarrow> c = HandleArray ps"
  "status_of c = Some st \<longleftrightarrow> c = StatusBox st"
  "capacity_of c = Some cp \<longleftrightarrow> c = CapacityBox cp"
  "metadata_of c = Some md \<longleftrightarrow> c = MetadataBox md"
  "provider_of c = Some p \<longleftrightarrow> c = ProviderBox p"
  "payload_of c = Some pl \<longleftrightarrow> c = PayloadVar pl"
  "env_of c = Some e \<longleftrightarrow> c = EnvVar (fst e) (snd e)"
  "resources_of c = Some e \<longleftrightarrow> c = ResourcesVar (fst e) (snd e)"
  "ptr_of c = Some a \<longleftrightarrow> c = PtrVar a"
  "size_of c = Some n \<longleftrightarrow> c = SizeVar n"
  "count_of c = Some q \<longleftrightarrow> c = CountVar q"
  "bool_of c = Some t \<longleftrightarrow> c = BoolVar t"
  "type_of c = Some ty \<longleftrightarrow> c = TypeVar ty"
  "task_of c = Some ts \<longleftrightarrow> c = TaskVar ts"
  "code_of c = Some sc \<longleftrightarrow> c = CodeVar sc"
  by (cases c; force simp: pick_defs)+

lemma pick_simps [simp]:
  "text_of (CStr b) = Some b"
  "text_of (Text b) = Some (takeWhile (\<lambda>x. x \<noteq> NUL) b)"
  "cstring_of (CStr b) = Some b"
  "config_of (ConfigBox m) = Some m"
  "def_of (DefBox d) = Some d"
  "pairs_of (PairArray kvs) = Some kvs"
  "pairs_of (PairTable kvs) = Some kvs"
  "own_pairs_of (PairArray kvs) = Some kvs"
  "strings_of (StrArray ps) = Some ps"
  "handle_of (HandleBox r) = Some r"
  "handles_of (HandleArray ps) = Some ps"
  "status_of (StatusBox st) = Some st"
  "capacity_of (CapacityBox cp) = Some cp"
  "metadata_of (MetadataBox md) = Some md"
  "provider_of (ProviderBox p) = Some p"
  "payload_of (PayloadVar pl) = Some pl"
  "env_of (EnvVar a l) = Some (a, l)"
  "resources_of (ResourcesVar a l) = Some (a, l)"
  "ptr_of (PtrVar a) = Some a"
  "size_of (SizeVar n) = Some n"
  "count_of (CountVar q) = Some q"
  "bool_of (BoolVar t) = Some t"
  "type_of (TypeVar ty) = Some ty"
  "task_of (TaskVar ts) = Some ts"
  "code_of (CodeVar sc) = Some sc"
  by (simp_all add: pick_defs)

section \<open>Strings\<close>

text \<open>\<open>CString::new\<close> refuses a text with a NUL in it.\<close>

definition cstring_new :: "string \<Rightarrow> string option" where
  "cstring_new b = (if NUL \<in> set b then None else Some b)"

lemma cstring_new_Some: "cstring_new b = Some c \<longleftrightarrow> c = b \<and> NUL \<notin> set b"
  by (auto simp: cstring_new_def)

text \<open>\<open>sanitized_cstring\<close>: without its NULs a text is always a C string.\<close>

definition sanitized_cstring :: "string \<Rightarrow> string" where
  "sanitized_cstring value =
     (case cstring_new (filter (\<lambda>c. c \<noteq> NUL) value) of Some b \<Rightarrow> b | None \<Rightarrow> [])"

lemma sanitized_cstring: "sanitized_cstring value = filter (\<lambda>c. c \<noteq> NUL) value"
  by (simp add: sanitized_cstring_def cstring_new_def)

text \<open>\<open>CString::new(..).unwrap().into_raw()\<close>.\<close>

definition raw_cstring :: "string \<Rightarrow> ('r, 'p, 'w, addr) c_prog" where
  "raw_cstring b = (case cstring_new b of Some c \<Rightarrow> alloc (CStr c) | None \<Rightarrow> prompt panic)"

fun raw_cstrings :: "string list \<Rightarrow> ('r, 'p, 'w, addr list) c_prog" where
  "raw_cstrings [] = give []"
| "raw_cstrings (b # bs) =
     chain (raw_cstring b) (\<lambda>a. chain (raw_cstrings bs) (\<lambda>as. give (a # as)))"

text \<open>The memory of a \<open>Vec\<close> that is given away: none when it is empty.\<close>

definition raw_array :: "('a list \<Rightarrow> ('r, 'p) cell) \<Rightarrow> 'a list \<Rightarrow> ('r, 'p, 'w, addr) c_prog" where
  "raw_array mk xs = (if xs = [] then give dangling else alloc (mk xs))"

section \<open>Rules\<close>

lemma yields_give [lwp]: "yields (give a) s Q = Q (Ok a) s"
  by (simp add: give_def lwp wp)

lemma yields_misused [lwp]: "yields misused s Q = Q (Err Misuse) s"
  by (simp add: misused_def lwp wp)

lemma yields_load [lwp]:
  "yields (load pick p) s Q = (case Option.bind (heap s p) pick of
      Some a \<Rightarrow> Q (Ok a) s | None \<Rightarrow> Q (Err Misuse) s)"
  by (simp add: yields_def load_def split: option.split)

lemma yields_store [lwp]:
  "yields (store pick p c) s Q = (case Option.bind (heap s p) pick of
      Some _ \<Rightarrow> Q (Ok ()) (s\<lparr>heap := (heap s)(p \<mapsto> c)\<rparr>) | None \<Rightarrow> Q (Err Misuse) s)"
  by (simp add: yields_def store_def split: option.split)

lemma yields_alloc [lwp]:
  "yields (alloc c) s Q = Q (Ok (brk s)) (s\<lparr>heap := (heap s)(brk s \<mapsto> c), brk := Suc (brk s)\<rparr>)"
  by (simp add: yields_def alloc_def)

lemma yields_free [lwp]:
  "yields (free pick p) s Q = (case Option.bind (heap s p) pick of
      Some a \<Rightarrow> Q (Ok a) (s\<lparr>heap := (heap s)(p := None)\<rparr>) | None \<Rightarrow> Q (Err Misuse) s)"
  by (simp add: yields_def free_def split: option.split)

lemma yields_on_world:
  "yields (on_world m) s Q = yields m (world s) (\<lambda>r w. Q r (s\<lparr>world := w\<rparr>))"
  by (auto simp: yields_def on_world_def split: option.splits prod.splits)

lemma give_step: "give a s = Some (Ok a, s)"
  by (simp add: give_def prompt_def ret_def)

lemma load_step: "heap s p = Some c \<Longrightarrow> pick c = Some a \<Longrightarrow> load pick p s = Some (Ok a, s)"
  by (simp add: load_def)

lemma store_step:
  "heap s p = Some c \<Longrightarrow> pick c = Some a \<Longrightarrow>
     store pick p d s = Some (Ok (), s\<lparr>heap := (heap s)(p \<mapsto> d)\<rparr>)"
  by (simp add: store_def)

lemma on_world_None: "on_world m s = None \<longleftrightarrow> m (world s) = None"
  by (simp add: on_world_def split: option.split prod.split)

lemma on_world_Some: "m (world s) = Some (r, w) \<Longrightarrow> on_world m s = Some (r, s\<lparr>world := w\<rparr>)"
  by (simp add: on_world_def)

end
