(* ===== verification/CBinding.thy ===== *)
theory CBinding
  imports CHeap Service
begin

text \<open>
  The C binding (\<open>src/src/cext.rs\<close> and \<open>src/src/cext/maestro.rs\<close>): every exported
  function, over the shared memory of \<open>CHeap\<close>.  \<open>rust_side\<close> holds what the binding
  calls: the trait objects behind the handles, the constructors, the configuration file,
  the service.  Every call starts with \<open>common::initialize()\<close>, which sets up logging
  and has no other effect.
\<close>

section \<open>The Rust side\<close>

text \<open>
  \<open>rs_new_runtime\<close> says whether \<open>tokio::runtime::Runtime::new()\<close> succeeds,
  \<open>rs_open\<close> reads a file, \<open>rs_parse\<close> is \<open>serde_json\<close> on its text,
  \<open>rs_debug\<close> the \<open>{:?}\<close> of an \<open>anyhow\<close> error, and \<open>rs_order\<close> the order in which
  a \<open>HashMap\<close> gives its keys.
\<close>

record ('r, 'p, 'w) rust_side =
  do_is_accessible :: "'r \<Rightarrow> ('w, qrmi_error, bool) loop_prog"
  do_status :: "'r \<Rightarrow> ('w, qrmi_error, resource_status) loop_prog"
  do_resource_id :: "'r \<Rightarrow> ('w, qrmi_error, string) loop_prog"
  do_resource_type :: "'r \<Rightarrow> ('w, qrmi_error, resource_type) loop_prog"
  do_acquire :: "'r \<Rightarrow> ('w, qrmi_error, string) loop_prog"
  do_release :: "'r \<Rightarrow> string \<Rightarrow> ('w, qrmi_error, unit) loop_prog"
  do_task_start :: "'r \<Rightarrow> payload \<Rightarrow> ('w, qrmi_error, string) loop_prog"
  do_task_stop :: "'r \<Rightarrow> string \<Rightarrow> ('w, qrmi_error, unit) loop_prog"
  do_task_status :: "'r \<Rightarrow> string \<Rightarrow> ('w, qrmi_error, task_status) loop_prog"
  do_task_result :: "'r \<Rightarrow> string \<Rightarrow> ('w, qrmi_error, string) loop_prog"
  do_task_logs :: "'r \<Rightarrow> string \<Rightarrow> ('w, qrmi_error, string) loop_prog"
  do_target :: "'r \<Rightarrow> ('w, qrmi_error, string) loop_prog"
  do_metadata :: "'r \<Rightarrow> 'w \<Rightarrow> (string \<rightharpoonup> string) \<times> 'w"
  rs_service :: "('w, 'r) service_env"
  rs_config_ctors :: "('w, 'r) config_constructors"
  rs_environ :: "'w \<Rightarrow> env"
  rs_new_runtime :: "'w \<Rightarrow> bool"
  rs_open :: "'w \<Rightarrow> string \<Rightarrow> string + (string + string)"
  rs_parse :: "string \<Rightarrow> string + resource_def list"
  rs_debug :: "string \<Rightarrow> string"
  rs_order :: "string set \<Rightarrow> string list"
  new_runtime_provider :: "config_map \<Rightarrow> ('w, qrmi_error, 'p) prog"
  new_compute_provider :: "config_map \<Rightarrow> ('w, qrmi_error, 'p) prog"
  new_system_provider :: "config_map \<Rightarrow> ('w, qrmi_error, 'p) prog"
  do_resources :: "'p \<Rightarrow> string option \<Rightarrow> ('w, qrmi_error, 'r list) loop_prog"
  do_least_busy :: "'p \<Rightarrow> string option \<Rightarrow> ('w, qrmi_error, 'r option) loop_prog"

section \<open>The last error\<close>

text \<open>\<open>_set_last_error\<close>.\<close>

definition c_message :: "string \<Rightarrow> string" where
  "c_message msg = (case cstring_new msg of
      Some b \<Rightarrow> b
    | None \<Rightarrow> ''Failed to generate a C-compatible string'')"

definition set_last_error :: "string \<Rightarrow> ('r, 'p, 'w, unit) c_prog" where
  "set_last_error msg = prompt (modify (\<lambda>s. s\<lparr>last_error := Some (c_message msg)\<rparr>))"

text \<open>\<open>_record_error\<close> and \<open>_fail\<close>.\<close>

definition record_error :: "qrmi_error \<Rightarrow> ('r, 'p, 'w, unit) c_prog" where
  "record_error err =
     chain (prompt (modify (\<lambda>s. s\<lparr>last_kind := kind err\<rparr>))) (\<lambda>_. set_last_error (error_display err))"

definition fail_with :: "qrmi_error \<Rightarrow> ('r, 'p, 'w, return_code) c_prog" where
  "fail_with err = chain (record_error err) (\<lambda>_. give (return_code_of_kind (kind err)))"

definition qrmi_get_last_error :: "('r, 'p, 'w, addr) c_prog" where
  "qrmi_get_last_error = (\<lambda>s. case last_error s of
      Some msg \<Rightarrow> alloc (CStr msg) s
    | None \<Rightarrow> give null s)"

definition qrmi_get_last_error_kind :: "('r, 'p, 'w, return_code) c_prog" where
  "qrmi_get_last_error_kind = (\<lambda>s. give (return_code_of_kind (last_kind s)) s)"

section \<open>Strings and arrays of strings\<close>

definition qrmi_string_free :: "addr \<Rightarrow> ('r, 'p, 'w, return_code) c_prog" where
  "qrmi_string_free ptr =
     (if ptr = null then give NullPointerError
      else chain (free cstring_of ptr) (\<lambda>_. give Success))"

fun drop_strings :: "addr list \<Rightarrow> ('r, 'p, 'w, unit) c_prog" where
  "drop_strings [] = give ()"
| "drop_strings (p # ps) =
     chain (if p = null then give () else chain (free cstring_of p) (\<lambda>_. give ())) (\<lambda>_. drop_strings ps)"

text \<open>The first \<open>len\<close> elements of an array; a read past its end is undefined.\<close>

definition read_array ::
    "(('r, 'p) cell \<Rightarrow> 'a list option) \<Rightarrow> nat \<Rightarrow> addr \<Rightarrow> ('r, 'p, 'w, 'a list) c_prog" where
  "read_array pick len array =
     (if len = 0 then give []
      else chain (load pick array) (\<lambda>xs.
        if length xs < len then misused else give (take len xs)))"

definition qrmi_string_array_free :: "nat \<Rightarrow> addr \<Rightarrow> ('r, 'p, 'w, return_code) c_prog" where
  "qrmi_string_array_free len array =
     (if array = null then give NullPointerError
      else chain (read_array strings_of len array) (\<lambda>ps.
           chain (drop_strings ps) (\<lambda>_.
           chain (free strings_of array) (\<lambda>_. give Success))))"

section \<open>The configuration\<close>

definition qrmi_config_load :: "('r, 'p, 'w) rust_side \<Rightarrow> addr \<Rightarrow> ('r, 'p, 'w, addr) c_prog" where
  "qrmi_config_load B filename =
     (if filename = null then give null
      else chain (load text_of filename) (\<lambda>bytes. case to_str bytes of
          Inl _ \<Rightarrow> give null
        | Inr file \<Rightarrow> (\<lambda>s. case config_load (rs_open B (world s)) (rs_parse B) file of
              Inr v \<Rightarrow> alloc (ConfigBox v) s
            | Inl err \<Rightarrow> chain (set_last_error (rs_debug B err)) (\<lambda>_. give null) s)))"

definition qrmi_config_free :: "addr \<Rightarrow> ('r, 'p, 'w, return_code) c_prog" where
  "qrmi_config_free ptr =
     (if ptr = null then give NullPointerError
      else chain (free config_of ptr) (\<lambda>_. give Success))"

text \<open>The keys of a map and its entries, in the map's order.\<close>

definition keys_of :: "('r, 'p, 'w) rust_side \<Rightarrow> (string \<rightharpoonup> 'a) \<Rightarrow> string list" where
  "keys_of B m = rs_order B (dom m)"

definition entries_of :: "('r, 'p, 'w) rust_side \<Rightarrow> (string \<rightharpoonup> 'a) \<Rightarrow> (string \<times> 'a) list" where
  "entries_of B m = map (\<lambda>k. (k, the (m k))) (keys_of B m)"

fun raw_pairs :: "(string \<times> string) list \<Rightarrow> ('r, 'p, 'w, (addr \<times> addr) list) c_prog" where
  "raw_pairs [] = give []"
| "raw_pairs ((k, v) # kvs) =
     chain (raw_cstring k) (\<lambda>a. chain (raw_cstring v) (\<lambda>b.
     chain (raw_pairs kvs) (\<lambda>rest. give ((a, b) # rest))))"

definition qrmi_config_resource_def_get ::
    "('r, 'p, 'w) rust_side \<Rightarrow> addr \<Rightarrow> addr \<Rightarrow> ('r, 'p, 'w, addr) c_prog" where
  "qrmi_config_resource_def_get B config resource_id =
     (if config = null then give null
      else if resource_id = null then give null
      else chain (load text_of resource_id) (\<lambda>bytes. case to_str bytes of
          Inl _ \<Rightarrow> give null
        | Inr id_str \<Rightarrow> chain (load config_of config) (\<lambda>m. case m id_str of
              None \<Rightarrow> give null
            | Some resource \<Rightarrow>
                chain (raw_pairs (entries_of B (rd_environment resource))) (\<lambda>pairs.
                chain (raw_cstring (rd_name resource)) (\<lambda>name.
                chain (raw_array PairArray pairs) (\<lambda>variables.
                alloc (DefBox \<lparr>cd_name = name, cd_type = rd_type resource,
                  cd_is_dynamic = rd_is_dynamic resource, cd_variables = variables,
                  cd_length = length pairs\<rparr>)))))))"

definition qrmi_config_resource_type_to_str :: "resource_type \<Rightarrow> ('r, 'p, 'w, addr) c_prog" where
  "qrmi_config_resource_type_to_str ty = (case cstring_new (resource_type_as_str ty) of
      Some b \<Rightarrow> alloc (CStr b)
    | None \<Rightarrow> give null)"

definition qrmi_config_resource_type_from_str ::
    "addr \<Rightarrow> addr \<Rightarrow> ('r, 'p, 'w, return_code) c_prog" where
  "qrmi_config_resource_type_from_str type_str outp =
     (if type_str = null \<or> outp = null then give NullPointerError
      else chain (load text_of type_str) (\<lambda>bytes.
        let value = to_string_lossy bytes in
        case from_qpu_type_str value of
          Some v \<Rightarrow> chain (store type_of outp (TypeVar v)) (\<lambda>_. give Success)
        | None \<Rightarrow> fail_with (InvalidInput (''unknown resource type: '' @ value))))"

fun pair_parts :: "(addr \<times> addr) list \<Rightarrow> addr list" where
  "pair_parts [] = []"
| "pair_parts ((k, v) # kvs) = k # v # pair_parts kvs"

text \<open>\<open>Vec::from_raw_parts(ptr, length, length)\<close>, dropped: an empty one has no memory.\<close>

definition free_array ::
    "(('r, 'p) cell \<Rightarrow> 'a option) \<Rightarrow> addr \<Rightarrow> nat \<Rightarrow> ('r, 'p, 'w, unit) c_prog" where
  "free_array pick ptr len =
     (if len = 0 then give () else chain (free pick ptr) (\<lambda>_. give ()))"

definition qrmi_config_resource_def_free :: "addr \<Rightarrow> ('r, 'p, 'w, return_code) c_prog" where
  "qrmi_config_resource_def_free ptr =
     (if ptr = null then give NullPointerError
      else chain (load def_of ptr) (\<lambda>d.
           chain (drop_strings [cd_name d]) (\<lambda>_.
           chain (read_array pairs_of (cd_length d) (cd_variables d)) (\<lambda>pairs.
           chain (drop_strings (pair_parts pairs)) (\<lambda>_.
           chain (free_array own_pairs_of (cd_variables d) (cd_length d)) (\<lambda>_.
           chain (free def_of ptr) (\<lambda>_. give Success)))))))"

definition qrmi_config_resource_names_get ::
    "('r, 'p, 'w) rust_side \<Rightarrow> addr \<Rightarrow> addr \<Rightarrow> addr \<Rightarrow> ('r, 'p, 'w, return_code) c_prog" where
  "qrmi_config_resource_names_get B config num_names names =
     (if config = null \<or> names = null then give NullPointerError
      else chain (load config_of config) (\<lambda>m.
           chain (raw_cstrings (keys_of B m)) (\<lambda>raw_ptrs.
           chain (raw_array StrArray raw_ptrs) (\<lambda>raw.
           chain (store size_of num_names (SizeVar (length (keys_of B m)))) (\<lambda>_.
           chain (store ptr_of names (PtrVar raw)) (\<lambda>_. give Success))))))"

section \<open>Environment variables from C\<close>

text \<open>
  \<open>envvars_to_hashmap\<close>: pairs with a null key or value are skipped, a later pair wins,
  and the first text that is not UTF-8 is the error.
\<close>

fun pairs_to_map ::
    "(addr \<times> addr) list \<Rightarrow> config_map \<Rightarrow> ('r, 'p, 'w, string + config_map) c_prog" where
  "pairs_to_map [] m = give (Inr m)"
| "pairs_to_map ((k, v) # kvs) m =
     (if k = null \<or> v = null then pairs_to_map kvs m
      else chain (load text_of k) (\<lambda>kb. case to_str kb of
          Inl e \<Rightarrow> give (Inl (''Invalid UTF-8 in env key: '' @ e))
        | Inr key \<Rightarrow> chain (load text_of v) (\<lambda>vb. case to_str vb of
              Inl e \<Rightarrow> give (Inl (''Invalid UTF-8 in env value: '' @ e))
            | Inr val \<Rightarrow> pairs_to_map kvs (m(key \<mapsto> val)))))"

definition envvars_to_hashmap :: "addr \<times> nat \<Rightarrow> ('r, 'p, 'w, string + config_map) c_prog" where
  "envvars_to_hashmap e = (case e of (variables, len) \<Rightarrow>
     chain (read_array pairs_of len variables) (\<lambda>kvs. pairs_to_map kvs (\<lambda>_. None)))"

definition rebuild_resource_def :: "c_resource_def \<Rightarrow> ('r, 'p, 'w, string + resource_def) c_prog" where
  "rebuild_resource_def d =
     chain (if cd_name d = null then give (Inr []) else
              chain (load text_of (cd_name d)) (\<lambda>nb. give (case to_str nb of
                Inl e \<Rightarrow> Inl (''Invalid UTF-8 in resource name: '' @ e)
              | Inr n \<Rightarrow> Inr n))) (\<lambda>nm. case nm of
        Inl e \<Rightarrow> give (Inl e)
      | Inr name \<Rightarrow> chain (envvars_to_hashmap (cd_variables d, cd_length d)) (\<lambda>env. give (case env of
            Inl e \<Rightarrow> Inl e
          | Inr environment \<Rightarrow> Inr \<lparr>rd_name = name, rd_type = cd_type d,
              rd_is_dynamic = cd_is_dynamic d, rd_environment = environment\<rparr>)))"

section \<open>Resources\<close>

text \<open>\<open>Runtime::new().unwrap()\<close>.\<close>

definition new_runtime :: "('r, 'p, 'w) rust_side \<Rightarrow> ('r, 'p, 'w, unit) c_prog" where
  "new_runtime B = (\<lambda>s. if rs_new_runtime B (world s) then give () s else prompt panic s)"

definition qrmi_resource_new ::
    "('r, 'p, 'w) rust_side \<Rightarrow> addr \<Rightarrow> resource_type \<Rightarrow> ('r, 'p, 'w, addr) c_prog" where
  "qrmi_resource_new B resource_id ty =
     (if resource_id = null then give null
      else chain (load text_of resource_id) (\<lambda>bytes. case to_str bytes of
          Inl _ \<Rightarrow> give null
        | Inr id_str \<Rightarrow> settle (on_world (prompt (create_resource (ctors (rs_service B)) ty id_str)))
            (\<lambda>res. case res of
              Inl err \<Rightarrow> chain (record_error err) (\<lambda>_. give null)
            | Inr v \<Rightarrow> chain (new_runtime B) (\<lambda>_. alloc (HandleBox v)))))"

definition qrmi_resource_new_from_config ::
    "('r, 'p, 'w) rust_side \<Rightarrow> addr \<Rightarrow> resource_type \<Rightarrow> addr \<Rightarrow> ('r, 'p, 'w, addr) c_prog" where
  "qrmi_resource_new_from_config B resource_id ty config =
     (if resource_id = null then give null
      else if config = null then chain (set_last_error ''config is NULL'') (\<lambda>_. give null)
      else chain (load env_of config) (\<lambda>e. chain (envvars_to_hashmap e) (\<lambda>cm. case cm of
          Inl e \<Rightarrow> chain (set_last_error (rs_debug B e)) (\<lambda>_. give null)
        | Inr config_map \<Rightarrow> chain (load text_of resource_id) (\<lambda>bytes. case to_str bytes of
              Inl _ \<Rightarrow> give null
            | Inr id_str \<Rightarrow>
                settle (on_world (prompt
                    (create_resource_from_config (rs_config_ctors B) ty id_str config_map)))
                  (\<lambda>res. case res of
                    Inl err \<Rightarrow> chain (record_error err) (\<lambda>_. give null)
                  | Inr v \<Rightarrow> chain (new_runtime B) (\<lambda>_. alloc (HandleBox v)))))))"

definition qrmi_resource_free :: "addr \<Rightarrow> ('r, 'p, 'w, return_code) c_prog" where
  "qrmi_resource_free ptr =
     (if ptr = null then give NullPointerError
      else chain (free handle_of ptr) (\<lambda>_. give Success))"

definition qrmi_resource_is_accessible ::
    "('r, 'p, 'w) rust_side \<Rightarrow> addr \<Rightarrow> addr \<Rightarrow> ('r, 'p, 'w, return_code) c_prog" where
  "qrmi_resource_is_accessible B qrmi outp =
     (if qrmi = null then give NullPointerError
      else if outp = null then give Error
      else chain (load handle_of qrmi) (\<lambda>r. settle (on_world (do_is_accessible B r)) (\<lambda>result. case result of
          Inr v \<Rightarrow> chain (store bool_of outp (BoolVar v)) (\<lambda>_. give Success)
        | Inl err \<Rightarrow> fail_with err)))"

definition qrmi_resource_status ::
    "('r, 'p, 'w) rust_side \<Rightarrow> addr \<Rightarrow> addr \<Rightarrow> ('r, 'p, 'w, return_code) c_prog" where
  "qrmi_resource_status B qrmi outp =
     (if qrmi = null \<or> outp = null then give NullPointerError
      else chain (load handle_of qrmi) (\<lambda>r. settle (on_world (do_status B r)) (\<lambda>result. case result of
          Inr v \<Rightarrow> chain (alloc (StatusBox v)) (\<lambda>a. chain (store ptr_of outp (PtrVar a)) (\<lambda>_. give Success))
        | Inl err \<Rightarrow> fail_with err)))"

definition qrmi_resource_status_free :: "addr \<Rightarrow> ('r, 'p, 'w, return_code) c_prog" where
  "qrmi_resource_status_free ptr =
     (if ptr = null then give NullPointerError
      else chain (free status_of ptr) (\<lambda>_. give Success))"

definition qrmi_resource_status_code :: "addr \<Rightarrow> addr \<Rightarrow> ('r, 'p, 'w, return_code) c_prog" where
  "qrmi_resource_status_code status outp =
     (if status = null \<or> outp = null then give NullPointerError
      else chain (load status_of status) (\<lambda>st.
           chain (store code_of outp (CodeVar (status_code st))) (\<lambda>_. give Success)))"

text \<open>The addresses of the three static strings.\<close>

fun qrmi_resource_status_code_to_string :: "resource_status_code \<Rightarrow> addr" where
  "qrmi_resource_status_code_to_string Online = 1"
| "qrmi_resource_status_code_to_string Offline = 2"
| "qrmi_resource_status_code_to_string Paused = 3"

definition qrmi_resource_status_reason :: "addr \<Rightarrow> ('r, 'p, 'w, addr) c_prog" where
  "qrmi_resource_status_reason status =
     (if status = null then give null
      else chain (load status_of status) (\<lambda>st. case status_reason st of
          Some reason \<Rightarrow> (case cstring_new reason of Some b \<Rightarrow> alloc (CStr b) | None \<Rightarrow> give null)
        | None \<Rightarrow> give null))"

definition qrmi_resource_status_healthy :: "addr \<Rightarrow> addr \<Rightarrow> ('r, 'p, 'w, return_code) c_prog" where
  "qrmi_resource_status_healthy status outp =
     (if status = null \<or> outp = null then give NullPointerError
      else chain (load status_of status) (\<lambda>st. case healthy st of
          Some v \<Rightarrow> chain (store bool_of outp (BoolVar v)) (\<lambda>_. give Success)
        | None \<Rightarrow> fail_with (UnsupportedFunction ''this vendor does not report health information'')))"

definition qrmi_resource_status_busy :: "addr \<Rightarrow> addr \<Rightarrow> ('r, 'p, 'w, return_code) c_prog" where
  "qrmi_resource_status_busy status outp =
     (if status = null \<or> outp = null then give NullPointerError
      else chain (load status_of status) (\<lambda>st. case busy st of
          Some v \<Rightarrow> chain (store bool_of outp (BoolVar v)) (\<lambda>_. give Success)
        | None \<Rightarrow> fail_with (UnsupportedFunction ''this vendor does not report busy information'')))"

definition qrmi_resource_status_pending_job_count ::
    "addr \<Rightarrow> addr \<Rightarrow> ('r, 'p, 'w, return_code) c_prog" where
  "qrmi_resource_status_pending_job_count status outp =
     (if status = null \<or> outp = null then give NullPointerError
      else chain (load status_of status) (\<lambda>st. case pending_job_count st of
          Some v \<Rightarrow> chain (store count_of outp (CountVar v)) (\<lambda>_. give Success)
        | None \<Rightarrow> fail_with (UnsupportedFunction
            ''this resource has no queue / does not report pending job count'')))"

definition qrmi_resource_status_capacity :: "addr \<Rightarrow> addr \<Rightarrow> ('r, 'p, 'w, return_code) c_prog" where
  "qrmi_resource_status_capacity status outp =
     (if status = null \<or> outp = null then give NullPointerError
      else chain (load status_of status) (\<lambda>st. case capacity st of
          Some cap \<Rightarrow> chain (alloc (CapacityBox cap)) (\<lambda>a.
                      chain (store ptr_of outp (PtrVar a)) (\<lambda>_. give Success))
        | None \<Rightarrow> fail_with (UnsupportedFunction ''this vendor does not report capacity information'')))"

definition qrmi_resource_capacity_free :: "addr \<Rightarrow> ('r, 'p, 'w, return_code) c_prog" where
  "qrmi_resource_capacity_free ptr =
     (if ptr = null then give NullPointerError
      else chain (free capacity_of ptr) (\<lambda>_. give Success))"

text \<open>A string handed out through \<open>outp\<close>, or the generic error when it has a NUL in it.\<close>

definition hand_out :: "addr \<Rightarrow> string \<Rightarrow> ('r, 'p, 'w, return_code) c_prog" where
  "hand_out outp v = (case cstring_new v of
      Some b \<Rightarrow> chain (alloc (CStr b)) (\<lambda>a. chain (store ptr_of outp (PtrVar a)) (\<lambda>_. give Success))
    | None \<Rightarrow> give Error)"

definition qrmi_resource_id ::
    "('r, 'p, 'w) rust_side \<Rightarrow> addr \<Rightarrow> addr \<Rightarrow> ('r, 'p, 'w, return_code) c_prog" where
  "qrmi_resource_id B qrmi outp =
     (if qrmi = null \<or> outp = null then give NullPointerError
      else chain (load handle_of qrmi) (\<lambda>r. settle (on_world (do_resource_id B r)) (\<lambda>result. case result of
          Inr v \<Rightarrow> hand_out outp v
        | Inl err \<Rightarrow> fail_with err)))"

definition qrmi_resource_type ::
    "('r, 'p, 'w) rust_side \<Rightarrow> addr \<Rightarrow> addr \<Rightarrow> ('r, 'p, 'w, return_code) c_prog" where
  "qrmi_resource_type B qrmi outp =
     (if qrmi = null then give NullPointerError
      else if outp = null then give Error
      else chain (load handle_of qrmi) (\<lambda>r. settle (on_world (do_resource_type B r)) (\<lambda>result. case result of
          Inr v \<Rightarrow> chain (store type_of outp (TypeVar v)) (\<lambda>_. give Success)
        | Inl err \<Rightarrow> fail_with err)))"

definition qrmi_resource_acquire ::
    "('r, 'p, 'w) rust_side \<Rightarrow> addr \<Rightarrow> addr \<Rightarrow> ('r, 'p, 'w, return_code) c_prog" where
  "qrmi_resource_acquire B qrmi acquisition_token =
     (if qrmi = null \<or> acquisition_token = null then give NullPointerError
      else chain (load handle_of qrmi) (\<lambda>r. settle (on_world (do_acquire B r)) (\<lambda>result. case result of
          Inr token \<Rightarrow> hand_out acquisition_token token
        | Inl err \<Rightarrow> fail_with err)))"

definition qrmi_resource_release ::
    "('r, 'p, 'w) rust_side \<Rightarrow> addr \<Rightarrow> addr \<Rightarrow> ('r, 'p, 'w, return_code) c_prog" where
  "qrmi_resource_release B qrmi acquisition_token =
     (if qrmi = null then give NullPointerError
      else if acquisition_token = null then give Error
      else chain (load text_of acquisition_token) (\<lambda>bytes. case to_str bytes of
          Inl _ \<Rightarrow> give Success
        | Inr token \<Rightarrow> chain (load handle_of qrmi) (\<lambda>r. settle (on_world (do_release B r token)) (\<lambda>result. case result of
              Inr _ \<Rightarrow> give Success
            | Inl err \<Rightarrow> fail_with err))))"

section \<open>Payloads\<close>

text \<open>\<open>string_or\<close> (\<open>src/src/cext/maestro.rs\<close>).\<close>

definition string_or :: "addr \<Rightarrow> string option \<Rightarrow> ('r, 'p, 'w, string option) c_prog" where
  "string_or pointer fallback =
     (if pointer = null then give fallback
      else chain (load text_of pointer) (\<lambda>b. give (case to_str b of Inr t \<Rightarrow> Some t | Inl _ \<Rightarrow> None)))"

text \<open>\<open>?\<close> on an \<open>Option\<close> inside such a program.\<close>

definition some_or_none ::
    "('r, 'p, 'w, 'a option) c_prog \<Rightarrow> ('a \<Rightarrow> ('r, 'p, 'w, 'b option) c_prog) \<Rightarrow>
     ('r, 'p, 'w, 'b option) c_prog" where
  "some_or_none m f = chain m (\<lambda>x. case x of None \<Rightarrow> give None | Some a \<Rightarrow> f a)"

definition payload_from_c :: "c_payload \<Rightarrow> ('r, 'p, 'w, payload option) c_prog" where
  "payload_from_c p = (case p of
      CMaestroLocal input job_type qubits simulator_type simulation_method observables config \<Rightarrow>
        some_or_none (string_or input None) (\<lambda>i.
        some_or_none (string_or job_type None) (\<lambda>t.
        some_or_none (string_or observables (Some [])) (\<lambda>obs.
        some_or_none (string_or config (Some ''{}'')) (\<lambda>c.
          give (Some (payload.MaestroLocal i t qubits simulator_type simulation_method obs c))))))
    | _ \<Rightarrow> give None)"

text \<open>A string that the payload must have, whatever its bytes: a null pointer is undefined.\<close>

definition required_text :: "addr \<Rightarrow> ('r, 'p, 'w, string option) c_prog" where
  "required_text p =
     chain (load text_of p) (\<lambda>b. give (case to_str b of Inr t \<Rightarrow> Some t | Inl _ \<Rightarrow> None))"

definition both :: "'a option \<Rightarrow> 'b option \<Rightarrow> ('a \<Rightarrow> 'b \<Rightarrow> 'c) \<Rightarrow> 'c option" where
  "both x y f = (case (x, y) of (Some a, Some b) \<Rightarrow> Some (f a b) | _ \<Rightarrow> None)"

definition iqm_payload ::
    "addr \<Rightarrow> addr \<Rightarrow> i32 \<Rightarrow> addr \<Rightarrow> ('r, 'p, 'w, payload option) c_prog" where
  "iqm_payload iqmjson job_type use_timeslot tag =
     chain (required_text iqmjson) (\<lambda>json. chain (required_text job_type) (\<lambda>ty.
       case (json, ty) of
         (Some j, Some t) \<Rightarrow>
           chain (if tag = null then give None else required_text tag) (\<lambda>tag_opt.
             give (Some (payload.IQMServer j t (Some (use_timeslot = 1)) tag_opt)))
       | _ \<Rightarrow> give None))"

definition c_payload_to_rust :: "c_payload \<Rightarrow> ('r, 'p, 'w, payload option) c_prog" where
  "c_payload_to_rust p = (case p of
      CQiskitPrimitive input program_id \<Rightarrow>
        chain (required_text program_id) (\<lambda>pid. chain (required_text input) (\<lambda>i.
          give (both i pid payload.QiskitPrimitive)))
    | CPasqalCloud sequence job_runs \<Rightarrow>
        chain (required_text sequence) (\<lambda>sq.
          give (map_option (\<lambda>t. payload.PasqalCloud t job_runs) sq))
    | CAliceBobFelis human_qir input_params \<Rightarrow>
        chain (required_text human_qir) (\<lambda>h. chain (required_text input_params) (\<lambda>i.
          give (both h i payload.AliceBobFelis)))
    | CIQMServer iqmjson job_type use_timeslot tag \<Rightarrow> iqm_payload iqmjson job_type use_timeslot tag
    | COqtopus job_spec \<Rightarrow>
        chain (required_text job_spec) (\<lambda>j. give (map_option payload.Oqtopus j))
    | CMaestroLocal _ _ _ _ _ _ _ \<Rightarrow> payload_from_c p)"

section \<open>Tasks\<close>

definition qrmi_resource_task_start ::
    "('r, 'p, 'w) rust_side \<Rightarrow> addr \<Rightarrow> addr \<Rightarrow> addr \<Rightarrow> ('r, 'p, 'w, return_code) c_prog" where
  "qrmi_resource_task_start B qrmi payload task_id =
     (if qrmi = null \<or> payload = null \<or> task_id = null then give NullPointerError
      else chain (load payload_of payload) (\<lambda>p. chain (c_payload_to_rust p) (\<lambda>qrmi_payload.
        case qrmi_payload of
          None \<Rightarrow> fail_with (InvalidInput ''payload strings must be valid UTF-8'')
        | Some q \<Rightarrow> chain (load handle_of qrmi) (\<lambda>r. settle (on_world (do_task_start B r q)) (\<lambda>result. case result of
              Inr job_id \<Rightarrow> hand_out task_id job_id
            | Inl err \<Rightarrow> fail_with err)))))"

definition qrmi_resource_task_stop ::
    "('r, 'p, 'w) rust_side \<Rightarrow> addr \<Rightarrow> addr \<Rightarrow> ('r, 'p, 'w, return_code) c_prog" where
  "qrmi_resource_task_stop B qrmi task_id =
     (if qrmi = null then give NullPointerError
      else if task_id = null then give Error
      else chain (load text_of task_id) (\<lambda>bytes. case to_str bytes of
          Inl _ \<Rightarrow> give Error
        | Inr tid \<Rightarrow> chain (load handle_of qrmi) (\<lambda>r. settle (on_world (do_task_stop B r tid)) (\<lambda>result. case result of
              Inr _ \<Rightarrow> give Success
            | Inl err \<Rightarrow> fail_with err))))"

definition qrmi_resource_task_status ::
    "('r, 'p, 'w) rust_side \<Rightarrow> addr \<Rightarrow> addr \<Rightarrow> addr \<Rightarrow> ('r, 'p, 'w, return_code) c_prog" where
  "qrmi_resource_task_status B qrmi task_id status =
     (if qrmi = null then give NullPointerError
      else if task_id = null then give Error
      else if status = null then give Error
      else chain (load text_of task_id) (\<lambda>bytes. case to_str bytes of
          Inl _ \<Rightarrow> give Error
        | Inr tid \<Rightarrow> chain (load handle_of qrmi) (\<lambda>r. settle (on_world (do_task_status B r tid)) (\<lambda>result. case result of
              Inr v \<Rightarrow> chain (store task_of status (TaskVar v)) (\<lambda>_. give Success)
            | Inl err \<Rightarrow> fail_with err))))"

definition qrmi_resource_task_result ::
    "('r, 'p, 'w) rust_side \<Rightarrow> addr \<Rightarrow> addr \<Rightarrow> addr \<Rightarrow> ('r, 'p, 'w, return_code) c_prog" where
  "qrmi_resource_task_result B qrmi task_id outp =
     (if qrmi = null then give NullPointerError
      else if task_id = null then give Error
      else if outp = null then give Error
      else chain (load text_of task_id) (\<lambda>bytes. case to_str bytes of
          Inl _ \<Rightarrow> give Error
        | Inr tid \<Rightarrow> chain (load handle_of qrmi) (\<lambda>r. settle (on_world (do_task_result B r tid)) (\<lambda>result. case result of
              Inr v \<Rightarrow> hand_out outp v
            | Inl err \<Rightarrow> fail_with err))))"

definition qrmi_resource_task_logs ::
    "('r, 'p, 'w) rust_side \<Rightarrow> addr \<Rightarrow> addr \<Rightarrow> addr \<Rightarrow> ('r, 'p, 'w, return_code) c_prog" where
  "qrmi_resource_task_logs B qrmi task_id outp =
     (if qrmi = null then give NullPointerError
      else if task_id = null then give Error
      else if outp = null then give Error
      else chain (load text_of task_id) (\<lambda>bytes. case to_str bytes of
          Inl _ \<Rightarrow> give Error
        | Inr tid \<Rightarrow> chain (load handle_of qrmi) (\<lambda>r. settle (on_world (do_task_logs B r tid)) (\<lambda>result. case result of
              Inr v \<Rightarrow> hand_out outp v
            | Inl err \<Rightarrow> fail_with err))))"

text \<open>\<open>qrmi_resource_target\<close> does not check \<open>outp\<close>.\<close>

definition qrmi_resource_target ::
    "('r, 'p, 'w) rust_side \<Rightarrow> addr \<Rightarrow> addr \<Rightarrow> ('r, 'p, 'w, return_code) c_prog" where
  "qrmi_resource_target B qrmi outp =
     (if qrmi = null then give Error
      else chain (load handle_of qrmi) (\<lambda>r. settle (on_world (do_target B r)) (\<lambda>result. case result of
          Inr v \<Rightarrow> hand_out outp v
        | Inl err \<Rightarrow> fail_with err)))"

section \<open>Metadata\<close>

definition qrmi_resource_metadata ::
    "('r, 'p, 'w) rust_side \<Rightarrow> addr \<Rightarrow> addr \<Rightarrow> ('r, 'p, 'w, return_code) c_prog" where
  "qrmi_resource_metadata B qrmi outp =
     (if qrmi = null \<or> outp = null then give NullPointerError
      else chain (load handle_of qrmi) (\<lambda>r.
           chain (on_world (\<lambda>w. case do_metadata B r w of (m, w') \<Rightarrow> Some (Ok m, w'))) (\<lambda>metadata.
           chain (alloc (MetadataBox metadata)) (\<lambda>a.
           chain (store ptr_of outp (PtrVar a)) (\<lambda>_. give Success)))))"

definition qrmi_resource_metadata_free :: "addr \<Rightarrow> ('r, 'p, 'w, return_code) c_prog" where
  "qrmi_resource_metadata_free ptr =
     (if ptr = null then give NullPointerError
      else chain (free metadata_of ptr) (\<lambda>_. give Success))"

definition qrmi_resource_metadata_value :: "addr \<Rightarrow> addr \<Rightarrow> ('r, 'p, 'w, addr) c_prog" where
  "qrmi_resource_metadata_value metadata key =
     (if metadata = null then give null
      else if key = null then give null
      else chain (load text_of key) (\<lambda>bytes. case to_str bytes of
          Inl _ \<Rightarrow> give null
        | Inr key_str \<Rightarrow> chain (load metadata_of metadata) (\<lambda>m. case m key_str of
              None \<Rightarrow> give null
            | Some val \<Rightarrow> (case cstring_new val of Some b \<Rightarrow> alloc (CStr b) | None \<Rightarrow> give null))))"

text \<open>Neither \<open>num_keys\<close> nor \<open>key_names\<close> is checked.\<close>

definition qrmi_resource_metadata_keys ::
    "('r, 'p, 'w) rust_side \<Rightarrow> addr \<Rightarrow> addr \<Rightarrow> addr \<Rightarrow> ('r, 'p, 'w, return_code) c_prog" where
  "qrmi_resource_metadata_keys B metadata num_keys key_names =
     (if metadata = null then give NullPointerError
      else chain (load metadata_of metadata) (\<lambda>m.
           chain (raw_cstrings (keys_of B m)) (\<lambda>raw_ptrs.
           chain (raw_array StrArray raw_ptrs) (\<lambda>raw.
           chain (store size_of num_keys (SizeVar (length (keys_of B m)))) (\<lambda>_.
           chain (store ptr_of key_names (PtrVar raw)) (\<lambda>_. give Success))))))"

section \<open>Providers and the service\<close>

text \<open>\<open>{resource_type:?}\<close>.\<close>

fun debug_resource_type :: "resource_type \<Rightarrow> string" where
  "debug_resource_type IBMQuantumSystem = ''IBMQuantumSystem''"
| "debug_resource_type QiskitRuntimeService = ''QiskitRuntimeService''"
| "debug_resource_type IBMQuantumComputeService = ''IBMQuantumComputeService''"
| "debug_resource_type resource_type.PasqalCloud = ''PasqalCloud''"
| "debug_resource_type PasqalLocal = ''PasqalLocal''"
| "debug_resource_type resource_type.AliceBobFelis = ''AliceBobFelis''"
| "debug_resource_type resource_type.IQMServer = ''IQMServer''"
| "debug_resource_type OQTOPUS = ''OQTOPUS''"
| "debug_resource_type resource_type.MaestroLocal = ''MaestroLocal''"

definition c_create_provider ::
    "('r, 'p, 'w) rust_side \<Rightarrow> resource_type \<Rightarrow> config_map \<Rightarrow> ('w, qrmi_error, 'p) prog" where
  "c_create_provider B ty env_map = (case ty of
      QiskitRuntimeService \<Rightarrow> new_runtime_provider B env_map
    | IBMQuantumComputeService \<Rightarrow> new_compute_provider B env_map
    | IBMQuantumSystem \<Rightarrow> new_system_provider B env_map
    | _ \<Rightarrow> throw (UnsupportedResourceType (debug_resource_type ty)))"

definition qrmi_provider_new ::
    "('r, 'p, 'w) rust_side \<Rightarrow> resource_type \<Rightarrow> addr \<Rightarrow> ('r, 'p, 'w, addr) c_prog" where
  "qrmi_provider_new B ty environments =
     (if environments = null then chain (set_last_error ''environments is NULL'') (\<lambda>_. give null)
      else chain (load env_of environments) (\<lambda>e. chain (envvars_to_hashmap e) (\<lambda>em. case em of
          Inl e \<Rightarrow> chain (set_last_error (rs_debug B e)) (\<lambda>_. give null)
        | Inr env_map \<Rightarrow> settle (on_world (prompt (c_create_provider B ty env_map))) (\<lambda>result. case result of
              Inl err \<Rightarrow> chain (record_error err) (\<lambda>_. give null)
            | Inr inner \<Rightarrow> chain (new_runtime B) (\<lambda>_. alloc (ProviderBox inner))))))"

definition qrmi_provider_free :: "addr \<Rightarrow> ('r, 'p, 'w, return_code) c_prog" where
  "qrmi_provider_free ptr =
     (if ptr = null then give NullPointerError
      else chain (free provider_of ptr) (\<lambda>_. give Success))"

text \<open>The filters: a null pointer is none; bytes that are not UTF-8 are an error.\<close>

definition c_filters :: "addr \<Rightarrow> ('r, 'p, 'w, string option option) c_prog" where
  "c_filters filters =
     (if filters = null then give (Some None)
      else chain (load text_of filters) (\<lambda>bytes. case to_str bytes of
          Inr t \<Rightarrow> give (Some (Some t))
        | Inl _ \<Rightarrow> chain (set_last_error ''filters: invalid UTF-8 string'') (\<lambda>_. give None)))"

fun box_handles :: "'r list \<Rightarrow> ('r, 'p, 'w, addr list) c_prog" where
  "box_handles [] = give []"
| "box_handles (r # rs) =
     chain (alloc (HandleBox r)) (\<lambda>a. chain (box_handles rs) (\<lambda>as. give (a # as)))"

text \<open>The handles of a list of resources, given away through \<open>resources_out\<close>.\<close>

definition give_handles :: "addr \<Rightarrow> 'r list \<Rightarrow> ('r, 'p, 'w, return_code) c_prog" where
  "give_handles resources_out rs =
     chain (box_handles rs) (\<lambda>raw_ptrs.
     chain (raw_array HandleArray raw_ptrs) (\<lambda>ptr.
     chain (store resources_of resources_out (ResourcesVar ptr (length rs))) (\<lambda>_. give Success)))"

definition qrmi_provider_resources ::
    "('r, 'p, 'w) rust_side \<Rightarrow> addr \<Rightarrow> addr \<Rightarrow> addr \<Rightarrow> ('r, 'p, 'w, return_code) c_prog" where
  "qrmi_provider_resources B provider filters resources_out =
     (if provider = null \<or> resources_out = null then give NullPointerError
      else chain (c_filters filters) (\<lambda>f. case f of
          None \<Rightarrow> give Error
        | Some filters_opt \<Rightarrow> chain (load provider_of provider) (\<lambda>p.
            settle (on_world (do_resources B p filters_opt)) (\<lambda>result. case result of
              Inr rs \<Rightarrow> give_handles resources_out rs
            | Inl err \<Rightarrow> fail_with err))))"

fun drop_handles :: "addr list \<Rightarrow> ('r, 'p, 'w, unit) c_prog" where
  "drop_handles [] = give ()"
| "drop_handles (p # ps) =
     chain (if p = null then give () else chain (free handle_of p) (\<lambda>_. give ())) (\<lambda>_. drop_handles ps)"

definition qrmi_provider_resources_free :: "addr \<Rightarrow> ('r, 'p, 'w, return_code) c_prog" where
  "qrmi_provider_resources_free resources =
     (if resources = null then give NullPointerError
      else chain (load resources_of resources) (\<lambda>(ptr, len).
           chain (if ptr = null then give ()
                  else chain (read_array handles_of len ptr) (\<lambda>ps.
                       chain (drop_handles ps) (\<lambda>_. free_array handles_of ptr len))) (\<lambda>_.
           chain (store resources_of resources (ResourcesVar null 0)) (\<lambda>_. give Success))))"

definition qrmi_provider_least_busy ::
    "('r, 'p, 'w) rust_side \<Rightarrow> addr \<Rightarrow> addr \<Rightarrow> addr \<Rightarrow> ('r, 'p, 'w, return_code) c_prog" where
  "qrmi_provider_least_busy B provider filters resource_out =
     (if provider = null \<or> resource_out = null then give NullPointerError
      else chain (c_filters filters) (\<lambda>f. case f of
          None \<Rightarrow> give Error
        | Some filters_opt \<Rightarrow> chain (load provider_of provider) (\<lambda>p.
            settle (on_world (do_least_busy B p filters_opt)) (\<lambda>result. case result of
              Inr (Some r) \<Rightarrow> chain (alloc (HandleBox r)) (\<lambda>a.
                              chain (store ptr_of resource_out (PtrVar a)) (\<lambda>_. give Success))
            | Inr None \<Rightarrow> chain (store ptr_of resource_out (PtrVar null)) (\<lambda>_. give Success)
            | Inl err \<Rightarrow> fail_with err))))"

definition qrmi_service_resources ::
    "('r, 'p, 'w) rust_side \<Rightarrow> addr \<Rightarrow> ('r, 'p, 'w, return_code) c_prog" where
  "qrmi_service_resources B resources_out =
     (if resources_out = null then give NullPointerError
      else chain (new_runtime B) (\<lambda>_.
        settle (on_world (\<lambda>w. prompt (service_new (rs_service B) (rs_environ B w)) w)) (\<lambda>result. case result of
          Inr m \<Rightarrow> give_handles resources_out (map (\<lambda>k. the (m k)) (keys_of B m))
        | Inl err \<Rightarrow> fail_with err)))"

definition qrmi_service_resources_free :: "addr \<Rightarrow> ('r, 'p, 'w, return_code) c_prog" where
  "qrmi_service_resources_free resources = qrmi_provider_resources_free resources"

end
