(* ===== verification/CMemory.thy ===== *)
theory CMemory
  imports CBinding
begin

text \<open>
  The memory discipline of the C binding: who owns which allocation, the invariant
  \<open>memory_ok\<close> of the shared memory, and what the steps of the calls (an allocation, a
  write to a variable, the release of a closed set of allocations) do to it.
\<close>

section \<open>Ownership\<close>

text \<open>The allocations that a cell owns: those that its own release frees with it.\<close>

fun owned :: "('r, 'p) cell \<Rightarrow> addr list" where
  "owned (StrArray ps) = ps"
| "owned (HandleArray ps) = ps"
| "owned (PairArray kvs) = pair_parts kvs"
| "owned (DefBox d) = cd_name d # (if cd_length d = 0 then [] else [cd_variables d])"
| "owned (ResourcesVar p n) = (if p = null \<or> n = 0 then [] else [p])"
| "owned _ = []"

text \<open>What a cell says of the allocations it owns.\<close>

fun well_typed :: "(addr \<Rightarrow> ('r, 'p) cell option) \<Rightarrow> ('r, 'p) cell \<Rightarrow> bool" where
  "well_typed h (StrArray ps) \<longleftrightarrow> ps \<noteq> [] \<and> (\<forall>p \<in> set ps. \<exists>b. h p = Some (CStr b))"
| "well_typed h (HandleArray ps) \<longleftrightarrow> ps \<noteq> [] \<and> (\<forall>p \<in> set ps. \<exists>r. h p = Some (HandleBox r))"
| "well_typed h (PairArray kvs) \<longleftrightarrow> (\<forall>p \<in> set (pair_parts kvs). \<exists>b. h p = Some (CStr b))"
| "well_typed h (DefBox d) \<longleftrightarrow> (\<exists>b. h (cd_name d) = Some (CStr b)) \<and>
     (cd_length d \<noteq> 0 \<longrightarrow> (\<exists>kvs. h (cd_variables d) = Some (PairArray kvs) \<and> length kvs = cd_length d))"
| "well_typed h (ResourcesVar p n) \<longleftrightarrow> p = null \<or> n = 0 \<or>
     (\<exists>ps. h p = Some (HandleArray ps) \<and> length ps = n)"
| "well_typed h _ \<longleftrightarrow> True"

definition unowned :: "('r, 'p, 'w) c_state \<Rightarrow> addr \<Rightarrow> bool" where
  "unowned s p \<longleftrightarrow> (\<forall>a c. heap s a = Some c \<longrightarrow> p \<notin> set (owned c))"

definition memory_ok :: "('r, 'p, 'w) c_state \<Rightarrow> bool" where
  "memory_ok s \<longleftrightarrow>
     (\<forall>a. heap s a \<noteq> None \<longrightarrow> (1 \<le> a \<and> a \<le> 3 \<or> 16 \<le> a) \<and> a < brk s) \<and> 16 \<le> brk s
     \<and> (\<forall>x. heap s (qrmi_resource_status_code_to_string x) = Some (Text (status_code_as_str x)))
     \<and> (\<forall>a c. heap s a = Some c \<longrightarrow> well_typed (heap s) c \<and> distinct (owned c))
     \<and> (\<forall>a b c d p. heap s a = Some c \<longrightarrow> heap s b = Some d \<longrightarrow>
          p \<in> set (owned c) \<longrightarrow> p \<in> set (owned d) \<longrightarrow> a = b)"

lemma memory_okD:
  assumes "memory_ok s"
  shows "heap s a = Some c \<Longrightarrow> a < brk s" and "heap s a = Some c \<Longrightarrow> a \<noteq> null"
    and "heap s a = Some c \<Longrightarrow> a \<noteq> dangling" and "16 \<le> brk s"
    and "heap s (qrmi_resource_status_code_to_string x) = Some (Text (status_code_as_str x))"
    and "heap s a = Some c \<Longrightarrow> well_typed (heap s) c" and "heap s a = Some c \<Longrightarrow> distinct (owned c)"
    and "heap s a = Some c \<Longrightarrow> heap s b = Some d \<Longrightarrow> p \<in> set (owned c) \<Longrightarrow> p \<in> set (owned d) \<Longrightarrow> a = b"
proof -
  show "heap s a = Some c \<Longrightarrow> a < brk s" "16 \<le> brk s"
    "heap s (qrmi_resource_status_code_to_string x) = Some (Text (status_code_as_str x))"
    "heap s a = Some c \<Longrightarrow> well_typed (heap s) c" "heap s a = Some c \<Longrightarrow> distinct (owned c)"
    "heap s a = Some c \<Longrightarrow> heap s b = Some d \<Longrightarrow> p \<in> set (owned c) \<Longrightarrow> p \<in> set (owned d) \<Longrightarrow> a = b"
    using assms unfolding memory_ok_def by blast+
  have "1 \<le> q \<and> q \<le> 3 \<or> 16 \<le> q" if "heap s q \<noteq> None" for q
    using assms that by (simp add: memory_ok_def)
  from this [of 0] this [of 8] have "heap s 0 = None" "heap s 8 = None" by fastforce+
  then show "heap s a = Some c \<Longrightarrow> a \<noteq> null" "heap s a = Some c \<Longrightarrow> a \<noteq> dangling"
    by (metis option.distinct(1), metis dangling_def option.distinct(1))
qed

text \<open>Every owned allocation is there, and is a string, a box or an array, never a variable.\<close>

fun ownable :: "('r, 'p) cell \<Rightarrow> bool" where
  "ownable (CStr _) \<longleftrightarrow> True"
| "ownable (HandleBox _) \<longleftrightarrow> True"
| "ownable (HandleArray _) \<longleftrightarrow> True"
| "ownable (PairArray _) \<longleftrightarrow> True"
| "ownable _ \<longleftrightarrow> False"

lemma well_typed_owned: "well_typed h c \<Longrightarrow> p \<in> set (owned c) \<Longrightarrow> \<exists>d. h p = Some d \<and> ownable d"
  by (cases c) (fastforce split: if_splits)+

lemma unowned_variable: "memory_ok s \<Longrightarrow> heap s p = Some c \<Longrightarrow> \<not> ownable c \<Longrightarrow> unowned s p"
  unfolding unowned_def by (metis memory_okD(6) option.inject well_typed_owned)

lemma unowned_fresh: "memory_ok s \<Longrightarrow> brk s \<le> p \<Longrightarrow> unowned s p"
  unfolding unowned_def by (metis leD memory_okD(1,6) well_typed_owned)

text \<open>Only the owned cells of a heap matter to the typing of a cell.\<close>

lemma well_typed_frame:
  assumes "well_typed h c" and "\<And>p. p \<in> set (owned c) \<Longrightarrow> h' p = h p"
  shows "well_typed h' c"
  using assms by (cases c) (auto split: if_splits)

section \<open>The steps\<close>

definition allocated :: "('r, 'p) cell \<Rightarrow> ('r, 'p, 'w) c_state \<Rightarrow> ('r, 'p, 'w) c_state" where
  "allocated c s = s\<lparr>heap := (heap s)(brk s \<mapsto> c), brk := Suc (brk s)\<rparr>"

definition written :: "addr \<Rightarrow> ('r, 'p) cell \<Rightarrow> ('r, 'p, 'w) c_state \<Rightarrow> ('r, 'p, 'w) c_state" where
  "written p c s = s\<lparr>heap := (heap s)(p \<mapsto> c)\<rparr>"

definition released :: "addr set \<Rightarrow> ('r, 'p, 'w) c_state \<Rightarrow> ('r, 'p, 'w) c_state" where
  "released A s = s\<lparr>heap := heap s |` (- A)\<rparr>"

text \<open>A cell may be put in when what it owns is there, of the right type, and unowned.\<close>

definition adoptable :: "('r, 'p, 'w) c_state \<Rightarrow> ('r, 'p) cell \<Rightarrow> bool" where
  "adoptable s c \<longleftrightarrow> well_typed (heap s) c \<and> distinct (owned c) \<and> (\<forall>p \<in> set (owned c). unowned s p)"

lemma memory_ok_put:
  assumes ok: "memory_ok s" and ad: "adoptable s c" and p: "16 \<le> p" "p < b" "brk s \<le> b"
    and old: "heap s p = None \<or> (\<exists>d. heap s p = Some d \<and> \<not> ownable d)"
  shows "memory_ok (s\<lparr>heap := (heap s)(p \<mapsto> c), brk := b\<rparr>)"
proof -
  have other: "q \<noteq> p" if "heap s a = Some d" "q \<in> set (owned d)" for a d q
    using well_typed_owned [OF memory_okD(6) [OF ok that(1)] that(2)] old by auto
  have self: "q \<noteq> p" if "q \<in> set (owned c)" for q
    using well_typed_owned [of "heap s" c q] ad that old by (auto simp: adoptable_def)
  have static: "qrmi_resource_status_code_to_string x \<noteq> p" for x
    using p(1) by (cases x) auto
  show ?thesis
    unfolding memory_ok_def
  proof (intro conjI allI impI)
    fix a assume "heap (s\<lparr>heap := (heap s)(p \<mapsto> c), brk := b\<rparr>) a \<noteq> None"
    then show "1 \<le> a \<and> a \<le> 3 \<or> 16 \<le> a" "a < brk (s\<lparr>heap := (heap s)(p \<mapsto> c), brk := b\<rparr>)"
      using ok p by (auto simp: memory_ok_def split: if_splits)
  next
    show "16 \<le> brk (s\<lparr>heap := (heap s)(p \<mapsto> c), brk := b\<rparr>)"
      using memory_okD(4) [OF ok] p by simp
  next
    fix x
    show "heap (s\<lparr>heap := (heap s)(p \<mapsto> c), brk := b\<rparr>) (qrmi_resource_status_code_to_string x)
        = Some (Text (status_code_as_str x))"
      using memory_okD(5) [OF ok] static by simp
  next
    fix a d assume "heap (s\<lparr>heap := (heap s)(p \<mapsto> c), brk := b\<rparr>) a = Some d"
    then have d: "d = c \<and> a = p \<or> heap s a = Some d" by (auto split: if_splits)
    then show "distinct (owned d)"
      using memory_okD(7) [OF ok] ad by (auto simp: adoptable_def)
    from d have "well_typed (heap s) d"
      using memory_okD(6) [OF ok] ad by (auto simp: adoptable_def)
    then show "well_typed (heap (s\<lparr>heap := (heap s)(p \<mapsto> c), brk := b\<rparr>)) d"
      by (rule well_typed_frame) (use d other self in auto)
  next
    fix a e d f q
    assume "heap (s\<lparr>heap := (heap s)(p \<mapsto> c), brk := b\<rparr>) a = Some d"
      "heap (s\<lparr>heap := (heap s)(p \<mapsto> c), brk := b\<rparr>) e = Some f"
      "q \<in> set (owned d)" "q \<in> set (owned f)"
    then show "a = e"
      using memory_okD(8) [OF ok] ad
      by (auto simp: adoptable_def unowned_def split: if_splits)
  qed
qed

lemma memory_ok_allocated:
  assumes "memory_ok s" and "adoptable s c"
  shows "memory_ok (allocated c s)"
proof -
  have "heap s (brk s) = None"
    using memory_okD(1) [OF assms(1)] by (metis less_irrefl option.exhaust)
  then show ?thesis
    unfolding allocated_def using assms memory_okD(4) [OF assms(1)] by (intro memory_ok_put) auto
qed

lemma adoptable_leaf [simp]: "owned c = [] \<Longrightarrow> well_typed (heap s) c \<Longrightarrow> adoptable s c"
  by (simp add: adoptable_def)

lemma memory_ok_written:
  assumes ok: "memory_ok s" and "adoptable s c" and p: "heap s p = Some d" "\<not> ownable d"
    and var: "\<forall>t. d \<noteq> Text t"
  shows "memory_ok (written p c s)"
proof -
  have "16 \<le> p"
  proof (rule ccontr)
    assume "\<not> 16 \<le> p"
    then have "p = 1 \<or> p = 2 \<or> p = 3"
      using ok p(1) unfolding memory_ok_def by (metis le_antisym le_SucE numeral_2_eq_2 numeral_3_eq_3 One_nat_def option.distinct(1))
    then have "\<exists>x. p = qrmi_resource_status_code_to_string x"
      by (metis qrmi_resource_status_code_to_string.simps)
    then show False using memory_okD(5) [OF ok] p(1) var by auto
  qed
  then have "memory_ok (s\<lparr>heap := (heap s)(p \<mapsto> c), brk := brk s\<rparr>)"
    using assms memory_okD(1) [OF ok p(1)] by (intro memory_ok_put) auto
  then show ?thesis by (simp add: written_def)
qed

text \<open>A set of allocations can go when the owners of its members go with them.\<close>

lemma memory_ok_released:
  assumes ok: "memory_ok s"
    and closed: "\<And>a c p. heap s a = Some c \<Longrightarrow> p \<in> set (owned c) \<Longrightarrow> p \<in> A \<Longrightarrow> a \<in> A"
    and statics: "\<And>x. qrmi_resource_status_code_to_string x \<notin> A"
  shows "memory_ok (released A s)"
proof -
  have wt: "well_typed (heap s |` (- A)) c" if "heap s a = Some c" "a \<notin> A" for a c
    using memory_okD(6) [OF ok that(1)] by (rule well_typed_frame) (use closed that in \<open>auto simp: restrict_map_def\<close>)
  show ?thesis
    using ok wt statics unfolding memory_ok_def released_def
    by (auto simp: restrict_map_def split: if_splits)
qed

section \<open>Safe programs\<close>

text \<open>
  \<open>safe m s P\<close>: \<open>m\<close> has no undefined behaviour from \<open>s\<close>, and when it returns
  (it may also run for ever, or abort the process) \<open>P\<close> holds.
\<close>

definition safe :: "('r, 'p, 'w, 'a) c_prog \<Rightarrow> ('r, 'p, 'w) c_state \<Rightarrow>
    ('a \<Rightarrow> ('r, 'p, 'w) c_state \<Rightarrow> bool) \<Rightarrow> bool" where
  "safe m s P \<longleftrightarrow> yields m s (\<lambda>r s'. case r of Ok a \<Rightarrow> P a s' | Err _ \<Rightarrow> False | Panic \<Rightarrow> True)"

definition points :: "('r, 'p, 'w) c_state \<Rightarrow> (('r, 'p) cell \<Rightarrow> 'a option) \<Rightarrow> addr \<Rightarrow> bool" where
  "points s pick p \<longleftrightarrow> Option.bind (heap s p) pick \<noteq> None"

abbreviation okay :: "('r, 'p, 'w, 'a) c_prog \<Rightarrow> ('r, 'p, 'w) c_state \<Rightarrow> bool" where
  "okay m s \<equiv> safe m s (\<lambda>_. memory_ok)"

named_theorems safety \<open>introduction rules for safe programs\<close>

lemma pointsE:
  assumes "points s pick p"
  obtains c a where "heap s p = Some c" "pick c = Some a"
  using assms by (auto simp: points_def bind_eq_None_conv)

lemma pointsI: "heap s p = Some c \<Longrightarrow> pick c = Some a \<Longrightarrow> points s pick p"
  by (simp add: points_def)

lemma safe_give [safety]: "P a s \<Longrightarrow> safe (give a) s P"
  by (simp add: safe_def lwp)

lemma safe_panic [safety]: "safe (prompt panic) s P"
  by (simp add: safe_def lwp wp)

lemma safe_modify [safety]: "P () (f s) \<Longrightarrow> safe (prompt (modify f)) s P"
  by (simp add: safe_def lwp wp)

lemma safe_chain [safety]: "safe m s (\<lambda>a s'. safe (f a) s' P) \<Longrightarrow> safe (chain m f) s P"
  unfolding safe_def yields_chain by (erule yields_mono) (auto split: outcome.splits)

lemma safe_mono: "safe m s P \<Longrightarrow> (\<And>a s'. P a s' \<Longrightarrow> Q a s') \<Longrightarrow> safe m s Q"
  unfolding safe_def by (erule yields_mono) (auto split: outcome.splits)

lemma safe_load [safety]:
  "points s pick p \<Longrightarrow> (\<And>c a. heap s p = Some c \<Longrightarrow> pick c = Some a \<Longrightarrow> P a s) \<Longrightarrow> safe (load pick p) s P"
  by (erule pointsE) (simp add: safe_def lwp)

lemma safe_alloc [safety]: "P (brk s) (allocated c s) \<Longrightarrow> safe (alloc c) s P"
  by (simp add: safe_def lwp allocated_def)

lemma safe_store [safety]:
  "points s pick p \<Longrightarrow> P () (written p c s) \<Longrightarrow> safe (store pick p c) s P"
  by (erule pointsE) (simp add: safe_def lwp written_def)

lemma released_one: "released {p} s = s\<lparr>heap := (heap s)(p := None)\<rparr>"
  by (simp add: released_def restrict_map_def fun_eq_iff)

lemma safe_free [safety]:
  "points s pick p \<Longrightarrow> (\<And>c a. heap s p = Some c \<Longrightarrow> pick c = Some a \<Longrightarrow> P a (released {p} s)) \<Longrightarrow>
     safe (free pick p) s P"
  by (erule pointsE) (simp add: safe_def lwp released_one)

lemma safe_call [safety]:
  assumes "\<And>a w. safe (f (Inr a)) (s\<lparr>world := w\<rparr>) P" and "\<And>e w. safe (f (Inl e)) (s\<lparr>world := w\<rparr>) P"
  shows "safe (settle (on_world m) f) s P"
  unfolding safe_def yields_settle yields_on_world
  using assms by (auto simp: safe_def yields_def split: outcome.split)

lemma memory_ok_cong: "heap s' = heap s \<Longrightarrow> brk s' = brk s \<Longrightarrow> memory_ok s' = memory_ok s"
  by (simp add: memory_ok_def)

lemma memory_ok_other [simp]:
  "memory_ok (s\<lparr>world := w\<rparr>) = memory_ok s"
  "memory_ok (s\<lparr>last_error := e\<rparr>) = memory_ok s"
  "memory_ok (s\<lparr>last_kind := k\<rparr>) = memory_ok s"
  by (rule memory_ok_cong; simp)+

lemma points_other [simp]:
  "points (s\<lparr>world := w\<rparr>) pick p = points s pick p"
  "points (s\<lparr>last_error := e\<rparr>) pick p = points s pick p"
  "points (s\<lparr>last_kind := k\<rparr>) pick p = points s pick p"
  by (simp_all add: points_def)

lemma points_allocated: "memory_ok s \<Longrightarrow> points s pick p \<Longrightarrow> points (allocated c s) pick p"
  by (erule pointsE) (auto simp: points_def allocated_def dest: memory_okD(1))

lemma points_written: "points s pick p \<Longrightarrow> p \<noteq> q \<or> pick c \<noteq> None \<Longrightarrow> points (written q c s) pick p"
  by (auto simp: points_def written_def)

text \<open>The cells that no other cell owns: the variables, and the boxes other than handles.\<close>

definition standalone :: "(('r, 'p) cell \<Rightarrow> 'a option) \<Rightarrow> bool" where
  "standalone pick \<longleftrightarrow> (\<forall>c a. pick c = Some a \<longrightarrow> \<not> ownable c \<and> (\<forall>t. c \<noteq> Text t))"

lemma standalones [simp]:
  "standalone ptr_of" "standalone bool_of" "standalone type_of" "standalone task_of" "standalone code_of"
  "standalone count_of" "standalone size_of" "standalone resources_of" "standalone config_of"
  "standalone status_of" "standalone capacity_of" "standalone metadata_of" "standalone provider_of"
  "standalone strings_of" "standalone def_of"
  by (auto simp: standalone_def pick_Some)

lemma standalone_unowned: "memory_ok s \<Longrightarrow> standalone pick \<Longrightarrow> points s pick p \<Longrightarrow> unowned s p"
  by (erule pointsE) (auto simp: standalone_def intro: unowned_variable)

lemma memory_ok_stored:
  "memory_ok s \<Longrightarrow> standalone pick \<Longrightarrow> points s pick p \<Longrightarrow> adoptable s c \<Longrightarrow> memory_ok (written p c s)"
  by (erule pointsE) (auto simp: standalone_def intro: memory_ok_written)

lemma memory_ok_stores [safety]:
  "memory_ok s \<Longrightarrow> points s ptr_of p \<Longrightarrow> memory_ok (written p (PtrVar a) s)"
  "memory_ok s \<Longrightarrow> points s bool_of p \<Longrightarrow> memory_ok (written p (BoolVar b) s)"
  "memory_ok s \<Longrightarrow> points s type_of p \<Longrightarrow> memory_ok (written p (TypeVar ty) s)"
  "memory_ok s \<Longrightarrow> points s task_of p \<Longrightarrow> memory_ok (written p (TaskVar ts) s)"
  "memory_ok s \<Longrightarrow> points s code_of p \<Longrightarrow> memory_ok (written p (CodeVar x) s)"
  "memory_ok s \<Longrightarrow> points s count_of p \<Longrightarrow> memory_ok (written p (CountVar n) s)"
  "memory_ok s \<Longrightarrow> points s size_of p \<Longrightarrow> memory_ok (written p (SizeVar m) s)"
  by (rule memory_ok_stored [where pick = ptr_of], simp_all)
    (rule memory_ok_stored [where pick = bool_of], simp_all,
     rule memory_ok_stored [where pick = type_of], simp_all,
     rule memory_ok_stored [where pick = task_of], simp_all,
     rule memory_ok_stored [where pick = code_of], simp_all,
     rule memory_ok_stored [where pick = count_of], simp_all,
     rule memory_ok_stored [where pick = size_of], simp_all)

declare points_allocated [safety]

lemma memory_ok_leaf [safety]:
  "memory_ok s \<Longrightarrow> owned c = [] \<Longrightarrow> well_typed (heap s) c \<Longrightarrow> memory_ok (allocated c s)"
  by (simp add: memory_ok_allocated)

lemma memory_ok_freed:
  assumes ok: "memory_ok s" and p: "unowned s p" "heap s p = Some c" "\<forall>t. c \<noteq> Text t"
  shows "memory_ok (released {p} s)"
proof (rule memory_ok_released [OF ok])
  show "qrmi_resource_status_code_to_string x \<notin> {p}" for x
    using memory_okD(5) [OF ok, of x] p by auto
qed (use p in \<open>auto simp: unowned_def\<close>)

lemma safe_record_error [safety]: "memory_ok s \<Longrightarrow> okay (record_error e) s"
  by (simp add: record_error_def set_last_error_def safety)

lemma safe_set_last_error [safety]: "memory_ok s \<Longrightarrow> okay (set_last_error m) s"
  by (simp add: set_last_error_def safety)

lemma safe_fail_with [safety]: "memory_ok s \<Longrightarrow> okay (fail_with e) s"
  unfolding fail_with_def by (intro safety) (rule safe_mono [OF safe_record_error], auto intro: safety)

lemma safe_hand_out [safety]: "memory_ok s \<Longrightarrow> points s ptr_of outp \<Longrightarrow> okay (hand_out outp v) s"
  unfolding hand_out_def
  by (auto split: option.split intro!: safety points_allocated memory_ok_allocated
      memory_ok_stored [where pick = ptr_of])

end
