(* ===== verification/CSafety.thy ===== *)
theory CSafety
  imports CMemory
begin

text \<open>
  Each exported function is safe: called as its documentation asks, on memory that is
  \<open>memory_ok\<close>, it has no undefined behaviour and leaves the memory so.  The functions
  that allocate or release several cells at once come first.
\<close>

section \<open>Several allocations\<close>

text \<open>\<open>s'\<close> has the cells of \<open>s\<close> and new ones that own nothing.\<close>

definition extends :: "('r, 'p, 'w) c_state \<Rightarrow> ('r, 'p, 'w) c_state \<Rightarrow> bool" where
  "extends s s' \<longleftrightarrow> brk s \<le> brk s' \<and> (\<forall>a < brk s. heap s' a = heap s a)
     \<and> (\<forall>a c. heap s' a = Some c \<longrightarrow> brk s \<le> a \<longrightarrow> owned c = [])"

definition news ::
    "(('r, 'p) cell \<Rightarrow> bool) \<Rightarrow> ('r, 'p, 'w) c_state \<Rightarrow> ('r, 'p, 'w) c_state \<Rightarrow> addr list \<Rightarrow> bool" where
  "news K s s' as \<longleftrightarrow> memory_ok s' \<and> extends s s' \<and> distinct as
     \<and> (\<forall>a \<in> set as. brk s \<le> a \<and> (\<exists>c. heap s' a = Some c \<and> K c))"

lemma extends_refl: "memory_ok s \<Longrightarrow> extends s s"
  by (auto simp: extends_def dest: memory_okD(1))

lemma extends_trans:
  assumes "extends s t" and "extends t u"
  shows "extends s u"
proof -
  have "owned c = []" if "heap u a = Some c" "brk s \<le> a" for a c
    using assms that by (cases "a < brk t") (auto simp: extends_def)
  then show ?thesis using assms by (auto simp: extends_def)
qed

lemma extends_allocated: "memory_ok s \<Longrightarrow> owned c = [] \<Longrightarrow> extends s (allocated c s)"
  by (auto simp: extends_def allocated_def dest: memory_okD(1))

lemma extends_points: "memory_ok s \<Longrightarrow> extends s s' \<Longrightarrow> points s pick p \<Longrightarrow> points s' pick p"
  by (erule pointsE) (auto simp: extends_def points_def dest: memory_okD(1))

lemma extends_heap: "memory_ok s \<Longrightarrow> extends s s' \<Longrightarrow> heap s p = Some c \<Longrightarrow> heap s' p = Some c"
  by (auto simp: extends_def dest: memory_okD(1))

lemma extends_unowned:
  assumes "memory_ok s" and "extends s s'" and "unowned s p"
  shows "unowned s' p"
  unfolding unowned_def
proof (intro allI impI)
  fix a c assume c: "heap s' a = Some c"
  show "p \<notin> set (owned c)"
  proof (cases "a < brk s")
    case True
    with assms(2,3) c show ?thesis by (auto simp: extends_def unowned_def)
  next
    case False
    with assms(2) c show ?thesis by (simp add: extends_def)
  qed
qed

lemma news_unowned: "memory_ok s \<Longrightarrow> news K s s' as \<Longrightarrow> a \<in> set as \<Longrightarrow> unowned s' a"
  by (auto simp: news_def intro: extends_unowned unowned_fresh)

lemma news_Nil: "memory_ok s \<Longrightarrow> news K s s []"
  by (simp add: news_def extends_refl)

lemma news_Cons:
  assumes ok: "memory_ok s" and c: "K c" "owned c = []" "well_typed (heap s) c"
    and n: "news K (allocated c s) s' as"
  shows "news K s s' (brk s # as)"
proof -
  have "memory_ok (allocated c s)" using ok c by (simp add: memory_ok_allocated)
  then have "heap s' (brk s) = Some c"
    using extends_heap n by (fastforce simp: news_def allocated_def)
  then show ?thesis
    using n c extends_trans [OF extends_allocated [OF ok c(2)]]
    by (fastforce simp: news_def allocated_def)
qed

lemma safe_raw_cstring:
  "memory_ok s \<Longrightarrow> (\<And>b. P (brk s) (allocated (CStr b) s)) \<Longrightarrow> safe (raw_cstring b) s P"
  by (auto simp: raw_cstring_def intro!: safety split: option.split)

lemma leaf_string: "memory_ok s \<Longrightarrow> memory_ok (allocated (CStr b) s)"
  by (simp add: memory_ok_allocated)

abbreviation is_string :: "('r, 'p) cell \<Rightarrow> bool" where
  "is_string c \<equiv> \<exists>b. c = CStr b"

abbreviation is_handle :: "('r, 'p) cell \<Rightarrow> bool" where
  "is_handle c \<equiv> \<exists>r. c = HandleBox r"

lemma safe_raw_cstrings:
  "memory_ok s \<Longrightarrow> safe (raw_cstrings bs) s (\<lambda>as s'. news is_string s s' as \<and> length as = length bs)"
proof (induction bs arbitrary: s)
  case Nil
  then show ?case by (auto intro!: safety news_Nil)
next
  case (Cons b bs)
  show ?case
    unfolding raw_cstrings.simps
    by (intro safety safe_raw_cstring Cons.prems safe_mono [OF Cons.IH [OF leaf_string [OF Cons.prems]]])
      (auto intro: news_Cons Cons.prems)
qed

lemma safe_raw_pairs:
  "memory_ok s \<Longrightarrow> safe (raw_pairs kvs) s (\<lambda>ps s'. news is_string s s' (pair_parts ps) \<and> length ps = length kvs)"
proof (induction kvs arbitrary: s)
  case Nil
  then show ?case by (auto intro!: safety news_Nil)
next
  case (Cons kv kvs)
  obtain k v where kv: "kv = (k, v)" by (cases kv)
  note ok = Cons.prems
  show ?case
    unfolding raw_pairs.simps kv
    by (intro safety safe_raw_cstring leaf_string ok safe_mono [OF Cons.IH [OF leaf_string [OF leaf_string [OF ok]]]])
      (auto intro!: news_Cons leaf_string ok)
qed

lemma safe_box_handles:
  "memory_ok s \<Longrightarrow> safe (box_handles rs) s (\<lambda>as s'. news is_handle s s' as \<and> length as = length rs)"
proof (induction rs arbitrary: s)
  case Nil
  then show ?case by (auto intro!: safety news_Nil)
next
  case (Cons r rs)
  have "memory_ok (allocated (HandleBox r) s)" using Cons.prems by (simp add: memory_ok_allocated)
  then show ?case
    unfolding box_handles.simps
    by (intro safety safe_mono [OF Cons.IH]) (auto intro: news_Cons Cons.prems)
qed

section \<open>Arrays that adopt new allocations\<close>

lemma adoptable_news:
  assumes "memory_ok s" and "news K s s' as" and "owned c = as" and "well_typed (heap s') c"
  shows "adoptable s' c"
  using assms news_unowned [OF assms(1,2)] by (auto simp: adoptable_def news_def)

lemma safe_raw_array:
  assumes "memory_ok s" and "news K s s' as" and "as \<noteq> [] \<Longrightarrow> owned (mk xs) = as \<and> well_typed (heap s') (mk xs)"
    and "xs = [] \<longleftrightarrow> as = []"
    and "as = [] \<Longrightarrow> P dangling s'" and "as \<noteq> [] \<Longrightarrow> memory_ok (allocated (mk xs) s') \<Longrightarrow> P (brk s') (allocated (mk xs) s')"
  shows "safe (raw_array mk xs) s' P"
proof -
  have "adoptable s' (mk xs)" if "as \<noteq> []"
    using adoptable_news [OF assms(1,2)] assms(3) that by blast
  then have "memory_ok (allocated (mk xs) s')" if "as \<noteq> []"
    using assms(2) that by (simp add: memory_ok_allocated news_def)
  then show ?thesis
    using assms(4-6) by (auto simp: raw_array_def intro!: safety)
qed

lemma points_news: "memory_ok s \<Longrightarrow> news K s s' as \<Longrightarrow> points s pick p \<Longrightarrow> points s' pick p"
  by (auto simp: news_def intro: extends_points)

lemma size_not_ptr: "points s size_of p \<Longrightarrow> points s ptr_of q \<Longrightarrow> p \<noteq> q"
  by (auto elim!: pointsE simp: pick_Some)

text \<open>The number and the array, given to the caller's two variables.\<close>

lemma safe_give_array:
  assumes "memory_ok s" and "points s size_of num" and "points s ptr_of names"
  shows "okay (chain (store size_of num (SizeVar n)) (\<lambda>_. chain (store ptr_of names (PtrVar raw)) (\<lambda>_. give Success))) s"
proof -
  have "memory_ok (written num (SizeVar n) s)"
    using assms(1,2) by (intro memory_ok_stored [where pick = size_of]) simp_all
  moreover have "points (written num (SizeVar n) s) ptr_of names"
    using assms(3) size_not_ptr [OF assms(2,3)] by (auto intro: points_written)
  ultimately show ?thesis
    using assms(2) by (auto intro!: safety memory_ok_stored [where pick = ptr_of])
qed

lemma safe_give_strings:
  assumes ok: "memory_ok s" and "points s size_of num" and "points s ptr_of names"
  shows "okay (chain (raw_cstrings bs) (\<lambda>raw_ptrs. chain (raw_array StrArray raw_ptrs) (\<lambda>raw.
           chain (store size_of num (SizeVar n)) (\<lambda>_. chain (store ptr_of names (PtrVar raw)) (\<lambda>_. give Success))))) s"
proof (rule safe_chain, rule safe_mono [OF safe_raw_cstrings [OF ok]], elim conjE, rule safe_chain)
  fix as s' assume n: "news is_string s s' as"
  then have p: "points s' size_of num" "points s' ptr_of names" 
    using points_news [OF ok n] assms by blast+
  from n have m: "memory_ok s'" by (simp add: news_def)
  show "safe (raw_array StrArray as) s' (\<lambda>raw s'. okay (chain (store size_of num (SizeVar n))
      (\<lambda>_. chain (store ptr_of names (PtrVar raw)) (\<lambda>_. give Success))) s')"
  proof (rule safe_raw_array [OF ok n])
    show "as \<noteq> [] \<Longrightarrow> owned (StrArray as) = as \<and> well_typed (heap s') (StrArray as)"
      using n by (fastforce simp: news_def)
  qed (use p m in \<open>auto intro!: safe_give_array points_allocated\<close>)
qed

section \<open>Releases of several cells\<close>

lemma released_released: "released A (released B s) = released (B \<union> A) s"
  by (simp add: released_def restrict_map_def fun_eq_iff)

lemma released_empty [simp]: "released {} s = s"
  by (simp add: released_def restrict_map_def)

lemma points_released: "p \<notin> A \<Longrightarrow> points (released A s) pick p = points s pick p"
  by (simp add: points_def released_def)

lemma heap_released: "heap (released A s) p = (if p \<in> A then None else heap s p)"
  by (simp add: released_def)

lemma safe_drop_strings:
  assumes "distinct ps" and "\<forall>p \<in> set ps. p \<noteq> null \<and> points s cstring_of p" and "P () (released (set ps) s)"
  shows "safe (drop_strings ps) s P"
  using assms
proof (induction ps arbitrary: s)
  case (Cons p ps)
  have "released (set (p # ps)) s = released (set ps) (released {p} s)"
    by (simp add: released_released insert_commute)
  moreover have "points (released {p} s) cstring_of q" if "q \<in> set ps" for q
    using Cons.prems(1,2) that by (subst points_released) auto
  ultimately show ?case
    using Cons.prems by (auto intro!: safety Cons.IH)
qed (auto intro: safety)

lemma safe_drop_handles:
  assumes "distinct ps" and "\<forall>p \<in> set ps. p \<noteq> null \<and> points s handle_of p" and "P () (released (set ps) s)"
  shows "safe (drop_handles ps) s P"
  using assms
proof (induction ps arbitrary: s)
  case (Cons p ps)
  have "released (set (p # ps)) s = released (set ps) (released {p} s)"
    by (simp add: released_released insert_commute)
  moreover have "points (released {p} s) handle_of q" if "q \<in> set ps" for q
    using Cons.prems(1,2) that by (subst points_released) auto
  ultimately show ?case
    using Cons.prems by (auto intro!: safety Cons.IH)
qed (auto intro: safety)

lemma safe_read_array:
  assumes "n = 0 \<or> (\<exists>c xs. heap s a = Some c \<and> pick c = Some xs \<and> n \<le> length xs)"
    and "n = 0 \<Longrightarrow> P [] s"
    and "\<And>c xs. heap s a = Some c \<Longrightarrow> pick c = Some xs \<Longrightarrow> n \<le> length xs \<Longrightarrow> n \<noteq> 0 \<Longrightarrow> P (take n xs) s"
  shows "safe (read_array pick n a) s P"
  using assms by (auto simp: read_array_def intro!: safety pointsI)

text \<open>An array with what it owns is a closed set, when it is unowned itself.\<close>

lemma memory_ok_released_array:
  assumes ok: "memory_ok s" and a: "heap s a = Some c" "unowned s a" "\<forall>t. c \<noteq> Text t"
    and leaves: "\<And>p. p \<in> set (owned c) \<Longrightarrow> \<exists>d. heap s p = Some d \<and> owned d = []"
  shows "memory_ok (released (insert a (set (owned c))) s)"
proof (rule memory_ok_released [OF ok])
  show "b \<in> insert a (set (owned c))"
    if "heap s b = Some d" "p \<in> set (owned d)" "p \<in> insert a (set (owned c))" for b d p
    using that a(2) memory_okD(8) [OF ok a(1) that(1)] by (auto simp: unowned_def)
  show "qrmi_resource_status_code_to_string x \<notin> insert a (set (owned c))" for x
    using memory_okD(5) [OF ok, of x] a well_typed_owned [OF memory_okD(6) [OF ok a(1)]] by fastforce
qed

end
