(* ===== verification/CCalls.thy ===== *)
theory CCalls
  imports CSafety
begin

text \<open>
  C programs over the binding: the calls they can make, what the documentation asks of
  their arguments (\<open>call_ok\<close>), and the steps of a program that keeps to it, its own
  variables included.
\<close>

section \<open>The calls\<close>

datatype (plugins only: code) c_call =
    StringFree addr
  | StringArrayFree nat addr
  | GetLastError
  | GetLastErrorKind
  | ConfigLoad addr
  | ConfigFree addr
  | ResourceDefGet addr addr
  | ResourceTypeToStr resource_type
  | ResourceTypeFromStr addr addr
  | ResourceDefFree addr
  | ResourceNamesGet addr addr addr
  | ResourceNew addr resource_type
  | ResourceNewFromConfig addr resource_type addr
  | ResourceFree addr
  | IsAccessible addr addr
  | ResourceStatus addr addr
  | StatusFree addr
  | StatusCode addr addr
  | StatusReason addr
  | StatusHealthy addr addr
  | StatusBusy addr addr
  | StatusPendingJobCount addr addr
  | StatusCapacity addr addr
  | CapacityFree addr
  | ResourceId addr addr
  | ResourceTypeOf addr addr
  | Acquire addr addr
  | Release addr addr
  | TaskStart addr addr addr
  | TaskStop addr addr
  | TaskStatus addr addr addr
  | TaskResult addr addr addr
  | TaskLogs addr addr addr
  | Target addr addr
  | Metadata addr addr
  | MetadataFree addr
  | MetadataValue addr addr
  | MetadataKeys addr addr addr
  | ProviderNew resource_type addr
  | ProviderFree addr
  | ProviderResources addr addr addr
  | ProviderResourcesFree addr
  | ProviderLeastBusy addr addr addr
  | ServiceResources addr
  | ServiceResourcesFree addr

datatype reply = Code return_code | Pointer addr

definition coded :: "('r, 'p, 'w, return_code) c_prog \<Rightarrow> ('r, 'p, 'w, reply) c_prog" where
  "coded m = chain m (\<lambda>c. give (Code c))"

definition pointing :: "('r, 'p, 'w, addr) c_prog \<Rightarrow> ('r, 'p, 'w, reply) c_prog" where
  "pointing m = chain m (\<lambda>a. give (Pointer a))"

primrec c_exec :: "('r, 'p, 'w) rust_side \<Rightarrow> c_call \<Rightarrow> ('r, 'p, 'w, reply) c_prog" where
  "c_exec B (StringFree p) = coded (qrmi_string_free p)"
| "c_exec B (StringArrayFree n p) = coded (qrmi_string_array_free n p)"
| "c_exec B GetLastError = pointing qrmi_get_last_error"
| "c_exec B GetLastErrorKind = coded qrmi_get_last_error_kind"
| "c_exec B (ConfigLoad f) = pointing (qrmi_config_load B f)"
| "c_exec B (ConfigFree p) = coded (qrmi_config_free p)"
| "c_exec B (ResourceDefGet c i) = pointing (qrmi_config_resource_def_get B c i)"
| "c_exec B (ResourceTypeToStr ty) = pointing (qrmi_config_resource_type_to_str ty)"
| "c_exec B (ResourceTypeFromStr p out) = coded (qrmi_config_resource_type_from_str p out)"
| "c_exec B (ResourceDefFree p) = coded (qrmi_config_resource_def_free p)"
| "c_exec B (ResourceNamesGet c n out) = coded (qrmi_config_resource_names_get B c n out)"
| "c_exec B (ResourceNew i ty) = pointing (qrmi_resource_new B i ty)"
| "c_exec B (ResourceNewFromConfig i ty c) = pointing (qrmi_resource_new_from_config B i ty c)"
| "c_exec B (ResourceFree p) = coded (qrmi_resource_free p)"
| "c_exec B (IsAccessible q out) = coded (qrmi_resource_is_accessible B q out)"
| "c_exec B (ResourceStatus q out) = coded (qrmi_resource_status B q out)"
| "c_exec B (StatusFree p) = coded (qrmi_resource_status_free p)"
| "c_exec B (StatusCode p out) = coded (qrmi_resource_status_code p out)"
| "c_exec B (StatusReason p) = pointing (qrmi_resource_status_reason p)"
| "c_exec B (StatusHealthy p out) = coded (qrmi_resource_status_healthy p out)"
| "c_exec B (StatusBusy p out) = coded (qrmi_resource_status_busy p out)"
| "c_exec B (StatusPendingJobCount p out) = coded (qrmi_resource_status_pending_job_count p out)"
| "c_exec B (StatusCapacity p out) = coded (qrmi_resource_status_capacity p out)"
| "c_exec B (CapacityFree p) = coded (qrmi_resource_capacity_free p)"
| "c_exec B (ResourceId q out) = coded (qrmi_resource_id B q out)"
| "c_exec B (ResourceTypeOf q out) = coded (qrmi_resource_type B q out)"
| "c_exec B (Acquire q out) = coded (qrmi_resource_acquire B q out)"
| "c_exec B (Release q t) = coded (qrmi_resource_release B q t)"
| "c_exec B (TaskStart q p out) = coded (qrmi_resource_task_start B q p out)"
| "c_exec B (TaskStop q t) = coded (qrmi_resource_task_stop B q t)"
| "c_exec B (TaskStatus q t out) = coded (qrmi_resource_task_status B q t out)"
| "c_exec B (TaskResult q t out) = coded (qrmi_resource_task_result B q t out)"
| "c_exec B (TaskLogs q t out) = coded (qrmi_resource_task_logs B q t out)"
| "c_exec B (Target q out) = coded (qrmi_resource_target B q out)"
| "c_exec B (Metadata q out) = coded (qrmi_resource_metadata B q out)"
| "c_exec B (MetadataFree p) = coded (qrmi_resource_metadata_free p)"
| "c_exec B (MetadataValue p k) = pointing (qrmi_resource_metadata_value p k)"
| "c_exec B (MetadataKeys p n out) = coded (qrmi_resource_metadata_keys B p n out)"
| "c_exec B (ProviderNew ty e) = pointing (qrmi_provider_new B ty e)"
| "c_exec B (ProviderFree p) = coded (qrmi_provider_free p)"
| "c_exec B (ProviderResources p f out) = coded (qrmi_provider_resources B p f out)"
| "c_exec B (ProviderResourcesFree p) = coded (qrmi_provider_resources_free p)"
| "c_exec B (ProviderLeastBusy p f out) = coded (qrmi_provider_least_busy B p f out)"
| "c_exec B (ServiceResources out) = coded (qrmi_service_resources B out)"
| "c_exec B (ServiceResourcesFree p) = coded (qrmi_service_resources_free p)"

section \<open>What the documentation asks\<close>

text \<open>A pointer that may be null, but otherwise points to a cell of its type.\<close>

definition nullable :: "('r, 'p, 'w) c_state \<Rightarrow> (('r, 'p) cell \<Rightarrow> 'a option) \<Rightarrow> addr \<Rightarrow> bool" where
  "nullable s pick p \<longleftrightarrow> p = null \<or> points s pick p"

text \<open>An environment variable table: its pairs, each null or a string.\<close>

definition env_ok :: "('r, 'p, 'w) c_state \<Rightarrow> addr \<times> nat \<Rightarrow> bool" where
  "env_ok s e \<longleftrightarrow> snd e = 0 \<or> (\<exists>c kvs. heap s (fst e) = Some c \<and> pairs_of c = Some kvs
     \<and> snd e \<le> length kvs \<and> (\<forall>(k, v) \<in> set kvs. nullable s text_of k \<and> nullable s text_of v))"

definition env_arg :: "('r, 'p, 'w) c_state \<Rightarrow> addr \<Rightarrow> bool" where
  "env_arg s p \<longleftrightarrow> p = null \<or> (\<exists>c e. heap s p = Some c \<and> env_of c = Some e \<and> env_ok s e)"

text \<open>Only the payload of Maestro may have null pointers, and IQM's the tag.\<close>

fun payload_ok :: "('r, 'p, 'w) c_state \<Rightarrow> c_payload \<Rightarrow> bool" where
  "payload_ok s (CQiskitPrimitive i p) \<longleftrightarrow> points s text_of i \<and> points s text_of p"
| "payload_ok s (CPasqalCloud q _) \<longleftrightarrow> points s text_of q"
| "payload_ok s (CAliceBobFelis h i) \<longleftrightarrow> points s text_of h \<and> points s text_of i"
| "payload_ok s (CIQMServer j t _ g) \<longleftrightarrow> points s text_of j \<and> points s text_of t \<and> nullable s text_of g"
| "payload_ok s (COqtopus j) \<longleftrightarrow> points s text_of j"
| "payload_ok s (CMaestroLocal i t _ _ _ obs c) \<longleftrightarrow> nullable s text_of i \<and> nullable s text_of t
     \<and> nullable s text_of obs \<and> nullable s text_of c"

definition payload_arg :: "('r, 'p, 'w) c_state \<Rightarrow> addr \<Rightarrow> bool" where
  "payload_arg s p \<longleftrightarrow> p = null \<or> (\<exists>pl. heap s p = Some (PayloadVar pl) \<and> payload_ok s pl)"

text \<open>
  What a call may be given.  A string or a handle that is freed alone must not be part
  of an array or of a definition, which are freed as a whole.  An array of strings is
  freed with its length; that rules out the array of an empty list, which has no
  memory.  \<open>num_names\<close> and \<open>num_keys\<close> must not be null.
\<close>

primrec call_ok :: "('r, 'p, 'w) c_state \<Rightarrow> c_call \<Rightarrow> bool" where
  "call_ok s (StringFree p) \<longleftrightarrow> nullable s cstring_of p \<and> unowned s p"
| "call_ok s (StringArrayFree n p) \<longleftrightarrow> p = null \<or> (\<exists>ps. heap s p = Some (StrArray ps) \<and> n = length ps)"
| "call_ok s GetLastError \<longleftrightarrow> True"
| "call_ok s GetLastErrorKind \<longleftrightarrow> True"
| "call_ok s (ConfigLoad f) \<longleftrightarrow> nullable s text_of f"
| "call_ok s (ConfigFree p) \<longleftrightarrow> nullable s config_of p"
| "call_ok s (ResourceDefGet c i) \<longleftrightarrow> nullable s config_of c \<and> nullable s text_of i"
| "call_ok s (ResourceTypeToStr _) \<longleftrightarrow> True"
| "call_ok s (ResourceTypeFromStr p out) \<longleftrightarrow> nullable s text_of p \<and> nullable s type_of out"
| "call_ok s (ResourceDefFree p) \<longleftrightarrow> nullable s def_of p"
| "call_ok s (ResourceNamesGet c n out) \<longleftrightarrow> nullable s config_of c \<and> points s size_of n \<and> nullable s ptr_of out"
| "call_ok s (ResourceNew i _) \<longleftrightarrow> nullable s text_of i"
| "call_ok s (ResourceNewFromConfig i _ c) \<longleftrightarrow> nullable s text_of i \<and> env_arg s c"
| "call_ok s (ResourceFree p) \<longleftrightarrow> nullable s handle_of p \<and> unowned s p"
| "call_ok s (IsAccessible q out) \<longleftrightarrow> nullable s handle_of q \<and> nullable s bool_of out"
| "call_ok s (ResourceStatus q out) \<longleftrightarrow> nullable s handle_of q \<and> nullable s ptr_of out"
| "call_ok s (StatusFree p) \<longleftrightarrow> nullable s status_of p"
| "call_ok s (StatusCode p out) \<longleftrightarrow> nullable s status_of p \<and> nullable s code_of out"
| "call_ok s (StatusReason p) \<longleftrightarrow> nullable s status_of p"
| "call_ok s (StatusHealthy p out) \<longleftrightarrow> nullable s status_of p \<and> nullable s bool_of out"
| "call_ok s (StatusBusy p out) \<longleftrightarrow> nullable s status_of p \<and> nullable s bool_of out"
| "call_ok s (StatusPendingJobCount p out) \<longleftrightarrow> nullable s status_of p \<and> nullable s count_of out"
| "call_ok s (StatusCapacity p out) \<longleftrightarrow> nullable s status_of p \<and> nullable s ptr_of out"
| "call_ok s (CapacityFree p) \<longleftrightarrow> nullable s capacity_of p"
| "call_ok s (ResourceId q out) \<longleftrightarrow> nullable s handle_of q \<and> nullable s ptr_of out"
| "call_ok s (ResourceTypeOf q out) \<longleftrightarrow> nullable s handle_of q \<and> nullable s type_of out"
| "call_ok s (Acquire q out) \<longleftrightarrow> nullable s handle_of q \<and> nullable s ptr_of out"
| "call_ok s (Release q t) \<longleftrightarrow> nullable s handle_of q \<and> nullable s text_of t"
| "call_ok s (TaskStart q p out) \<longleftrightarrow> nullable s handle_of q \<and> payload_arg s p \<and> nullable s ptr_of out"
| "call_ok s (TaskStop q t) \<longleftrightarrow> nullable s handle_of q \<and> nullable s text_of t"
| "call_ok s (TaskStatus q t out) \<longleftrightarrow> nullable s handle_of q \<and> nullable s text_of t \<and> nullable s task_of out"
| "call_ok s (TaskResult q t out) \<longleftrightarrow> nullable s handle_of q \<and> nullable s text_of t \<and> nullable s ptr_of out"
| "call_ok s (TaskLogs q t out) \<longleftrightarrow> nullable s handle_of q \<and> nullable s text_of t \<and> nullable s ptr_of out"
| "call_ok s (Target q out) \<longleftrightarrow> nullable s handle_of q \<and> points s ptr_of out"
| "call_ok s (Metadata q out) \<longleftrightarrow> nullable s handle_of q \<and> nullable s ptr_of out"
| "call_ok s (MetadataFree p) \<longleftrightarrow> nullable s metadata_of p"
| "call_ok s (MetadataValue p k) \<longleftrightarrow> nullable s metadata_of p \<and> nullable s text_of k"
| "call_ok s (MetadataKeys p n out) \<longleftrightarrow> nullable s metadata_of p \<and> points s size_of n \<and> points s ptr_of out"
| "call_ok s (ProviderNew _ e) \<longleftrightarrow> env_arg s e"
| "call_ok s (ProviderFree p) \<longleftrightarrow> nullable s provider_of p"
| "call_ok s (ProviderResources p f out) \<longleftrightarrow> nullable s provider_of p \<and> nullable s text_of f
     \<and> nullable s resources_of out"
| "call_ok s (ProviderResourcesFree p) \<longleftrightarrow> nullable s resources_of p"
| "call_ok s (ProviderLeastBusy p f out) \<longleftrightarrow> nullable s provider_of p \<and> nullable s text_of f
     \<and> nullable s ptr_of out"
| "call_ok s (ServiceResources out) \<longleftrightarrow> nullable s resources_of out"
| "call_ok s (ServiceResourcesFree p) \<longleftrightarrow> nullable s resources_of p"

text \<open>
  The cells of the C program's own variables, and the steps of a program: it declares a
  variable, assigns one, or calls a function.  A struct of resources starts empty and is
  only written by the library; it is never copied.
\<close>

fun program_cell :: "('r, 'p) cell \<Rightarrow> bool" where
  "program_cell (Text _) \<longleftrightarrow> True"
| "program_cell (PairTable _) \<longleftrightarrow> True"
| "program_cell (PayloadVar _) \<longleftrightarrow> True"
| "program_cell (EnvVar _ _) \<longleftrightarrow> True"
| "program_cell (ResourcesVar p n) \<longleftrightarrow> p = null \<and> n = 0"
| "program_cell (PtrVar _) \<longleftrightarrow> True"
| "program_cell (SizeVar _) \<longleftrightarrow> True"
| "program_cell (CountVar _) \<longleftrightarrow> True"
| "program_cell (BoolVar _) \<longleftrightarrow> True"
| "program_cell (TypeVar _) \<longleftrightarrow> True"
| "program_cell (TaskVar _) \<longleftrightarrow> True"
| "program_cell (CodeVar _) \<longleftrightarrow> True"
| "program_cell _ \<longleftrightarrow> False"

inductive c_step :: "('r, 'p, 'w) rust_side \<Rightarrow> ('r, 'p, 'w) c_state \<Rightarrow> ('r, 'p, 'w) c_state \<Rightarrow> bool"
  for B where
  declares: "program_cell c \<Longrightarrow> c_step B s (allocated c s)"
| assigns: "heap s p = Some d \<Longrightarrow> program_cell d \<Longrightarrow> 16 \<le> p \<Longrightarrow> program_cell c \<Longrightarrow> c_step B s (written p c s)"
| calls: "call_ok s call \<Longrightarrow> c_exec B call s = Some (Ok reply, s') \<Longrightarrow> c_step B s s'"

inductive c_runs :: "('r, 'p, 'w) rust_side \<Rightarrow> ('r, 'p, 'w) c_state \<Rightarrow> ('r, 'p, 'w) c_state \<Rightarrow> bool"
  for B s where
  starts: "c_runs B s s"
| goes_on: "c_runs B s t \<Longrightarrow> c_step B t u \<Longrightarrow> c_runs B s u"

text \<open>The process at its start: the three static strings, no error, any world.\<close>

definition c_start :: "'w \<Rightarrow> ('r, 'p, 'w) c_state" where
  "c_start w = \<lparr>heap = (\<lambda>_. None)(1 \<mapsto> Text ''online'', 2 \<mapsto> Text ''offline'', 3 \<mapsto> Text ''paused''),
     brk = 16, last_error = None, last_kind = error_kind.Other, world = w\<rparr>"

lemma memory_ok_start: "memory_ok (c_start w)"
proof -
  have static: "heap (c_start w) (qrmi_resource_status_code_to_string x) = Some (Text (status_code_as_str x))" for x
    by (cases x) (simp_all add: c_start_def)
  have leaf: "c = Text ''online'' \<or> c = Text ''offline'' \<or> c = Text ''paused''" "1 \<le> a" "a \<le> 3"
    if "heap (c_start w) a = Some c" for a c
    using that by (auto simp: c_start_def split: if_splits)
  then have bound: "1 \<le> a \<and> a \<le> 3" and free: "well_typed (heap (c_start w)) c" "owned c = []"
    if "heap (c_start w) a = Some c" for a c
    using that by fastforce+
  have brk: "brk (c_start w) = 16" by (simp add: c_start_def)
  show ?thesis
    unfolding memory_ok_def brk
  proof (intro conjI allI impI)
    fix a assume "heap (c_start w) a \<noteq> None"
    with bound [of a] have "1 \<le> a \<and> a \<le> 3" by blast
    then show "1 \<le> a \<and> a \<le> 3 \<or> 16 \<le> a" "a < 16" by simp_all
  next
    fix a c assume h: "heap (c_start w) a = Some c"
    show "well_typed (heap (c_start w)) c" "distinct (owned c)"
      using free [OF h] by simp_all
  next
    fix a b c d p assume h: "heap (c_start w) a = Some c" and p: "p \<in> set (owned c)"
    show "a = b" using free(2) [OF h] p by simp
  qed (simp_all add: static)
qed

end
