(* ===== verification/CClient.thy ===== *)
theory CClient
  imports CCalls
begin

text \<open>
  Every exported function is safe when it is called as its documentation asks, and so is
  every C program that keeps to it.
\<close>

section \<open>Every call is safe\<close>

lemma nullableE: "nullable s pick p \<Longrightarrow> p \<noteq> null \<Longrightarrow> points s pick p"
  by (simp add: nullable_def)

lemma safe_coded [safety]: "okay m s \<Longrightarrow> okay (coded m) s"
  unfolding coded_def by (intro safety) (auto elim: safe_mono intro: safety)

lemma safe_pointing [safety]: "okay m s \<Longrightarrow> okay (pointing m) s"
  unfolding pointing_def by (intro safety) (auto elim: safe_mono intro: safety)

lemma okay_then: "okay m s \<Longrightarrow> (\<And>a s'. memory_ok s' \<Longrightarrow> safe (f a) s' P) \<Longrightarrow> safe (chain m f) s P"
  by (rule safe_chain) (erule safe_mono)

text \<open>The steps at the head of a sequence.\<close>

lemma safe_steps:
  "points s pick p \<Longrightarrow> (\<And>a. safe (f a) s P) \<Longrightarrow> safe (chain (load pick p) f) s P"
  "safe (g (brk s)) (allocated c s) P \<Longrightarrow> safe (chain (alloc c) g) s P"
  "points s pick p \<Longrightarrow> safe (h ()) (written p c s) P \<Longrightarrow> safe (chain (store pick p c) h) s P"
  by (rule safe_chain, auto intro: safety)+

text \<open>A failure that gives a null pointer.\<close>

lemma okay_null:
  "memory_ok s \<Longrightarrow> okay (chain (set_last_error m) (\<lambda>_. give null)) s"
  "memory_ok s \<Longrightarrow> okay (chain (record_error e) (\<lambda>_. give null)) s"
  by (rule okay_then; auto intro: safety)+

text \<open>The release of one cell that owns nothing and is not owned.\<close>

lemma okay_free:
  assumes "memory_ok s" and "nullable s pick p" and "p \<noteq> null"
    and "\<And>c. heap s p = Some c \<Longrightarrow> pick c \<noteq> None \<Longrightarrow> unowned s p \<and> (\<forall>t. c \<noteq> Text t)"
  shows "okay (chain (free pick p) (\<lambda>_. give Success)) s"
  using assms by (auto intro!: safety memory_ok_freed dest: nullableE)

lemma okay_box_free:
  assumes "memory_ok s" and "nullable s pick p" and "standalone pick"
  shows "okay (if p = null then give NullPointerError else chain (free pick p) (\<lambda>_. give Success)) s"
proof (cases "p = null")
  case False
  then have "points s pick p" using assms(2) by (rule nullableE [rotated])
  then have "okay (chain (free pick p) (\<lambda>_. give Success)) s"
    using assms False standalone_unowned [OF assms(1,3)]
    by (intro okay_free) (auto simp: standalone_def)
  with False show ?thesis by simp
qed (use assms in \<open>auto intro: safety\<close>)

lemma okay_string_free: "memory_ok s \<Longrightarrow> nullable s cstring_of p \<Longrightarrow> unowned s p \<Longrightarrow> okay (qrmi_string_free p) s"
  by (auto simp: qrmi_string_free_def pick_Some intro: okay_free safety)

lemma okay_resource_free: "memory_ok s \<Longrightarrow> nullable s handle_of p \<Longrightarrow> unowned s p \<Longrightarrow> okay (qrmi_resource_free p) s"
  by (auto simp: qrmi_resource_free_def pick_Some intro: okay_free safety)

lemma okay_frees:
  "memory_ok s \<Longrightarrow> nullable s config_of p \<Longrightarrow> okay (qrmi_config_free p) s"
  "memory_ok s \<Longrightarrow> nullable s status_of p \<Longrightarrow> okay (qrmi_resource_status_free p) s"
  "memory_ok s \<Longrightarrow> nullable s capacity_of p \<Longrightarrow> okay (qrmi_resource_capacity_free p) s"
  "memory_ok s \<Longrightarrow> nullable s metadata_of p \<Longrightarrow> okay (qrmi_resource_metadata_free p) s"
  "memory_ok s \<Longrightarrow> nullable s provider_of p \<Longrightarrow> okay (qrmi_provider_free p) s"
  unfolding qrmi_config_free_def qrmi_resource_status_free_def qrmi_resource_capacity_free_def
    qrmi_resource_metadata_free_def qrmi_provider_free_def
  by (simp_all add: okay_box_free)

section \<open>Reading and writing variables\<close>

lemma okay_status_fields:
  assumes "memory_ok s" and "nullable s status_of p"
  shows "nullable s code_of out \<Longrightarrow> okay (qrmi_resource_status_code p out) s"
    and "nullable s bool_of out \<Longrightarrow> okay (qrmi_resource_status_healthy p out) s"
    and "nullable s bool_of out \<Longrightarrow> okay (qrmi_resource_status_busy p out) s"
    and "nullable s count_of out \<Longrightarrow> okay (qrmi_resource_status_pending_job_count p out) s"
    and "nullable s ptr_of out \<Longrightarrow> okay (qrmi_resource_status_capacity p out) s"
    and "okay (qrmi_resource_status_reason p) s"
  unfolding qrmi_resource_status_code_def qrmi_resource_status_healthy_def qrmi_resource_status_busy_def
    qrmi_resource_status_pending_job_count_def qrmi_resource_status_capacity_def
    qrmi_resource_status_reason_def
  using assms
  by (auto simp: nullable_def intro!: safety split: option.split)

lemma okay_last_error:
  assumes "memory_ok s"
  shows "okay qrmi_get_last_error s" and "okay qrmi_get_last_error_kind s"
proof -
  have "okay (alloc (CStr m)) s" "okay (give null) s" "okay (give (return_code_of_kind (last_kind s))) s" for m
    using assms by (auto intro!: safety)
  then show "okay qrmi_get_last_error s" "okay qrmi_get_last_error_kind s"
    by (auto simp: qrmi_get_last_error_def qrmi_get_last_error_kind_def safe_def yields_def split: option.splits)
qed

section \<open>The resource calls\<close>

lemma okay_resource_calls:
  assumes "memory_ok s" and "nullable s handle_of q"
  shows "nullable s bool_of out \<Longrightarrow> okay (qrmi_resource_is_accessible B q out) s"
    and "nullable s ptr_of out \<Longrightarrow> okay (qrmi_resource_status B q out) s"
    and "nullable s ptr_of out \<Longrightarrow> okay (qrmi_resource_id B q out) s"
    and "nullable s type_of out \<Longrightarrow> okay (qrmi_resource_type B q out) s"
    and "nullable s ptr_of out \<Longrightarrow> okay (qrmi_resource_acquire B q out) s"
    and "points s ptr_of out \<Longrightarrow> okay (qrmi_resource_target B q out) s"
  unfolding qrmi_resource_is_accessible_def qrmi_resource_status_def qrmi_resource_id_def
    qrmi_resource_type_def qrmi_resource_acquire_def qrmi_resource_target_def
  using assms by (auto simp: nullable_def intro!: safety)

lemma okay_task_calls:
  assumes "memory_ok s" and "nullable s handle_of q" and "nullable s text_of t"
  shows "okay (qrmi_resource_release B q t) s"
    and "okay (qrmi_resource_task_stop B q t) s"
    and "nullable s task_of out \<Longrightarrow> okay (qrmi_resource_task_status B q t out) s"
    and "nullable s ptr_of out \<Longrightarrow> okay (qrmi_resource_task_result B q t out) s"
    and "nullable s ptr_of out \<Longrightarrow> okay (qrmi_resource_task_logs B q t out) s"
  unfolding qrmi_resource_release_def qrmi_resource_task_stop_def qrmi_resource_task_status_def
    qrmi_resource_task_result_def qrmi_resource_task_logs_def
  using assms by (auto simp: nullable_def intro!: safety split: sum.split)

section \<open>Configuration\<close>

lemma okay_config_calls:
  assumes "memory_ok s"
  shows "nullable s text_of f \<Longrightarrow> okay (qrmi_config_load B f) s"
    and "okay (qrmi_config_resource_type_to_str ty) s"
    and "nullable s text_of p \<Longrightarrow> nullable s type_of out \<Longrightarrow> okay (qrmi_config_resource_type_from_str p out) s"
proof -
  have load: "okay (\<lambda>s. case g (world s) of
      Inr v \<Rightarrow> alloc (ConfigBox v) s
    | Inl err \<Rightarrow> chain (set_last_error (rs_debug B err)) (\<lambda>_. give null) s) s"
    if "memory_ok s" for g :: "'c \<Rightarrow> string + (string \<rightharpoonup> resource_def)" and s
  proof (cases "g (world s)")
    case (Inl e)
    have "okay (chain (set_last_error (rs_debug B e)) (\<lambda>_. give null)) s"
      using that by (rule okay_null)
    with Inl show ?thesis by (simp add: safe_def yields_def)
  next
    case (Inr v)
    have "okay (alloc (ConfigBox v)) s" using that by (auto intro!: safety)
    with Inr show ?thesis by (simp add: safe_def yields_def)
  qed
  show "nullable s text_of f \<Longrightarrow> okay (qrmi_config_load B f) s"
    unfolding qrmi_config_load_def
    using assms by (auto simp: nullable_def intro!: safety load split: sum.split)
  show "okay (qrmi_config_resource_type_to_str ty) s"
    "nullable s text_of p \<Longrightarrow> nullable s type_of out \<Longrightarrow> okay (qrmi_config_resource_type_from_str p out) s"
    unfolding qrmi_config_resource_type_to_str_def qrmi_config_resource_type_from_str_def
    using assms by (auto simp: nullable_def Let_def intro!: safety split: option.split)
qed

lemma okay_names:
  assumes "memory_ok s" and "points s size_of n"
  shows "nullable s config_of c \<Longrightarrow> nullable s ptr_of out \<Longrightarrow> okay (qrmi_config_resource_names_get B c n out) s"
    and "nullable s metadata_of c \<Longrightarrow> points s ptr_of out \<Longrightarrow> okay (qrmi_resource_metadata_keys B c n out) s"
proof -
  have strings: "safe (load pick c) s (\<lambda>m. okay (chain (raw_cstrings (keys_of B m)) (\<lambda>raw_ptrs.
      chain (raw_array StrArray raw_ptrs) (\<lambda>raw. chain (store size_of n (SizeVar (length (keys_of B m))))
      (\<lambda>_. chain (store ptr_of out (PtrVar raw)) (\<lambda>_. give Success))))))"
    if "points s pick c" "points s ptr_of out" for pick :: "('a, 'b) cell \<Rightarrow> (string \<rightharpoonup> 'd) option"
    using that assms by (intro safe_load safe_give_strings)
  show "nullable s config_of c \<Longrightarrow> nullable s ptr_of out \<Longrightarrow> okay (qrmi_config_resource_names_get B c n out) s"
    "nullable s metadata_of c \<Longrightarrow> points s ptr_of out \<Longrightarrow> okay (qrmi_resource_metadata_keys B c n out) s"
    unfolding qrmi_config_resource_names_get_def qrmi_resource_metadata_keys_def
    using assms(1) strings [of config_of] strings [of metadata_of]
    by (auto simp: nullable_def intro: safe_give safe_chain)
qed

section \<open>Environment variables and constructors\<close>

lemma okay_pairs_to_map:
  "\<forall>(k, v) \<in> set kvs. nullable s text_of k \<and> nullable s text_of v \<Longrightarrow> P s \<Longrightarrow>
     safe (pairs_to_map kvs m) s (\<lambda>_. P)"
proof (induction kvs arbitrary: m)
  case (Cons kv kvs)
  obtain k v where kv: "kv = (k, v)" by (cases kv)
  from Cons show ?case
    by (auto simp: kv nullable_def intro!: safety split: sum.split)
qed (auto intro: safety)

lemma okay_envvars: "memory_ok s \<Longrightarrow> env_ok s e \<Longrightarrow> safe (envvars_to_hashmap e) s (\<lambda>_ s'. s' = s)"
  unfolding envvars_to_hashmap_def env_ok_def
  by (cases e) (force intro!: safe_chain safe_read_array okay_pairs_to_map dest: in_set_takeD)

lemma okay_new_runtime: "P () s \<Longrightarrow> safe (new_runtime B) s P"
  by (auto simp: new_runtime_def safe_def lwp wp yields_def give_step prompt_def panic_def)

lemma okay_new_box:
  "memory_ok s \<Longrightarrow> owned c = [] \<Longrightarrow> well_typed (heap s) c \<Longrightarrow>
     okay (chain (new_runtime B) (\<lambda>_. alloc c)) s"
  by (rule safe_chain, rule okay_new_runtime) (auto intro: safety)

lemma okay_text:
  "points s text_of i \<Longrightarrow> okay m s \<Longrightarrow> (\<And>t. okay (f t) s) \<Longrightarrow>
     okay (chain (load text_of i) (\<lambda>bytes. case to_str bytes of Inl _ \<Rightarrow> m | Inr t \<Rightarrow> f t)) s"
  by (auto intro!: safe_chain safe_load split: sum.split)

lemma okay_resource_new: "memory_ok s \<Longrightarrow> nullable s text_of i \<Longrightarrow> okay (qrmi_resource_new B i ty) s"
  unfolding qrmi_resource_new_def
  by (auto simp: nullable_def intro!: okay_text safe_call okay_null okay_new_box safe_give)

lemma env_argE:
  assumes "env_arg s p" and "p \<noteq> null"
  obtains c e where "heap s p = Some c" "env_of c = Some e" "env_ok s e"
  using assms by (auto simp: env_arg_def)

lemma okay_with_env:
  assumes "memory_ok s" and "env_arg s p" and "p \<noteq> null" and "\<And>r. okay (f r) s"
  shows "okay (chain (load env_of p) (\<lambda>e. chain (envvars_to_hashmap e) f)) s"
proof -
  from assms(2,3) obtain c e where e: "heap s p = Some c" "env_of c = Some e" "env_ok s e"
    by (rule env_argE)
  have "okay (chain (envvars_to_hashmap e) f) s"
    by (rule safe_chain, rule safe_mono [OF okay_envvars [OF assms(1) e(3)]]) (simp add: assms(4))
  moreover have "points s env_of p" using e by (simp add: points_def)
  ultimately show ?thesis
    using e by (intro safe_chain [of "load env_of p"] safe_load) auto
qed

lemma okay_resource_new_from_config:
  assumes "memory_ok s" and "nullable s text_of i" and "env_arg s c"
  shows "okay (qrmi_resource_new_from_config B i ty c) s"
  unfolding qrmi_resource_new_from_config_def
  using assms
  by (auto simp: nullable_def intro!: okay_with_env okay_text safe_call okay_null okay_new_box safe_give
      split: sum.split)

lemma okay_provider_new:
  assumes "memory_ok s" and "env_arg s e"
  shows "okay (qrmi_provider_new B ty e) s"
  unfolding qrmi_provider_new_def
  using assms
  by (auto intro!: okay_with_env safe_call okay_null okay_new_box safe_give split: sum.split)

section \<open>Payloads\<close>

lemma safe_string_or: "nullable s text_of p \<Longrightarrow> (\<And>x. P x s) \<Longrightarrow> safe (string_or p d) s P"
  by (auto simp: string_or_def nullable_def intro!: safety)

lemma safe_required_text: "points s text_of p \<Longrightarrow> (\<And>x. P x s) \<Longrightarrow> safe (required_text p) s P"
  by (auto simp: required_text_def intro!: safety)

lemma safe_some_or_none:
  "safe m s (\<lambda>x s'. case x of None \<Rightarrow> P None s' | Some a \<Rightarrow> safe (f a) s' P) \<Longrightarrow> safe (some_or_none m f) s P"
  unfolding some_or_none_def by (rule safe_chain, erule safe_mono) (auto intro: safety split: option.splits)

lemma safe_payload:
  assumes "payload_ok s p" and "\<And>x. P x s"
  shows "safe (c_payload_to_rust p) s P"
proof (cases p)
  case (CIQMServer j t u g)
  then show ?thesis
    using assms
    by (auto simp: c_payload_to_rust_def iqm_payload_def nullable_def
        intro!: safe_chain safe_required_text safe_give split: option.split)
next
  case (CMaestroLocal i t q sim meth obs c)
  then show ?thesis
    using assms
    by (auto simp: c_payload_to_rust_def payload_from_c_def
        intro!: safe_some_or_none safe_string_or safe_give split: option.split)
qed (use assms in \<open>auto simp: c_payload_to_rust_def intro!: safe_chain safe_required_text safe_give\<close>)

lemma okay_task_start:
  assumes "memory_ok s" and "nullable s handle_of q" and "payload_arg s p" and "nullable s ptr_of out"
  shows "okay (qrmi_resource_task_start B q p out) s"
  unfolding qrmi_resource_task_start_def
  using assms
  by (auto simp: nullable_def payload_arg_def points_def bind_eq_None_conv
      intro!: safe_chain safe_load safe_payload safe_call safe_hand_out safe_fail_with safe_give
      split: option.split)

section \<open>Metadata\<close>

lemma okay_metadata_calls:
  assumes "memory_ok s"
  shows "nullable s handle_of q \<Longrightarrow> nullable s ptr_of out \<Longrightarrow> okay (qrmi_resource_metadata B q out) s"
    and "nullable s metadata_of p \<Longrightarrow> nullable s text_of k \<Longrightarrow> okay (qrmi_resource_metadata_value p k) s"
proof -
  have world: "okay (chain (on_world (\<lambda>w. case g w of (m, w') \<Rightarrow> Some (Ok m, w'))) f) t"
    if "\<And>m w. okay (f m) (t\<lparr>world := w\<rparr>)" for g :: "'c \<Rightarrow> 'd \<times> 'c" and f and t :: "('a, 'b, 'c) c_state"
    using that unfolding safe_def yields_chain yields_on_world
    by (simp add: yields_def split: prod.split)
  show "nullable s handle_of q \<Longrightarrow> nullable s ptr_of out \<Longrightarrow> okay (qrmi_resource_metadata B q out) s"
    unfolding qrmi_resource_metadata_def using assms
    by (auto simp: nullable_def intro!: safe_steps safe_give world memory_ok_stores points_allocated memory_ok_leaf)
  show "nullable s metadata_of p \<Longrightarrow> nullable s text_of k \<Longrightarrow> okay (qrmi_resource_metadata_value p k) s"
    unfolding qrmi_resource_metadata_value_def using assms
    by (auto simp: nullable_def intro!: safe_steps safe_give safe_alloc memory_ok_leaf
        split: sum.split option.split)
qed

section \<open>Providers and the service\<close>

lemma unowned_allocated: "unowned s a \<Longrightarrow> a \<notin> set (owned c) \<Longrightarrow> unowned (allocated c s) a"
  by (auto simp: unowned_def allocated_def)

lemma okay_give_handles:
  assumes ok: "memory_ok s" and out: "points s resources_of out"
  shows "okay (give_handles out rs) s"
  unfolding give_handles_def
proof (rule safe_chain, rule safe_mono [OF safe_box_handles [OF ok]], elim conjE, rule safe_chain)
  fix as s' assume n: "news is_handle s s' as" and len: "length as = length rs"
  from n have ok': "memory_ok s'" by (simp add: news_def)
  have out': "points s' resources_of out" using points_news [OF ok n out] .
  show "safe (raw_array HandleArray as) s'
      (\<lambda>ptr. okay (chain (store resources_of out (ResourcesVar ptr (length rs))) (\<lambda>_. give Success)))"
  proof (rule safe_raw_array [OF ok n])
    show "as \<noteq> [] \<Longrightarrow> owned (HandleArray as) = as \<and> well_typed (heap s') (HandleArray as)"
      using n by (fastforce simp: news_def)
    show "as = [] \<Longrightarrow> okay (chain (store resources_of out (ResourcesVar dangling (length rs))) (\<lambda>_. give Success)) s'"
      using ok' out' len by (auto intro!: safety memory_ok_stored [where pick = resources_of])
  next
    assume ne: "as \<noteq> []" and ok'': "memory_ok (allocated (HandleArray as) s')"
    have "brk s' \<notin> set as"
      using n memory_okD(1) [OF ok'] by (fastforce simp: news_def)
    then have "unowned (allocated (HandleArray as) s') (brk s')"
      using unowned_fresh [OF ok'] by (simp add: unowned_allocated)
    moreover have "well_typed (heap (allocated (HandleArray as) s')) (ResourcesVar (brk s') (length rs))"
      using len by (simp add: allocated_def)
    ultimately have "adoptable (allocated (HandleArray as) s') (ResourcesVar (brk s') (length rs))"
      by (simp add: adoptable_def)
    then show "okay (chain (store resources_of out (ResourcesVar (brk s') (length rs))) (\<lambda>_. give Success))
        (allocated (HandleArray as) s')"
      using ok'' points_allocated [OF ok' out']
      by (intro safe_steps safe_give memory_ok_stored [where pick = resources_of]) simp_all
  qed simp
qed

lemma okay_with_filters:
  assumes "memory_ok s" and "nullable s text_of f" and "\<And>x. okay (g x) s"
  shows "okay (chain (c_filters f) (\<lambda>r. case r of None \<Rightarrow> give Error | Some x \<Rightarrow> g x)) s"
proof (rule safe_chain)
  have bad: "safe (chain (set_last_error m) (\<lambda>_. give None)) s
      (\<lambda>r. okay (case r of None \<Rightarrow> give Error | Some x \<Rightarrow> g x))" for m
    using assms(1) by (intro okay_then [OF safe_set_last_error]) (auto intro!: safe_give)
  show "safe (c_filters f) s (\<lambda>r. okay (case r of None \<Rightarrow> give Error | Some x \<Rightarrow> g x))"
    unfolding c_filters_def using assms bad
    by (auto simp: nullable_def intro!: safe_steps safe_give split: sum.split)
qed

lemma okay_provider_calls:
  assumes "memory_ok s" and "nullable s provider_of p" and "nullable s text_of f"
  shows "nullable s resources_of out \<Longrightarrow> okay (qrmi_provider_resources B p f out) s"
    and "nullable s ptr_of out \<Longrightarrow> okay (qrmi_provider_least_busy B p f out) s"
  unfolding qrmi_provider_resources_def qrmi_provider_least_busy_def
  using assms
  by (auto simp: nullable_def intro!: okay_with_filters safe_steps safe_give safe_call okay_give_handles
      safe_fail_with memory_ok_stores points_allocated memory_ok_leaf split: option.split)

lemma okay_service: "memory_ok s \<Longrightarrow> nullable s resources_of out \<Longrightarrow> okay (qrmi_service_resources B out) s"
  unfolding qrmi_service_resources_def
  by (auto simp: nullable_def intro!: safe_give safe_call okay_give_handles safe_fail_with
      safe_chain [OF okay_new_runtime])

section \<open>Resource definitions\<close>

lemma news_allocated:
  assumes "memory_ok s" and "news K s s' as" and "owned c = []" and "well_typed (heap s') c"
  shows "news K s (allocated c s') as"
proof -
  have ok: "memory_ok s'" using assms(2) by (simp add: news_def)
  then have x: "extends s' (allocated c s')" using assms(3) by (rule extends_allocated)
  with assms ok show ?thesis
    by (auto simp: news_def memory_ok_leaf dest: extends_trans intro: extends_heap)
      (metis extends_heap)
qed

lemma okay_def_box:
  assumes ok: "memory_ok s" and n: "news is_string s s' (pair_parts kvs)" and name: "name = brk s'"
  shows "okay (chain (raw_array PairArray kvs) (\<lambda>variables. alloc (DefBox \<lparr>cd_name = name, cd_type = ty,
           cd_is_dynamic = dyn, cd_variables = variables, cd_length = length kvs\<rparr>))) (allocated (CStr b) s')"
proof (rule safe_chain, rule safe_raw_array [OF ok])
  let ?t = "allocated (CStr b) s'" and ?u = "allocated (PairArray kvs) (allocated (CStr b) s')"
  from n have ok': "memory_ok s'" by (simp add: news_def)
  then have t: "memory_ok ?t" by (simp add: memory_ok_leaf)
  have old: "brk s' \<notin> set (pair_parts kvs)" "Suc (brk s') \<notin> set (pair_parts kvs)"
    using n memory_okD(1) [OF ok'] by (fastforce simp: news_def)+
  show "news is_string s ?t (pair_parts kvs)"
    using ok n by (intro news_allocated) simp_all
  then show "pair_parts kvs \<noteq> [] \<Longrightarrow>
      owned (PairArray kvs) = pair_parts kvs \<and> well_typed (heap ?t) (PairArray kvs)"
    by (fastforce simp: news_def)
  have name': "unowned ?t name" "heap ?t name = Some (CStr b)"
    using unowned_allocated [OF unowned_fresh [OF ok'], of "brk s'" "CStr b"]
    by (simp_all add: name) (simp add: allocated_def)
  show "pair_parts kvs = [] \<Longrightarrow> okay (alloc (DefBox \<lparr>cd_name = name, cd_type = ty, cd_is_dynamic = dyn,
      cd_variables = dangling, cd_length = length kvs\<rparr>)) ?t"
    using t name' by (cases kvs rule: pair_parts.cases)
      (auto intro!: safe_alloc memory_ok_allocated simp: adoptable_def)
  assume ne: "pair_parts kvs \<noteq> []" and u: "memory_ok ?u"
  have "unowned ?u name" "unowned ?u (brk ?t)"
    using name' old unowned_fresh [OF t] by (auto simp: name allocated_def [of "CStr b"] intro!: unowned_allocated)
  moreover have "heap ?u name = Some (CStr b)" "heap ?u (brk ?t) = Some (PairArray kvs)" "name \<noteq> brk ?t"
    by (simp_all add: allocated_def name)
  ultimately show "okay (alloc (DefBox \<lparr>cd_name = name, cd_type = ty, cd_is_dynamic = dyn,
      cd_variables = brk ?t, cd_length = length kvs\<rparr>)) ?u"
    using u by (auto intro!: safe_alloc memory_ok_allocated simp: adoptable_def)
qed (cases kvs rule: pair_parts.cases; simp)

lemma okay_def_get:
  assumes ok: "memory_ok s" and "nullable s config_of c" and "nullable s text_of i"
  shows "okay (qrmi_config_resource_def_get B c i) s"
proof -
  have "okay (chain (raw_pairs kvs) (\<lambda>pairs. chain (raw_cstring nm) (\<lambda>name.
      chain (raw_array PairArray pairs) (\<lambda>variables. alloc (DefBox \<lparr>cd_name = name, cd_type = ty,
        cd_is_dynamic = dyn, cd_variables = variables, cd_length = length pairs\<rparr>))))) s" for kvs nm ty dyn
  proof (rule safe_chain, rule safe_mono [OF safe_raw_pairs [OF ok]], elim conjE, rule safe_chain)
    fix ps s' assume n: "news is_string s s' (pair_parts ps)"
    then have "memory_ok s'" by (simp add: news_def)
    then show "safe (raw_cstring nm) s' (\<lambda>name. okay (chain (raw_array PairArray ps)
        (\<lambda>variables. alloc (DefBox \<lparr>cd_name = name, cd_type = ty, cd_is_dynamic = dyn,
          cd_variables = variables, cd_length = length ps\<rparr>))))"
      by (rule safe_raw_cstring) (rule okay_def_box [OF ok n refl])
  qed
  then show ?thesis
    unfolding qrmi_config_resource_def_get_def using assms
    by (auto simp: nullable_def intro!: safe_steps safe_give split: sum.split option.split)
qed

section \<open>Releases\<close>

lemma safe_known: "heap s p = Some c \<Longrightarrow> pick c = Some a \<Longrightarrow> safe (f a) s P \<Longrightarrow> safe (chain (load pick p) f) s P"
  by (simp add: safe_def yields_def chain_def load_def)

lemma safe_whole_array:
  "heap s p = Some c \<Longrightarrow> pick c = Some xs \<Longrightarrow> safe (f xs) s P \<Longrightarrow>
     safe (chain (read_array pick (length xs) p) f) s P"
  by (rule safe_chain, rule safe_read_array) auto

lemma okay_array_free:
  assumes ok: "memory_ok s" and "p = null \<or> (\<exists>ps. heap s p = Some (StrArray ps) \<and> n = length ps)"
  shows "okay (qrmi_string_array_free n p) s"
proof (cases "p = null")
  case False
  with assms(2) obtain ps where p: "heap s p = Some (StrArray ps)" and n: "n = length ps" by blast
  from memory_okD(6,7) [OF ok p] have ps: "ps \<noteq> []" "distinct ps" and str: "\<forall>q \<in> set ps. \<exists>b. heap s q = Some (CStr b)"
    by simp_all
  then have strs: "\<forall>q \<in> set ps. q \<noteq> null \<and> points s cstring_of q"
    using memory_okD(2) [OF ok] by (auto simp: points_def)
  have "p \<notin> set ps" using str p by fastforce
  then have arr: "points (released (set ps) s) strings_of p" using p by (simp add: points_def heap_released)
  have "memory_ok (released (insert p (set ps)) s)"
    using memory_ok_released_array [OF ok p] str unowned_variable [OF ok p] by fastforce
  then have "memory_ok (released {p} (released (set ps) s))"
    by (simp add: released_released)
  then show ?thesis
    unfolding qrmi_string_array_free_def if_not_P [OF False] n using arr
    by (intro safe_whole_array [OF p] safe_chain [OF safe_drop_strings [OF ps(2) strs]]
        safe_chain [OF safe_free] safe_give) simp_all
qed (auto simp: qrmi_string_array_free_def assms intro: safe_give)

lemma okay_handles_free:
  assumes ok: "memory_ok s" and "nullable s resources_of p"
  shows "okay (qrmi_provider_resources_free p) s"
proof (cases "p = null")
  case False
  with assms(2) obtain a n where p: "heap s p = Some (ResourcesVar a n)"
    by (auto simp: nullable_def pick_Some elim!: pointsE)
  let ?clear = "chain (store resources_of p (ResourcesVar null 0)) (\<lambda>_. give Success)"
  show ?thesis
  proof (cases "a = null \<or> n = 0")
    case True
    then have "okay ?clear s"
      using ok p by (intro safe_steps safe_give memory_ok_stored [where pick = resources_of])
        (auto simp: points_def)
    moreover have "safe (if a = null then give () else chain (read_array handles_of n a)
        (\<lambda>ps. chain (drop_handles ps) (\<lambda>_. free_array handles_of a n))) s (\<lambda>_ s'. s' = s)"
      using True by (auto simp: read_array_def free_array_def intro!: safe_chain safe_give)
    ultimately show ?thesis
      unfolding qrmi_provider_resources_free_def if_not_P [OF False]
      by (intro safe_known [OF p], simp, simp only: prod.case)
        (rule safe_chain, erule safe_mono, simp)
  next
    case used: False
    from memory_okD(6) [OF ok p] used obtain ps where a: "heap s a = Some (HandleArray ps)" and n: "n = length ps"
      by auto
    from memory_okD(6,7) [OF ok a] have ps: "distinct ps" and hs: "\<forall>q \<in> set ps. \<exists>r. heap s q = Some (HandleBox r)"
      by simp_all
    then have handles: "\<forall>q \<in> set ps. q \<noteq> null \<and> points s handle_of q"
      using memory_okD(2) [OF ok] by (auto simp: points_def)
    have out: "a \<notin> set ps" "p \<notin> set ps" "p \<noteq> a" using hs a p by fastforce+
    let ?c = "written p (ResourcesVar null 0) s"
    have c: "memory_ok ?c"
      using ok p by (intro memory_ok_stored [where pick = resources_of]) (auto simp: points_def)
    have ua: "unowned ?c a"
      using memory_okD(8) [OF ok p, of _ _ a] used by (auto simp: unowned_def written_def)
    have ca: "heap ?c a = Some (HandleArray ps)" "\<forall>q \<in> set ps. heap ?c q = heap s q"
      using a out by (auto simp: written_def)
    have "memory_ok (released (insert a (set ps)) ?c)"
      using memory_ok_released_array [OF c ca(1) ua] hs ca(2) by fastforce
    moreover have "released (insert a (set ps)) ?c = written p (ResourcesVar null 0) (released {a} (released (set ps) s))"
      using out by (auto simp: released_released released_def written_def restrict_map_def fun_eq_iff)
    ultimately have "okay ?clear (released {a} (released (set ps) s))"
      using p out by (intro safe_steps safe_give) (auto simp: heap_released points_def)
    then have "okay (chain (chain (read_array handles_of n a) (\<lambda>ps. chain (drop_handles ps)
        (\<lambda>_. free_array handles_of a n))) (\<lambda>_. ?clear)) s"
      unfolding n using a out used n
      by (intro safe_chain [of "chain _ _"] safe_whole_array [OF a] safe_chain [OF safe_drop_handles [OF ps handles]])
        (auto simp: free_array_def heap_released points_def intro!: safe_chain [OF safe_free] safe_give)
    with used show ?thesis
      unfolding qrmi_provider_resources_free_def if_not_P [OF False]
      by (intro safe_known [OF p, of resources_of "(a, n)"]) simp_all
  qed
qed (auto simp: qrmi_provider_resources_free_def assms intro: safe_give)

lemma memory_ok_released_def:
  assumes ok: "memory_ok s" and d: "heap s p = Some (DefBox d)"
    and v: "cd_length d \<noteq> 0 \<Longrightarrow> heap s (cd_variables d) = Some (PairArray kvs)" and n: "length kvs = cd_length d"
  shows "memory_ok (released ({cd_name d} \<union> set (pair_parts kvs) \<union>
           (if cd_length d = 0 then {} else {cd_variables d}) \<union> {p}) s)" (is "memory_ok (released ?A s)")
proof (rule memory_ok_released [OF ok])
  fix a c q assume a: "heap s a = Some c" "q \<in> set (owned c)" and q: "q \<in> ?A"
  have "unowned s p" using unowned_variable [OF ok d] by simp
  then have "q \<noteq> p" using a by (auto simp: unowned_def)
  moreover have "a = p" if "q \<in> set (owned (DefBox d))"
    using memory_okD(8) [OF ok a(1) d a(2)] that by simp
  moreover have "a = cd_variables d" if "q \<in> set (pair_parts kvs)" "cd_length d \<noteq> 0"
    using memory_okD(8) [OF ok a(1) v a(2)] that by simp
  moreover have "pair_parts kvs = []" if "cd_length d = 0" using that n by simp
  ultimately show "a \<in> ?A" using q by (auto split: if_splits)
next
  fix x :: resource_status_code
  let ?x = "qrmi_resource_status_code_to_string x"
  have x: "heap s ?x = Some (Text (status_code_as_str x))" using memory_okD(5) [OF ok] .
  have "heap s (cd_name d) \<noteq> Some (Text t)" "cd_length d \<noteq> 0 \<Longrightarrow> heap s (cd_variables d) \<noteq> Some (Text t)" for t
    using memory_okD(6) [OF ok d] v by auto
  moreover have "\<exists>e. heap s q = Some e \<and> ownable e" if "q \<in> set (pair_parts kvs)" "cd_length d \<noteq> 0" for q
    using well_typed_owned [OF memory_okD(6) [OF ok v [OF that(2)]], of q] that(1) by simp
  moreover have "pair_parts kvs = []" if "cd_length d = 0" using that n by simp
  ultimately show "?x \<notin> ?A" using x d by (fastforce split: if_splits)
qed

lemma safe_free_array:
  "(n = 0 \<Longrightarrow> P () s) \<Longrightarrow> (n \<noteq> 0 \<Longrightarrow> points s pick p) \<Longrightarrow> (n \<noteq> 0 \<Longrightarrow> P () (released {p} s)) \<Longrightarrow>
     safe (free_array pick p n) s P"
  by (auto simp: free_array_def intro!: safe_chain [OF safe_free] safe_give)

lemma okay_def_free:
  assumes ok: "memory_ok s" and "nullable s def_of p"
  shows "okay (qrmi_config_resource_def_free p) s"
proof (cases "p = null")
  case False
  with assms(2) obtain d where d: "heap s p = Some (DefBox d)"
    by (auto simp: nullable_def pick_Some elim!: pointsE)
  from memory_okD(6) [OF ok d] obtain b where name: "heap s (cd_name d) = Some (CStr b)" by auto
  obtain kvs where v: "cd_length d \<noteq> 0 \<Longrightarrow> heap s (cd_variables d) = Some (PairArray kvs)"
    and n: "length kvs = cd_length d"
    using memory_okD(6) [OF ok d] by (cases "cd_length d = 0") auto
  have parts: "distinct (pair_parts kvs)" "\<forall>q \<in> set (pair_parts kvs). \<exists>b. heap s q = Some (CStr b)"
      "cd_name d \<notin> set (pair_parts kvs)"
    using memory_okD(6,7) [OF ok v] n memory_okD(8) [OF ok d v, of "cd_name d"] d v
    by (cases "cd_length d = 0"; force)+
  let ?s1 = "released {cd_name d} s" and ?B = "{cd_name d} \<union> set (pair_parts kvs)"
  have strs: "\<forall>q \<in> set (pair_parts kvs). q \<noteq> null \<and> points ?s1 cstring_of q"
    using parts memory_okD(2) [OF ok] by (fastforce simp: points_def heap_released)
  have nm: "\<forall>q \<in> set [cd_name d]. q \<noteq> null \<and> points s cstring_of q"
    using name memory_okD(2) [OF ok] by (auto simp: points_def)
  have v1: "cd_length d \<noteq> 0 \<Longrightarrow> heap ?s1 (cd_variables d) = Some (PairArray kvs)"
    using v name by (auto simp: heap_released)
  have v2: "cd_length d \<noteq> 0 \<Longrightarrow> cd_variables d \<notin> ?B" using v name parts(2) by fastforce
  have p2: "p \<notin> ?B" "cd_length d \<noteq> 0 \<Longrightarrow> p \<noteq> cd_variables d" using d v name parts(2) by fastforce+
  let ?C = "if cd_length d = 0 then {} else {cd_variables d}"
  have last: "okay (chain (free def_of p) (\<lambda>_. give Success)) (released (?B \<union> ?C) s)"
    using memory_ok_released_def [OF ok d v n] p2 d
    by (intro safe_chain [OF safe_free] safe_give) (auto simp: points_def heap_released released_released)
  have mid: "okay (chain (free_array own_pairs_of (cd_variables d) (cd_length d)) (\<lambda>_. chain (free def_of p)
      (\<lambda>_. give Success))) (released ?B s)"
    using last v v2
    by (intro safe_chain [OF safe_free_array]) (auto simp: points_def heap_released released_released)
  then have rest: "okay (chain (drop_strings (pair_parts kvs)) (\<lambda>_. chain (free_array own_pairs_of (cd_variables d) (cd_length d))
      (\<lambda>_. chain (free def_of p) (\<lambda>_. give Success)))) ?s1"
    by (intro safe_chain [OF safe_drop_strings [OF parts(1) strs]]) (simp add: released_released)
  have "okay (chain (read_array pairs_of (cd_length d) (cd_variables d)) (\<lambda>pairs. chain (drop_strings (pair_parts pairs))
      (\<lambda>_. chain (free_array own_pairs_of (cd_variables d) (cd_length d)) (\<lambda>_. chain (free def_of p)
      (\<lambda>_. give Success))))) ?s1"
    using rest v1 n by (intro safe_chain [OF safe_read_array]) auto
  then show ?thesis
    unfolding qrmi_config_resource_def_free_def if_not_P [OF False]
    by (intro safe_known [OF d, of def_of d] safe_chain [OF safe_drop_strings [OF _ nm]]) simp_all
qed (auto simp: qrmi_config_resource_def_free_def assms intro: safe_give)

section \<open>Every program\<close>

lemmas okay_calls = okay_string_free okay_resource_free okay_frees okay_status_fields okay_last_error
  okay_resource_calls okay_task_calls okay_config_calls okay_names okay_resource_new
  okay_resource_new_from_config okay_provider_new okay_task_start okay_metadata_calls
  okay_provider_calls okay_service okay_def_get okay_array_free okay_handles_free okay_def_free

lemma okay_exec:
  assumes "memory_ok s" and "call_ok s call"
  shows "okay (c_exec B call) s"
  using assms
  by (cases call) (auto intro!: safe_coded safe_pointing okay_calls simp: qrmi_service_resources_free_def)

lemma program_cell_leaf: "program_cell c \<Longrightarrow> owned c = [] \<and> well_typed h c \<and> \<not> ownable c"
  by (cases c) auto

lemma memory_ok_step: "c_step B s s' \<Longrightarrow> memory_ok s \<Longrightarrow> memory_ok s'"
proof (induction rule: c_step.induct)
  case (declares c s)
  then show ?case using program_cell_leaf [of c] by (simp add: memory_ok_leaf)
next
  case (assigns s p d c)
  then have "memory_ok (s\<lparr>heap := (heap s)(p \<mapsto> c), brk := brk s\<rparr>)"
    using program_cell_leaf [of c] program_cell_leaf [of d] memory_okD(1)
    by (intro memory_ok_put) auto
  then show ?case by (simp add: written_def)
next
  case (calls s call reply s')
  then show ?case using okay_exec [of s call B] by (auto simp: safe_def yields_def)
qed

lemma memory_ok_runs: "c_runs B s t \<Longrightarrow> memory_ok s \<Longrightarrow> memory_ok t"
  by (induction rule: c_runs.induct) (auto intro: memory_ok_step)


end
