(* ===== verification/CRefine.thy ===== *)
theory CRefine
  imports CClient
begin

text \<open>
  The C calls on a handle refine the operations of the trait \<open>QuantumResource\<close>: a
  program's calls, whatever else it does in between, perform on the Rust side exactly
  the operations they stand for, in order, and report each outcome through the return
  code, the variable of the caller and the last error.
\<close>

section \<open>The abstract machine\<close>

datatype trait_op =
    OpAccessible | OpStatus | OpId | OpType | OpAcquire | OpRelease string | OpStart payload
  | OpStop string | OpTask string | OpResult string | OpLogs string | OpTarget | OpMetadata

datatype trait_value =
    VBool bool | VStatus resource_status | VString string | VType resource_type | VUnit
  | VTask task_status | VMap "string \<rightharpoonup> string"

definition valued :: "('a \<Rightarrow> trait_value) \<Rightarrow> ('w, qrmi_error, 'a) loop_prog \<Rightarrow> ('w, qrmi_error, trait_value) loop_prog" where
  "valued f m = chain m (\<lambda>a. prompt (ret (f a)))"

fun trait_run :: "('r, 'p, 'w) rust_side \<Rightarrow> 'r \<Rightarrow> trait_op \<Rightarrow> ('w, qrmi_error, trait_value) loop_prog" where
  "trait_run B r OpAccessible = valued VBool (do_is_accessible B r)"
| "trait_run B r OpStatus = valued VStatus (do_status B r)"
| "trait_run B r OpId = valued VString (do_resource_id B r)"
| "trait_run B r OpType = valued VType (do_resource_type B r)"
| "trait_run B r OpAcquire = valued VString (do_acquire B r)"
| "trait_run B r (OpRelease t) = valued (\<lambda>_. VUnit) (do_release B r t)"
| "trait_run B r (OpStart p) = valued VString (do_task_start B r p)"
| "trait_run B r (OpStop t) = valued (\<lambda>_. VUnit) (do_task_stop B r t)"
| "trait_run B r (OpTask t) = valued VTask (do_task_status B r t)"
| "trait_run B r (OpResult t) = valued VString (do_task_result B r t)"
| "trait_run B r (OpLogs t) = valued VString (do_task_logs B r t)"
| "trait_run B r OpTarget = valued VString (do_target B r)"
| "trait_run B r OpMetadata = valued VMap (\<lambda>w. case do_metadata B r w of (m, w') \<Rightarrow> Some (Ok m, w'))"

section \<open>What a call stands for\<close>

definition at :: "('r, 'p, 'w) c_state \<Rightarrow> (('r, 'p) cell \<Rightarrow> 'a option) \<Rightarrow> addr \<Rightarrow> 'a option" where
  "at s pick p = (if p = null then None else Option.bind (heap s p) pick)"

text \<open>A string argument: not null and UTF-8.\<close>

definition text_at :: "('r, 'p, 'w) c_state \<Rightarrow> addr \<Rightarrow> string option" where
  "text_at s p = (case at s text_of p of
      Some b \<Rightarrow> if utf8_ok (map byte b) then Some b else None
    | None \<Rightarrow> None)"

text \<open>The payload as the resource gets it.\<close>

fun payload_at :: "('r, 'p, 'w) c_state \<Rightarrow> c_payload \<Rightarrow> payload option" where
  "payload_at s (CQiskitPrimitive i p) = both (text_at s i) (text_at s p) QiskitPrimitive"
| "payload_at s (CPasqalCloud q n) = map_option (\<lambda>t. payload.PasqalCloud t n) (text_at s q)"
| "payload_at s (CAliceBobFelis h i) = both (text_at s h) (text_at s i) payload.AliceBobFelis"
| "payload_at s (CIQMServer j t u g) =
     both (text_at s j) (text_at s t) (\<lambda>a b. payload.IQMServer a b (Some (u = 1)) (text_at s g))"
| "payload_at s (COqtopus j) = map_option payload.Oqtopus (text_at s j)"
| "payload_at s (CMaestroLocal i t q sim meth obs c) =
     (case (text_at s i, text_at s t, if obs = null then Some [] else text_at s obs,
            if c = null then Some ''{}'' else text_at s c) of
        (Some a, Some b, Some d, Some e) \<Rightarrow> Some (payload.MaestroLocal a b q sim meth d e)
      | _ \<Rightarrow> None)"

definition on_handle :: "('r, 'p, 'w) c_state \<Rightarrow> addr \<Rightarrow> bool \<Rightarrow> trait_op option \<Rightarrow> ('r \<times> trait_op) option" where
  "on_handle s q out_ok o1 = (case (at s handle_of q, o1) of
      (Some r, Some x) \<Rightarrow> if out_ok then Some (r, x) else None
    | _ \<Rightarrow> None)"

definition out_at :: "('r, 'p, 'w) c_state \<Rightarrow> (('r, 'p) cell \<Rightarrow> 'a option) \<Rightarrow> addr \<Rightarrow> bool" where
  "out_at s pick p \<longleftrightarrow> at s pick p \<noteq> None"

text \<open>
  The operation of a call, when its handle, its strings and the caller's variable are
  in order; \<open>None\<close> for the other calls, and for calls that are refused before they
  reach the resource.
\<close>

definition meaning :: "('r, 'p, 'w) c_state \<Rightarrow> c_call \<Rightarrow> ('r \<times> trait_op) option" where
  "meaning s call = (case call of
      IsAccessible q out \<Rightarrow> on_handle s q (out_at s bool_of out) (Some OpAccessible)
    | ResourceStatus q out \<Rightarrow> on_handle s q (out_at s ptr_of out) (Some OpStatus)
    | ResourceId q out \<Rightarrow> on_handle s q (out_at s ptr_of out) (Some OpId)
    | ResourceTypeOf q out \<Rightarrow> on_handle s q (out_at s type_of out) (Some OpType)
    | Acquire q out \<Rightarrow> on_handle s q (out_at s ptr_of out) (Some OpAcquire)
    | Release q t \<Rightarrow> on_handle s q True (map_option OpRelease (text_at s t))
    | TaskStart q p out \<Rightarrow> on_handle s q (out_at s ptr_of out)
        (map_option OpStart (Option.bind (at s payload_of p) (payload_at s)))
    | TaskStop q t \<Rightarrow> on_handle s q True (map_option OpStop (text_at s t))
    | TaskStatus q t out \<Rightarrow> on_handle s q (out_at s task_of out) (map_option OpTask (text_at s t))
    | TaskResult q t out \<Rightarrow> on_handle s q (out_at s ptr_of out) (map_option OpResult (text_at s t))
    | TaskLogs q t out \<Rightarrow> on_handle s q (out_at s ptr_of out) (map_option OpLogs (text_at s t))
    | Target q out \<Rightarrow> on_handle s q (out_at s ptr_of out) (Some OpTarget)
    | Metadata q out \<Rightarrow> on_handle s q (out_at s ptr_of out) (Some OpMetadata)
    | _ \<Rightarrow> None)"

section \<open>What the caller reads back\<close>

fun value_of :: "('r, 'p) cell \<Rightarrow> trait_value option" where
  "value_of (CStr b) = Some (VString b)"
| "value_of (StatusBox st) = Some (VStatus st)"
| "value_of (MetadataBox m) = Some (VMap m)"
| "value_of _ = None"

text \<open>Through the pointer in the caller's variable.\<close>

definition pointed :: "('r, 'p, 'w) c_state \<Rightarrow> addr \<Rightarrow> trait_value option" where
  "pointed s out = Option.bind (at s ptr_of out) (\<lambda>a. Option.bind (heap s a) value_of)"

definition read_back :: "('r, 'p, 'w) c_state \<Rightarrow> c_call \<Rightarrow> trait_value option" where
  "read_back s call = (case call of
      IsAccessible q out \<Rightarrow> map_option VBool (at s bool_of out)
    | ResourceStatus q out \<Rightarrow> pointed s out
    | ResourceId q out \<Rightarrow> pointed s out
    | ResourceTypeOf q out \<Rightarrow> map_option VType (at s type_of out)
    | Acquire q out \<Rightarrow> pointed s out
    | Release q t \<Rightarrow> Some VUnit
    | TaskStart q p out \<Rightarrow> pointed s out
    | TaskStop q t \<Rightarrow> Some VUnit
    | TaskStatus q t out \<Rightarrow> map_option VTask (at s task_of out)
    | TaskResult q t out \<Rightarrow> pointed s out
    | TaskLogs q t out \<Rightarrow> pointed s out
    | Target q out \<Rightarrow> pointed s out
    | Metadata q out \<Rightarrow> pointed s out
    | _ \<Rightarrow> None)"

text \<open>
  How the outcome of the operation shows in the reply, the last error and the memory.  A
  string with a NUL in it cannot be returned: then the code is the generic error, and
  the last error is what it was.
\<close>

definition reported ::
    "c_call \<Rightarrow> (qrmi_error, trait_value) outcome \<Rightarrow> ('r, 'p, 'w) c_state \<Rightarrow>
     (misuse, reply) outcome \<Rightarrow> ('r, 'p, 'w) c_state \<Rightarrow> bool" where
  "reported call result s reply s' = (case result of
      Ok v \<Rightarrow> (case v of VString t \<Rightarrow> NUL \<notin> set t | _ \<Rightarrow> True) \<and> reply = Ok (Code Success) \<and> read_back s' call = Some v
        \<or> (\<exists>t. v = VString t \<and> NUL \<in> set t) \<and> reply = Ok (Code Error) \<and> heap s' = heap s
          \<and> last_error s' = last_error s
    | Err e \<Rightarrow> reply = Ok (Code (return_code_of_kind (kind e))) \<and> heap s' = heap s
        \<and> last_error s' = Some (c_message (error_display e)) \<and> last_kind s' = kind e
    | Panic \<Rightarrow> reply = Panic)"

section \<open>One call\<close>

text \<open>The calls below are computed forwards, an outcome at a time.\<close>

declare outcome.case_cong [cong del]

text \<open>
  The shape that every call on a handle has once its arguments are in order: the
  operation, then the value handed to the caller or the error recorded.
\<close>

definition handled ::
    "('w, qrmi_error, 'a) loop_prog \<Rightarrow> ('a \<Rightarrow> ('r, 'p, 'w, return_code) c_prog) \<Rightarrow> ('r, 'p, 'w, reply) c_prog" where
  "handled m f = coded (settle (on_world m) (\<lambda>result. case result of Inr v \<Rightarrow> f v | Inl err \<Rightarrow> fail_with err))"

lemma handled_Ok:
  "m (world s) = Some (Ok v, w) \<Longrightarrow> f v (s\<lparr>world := w\<rparr>) = Some (Ok c, s') \<Longrightarrow>
     handled m f s = Some (Ok (Code c), s')"
  by (simp add: handled_def coded_def settle_def chain_def on_world_def give_step)

lemma handled_Err:
  "m (world s) = Some (Err e, w) \<Longrightarrow>
     handled m f s = Some (Ok (Code (return_code_of_kind (kind e))),
       s\<lparr>world := w, last_kind := kind e, last_error := Some (c_message (error_display e))\<rparr>)"
  by (simp add: handled_def coded_def settle_def chain_def on_world_def fail_with_def record_error_def
      set_last_error_def prompt_def modify_def ret_def give_def)

lemma handled_Panic: "m (world s) = Some (Panic, w) \<Longrightarrow> handled m f s = Some (Panic, s\<lparr>world := w\<rparr>)"
  by (simp add: handled_def coded_def settle_def chain_def on_world_def)

lemma handled_None: "m (world s) = None \<Longrightarrow> handled m f s = None"
  by (simp add: handled_def coded_def settle_def chain_def on_world_def)

lemma valued_simps:
  "m w = None \<Longrightarrow> valued g m w = None"
  "m w = Some (Ok v, w') \<Longrightarrow> valued g m w = Some (Ok (g v), w')"
  "m w = Some (Err e, w') \<Longrightarrow> valued g m w = Some (Err e, w')"
  "m w = Some (Panic, w') \<Longrightarrow> valued g m w = Some (Panic, w')"
  by (simp_all add: valued_def chain_def prompt_def ret_def)

definition agrees ::
    "c_call \<Rightarrow> ('w, qrmi_error, trait_value) loop_prog \<Rightarrow> ('r, 'p, 'w, reply) c_prog \<Rightarrow>
     ('r, 'p, 'w) c_state \<Rightarrow> bool" where
  "agrees call abstract concrete s = (case abstract (world s) of
      None \<Rightarrow> concrete s = None
    | Some (result, w) \<Rightarrow> \<exists>reply s'. concrete s = Some (reply, s') \<and> world s' = w
        \<and> reported call result s reply s')"

lemma handled_agrees:
  assumes ok: "\<And>v w. \<exists>c s'. f v (s\<lparr>world := w\<rparr>) = Some (Ok c, s') \<and> world s' = w
       \<and> reported call (Ok (g v)) s (Ok (Code c)) s'"
  shows "agrees call (valued g m) (handled m f) s"
proof (cases "m (world s)")
  case None
  then show ?thesis by (simp add: agrees_def valued_simps handled_None)
next
  case (Some rw)
  obtain r w where "rw = (r, w)" by (cases rw)
  with Some have m: "m (world s) = Some (r, w)" by simp
  show ?thesis
  proof (cases r)
    case (Ok v)
    from ok [of v w] obtain c s' where f: "f v (s\<lparr>world := w\<rparr>) = Some (Ok c, s')" "world s' = w"
      "reported call (Ok (g v)) s (Ok (Code c)) s'" by blast
    with m Ok have "handled m f s = Some (Ok (Code c), s')" "valued g m (world s) = Some (Ok (g v), w)"
      by (simp_all add: handled_Ok valued_simps)
    with f show ?thesis by (simp add: agrees_def)
  next
    case (Err e)
    with m show ?thesis by (simp add: agrees_def valued_simps handled_Err reported_def)
  next
    case Panic
    with m show ?thesis by (simp add: agrees_def valued_simps handled_Panic reported_def)
  qed
qed

section \<open>Arguments in order\<close>

lemma at_load: "at s pick p = Some a \<Longrightarrow> p \<noteq> null \<and> load pick p s = Some (Ok a, s)"
  by (auto simp: at_def load_def split: if_splits)

lemma coded_load: "at s pick p = Some a \<Longrightarrow> coded (chain (load pick p) f) s = coded (f a) s"
  using at_load [of s pick p a] by (simp add: coded_def chain_def)

lemma coded_step: "m s = Some (Ok a, s) \<Longrightarrow> coded (chain m f) s = coded (f a) s"
  by (simp add: coded_def chain_def)

lemma text_at_Some: "text_at s p = Some b \<longleftrightarrow> at s text_of p = Some b \<and> to_str b = Inr b"
  by (auto simp: text_at_def to_str_Inr split: option.splits if_splits)

lemma coded_text:
  "text_at s p = Some b \<Longrightarrow>
     coded (chain (load text_of p) (\<lambda>bytes. case to_str bytes of Inl _ \<Rightarrow> k | Inr t \<Rightarrow> f t)) s = coded (f b) s"
  by (simp add: text_at_Some coded_load)

lemma on_handle_Some:
  "on_handle s q b o1 = Some (r, x) \<longleftrightarrow> at s handle_of q = Some r \<and> o1 = Some x \<and> b"
  by (auto simp: on_handle_def split: option.splits)

lemma out_at_store:
  assumes "out_at s pick p"
  shows "p \<noteq> null" and "store pick p c (s\<lparr>world := w\<rparr>) = Some (Ok (), written p c (s\<lparr>world := w\<rparr>))"
  using assms by (auto simp: out_at_def at_def store_def written_def split: if_splits option.splits)

lemma written_other [simp]:
  "world (written p c s) = world s" "last_error (written p c s) = last_error s"
  "world (allocated c s) = world s" "last_error (allocated c s) = last_error s"
  by (simp_all add: written_def allocated_def)

lemma at_written: "p \<noteq> null \<Longrightarrow> pick c = Some a \<Longrightarrow> at (written p c s) pick p = Some a"
  by (simp add: at_def written_def)

text \<open>A value stored in the caller's variable, and one boxed and pointed to.\<close>

lemma stored_reported:
  assumes "out_at s pick out" and "pick (mk v) = Some v"
  shows "\<exists>c s'. chain (store pick out (mk v)) (\<lambda>_. give Success) (s\<lparr>world := w\<rparr>) = Some (Ok c, s')
     \<and> world s' = w \<and> c = Success \<and> at s' pick out = Some v"
  using out_at_store [OF assms(1)] assms(2)
  by (simp add: chain_def give_step at_written)

lemma boxed_reported:
  assumes ok: "memory_ok s" and out: "out_at s ptr_of out" and "value_of c = Some v"
  shows "\<exists>x s'. chain (alloc c) (\<lambda>a. chain (store ptr_of out (PtrVar a)) (\<lambda>_. give Success)) (s\<lparr>world := w\<rparr>)
       = Some (Ok x, s') \<and> world s' = w \<and> x = Success \<and> pointed s' out = Some v"
proof -
  let ?t = "allocated c (s\<lparr>world := w\<rparr>)"
  from out obtain a where a: "out \<noteq> null" "heap s out = Some (PtrVar a)"
    by (auto simp: out_at_def at_def bind_eq_Some_conv pick_Some split: if_splits)
  then have fresh: "out \<noteq> brk s" using memory_okD(1) [OF ok] by fastforce
  have "alloc c (s\<lparr>world := w\<rparr>) = Some (Ok (brk s), ?t)" by (simp add: alloc_def allocated_def)
  moreover have "store ptr_of out (PtrVar (brk s)) ?t = Some (Ok (), written out (PtrVar (brk s)) ?t)"
    using a fresh by (simp add: store_def allocated_def written_def)
  moreover have "pointed (written out (PtrVar (brk s)) ?t) out = Some v"
    using a fresh assms(3) by (simp add: pointed_def at_written, simp add: written_def allocated_def)
  ultimately show ?thesis by (simp add: chain_def give_step)
qed

lemma hand_out_reported:
  assumes "memory_ok s" and "out_at s ptr_of out"
  shows "\<exists>c s'. hand_out out v (s\<lparr>world := w\<rparr>) = Some (Ok c, s') \<and> world s' = w
     \<and> (if NUL \<in> set v then c = Error \<and> s' = s\<lparr>world := w\<rparr> else c = Success \<and> pointed s' out = Some (VString v))"
proof (cases "NUL \<in> set v")
  case True
  then show ?thesis by (simp add: hand_out_def cstring_new_def give_step)
next
  case False
  then show ?thesis
    using boxed_reported [OF assms, of "CStr v" "VString v"] by (simp add: hand_out_def cstring_new_def)
qed

section \<open>The calls\<close>

lemma reported_value:
  "(\<And>t. v \<noteq> VString t) \<Longrightarrow>
     reported call (Ok v) s r s' \<longleftrightarrow> r = Ok (Code Success) \<and> read_back s' call = Some v"
  by (cases v) (auto simp: reported_def)

lemma handled_strings:
  fixes s :: "('r, 'p, 'w) c_state"
  assumes "memory_ok s" and "out_at s ptr_of out" and "\<And>s' :: ('r, 'p, 'w) c_state. read_back s' call = pointed s' out"
  shows "agrees call (valued VString m) (handled m (hand_out out)) s"
proof (rule handled_agrees)
  fix v w
  from hand_out_reported [OF assms(1,2), of v w] obtain c s'
    where "hand_out out v (s\<lparr>world := w\<rparr>) = Some (Ok c, s')" "world s' = w"
      "if NUL \<in> set v then c = Error \<and> s' = s\<lparr>world := w\<rparr> else c = Success \<and> pointed s' out = Some (VString v)"
    by blast
  then show "\<exists>c s'. hand_out out v (s\<lparr>world := w\<rparr>) = Some (Ok c, s') \<and> world s' = w
      \<and> reported call (Ok (VString v)) s (Ok (Code c)) s'"
    by (auto simp: reported_def assms(3) split: if_splits)
qed

lemma handled_boxes:
  fixes s :: "('r, 'p, 'w) c_state"
  assumes "memory_ok s" and "out_at s ptr_of out" and "\<And>s' :: ('r, 'p, 'w) c_state. read_back s' call = pointed s' out"
    and "\<And>v. value_of (box v) = Some (g v)" and "\<And>v t. g v \<noteq> VString t"
  shows "agrees call (valued g m) (handled m (\<lambda>v. chain (alloc (box v))
           (\<lambda>a. chain (store ptr_of out (PtrVar a)) (\<lambda>_. give Success)))) s"
proof (rule handled_agrees)
  fix v w
  from boxed_reported [OF assms(1,2), of "box v" "g v" w] assms(3-5)
  show "\<exists>c s'. chain (alloc (box v)) (\<lambda>a. chain (store ptr_of out (PtrVar a)) (\<lambda>_. give Success)) (s\<lparr>world := w\<rparr>)
      = Some (Ok c, s') \<and> world s' = w \<and> reported call (Ok (g v)) s (Ok (Code c)) s'"
    by (auto simp: reported_value)
qed

lemma handled_stores:
  fixes s :: "('r, 'p, 'w) c_state"
  assumes "out_at s pick out" and "\<And>v. pick (mk v) = Some v"
    and "\<And>s' :: ('r, 'p, 'w) c_state. read_back s' call = map_option g (at s' pick out)" and "\<And>v t. g v \<noteq> VString t"
  shows "agrees call (valued g m) (handled m (\<lambda>v. chain (store pick out (mk v)) (\<lambda>_. give Success))) s"
proof (rule handled_agrees)
  fix v w
  from stored_reported [where mk = mk, OF assms(1), of v w] assms(2-4)
  show "\<exists>c s'. chain (store pick out (mk v)) (\<lambda>_. give Success) (s\<lparr>world := w\<rparr>)
      = Some (Ok c, s') \<and> world s' = w \<and> reported call (Ok (g v)) s (Ok (Code c)) s'"
    by (auto simp: reported_value)
qed

lemma handled_units:
  fixes s :: "('r, 'p, 'w) c_state"
  shows "(\<And>s' :: ('r, 'p, 'w) c_state. read_back s' call = Some VUnit) \<Longrightarrow>
     agrees call (valued (\<lambda>_. VUnit) m) (handled m (\<lambda>_. give Success)) s"
  by (rule handled_agrees) (simp add: give_step reported_def)

text \<open>The payload, read.\<close>

lemma required_text_run:
  assumes "memory_ok s" and "points s text_of p"
  shows "required_text p s = Some (Ok (text_at s p), s)"
proof -
  from assms(2) obtain c b where c: "heap s p = Some c" "text_of c = Some b" by (rule pointsE)
  then have "p \<noteq> null" using memory_okD(2) [OF assms(1)] by blast
  with c show ?thesis
    by (cases b rule: to_str_cases)
      (auto simp: required_text_def chain_def load_def give_step text_at_def at_def to_str_Inr [symmetric])
qed

lemma string_or_run:
  "memory_ok s \<Longrightarrow> nullable s text_of p \<Longrightarrow>
     string_or p d s = Some (Ok (if p = null then d else text_at s p), s)"
  using required_text_run [of s p]
  by (auto simp: string_or_def nullable_def required_text_def give_step)

lemma chain_run: "m s = Some (Ok a, s) \<Longrightarrow> chain m f s = f a s"
  by (simp add: chain_def)

lemma payload_run:
  assumes ok: "memory_ok s" and p: "payload_ok s p"
  shows "c_payload_to_rust p s = Some (Ok (payload_at s p), s)"
proof (cases p)
  case (CIQMServer j t u g)
  have "(if g = null then give None else required_text g) s = Some (Ok (text_at s g), s)"
    using required_text_run [OF ok, of g] p CIQMServer
    by (auto simp: nullable_def give_step text_at_def at_def)
  then show ?thesis
    using p CIQMServer required_text_run [OF ok]
    by (auto simp: c_payload_to_rust_def iqm_payload_def chain_run give_step both_def split: option.split)
next
  case (CMaestroLocal i t q sim meth obs c)
  have n: "text_at s null = None" by (simp add: text_at_def at_def)
  have "string_or i None s = Some (Ok (text_at s i), s)" "string_or t None s = Some (Ok (text_at s t), s)"
    using p CMaestroLocal string_or_run [OF ok, of i None] string_or_run [OF ok, of t None] n by auto
  moreover have "string_or obs (Some []) s = Some (Ok (if obs = null then Some [] else text_at s obs), s)"
    "string_or c (Some ''{}'') s = Some (Ok (if c = null then Some ''{}'' else text_at s c), s)"
    using p CMaestroLocal string_or_run [OF ok] by auto
  ultimately show ?thesis
    using CMaestroLocal
    by (auto simp: c_payload_to_rust_def payload_from_c_def some_or_none_def chain_run give_step split: option.split)
qed (use p required_text_run [OF ok] in
    \<open>auto simp: c_payload_to_rust_def chain_run give_step both_def split: option.split\<close>)

section \<open>Refinement\<close>

lemma agrees_by: "concrete s = handled m f s \<Longrightarrow> agrees call abstract (handled m f) s \<Longrightarrow> agrees call abstract concrete s"
  by (cases "abstract (world s)") (simp_all add: agrees_def)

lemma at_null [simp]: "at s pick null = None" "\<not> out_at s pick null" "text_at s null = None"
  by (simp_all add: out_at_def text_at_def at_def)

lemma never_fails:
  "coded (chain (on_world (\<lambda>w. case g w of (m, w') \<Rightarrow> Some (Ok m, w'))) f) s =
     handled (\<lambda>w. case g w of (m, w') \<Rightarrow> Some (Ok m, w')) f s"
  by (cases "g (world s)") (simp add: coded_def handled_def chain_def settle_def on_world_def)

lemma call_refines:
  assumes ok: "memory_ok s" and args: "call_ok s call" and op: "meaning s call = Some (r, x)"
  shows "agrees call (trait_run B r x) (c_exec B call) s"
proof -
  have task: "payload_ok s pl" "payload_at s pl = Some pay"
    if "call = TaskStart q p out" "at s payload_of p = Some pl" "payload_at s pl = Some pay" for q p out pl pay
    using args that by (auto simp: payload_arg_def at_def split: if_splits)
  show ?thesis
  proof (cases call)
    case (IsAccessible q out)
    with op have a: "at s handle_of q = Some r" "x = OpAccessible" "out_at s bool_of out"
      by (auto simp: meaning_def on_handle_Some)
    then have "c_exec B call s = handled (do_is_accessible B r) (\<lambda>v. chain (store bool_of out (BoolVar v)) (\<lambda>_. give Success)) s"
      by (auto simp: IsAccessible qrmi_resource_is_accessible_def handled_def coded_load coded_text)
    then show ?thesis
      unfolding a(2) trait_run.simps
      by (rule agrees_by) (rule handled_stores, use ok a in \<open>auto simp: read_back_def IsAccessible\<close>)
  next
    case (ResourceStatus q out)
    with op have a: "at s handle_of q = Some r" "x = OpStatus" "out_at s ptr_of out"
      by (auto simp: meaning_def on_handle_Some)
    then have "c_exec B call s = handled (do_status B r) (\<lambda>v. chain (alloc (StatusBox v)) (\<lambda>a. chain (store ptr_of out (PtrVar a)) (\<lambda>_. give Success))) s"
      by (auto simp: ResourceStatus qrmi_resource_status_def handled_def coded_load coded_text)
    then show ?thesis
      unfolding a(2) trait_run.simps
      by (rule agrees_by) (rule handled_boxes, use ok a in \<open>auto simp: read_back_def ResourceStatus\<close>)
  next
    case (ResourceId q out)
    with op have a: "at s handle_of q = Some r" "x = OpId" "out_at s ptr_of out"
      by (auto simp: meaning_def on_handle_Some)
    then have "c_exec B call s = handled (do_resource_id B r) (hand_out out) s"
      by (auto simp: ResourceId qrmi_resource_id_def handled_def coded_load coded_text)
    then show ?thesis
      unfolding a(2) trait_run.simps
      by (rule agrees_by) (rule handled_strings, use ok a in \<open>auto simp: read_back_def ResourceId\<close>)
  next
    case (ResourceTypeOf q out)
    with op have a: "at s handle_of q = Some r" "x = OpType" "out_at s type_of out"
      by (auto simp: meaning_def on_handle_Some)
    then have "c_exec B call s = handled (do_resource_type B r) (\<lambda>v. chain (store type_of out (TypeVar v)) (\<lambda>_. give Success)) s"
      by (auto simp: ResourceTypeOf qrmi_resource_type_def handled_def coded_load coded_text)
    then show ?thesis
      unfolding a(2) trait_run.simps
      by (rule agrees_by) (rule handled_stores, use ok a in \<open>auto simp: read_back_def ResourceTypeOf\<close>)
  next
    case (Acquire q out)
    with op have a: "at s handle_of q = Some r" "x = OpAcquire" "out_at s ptr_of out"
      by (auto simp: meaning_def on_handle_Some)
    then have "c_exec B call s = handled (do_acquire B r) (hand_out out) s"
      by (auto simp: Acquire qrmi_resource_acquire_def handled_def coded_load coded_text)
    then show ?thesis
      unfolding a(2) trait_run.simps
      by (rule agrees_by) (rule handled_strings, use ok a in \<open>auto simp: read_back_def Acquire\<close>)
  next
    case (Release q t)
    with op obtain b where a: "at s handle_of q = Some r" "text_at s t = Some b" "x = OpRelease b"
      by (auto simp: meaning_def on_handle_Some)
    then have "c_exec B call s = handled (do_release B r b) (\<lambda>_. give Success) s"
      by (auto simp: Release qrmi_resource_release_def handled_def coded_load coded_text)
    then show ?thesis
      unfolding a(3) trait_run.simps
      by (rule agrees_by) (rule handled_units, use ok a in \<open>auto simp: read_back_def Release\<close>)
  next
    case (TaskStart q p out)
    with op obtain pl pay where a: "at s handle_of q = Some r" "at s payload_of p = Some pl"
        "payload_at s pl = Some pay" "x = OpStart pay" "out_at s ptr_of out"
      by (auto simp: meaning_def on_handle_Some bind_eq_Some_conv)
    have "c_payload_to_rust pl s = Some (Ok (Some pay), s)"
      using payload_run [OF ok] task [OF TaskStart a(2,3)] by simp
    then have "c_exec B call s = handled (do_task_start B r pay) (hand_out out) s"
      using a by (auto simp: TaskStart qrmi_resource_task_start_def handled_def coded_load coded_step)
    then show ?thesis
      unfolding a(4) trait_run.simps
      by (rule agrees_by) (rule handled_strings, use ok a in \<open>auto simp: read_back_def TaskStart\<close>)
  next
    case (TaskStop q t)
    with op obtain b where a: "at s handle_of q = Some r" "text_at s t = Some b" "x = OpStop b"
      by (auto simp: meaning_def on_handle_Some)
    then have "c_exec B call s = handled (do_task_stop B r b) (\<lambda>_. give Success) s"
      by (auto simp: TaskStop qrmi_resource_task_stop_def handled_def coded_load coded_text)
    then show ?thesis
      unfolding a(3) trait_run.simps
      by (rule agrees_by) (rule handled_units, use ok a in \<open>auto simp: read_back_def TaskStop\<close>)
  next
    case (TaskStatus q t out)
    with op obtain b where a: "at s handle_of q = Some r" "text_at s t = Some b" "x = OpTask b" "out_at s task_of out"
      by (auto simp: meaning_def on_handle_Some)
    then have "c_exec B call s = handled (do_task_status B r b) (\<lambda>v. chain (store task_of out (TaskVar v)) (\<lambda>_. give Success)) s"
      by (auto simp: TaskStatus qrmi_resource_task_status_def handled_def coded_load coded_text)
    then show ?thesis
      unfolding a(3) trait_run.simps
      by (rule agrees_by) (rule handled_stores, use ok a in \<open>auto simp: read_back_def TaskStatus\<close>)
  next
    case (TaskResult q t out)
    with op obtain b where a: "at s handle_of q = Some r" "text_at s t = Some b" "x = OpResult b" "out_at s ptr_of out"
      by (auto simp: meaning_def on_handle_Some)
    then have "c_exec B call s = handled (do_task_result B r b) (hand_out out) s"
      by (auto simp: TaskResult qrmi_resource_task_result_def handled_def coded_load coded_text)
    then show ?thesis
      unfolding a(3) trait_run.simps
      by (rule agrees_by) (rule handled_strings, use ok a in \<open>auto simp: read_back_def TaskResult\<close>)
  next
    case (TaskLogs q t out)
    with op obtain b where a: "at s handle_of q = Some r" "text_at s t = Some b" "x = OpLogs b" "out_at s ptr_of out"
      by (auto simp: meaning_def on_handle_Some)
    then have "c_exec B call s = handled (do_task_logs B r b) (hand_out out) s"
      by (auto simp: TaskLogs qrmi_resource_task_logs_def handled_def coded_load coded_text)
    then show ?thesis
      unfolding a(3) trait_run.simps
      by (rule agrees_by) (rule handled_strings, use ok a in \<open>auto simp: read_back_def TaskLogs\<close>)
  next
    case (Target q out)
    with op have a: "at s handle_of q = Some r" "x = OpTarget" "out_at s ptr_of out"
      by (auto simp: meaning_def on_handle_Some)
    then have "c_exec B call s = handled (do_target B r) (hand_out out) s"
      by (auto simp: Target qrmi_resource_target_def handled_def coded_load coded_text)
    then show ?thesis
      unfolding a(2) trait_run.simps
      by (rule agrees_by) (rule handled_strings, use ok a in \<open>auto simp: read_back_def Target\<close>)
  next
    case (Metadata q out)
    with op have a: "at s handle_of q = Some r" "x = OpMetadata" "out_at s ptr_of out"
      by (auto simp: meaning_def on_handle_Some)
    let ?m = "\<lambda>w. case do_metadata B r w of (m, w') \<Rightarrow> Some (Ok m, w')"
    from a have "c_exec B call s = handled ?m (\<lambda>v. chain (alloc (MetadataBox v))
        (\<lambda>a. chain (store ptr_of out (PtrVar a)) (\<lambda>_. give Success))) s"
      by (auto simp: Metadata qrmi_resource_metadata_def coded_load never_fails)
    then show ?thesis
      unfolding a(2) trait_run.simps
      by (rule agrees_by) (rule handled_boxes, use ok a in \<open>auto simp: read_back_def Metadata\<close>)
  qed (use op in \<open>simp_all add: meaning_def\<close>)
qed

section \<open>Calls that do not reach a resource\<close>

text \<open>The calls that build resources, by themselves or through a provider or the service.\<close>

primrec creates :: "c_call \<Rightarrow> bool" where
  "creates (StringFree p) = False"
| "creates (StringArrayFree n p) = False"
| "creates GetLastError = False"
| "creates GetLastErrorKind = False"
| "creates (ConfigLoad f) = False"
| "creates (ConfigFree p) = False"
| "creates (ResourceDefGet c i) = False"
| "creates (ResourceTypeToStr ty) = False"
| "creates (ResourceTypeFromStr p out) = False"
| "creates (ResourceDefFree p) = False"
| "creates (ResourceNamesGet c n out) = False"
| "creates (ResourceNew i ty) = True"
| "creates (ResourceNewFromConfig i ty c) = True"
| "creates (ResourceFree p) = False"
| "creates (IsAccessible q out) = False"
| "creates (ResourceStatus q out) = False"
| "creates (StatusFree p) = False"
| "creates (StatusCode p out) = False"
| "creates (StatusReason p) = False"
| "creates (StatusHealthy p out) = False"
| "creates (StatusBusy p out) = False"
| "creates (StatusPendingJobCount p out) = False"
| "creates (StatusCapacity p out) = False"
| "creates (CapacityFree p) = False"
| "creates (ResourceId q out) = False"
| "creates (ResourceTypeOf q out) = False"
| "creates (Acquire q out) = False"
| "creates (Release q t) = False"
| "creates (TaskStart q p out) = False"
| "creates (TaskStop q t) = False"
| "creates (TaskStatus q t out) = False"
| "creates (TaskResult q t out) = False"
| "creates (TaskLogs q t out) = False"
| "creates (Target q out) = False"
| "creates (Metadata q out) = False"
| "creates (MetadataFree p) = False"
| "creates (MetadataValue p k) = False"
| "creates (MetadataKeys p n out) = False"
| "creates (ProviderNew ty e) = True"
| "creates (ProviderFree p) = False"
| "creates (ProviderResources p f out) = True"
| "creates (ProviderResourcesFree p) = False"
| "creates (ProviderLeastBusy p f out) = True"
| "creates (ServiceResources out) = True"
| "creates (ServiceResourcesFree p) = False"

abbreviation same_world :: "('r, 'p, 'w) c_state \<Rightarrow> ('r, 'p, 'w) c_state \<Rightarrow> bool" where
  "same_world s s' \<equiv> world s' = world s"

interpretation worlds: step_order "same_world :: ('r, 'p, 'w) c_state \<Rightarrow> ('r, 'p, 'w) c_state \<Rightarrow> bool"
  by unfold_locales auto

text \<open>Without a call of the Rust side, the world stays what it is.\<close>

named_theorems local_only \<open>programs that stay on the C side\<close>

lemma local_steps [local_only]:
  "keeps same_world (give a)" "keeps same_world misused" "keeps same_world (load pick p)"
  "keeps same_world (store pick p c)" "keeps same_world (alloc c)" "keeps same_world (free pick p)"
  "keeps same_world (prompt panic)" "keeps same_world (set_last_error m)"
  by (auto simp: keeps_def yields_def give_def misused_def load_def store_def alloc_def free_def
      set_last_error_def prompt_def ret_def throw_def panic_def modify_def split: option.splits)

lemma local_chain [local_only]:
  "keeps same_world m \<Longrightarrow> (\<And>a. keeps same_world (f a)) \<Longrightarrow> keeps same_world (chain m f)"
  by (rule worlds.keeps_chain)

lemma local_errors [local_only]: "keeps same_world (record_error e)" "keeps same_world (fail_with e)"
proof -
  have "keeps same_world (prompt (modify (\<lambda>s. s\<lparr>last_kind := k\<rparr>)))" for k
    by (auto simp: keeps_def yields_def prompt_def modify_def)
  then show "keeps same_world (record_error e)" by (auto simp: record_error_def intro: local_only)
  then show "keeps same_world (fail_with e)" by (auto simp: fail_with_def intro: local_only)
qed

lemma local_read_array [local_only]: "keeps same_world (read_array pick n p)"
  by (auto simp: read_array_def intro!: local_only)

lemma local_drops [local_only]: "keeps same_world (drop_strings ps)" "keeps same_world (drop_handles ps)"
  by (induction ps) (auto intro!: local_only)

lemma local_raw_cstring [local_only]: "keeps same_world (raw_cstring b)"
  by (auto simp: raw_cstring_def intro!: local_only split: option.split)

lemma local_raw_cstrings [local_only]: "keeps same_world (raw_cstrings bs)"
  by (induction bs) (auto intro!: local_only)

lemma local_raw_pairs [local_only]: "keeps same_world (raw_pairs kvs)"
  by (induction kvs rule: raw_pairs.induct) (auto intro!: local_only)

lemma local_arrays [local_only]: "keeps same_world (raw_array mk xs)" "keeps same_world (free_array pick p n)"
  by (auto simp: raw_array_def free_array_def intro!: local_only)

lemma local_coded [local_only]:
  "keeps same_world m \<Longrightarrow> keeps same_world (coded m)" "keeps same_world n \<Longrightarrow> keeps same_world (pointing n)"
  by (auto simp: coded_def pointing_def intro!: local_only)

lemma local_payload [local_only]: "keeps same_world (c_payload_to_rust p)"
  by (cases p) (auto simp: c_payload_to_rust_def payload_from_c_def iqm_payload_def required_text_def
      string_or_def some_or_none_def intro!: local_only split: option.split)

lemma local_last_error [local_only]: "keeps same_world qrmi_get_last_error" "keeps same_world qrmi_get_last_error_kind"
  by (auto simp: keeps_def yields_def qrmi_get_last_error_def qrmi_get_last_error_kind_def give_step alloc_def
      split: option.splits)

lemma local_config_load [local_only]: "keeps same_world (qrmi_config_load B f)"
proof -
  have "keeps same_world (chain (set_last_error m) (\<lambda>_. give null))" for m
    by (auto intro!: local_only)
  then have "keeps same_world (\<lambda>s. case config_load (rs_open B (world s)) (rs_parse B) g of
      Inr v \<Rightarrow> alloc (ConfigBox v) s | Inl err \<Rightarrow> chain (set_last_error (rs_debug B err)) (\<lambda>_. give null) s)" for g
    unfolding keeps_def yields_def by (auto simp: alloc_def split: sum.splits)
  then show ?thesis
    by (auto simp: qrmi_config_load_def intro!: local_only split: sum.split)
qed

text \<open>The calls without a handle or a provider.\<close>

lemma local_calls:
  "keeps same_world (qrmi_string_free p)" "keeps same_world (qrmi_string_array_free n p)"
  "keeps same_world (qrmi_config_free p)" "keeps same_world (qrmi_config_resource_def_get B c p)"
  "keeps same_world (qrmi_config_resource_type_to_str ty)" "keeps same_world (qrmi_config_resource_type_from_str p q)"
  "keeps same_world (qrmi_config_resource_def_free p)" "keeps same_world (qrmi_config_resource_names_get B c m q)"
  "keeps same_world (qrmi_resource_free p)" "keeps same_world (qrmi_resource_status_free p)"
  "keeps same_world (qrmi_resource_status_code p q)" "keeps same_world (qrmi_resource_status_reason p)"
  "keeps same_world (qrmi_resource_status_healthy p q)" "keeps same_world (qrmi_resource_status_busy p q)"
  "keeps same_world (qrmi_resource_status_pending_job_count p q)" "keeps same_world (qrmi_resource_status_capacity p q)"
  "keeps same_world (qrmi_resource_capacity_free p)" "keeps same_world (qrmi_resource_metadata_free p)"
  "keeps same_world (qrmi_resource_metadata_value p q)" "keeps same_world (qrmi_resource_metadata_keys B p m q)"
  "keeps same_world (qrmi_provider_free p)" "keeps same_world (qrmi_provider_resources_free p)"
  "keeps same_world (qrmi_service_resources_free p)"
  unfolding qrmi_string_free_def qrmi_string_array_free_def qrmi_config_free_def qrmi_config_resource_def_get_def
    qrmi_config_resource_type_to_str_def qrmi_config_resource_type_from_str_def qrmi_config_resource_def_free_def
    qrmi_config_resource_names_get_def qrmi_resource_free_def qrmi_resource_status_free_def
    qrmi_resource_status_code_def qrmi_resource_status_reason_def qrmi_resource_status_healthy_def
    qrmi_resource_status_busy_def qrmi_resource_status_pending_job_count_def qrmi_resource_status_capacity_def
    qrmi_resource_capacity_free_def qrmi_resource_metadata_free_def qrmi_resource_metadata_value_def
    qrmi_resource_metadata_keys_def qrmi_provider_free_def qrmi_service_resources_free_def
    qrmi_provider_resources_free_def Let_def
  by (auto intro!: local_only split: sum.split option.split)

text \<open>A refused call on a handle: a null pointer, or a string that is not UTF-8.\<close>

lemma nullable_at: "nullable s pick p \<Longrightarrow> at s pick p = None \<longleftrightarrow> p = null"
  by (auto simp: nullable_def at_def points_def)

lemma points_out_at: "memory_ok s \<Longrightarrow> points s pick p \<Longrightarrow> out_at s pick p"
  by (erule pointsE) (auto simp: out_at_def at_def dest: memory_okD(2))

lemma refused_text:
  assumes "nullable s text_of t" and "text_at s t = None" and "t \<noteq> null"
  shows "coded (chain (load text_of t) (\<lambda>bytes. case to_str bytes of Inl _ \<Rightarrow> k | Inr b \<Rightarrow> f b)) s = coded k s"
proof -
  from assms(1,3) obtain b where b: "at s text_of t = Some b"
    using nullable_at [OF assms(1)] by blast
  with assms(2) obtain e where "to_str b = Inl e"
    by (cases b rule: to_str_cases) (auto simp: text_at_def)
  with b show ?thesis by (simp add: coded_load)
qed

lemma meaning_None:
  "on_handle s q b o1 = None \<longleftrightarrow> at s handle_of q = None \<or> o1 = None \<or> \<not> b"
  by (auto simp: on_handle_def split: option.split)

lemma coded_give [simp]: "coded (give c) s = Some (Ok (Code c), s)"
  by (simp add: coded_def chain_def give_step)

lemma refused_call:
  assumes ok: "memory_ok s" and args: "call_ok s call" and none: "meaning s call = None"
    and "\<not> creates call" and run: "c_exec B call s = Some (r, s')"
  shows "world s' = world s"
proof -
  have k: "world s' = world s" if "m s = Some (r, s')" "keeps same_world m" for m :: "('a, 'b, 'c, reply) c_prog"
    using that by (auto simp: keeps_def yields_def)
  have fails: "coded (fail_with e) s = Some (r, s') \<Longrightarrow> world s' = world s" for e
    by (erule k) (auto intro: local_only)
  note none = none [unfolded meaning_def, simplified]
  show ?thesis
  proof (cases call)
    case (IsAccessible q out)
    with args none have "q = null \<or> out = null"
      by (auto simp: meaning_None out_at_def nullable_at)
    with run show ?thesis by (auto simp: IsAccessible qrmi_resource_is_accessible_def split: if_splits)
  next
    case (ResourceStatus q out)
    with args none have "q = null \<or> out = null"
      by (auto simp: meaning_None out_at_def nullable_at)
    with run show ?thesis by (auto simp: ResourceStatus qrmi_resource_status_def split: if_splits)
  next
    case (ResourceId q out)
    with args none have "q = null \<or> out = null"
      by (auto simp: meaning_None out_at_def nullable_at)
    with run show ?thesis by (auto simp: ResourceId qrmi_resource_id_def split: if_splits)
  next
    case (ResourceTypeOf q out)
    with args none have "q = null \<or> out = null"
      by (auto simp: meaning_None out_at_def nullable_at)
    with run show ?thesis by (auto simp: ResourceTypeOf qrmi_resource_type_def split: if_splits)
  next
    case (Acquire q out)
    with args none have "q = null \<or> out = null"
      by (auto simp: meaning_None out_at_def nullable_at)
    with run show ?thesis by (auto simp: Acquire qrmi_resource_acquire_def split: if_splits)
  next
    case (Metadata q out)
    with args none have "q = null \<or> out = null"
      by (auto simp: meaning_None out_at_def nullable_at)
    with run show ?thesis by (auto simp: Metadata qrmi_resource_metadata_def split: if_splits)
  next
    case (Target q out)
    with args none have "q = null"
      using points_out_at [OF ok] by (auto simp: meaning_None nullable_at)
    with run show ?thesis by (auto simp: Target qrmi_resource_target_def split: if_splits)
  next
    case (Release q t)
    with args none have "q = null \<or> t = null \<or> text_at s t = None"
      by (auto simp: meaning_None nullable_at)
    with run args Release refused_text [of s t] show ?thesis
      by (auto simp: qrmi_resource_release_def split: if_splits)
  next
    case (TaskStop q t)
    with args none have "q = null \<or> t = null \<or> text_at s t = None"
      by (auto simp: meaning_None nullable_at)
    with run args TaskStop refused_text [of s t] show ?thesis
      by (auto simp: qrmi_resource_task_stop_def split: if_splits)
  next
    case (TaskStatus q t out)
    with args none have "q = null \<or> t = null \<or> out = null \<or> text_at s t = None"
      by (auto simp: meaning_None out_at_def nullable_at)
    with run args TaskStatus refused_text [of s t] show ?thesis
      by (auto simp: qrmi_resource_task_status_def split: if_splits)
  next
    case (TaskResult q t out)
    with args none have "q = null \<or> t = null \<or> out = null \<or> text_at s t = None"
      by (auto simp: meaning_None out_at_def nullable_at)
    with run args TaskResult refused_text [of s t] show ?thesis
      by (auto simp: qrmi_resource_task_result_def split: if_splits)
  next
    case (TaskLogs q t out)
    with args none have "q = null \<or> t = null \<or> out = null \<or> text_at s t = None"
      by (auto simp: meaning_None out_at_def nullable_at)
    with run args TaskLogs refused_text [of s t] show ?thesis
      by (auto simp: qrmi_resource_task_logs_def split: if_splits)
  next
    case (TaskStart q p out)
    show ?thesis
    proof (cases "q = null \<or> p = null \<or> out = null")
      case True
      with run show ?thesis by (auto simp: TaskStart qrmi_resource_task_start_def split: if_splits)
    next
      case False
      with args TaskStart obtain pl where pl: "at s payload_of p = Some pl" "payload_ok s pl"
        by (auto simp: payload_arg_def at_def)
      with args none False TaskStart have "payload_at s pl = None"
        by (auto simp: meaning_None out_at_def nullable_at)
      with payload_run [OF ok pl(2)] have "c_payload_to_rust pl s = Some (Ok None, s)" by simp
      with run False pl(1) show ?thesis
        by (auto simp: TaskStart qrmi_resource_task_start_def coded_load coded_step intro: fails)
    qed
  qed (use assms local_calls in \<open>auto intro!: k local_only\<close>)
qed

section \<open>Runs\<close>

text \<open>
  What a C program observes of a call: the reply, the value that it can read back, and
  the last error with its kind; and how an outcome of the operation shows in it.
\<close>

type_synonym observation = "reply \<times> trait_value option \<times> string option \<times> error_kind"

definition seen :: "(qrmi_error, trait_value) outcome \<Rightarrow> observation \<Rightarrow> bool" where
  "seen result obs = (case obs of (reply, value, message, k) \<Rightarrow> (case result of
      Ok v \<Rightarrow> reply = Code Success \<and> value = Some v \<or> (\<exists>t. v = VString t \<and> NUL \<in> set t) \<and> reply = Code Error
    | Err e \<Rightarrow> reply = Code (return_code_of_kind (kind e)) \<and> message = Some (c_message (error_display e)) \<and> k = kind e
    | Panic \<Rightarrow> False))"

datatype 'r event = Performed 'r trait_op observation | Elsewhere

text \<open>
  A run of a C program, and the events of it: the operations it has resources perform,
  with what it observes, and (\<open>Elsewhere\<close>) the calls that build resources.  Its own
  steps, and calls that the binding refuses or that concern memory only, are no events.
\<close>

inductive c_trace :: "('r, 'p, 'w) rust_side \<Rightarrow> ('r, 'p, 'w) c_state \<Rightarrow> 'r event list \<Rightarrow> ('r, 'p, 'w) c_state \<Rightarrow> bool"
  for B s where
  begins: "c_trace B s [] s"
| declares: "c_trace B s es t \<Longrightarrow> program_cell c \<Longrightarrow> c_trace B s es (allocated c t)"
| assigns: "c_trace B s es t \<Longrightarrow> heap t p = Some d \<Longrightarrow> program_cell d \<Longrightarrow> 16 \<le> p \<Longrightarrow> program_cell c \<Longrightarrow>
     c_trace B s es (written p c t)"
| calls_locally: "c_trace B s es t \<Longrightarrow> call_ok t call \<Longrightarrow> meaning t call = None \<Longrightarrow> \<not> creates call \<Longrightarrow>
     c_exec B call t = Some (Ok reply, u) \<Longrightarrow> c_trace B s es u"
| builds: "c_trace B s es t \<Longrightarrow> call_ok t call \<Longrightarrow> creates call \<Longrightarrow>
     c_exec B call t = Some (Ok reply, u) \<Longrightarrow> c_trace B s (es @ [Elsewhere]) u"
| performs: "c_trace B s es t \<Longrightarrow> call_ok t call \<Longrightarrow> meaning t call = Some (r, x) \<Longrightarrow>
     c_exec B call t = Some (Ok reply, u) \<Longrightarrow>
     c_trace B s (es @ [Performed r x (reply, read_back u call, last_error u, last_kind u)]) u"

text \<open>The abstract machine: the operations of the trait, one after the other.\<close>

fun trait_trace :: "('r, 'p, 'w) rust_side \<Rightarrow> 'w \<Rightarrow> 'r event list \<Rightarrow> 'w \<Rightarrow> bool" where
  "trait_trace B w [] w' \<longleftrightarrow> w' = w"
| "trait_trace B w (Performed r x obs # es) w' \<longleftrightarrow>
     (\<exists>result w1. trait_run B r x w = Some (result, w1) \<and> seen result obs \<and> trait_trace B w1 es w')"
| "trait_trace B w (Elsewhere # es) w' \<longleftrightarrow> (\<exists>w1. trait_trace B w1 es w')"

lemma trait_trace_append:
  "trait_trace B w (es @ fs) w' \<longleftrightarrow> (\<exists>w1. trait_trace B w es w1 \<and> trait_trace B w1 fs w')"
  by (induction B w es w' rule: trait_trace.induct) auto

lemma reported_seen:
  "reported call result t (Ok reply) u \<Longrightarrow> seen result (reply, read_back u call, last_error u, last_kind u)"
  by (auto simp: reported_def seen_def split: outcome.splits)

text \<open>Every run has a trace, and keeps the memory in order.\<close>

lemma c_trace_memory: "c_trace B s es t \<Longrightarrow> memory_ok s \<Longrightarrow> memory_ok t"
  by (induction rule: c_trace.induct) (auto intro: memory_ok_step c_step.intros)

lemma c_runs_trace: "c_runs B s t \<Longrightarrow> \<exists>es. c_trace B s es t"
proof (induction rule: c_runs.induct)
  case (goes_on t u)
  from goes_on(3) obtain es where es: "c_trace B s es t" by blast
  from goes_on(2) show ?case
  proof cases
    case (calls call reply)
    then show ?thesis
      using es by (cases "meaning t call"; cases "creates call")
        (auto intro: c_trace.calls_locally c_trace.builds c_trace.performs)
  qed (use es in \<open>auto intro: c_trace.declares c_trace.assigns\<close>)
qed (auto intro: c_trace.begins)

text \<open>
  C5. The C binding refines the trait: whatever a C program does, each of its calls
  that reaches a resource performs exactly the operation it stands for, with the strings
  it was given and in the order of the calls, and what the program observes is the
  outcome: the value, or the code of the error's kind with its message recorded; only a
  string with a NUL in it cannot be returned, and shows as the generic error.  No other
  call changes the Rust side, but those that build resources.
\<close>

theorem c_binding_refines_trait:
  assumes "c_trace B (c_start w) es s"
  shows "trait_trace B w es (world s)"
  using assms
proof (induction rule: c_trace.induct)
  case begins
  then show ?case by (simp add: c_start_def)
next
  case (calls_locally es t call reply u)
  have "memory_ok t" using calls_locally(1) memory_ok_start by (rule c_trace_memory)
  from refused_call [OF this calls_locally(2-5)] calls_locally show ?case by simp
next
  case (builds es t call reply u)
  then show ?case by (auto simp: trait_trace_append)
next
  case (performs es t call r x reply u)
  have "memory_ok t" using performs(1) memory_ok_start by (rule c_trace_memory)
  from call_refines [OF this performs(2,3), of B] performs(4)
  obtain result where "trait_run B r x (world t) = Some (result, world u)" "reported call result t (Ok reply) u"
    by (auto simp: agrees_def split: option.splits prod.splits)
  with performs show ?case
    by (auto simp: trait_trace_append dest: reported_seen)
qed simp_all

end
