(* ===== verification/CContracts.thy ===== *)
theory CContracts
  imports CRefine QuantumResource
begin

text \<open>
  What single calls of the C binding promise: the lists of names and their release, the
  last error, the release of a token, and the contract of \<open>task_start\<close> as the C program
  sees it.
\<close>

declare outcome.case_cong [cong del]

section \<open>Lists of strings\<close>

text \<open>What \<open>raw_cstrings\<close> leaves, exactly: one new string after the other.\<close>

lemma raw_cstrings_run:
  "raw_cstrings bs s = Some (Ok as, s') \<Longrightarrow>
     as = [brk s ..< brk s + length bs] \<and> brk s' = brk s + length bs
     \<and> (\<forall>p. heap s' p = (if p \<in> set as then Some (CStr (bs ! (p - brk s))) else heap s p))"
proof (induction bs arbitrary: s as s')
  case Nil
  then show ?case by (simp add: give_step)
next
  case (Cons b bs)
  let ?t = "allocated (CStr b) s"
  from Cons.prems obtain as' where run: "NUL \<notin> set b" "raw_cstrings bs ?t = Some (Ok as', s')" "as = brk s # as'"
    by (auto simp: chain_def raw_cstring_def cstring_new_def give_step alloc_def allocated_def
        prompt_def panic_def split: if_splits option.splits prod.splits outcome.splits)
  from Cons.IH [OF run(2)] have IH: "as' = [Suc (brk s) ..< Suc (brk s) + length bs]"
    "brk s' = Suc (brk s) + length bs"
    "heap s' p = (if p \<in> set as' then Some (CStr (bs ! (p - Suc (brk s)))) else heap ?t p)" for p
    by (simp_all add: allocated_def del: upt_Suc)
  have "as = [brk s ..< brk s + length (b # bs)]" using run(3) IH(1) by (simp add: upt_conv_Cons del: upt_Suc)
  moreover have "heap s' p = (if p \<in> set as then Some (CStr ((b # bs) ! (p - brk s))) else heap s p)" for p
    using IH(3) [of p] unfolding run(3) IH(1) by (auto simp: allocated_def nth_Cons' simp del: upt_Suc)
  ultimately show ?case using IH(2) by simp
qed

lemma run_Ok:
  "give a s = Some (Ok b, t) \<longleftrightarrow> b = a \<and> t = s"
  "load pick p s = Some (Ok b, t) \<longleftrightarrow> Option.bind (heap s p) pick = Some b \<and> t = s"
  "store pick p c s = Some (Ok u, t) \<longleftrightarrow> points s pick p \<and> t = written p c s"
  "alloc c s = Some (Ok q, t) \<longleftrightarrow> q = brk s \<and> t = allocated c s"
  by (auto simp: give_step load_def store_def written_def alloc_def allocated_def points_def split: option.splits)

lemma drop_strings_run:
  "distinct ps \<Longrightarrow> \<forall>p \<in> set ps. p \<noteq> null \<and> points s cstring_of p \<Longrightarrow>
     drop_strings ps s = Some (Ok (), released (set ps) s)"
proof (induction ps arbitrary: s)
  case Nil
  then show ?case by (simp add: give_step)
next
  case (Cons p ps)
  from Cons.prems obtain c b where "heap s p = Some c" "cstring_of c = Some b"
    by (auto elim: pointsE)
  then have "free cstring_of p s = Some (Ok b, released {p} s)" by (simp add: free_def released_one)
  moreover have "points (released {p} s) cstring_of q" if "q \<in> set ps" for q
    using Cons.prems that by (subst points_released) auto
  moreover have "released (set ps) (released {p} s) = released (set (p # ps)) s"
    by (simp add: released_released insert_commute)
  ultimately show ?case using Cons by (simp add: chain_def give_step)
qed

lemma array_free_run:
  assumes "heap s a = Some (StrArray ps)" and "ps \<noteq> []" and "distinct ps" and "a \<noteq> null"
    and "\<forall>p \<in> set ps. p \<noteq> null \<and> points s cstring_of p"
  shows "qrmi_string_array_free (length ps) a s = Some (Ok Success, released (insert a (set ps)) s)"
proof -
  have "a \<notin> set ps" using assms(1,5) by (fastforce simp: points_def cstring_of_def)
  then have "free strings_of a (released (set ps) s) = Some (Ok ps, released {a} (released (set ps) s))"
    using assms(1) by (simp add: free_def heap_released released_one)
  then show ?thesis
    using assms(1,2,4) drop_strings_run [OF assms(3,5)]
    by (simp add: qrmi_string_array_free_def read_array_def chain_def load_def give_step released_released)
qed

lemma coded_Success:
  "coded m s = Some (Ok (Code c), t) \<longleftrightarrow> m s = Some (Ok c, t)"
  by (auto simp: coded_def chain_def give_step split: option.splits prod.splits outcome.splits)

lemma names_get_run:
  assumes ok: "memory_ok s" and c: "heap s c = Some (ConfigBox m)" and out: "out \<noteq> null" "points s ptr_of out"
    and n: "points s size_of n"
    and run: "qrmi_config_resource_names_get B c n out s = Some (Ok Success, t)"
  obtains ps a where "ps = [brk s ..< brk s + length (keys_of B m)]"
    "heap t n = Some (SizeVar (length ps))" "heap t out = Some (PtrVar a)"
    "\<And>p. p \<in> set ps \<Longrightarrow> heap t p = Some (CStr (keys_of B m ! (p - brk s)))"
    "if ps = [] then a = dangling else a = brk s + length ps \<and> heap t a = Some (StrArray ps)"
    "\<And>p. p \<notin> set ps \<Longrightarrow> p \<noteq> a \<or> ps = [] \<Longrightarrow> p \<noteq> n \<Longrightarrow> p \<noteq> out \<Longrightarrow> heap t p = heap s p"
proof -
  let ?ks = "keys_of B m"
  have nn: "c \<noteq> null" using memory_okD(2) [OF ok c] .
  have ne: "n \<noteq> out" using size_not_ptr [OF n out(2)] .
  from n out(2) have lt: "n < brk s" "out < brk s" using memory_okD(1) [OF ok] by (auto elim!: pointsE)
  from run nn out(1) c obtain as s1 a s2 where
    strs: "raw_cstrings ?ks s = Some (Ok as, s1)" and arr: "raw_array StrArray as s1 = Some (Ok a, s2)"
    and t: "t = written out (PtrVar a) (written n (SizeVar (length ?ks)) s2)"
    by (auto simp: qrmi_config_resource_names_get_def chain_Some run_Ok)
  note raw = raw_cstrings_run [OF strs]
  have len: "length as = length ?ks" using raw by simp
  have b1: "brk s1 = brk s + length as" using raw by simp
  have a: "if as = [] then a = dangling \<and> s2 = s1 else a = brk s + length as \<and> s2 = allocated (StrArray as) s1"
    using arr raw by (auto simp: raw_array_def run_Ok split: if_splits)
  show thesis
  proof (rule that [of as a])
    show "as = [brk s ..< brk s + length ?ks]" using raw by simp
    show "heap t n = Some (SizeVar (length as))" using ne len by (simp add: t written_def)
    show "heap t out = Some (PtrVar a)" by (simp add: t written_def)
    show "heap t p = Some (CStr (?ks ! (p - brk s)))" if "p \<in> set as" for p
    proof -
      have "brk s \<le> p" "p < brk s + length as" "as \<noteq> []" using that raw by auto
      then have "p \<noteq> n" "p \<noteq> out" "heap s2 p = heap s1 p"
        using lt a raw by (auto simp: allocated_def)
      with that raw show ?thesis by (simp add: t written_def)
    qed
    show "if as = [] then a = dangling else a = brk s + length as \<and> heap t a = Some (StrArray as)"
      using a lt raw len by (cases "as = []") (auto simp: t written_def allocated_def)
    show "heap t p = heap s p" if "p \<notin> set as" "p \<noteq> a \<or> as = []" "p \<noteq> n" "p \<noteq> out" for p
    proof -
      have "heap s1 p = heap s p"
        using raw [THEN conjunct2, THEN conjunct2, rule_format, of p] that(1) by (simp only: if_False)
      moreover have "heap s2 p = heap s1 p" using that(2) a b1 by (cases "as = []") (auto simp: allocated_def)
      ultimately show ?thesis using that(3,4) by (simp add: t written_def)
    qed
  qed
qed


section \<open>The last error\<close>

text \<open>
  Reading the last error does not clear it: two calls in a row of
  \<open>qrmi_get_last_error\<close> both return the message, in two strings that the caller
  must free one by one.
\<close>

lemma last_error_kept:
  assumes "last_error s = Some m"
  shows "\<exists>t u. c_exec B GetLastError s = Some (Ok (Pointer (brk s)), t)
    \<and> c_exec B GetLastError t = Some (Ok (Pointer (Suc (brk s))), u)
    \<and> heap u (brk s) = Some (CStr m) \<and> heap u (Suc (brk s)) = Some (CStr m)
    \<and> last_error u = Some m"
  using assms by (simp add: pointing_def qrmi_get_last_error_def chain_def alloc_def give_step)

text \<open>A configuration that cannot be loaded leaves the kind of an earlier error.\<close>

lemma failed_load_keeps_kind:
  assumes "c_exec B (ConfigLoad f) s = Some (r, t)"
  shows "last_kind t = last_kind s"
proof -
  have k: "last_kind t = last_kind s"
    if "(case config_load (rs_open B (world s)) (rs_parse B) g of
        Inr v \<Rightarrow> alloc (ConfigBox v) s
      | Inl err \<Rightarrow> chain (set_last_error (rs_debug B err)) (\<lambda>_. give null) s) = Some (r', t)" for g r'
    using that by (auto simp: alloc_def chain_def set_last_error_def prompt_def modify_def give_step split: sum.splits)
  from assms obtain r' where run: "qrmi_config_load B f s = Some (r', t)"
    by (auto simp: pointing_def chain_def give_step split: option.splits prod.splits outcome.splits)
  show ?thesis
  proof (cases "f = null \<or> Option.bind (heap s f) text_of = None")
    case True
    with run show ?thesis by (auto simp: qrmi_config_load_def chain_def load_def give_step split: if_splits)
  next
    case False
    then obtain b where b: "f \<noteq> null" "load text_of f s = Some (Ok b, s)" by (auto simp: load_def)
    show ?thesis
      using run b by (cases b rule: to_str_cases) (auto simp: qrmi_config_load_def chain_run give_step dest: k)
  qed
qed

section \<open>Acquisition tokens\<close>

text \<open>
  C21. A token that is not UTF-8: \<open>qrmi_resource_release\<close> reports success, but the
  resource is not asked to release anything and no error is recorded; the state is what
  it was.  With a readable token the reply is the resource's.
\<close>

theorem release_unreadable_token:
  assumes "c_runs B (c_start w) s" and "heap s q = Some (HandleBox r)"
    and "heap s p = Some c" and "text_of c = Some b"
  shows "if utf8_ok (map byte b) then
      (case do_release B r b (world s) of
        None \<Rightarrow> c_exec B (Release q p) s = None
      | Some (result, w') \<Rightarrow> (case result of
          Ok _ \<Rightarrow> c_exec B (Release q p) s = Some (Ok (Code Success), s\<lparr>world := w'\<rparr>)
        | Err e \<Rightarrow> \<exists>t. c_exec B (Release q p) s = Some (Ok (Code (return_code_of_kind (kind e))), t)
        | Panic \<Rightarrow> \<exists>t. c_exec B (Release q p) s = Some (Panic, t)))
    else c_exec B (Release q p) s = Some (Ok (Code Success), s)"
proof -
  have ok: "memory_ok s" using assms(1) memory_ok_start by (rule memory_ok_runs)
  have nn: "q \<noteq> null" "p \<noteq> null" using memory_okD(2) [OF ok] assms(2,3) by auto
  have at: "at s handle_of q = Some r" "at s text_of p = Some b" using nn assms by (simp_all add: at_def)
  show ?thesis
  proof (cases "utf8_ok (map byte b)")
    case True
    then have "to_str b = Inr b" by (simp add: to_str_Inr)
    then have "c_exec B (Release q p) s = handled (do_release B r b) (\<lambda>_. give Success) s"
      using at nn by (simp add: qrmi_resource_release_def coded_load handled_def)
    then show ?thesis
      using True
      by (auto simp: handled_None handled_Err handled_Panic intro!: handled_Ok give_step
          split: option.split outcome.split)
  next
    case False
    then have "text_at s p = None" using at by (simp add: text_at_def)
    moreover have "nullable s text_of p" using assms(3,4) by (simp add: nullable_def points_def)
    ultimately show ?thesis using False nn by (simp add: qrmi_resource_release_def refused_text)
  qed
qed

section \<open>Starting a task\<close>

text \<open>
  C8. The contract of \<open>qrmi_resource_task_start\<close>: when the resource behind the
  handle keeps the trait's contract (an error whose kind is not \<open>Other\<close> means that no
  task was created), a return code other than success and the generic error tells the C
  program that no task exists that did not exist before: it may submit again.
\<close>

theorem c_task_start_contract:
  assumes "start_contract (do_task_start B) careful" and "careful r tasks"
    and "c_runs B (c_start w) s" and "call_ok s (TaskStart q p out)" and "heap s q = Some (HandleBox r)"
    and "c_exec B (TaskStart q p out) s = Some (Ok (Code c), t)" and "c \<noteq> Success" and "c \<noteq> Error"
  shows "tasks (world t) = tasks (world s)"
proof -
  have ok: "memory_ok s" using assms(3) memory_ok_start by (rule memory_ok_runs)
  show ?thesis
  proof (cases "meaning s (TaskStart q p out)")
    case None
    then show ?thesis using refused_call [OF ok assms(4) None _ assms(6)] by simp
  next
    case (Some rx)
    then obtain r' x where rx: "meaning s (TaskStart q p out) = Some (r', x)" by (cases rx) simp
    then obtain pay where x: "r' = r" "x = OpStart pay"
      using assms(5) memory_okD(2) [OF ok assms(5)]
      by (auto simp: meaning_def on_handle_Some at_def bind_eq_Some_conv)
    from call_refines [OF ok assms(4) rx, of B] assms(6)
    obtain result where run: "trait_run B r' x (world s) = Some (result, world t)"
      and rep: "reported (TaskStart q p out) result s (Ok (Code c)) t"
      by (auto simp: agrees_def split: option.splits prod.splits)
    from rep assms(7,8) obtain e where e: "result = Err e" "kind e \<noteq> error_kind.Other"
      by (auto simp: reported_def split: outcome.splits) (metis return_code_of_kind.simps(13))
    with run x have "do_task_start B r pay (world s) = Some (Err e, world t)"
      by (auto simp: valued_def chain_def prompt_def ret_def split: option.splits prod.splits outcome.splits)
    then show ?thesis
      using start_contract.refused [OF assms(1,2) _ e(2)] by blast
  qed
qed

end
