(* ===== verification/WitnessesC.thy ===== *)
theory WitnessesC
  imports CContracts
begin

text \<open>
  The theorems on the C binding at concrete programs: a Rust side with one resource,
  which keeps the trait's default \<open>task_start\<close>, and programs of a few calls.
\<close>

declare outcome.case_cong [cong del]

definition sample_ctors :: "(string list, nat) constructors" where
  "sample_ctors = \<lparr>new_ibm_quantum_system = (\<lambda>_. ret 7), new_qiskit_runtime_service = (\<lambda>_. ret 7),
     new_ibm_quantum_compute_service = (\<lambda>_. ret 7), new_pasqal_cloud = (\<lambda>_. ret 7),
     new_pasqal_local = (\<lambda>_. ret 7), new_alice_bob_felis = (\<lambda>_. ret 7), new_iqm_server = (\<lambda>_. ret 7),
     new_maestro_local = (\<lambda>_. ret 7), new_oqtopus = (\<lambda>_. ret 7)\<rparr>"

definition sample_config_ctors :: "(string list, nat) config_constructors" where
  "sample_config_ctors = \<lparr>ibm_quantum_system_from = (\<lambda>_ _. ret 7), qiskit_runtime_service_from = (\<lambda>_ _. ret 7),
     ibm_quantum_compute_service_from = (\<lambda>_ _. ret 7), pasqal_local_from = (\<lambda>_ _. ret 7),
     pasqal_cloud_from = (\<lambda>_ _. ret 7), alice_bob_felis_from = (\<lambda>_ _. ret 7), iqm_server_from = (\<lambda>_ _. ret 7),
     oqtopus_from = (\<lambda>_ _. ret 7), maestro_local_from = (\<lambda>_ _. ret 7)\<rparr>"

definition idle :: resource_status where
  "idle = \<lparr>status_code = Online, status_reason = None, healthy = None, busy = None, capacity = None,
     pending_job_count = None\<rparr>"

definition named :: "string \<Rightarrow> resource_def" where
  "named n = \<lparr>rd_name = n, rd_type = OQTOPUS, rd_is_dynamic = False, rd_environment = (\<lambda>_. None)\<rparr>"

definition sample_side :: "(nat, nat, string list) rust_side" where
  "sample_side = \<lparr>do_is_accessible = (\<lambda>_. prompt (ret True)), do_status = (\<lambda>_. prompt (ret idle)),
     do_resource_id = (\<lambda>_. prompt (ret ''qpu'')), do_resource_type = (\<lambda>_. prompt (ret OQTOPUS)),
     do_acquire = (\<lambda>_. prompt (ret ''token'')), do_release = (\<lambda>_ t. prompt (modify (\<lambda>w. t # w))),
     do_task_start = (\<lambda>_ p. prompt (default_task_start p)),
     do_task_stop = (\<lambda>_ t. prompt (default_task_stop t)), do_task_status = (\<lambda>_ t. prompt (default_task_status t)),
     do_task_result = (\<lambda>_ t. prompt (default_task_result t)), do_task_logs = (\<lambda>_ t. prompt (default_task_logs t)),
     do_target = (\<lambda>_. prompt default_target), do_metadata = (\<lambda>_ w. (default_metadata, w)),
     rs_service = \<lparr>ctors = sample_ctors, probe = (\<lambda>r. ret (idle, r))\<rparr>, rs_config_ctors = sample_config_ctors,
     rs_environ = (\<lambda>_ _. NotPresent), rs_new_runtime = (\<lambda>_. True),
     rs_open = (\<lambda>_ f. Inr (Inr f)), rs_parse = (\<lambda>_. Inr [named ''a'', named ''b'']), rs_debug = id,
     rs_order = (\<lambda>S. filter (\<lambda>k. k \<in> S) [''a'', ''b'']),
     new_runtime_provider = (\<lambda>_. ret 1), new_compute_provider = (\<lambda>_. ret 1), new_system_provider = (\<lambda>_. ret 1),
     do_resources = (\<lambda>_ _. prompt (ret [7])), do_least_busy = (\<lambda>_ _. prompt (ret (Some 7)))\<rparr>"

text \<open>
  The program: a name at 16, the handle at 17, a token that is not UTF-8 at 18, a pointer
  variable at 19 and a payload at 20.
\<close>

definition qpu :: string where
  "qpu = ''qpu''"

definition named_qpu :: "(nat, nat, string list) c_state" where
  "named_qpu = allocated (Text qpu) (c_start [])"

definition prepared :: "(nat, nat, string list) c_state" where
  "prepared = allocated (PayloadVar (COqtopus 16)) (allocated (PtrVar null)
     (allocated (Text [char_of (255 :: nat)]) (allocated (HandleBox 7) named_qpu)))"

lemma prepared_heap:
  "heap named_qpu 16 = Some (Text qpu)" "brk named_qpu = 17"
  "heap prepared 16 = Some (Text qpu)" "heap prepared 17 = Some (HandleBox 7)"
  "heap prepared 18 = Some (Text [char_of (255 :: nat)])" "heap prepared 19 = Some (PtrVar null)"
  "heap prepared 20 = Some (PayloadVar (COqtopus 16))"
  by (simp_all add: prepared_def named_qpu_def allocated_def c_start_def)

lemma qpu_text [simp]: "to_str qpu = Inr qpu" "utf8_ok (map byte qpu)" "text_of (Text qpu) = Some qpu"
  by (simp_all add: qpu_def NUL_def to_str_Inr byte_def)

lemma loads:
  "load text_of 16 named_qpu = Some (Ok qpu, named_qpu)"
  "load text_of 16 prepared = Some (Ok qpu, prepared)"
  "load handle_of 17 prepared = Some (Ok 7, prepared)"
  "load payload_of 20 prepared = Some (Ok (COqtopus 16), prepared)"
  by (simp_all add: load_def prepared_heap del: pick_simps(2))

lemma create_sample: "new_oqtopus (ctors (rs_service sample_side)) i = ret 7"
  by (simp add: sample_side_def sample_ctors_def)

lemma sample_start:
  "do_task_start sample_side r p w = Some (Err (UnsupportedFunction ''qrmi::QuantumResource::task_start''), w)"
  "rs_new_runtime sample_side w"
  by (simp_all add: sample_side_def default_task_start_def unsupported_def prompt_def throw_def)

lemma create_qpu:
  "c_exec sample_side (ResourceNew 16 OQTOPUS) named_qpu = Some (Ok (Pointer 17), allocated (HandleBox 7) named_qpu)"
proof -
  have "on_world (prompt (ret 7) :: (string list, qrmi_error, nat) loop_prog) named_qpu = Some (Ok 7, named_qpu)"
    by (simp add: on_world_def prompt_def ret_def)
  moreover have "new_runtime sample_side named_qpu = Some (Ok (), named_qpu)"
    by (simp add: new_runtime_def sample_start give_step)
  ultimately have "qrmi_resource_new sample_side 16 OQTOPUS named_qpu = alloc (HandleBox 7) named_qpu"
    by (simp add: qrmi_resource_new_def chain_run loads create_sample settle_Ok)
  then show ?thesis
    by (simp add: pointing_def chain_def alloc_def give_step prepared_heap allocated_def)
qed

lemma created_trace: "c_trace sample_side (c_start []) [Elsewhere] prepared"
proof -
  have "c_trace sample_side (c_start []) [] named_qpu"
    unfolding named_qpu_def by (intro c_trace.declares c_trace.begins) simp
  moreover have "call_ok named_qpu (ResourceNew 16 OQTOPUS)"
    by (simp add: nullable_def points_def prepared_heap del: pick_simps(2))
  ultimately have "c_trace sample_side (c_start []) ([] @ [Elsewhere]) (allocated (HandleBox 7) named_qpu)"
    by (rule c_trace.builds) (simp, rule create_qpu)
  then show ?thesis
    unfolding prepared_def append.simps by (rule c_trace.declares [OF c_trace.declares [OF c_trace.declares]]) simp_all
qed

lemma prepared_run: "c_runs sample_side (c_start []) prepared"
proof -
  have "c_runs sample_side (c_start []) named_qpu"
    unfolding named_qpu_def by (intro c_runs.goes_on [OF c_runs.starts] c_step.declares) simp
  moreover have "call_ok named_qpu (ResourceNew 16 OQTOPUS)"
    by (simp add: nullable_def points_def prepared_heap del: pick_simps(2))
  ultimately have "c_runs sample_side (c_start []) (allocated (HandleBox 7) named_qpu)"
    by (rule c_runs.goes_on [OF _ c_step.calls]) (rule create_qpu)
  then show ?thesis
    unfolding prepared_def
    by (rule c_runs.goes_on [OF c_runs.goes_on [OF c_runs.goes_on [OF _ c_step.declares] c_step.declares] c_step.declares])
      simp_all
qed

lemma prepared_ok: "call_ok prepared (TaskStart 17 20 19)"
  by (simp add: nullable_def points_def payload_arg_def prepared_heap del: pick_simps(2))

text \<open>The task is refused as an unsupported function, and nothing is created.\<close>

definition refused_message :: string where
  "refused_message = ''unsupported function: qrmi::QuantumResource::task_start''"

definition refused_start :: "(nat, nat, string list) c_state" where
  "refused_start = prepared\<lparr>last_kind := error_kind.UnsupportedFunction, last_error := Some refused_message\<rparr>"

lemma start_refused:
  "c_exec sample_side (TaskStart 17 20 19) prepared = Some (Ok (Code UnsupportedFunctionError), refused_start)"
proof -
  let ?e = "UnsupportedFunction ''qrmi::QuantumResource::task_start''"
  have "c_message (error_display ?e) = refused_message"
    by (simp add: c_message_def cstring_new_def NUL_def refused_message_def)
  then have "fail_with ?e prepared = Some (Ok UnsupportedFunctionError, refused_start)"
    by (simp add: chain_def fail_with_def record_error_def set_last_error_def prompt_def modify_def give_def
        ret_def refused_start_def)
  then have "settle (on_world (do_task_start sample_side 7 q)) (\<lambda>result. case result of
      Inr job_id \<Rightarrow> hand_out 19 job_id | Inl err \<Rightarrow> fail_with err) prepared
    = Some (Ok UnsupportedFunctionError, refused_start)" for q
    by (simp add: settle_Err on_world_Some sample_start)
  moreover have "c_payload_to_rust (COqtopus 16) prepared = Some (Ok (Some (Oqtopus qpu)), prepared)"
    by (simp add: c_payload_to_rust_def required_text_def chain_run loads give_step)
  ultimately show ?thesis
    by (simp add: coded_Success qrmi_resource_task_start_def chain_run loads)
qed


theorem c_binding_refines_trait_witness:
  "trait_trace sample_side [] [Elsewhere, Performed 7 (OpStart (Oqtopus qpu))
     (Code UnsupportedFunctionError, None, Some refused_message, error_kind.UnsupportedFunction)] []"
proof -
  have "meaning prepared (TaskStart 17 20 19) = Some (7, OpStart (Oqtopus qpu))"
    by (simp add: meaning_def on_handle_def at_def prepared_heap text_at_def out_at_def del: pick_simps(2))
  from c_trace.performs [OF created_trace prepared_ok this start_refused]
  have "c_trace sample_side (c_start []) [Elsewhere, Performed 7 (OpStart (Oqtopus qpu))
      (Code UnsupportedFunctionError, read_back refused_start (TaskStart 17 20 19), last_error refused_start,
        last_kind refused_start)] refused_start" by simp
  from c_binding_refines_trait [OF this]
  show ?thesis
    by (simp add: read_back_def pointed_def at_def refused_start_def prepared_heap prepared_def named_qpu_def c_start_def)
      (simp add: allocated_def)
qed

theorem c_task_start_contract_witness: "world refused_start = world prepared"
proof -
  have "do_task_start sample_side = (\<lambda>_ p. prompt (default_task_start p))"
    by (simp add: sample_side_def)
  then have "start_contract (do_task_start sample_side) (\<lambda>(_ :: nat) (_ :: string list \<Rightarrow> string list). True)"
    using default_start.start_contract_axioms by simp
  from c_task_start_contract [OF this _ prepared_run prepared_ok prepared_heap(4) start_refused, of id]
  show ?thesis by simp
qed

theorem release_unreadable_token_witness:
  "c_exec sample_side (Release 17 18) prepared = Some (Ok (Code Success), prepared)"
proof -
  have "text_of (Text [char_of (255 :: nat)] :: (nat, nat) cell) = Some [char_of (255 :: nat)]"
    by (simp add: NUL_def char_of_def)
  from release_unreadable_token [OF prepared_run prepared_heap(4,5) this]
  show ?thesis by (simp add: byte_def)
qed

text \<open>A program that lists the two names of a configuration.\<close>

definition two_names :: "string \<rightharpoonup> resource_def" where
  "two_names = (\<lambda>_. None)(''a'' \<mapsto> named ''a'', ''b'' \<mapsto> named ''b'')"

definition configured :: "(nat, nat, string list) c_state" where
  "configured = allocated (PtrVar null) (allocated (SizeVar 0) (allocated (ConfigBox two_names) named_qpu))"

lemma configured_heap:
  "heap configured 17 = Some (ConfigBox two_names)" "heap configured 18 = Some (SizeVar 0)"
  "heap configured 19 = Some (PtrVar null)" "brk configured = 20"
  by (simp_all add: configured_def named_qpu_def allocated_def c_start_def)

lemma two_keys: "keys_of sample_side two_names = [''a'', ''b'']"
  by (simp add: keys_of_def sample_side_def two_names_def)

lemma configured_run: "c_runs sample_side (c_start []) configured"
proof -
  have "config_load (rs_open sample_side (world named_qpu)) (rs_parse sample_side) qpu = Inr two_names"
    by (simp add: config_load_def sample_side_def named_def two_names_def)
  then have "qrmi_config_load sample_side 16 named_qpu = alloc (ConfigBox two_names) named_qpu"
    by (simp add: qrmi_config_load_def chain_run loads)
  then have "c_exec sample_side (ConfigLoad 16) named_qpu = Some (Ok (Pointer 17), allocated (ConfigBox two_names) named_qpu)"
    by (simp add: pointing_def chain_def alloc_def give_step allocated_def prepared_heap)
  moreover have "c_runs sample_side (c_start []) named_qpu"
    unfolding named_qpu_def by (intro c_runs.goes_on [OF c_runs.starts] c_step.declares) simp
  moreover have "call_ok named_qpu (ConfigLoad 16)"
    by (simp add: nullable_def points_def prepared_heap del: pick_simps(2))
  ultimately have "c_runs sample_side (c_start []) (allocated (ConfigBox two_names) named_qpu)"
    by (blast intro: c_runs.goes_on c_step.calls)
  then show ?thesis
    unfolding configured_def
    by (rule c_runs.goes_on [OF c_runs.goes_on [OF _ c_step.declares] c_step.declares]) simp_all
qed

lemma configured_list: "\<exists>t. c_exec sample_side (ResourceNamesGet 17 18 19) configured = Some (Ok (Code Success), t)"
  by (simp add: coded_Success qrmi_config_resource_names_get_def chain_Some run_Ok configured_heap two_keys
      raw_cstring_def cstring_new_def NUL_def raw_array_def points_def allocated_def written_def)


end
