(* ===== verification/PyBinding.thy ===== *)
theory PyBinding
  imports CRefine
begin

text \<open>
  The Python binding (\<open>src/src/pyext.rs\<close>), over the same Rust side as the C binding: the
  exception classes, the classes \<open>QuantumResource\<close>, \<open>ResourceProvider\<close>, \<open>QRMIService\<close>,
  \<open>Config\<close> and \<open>ResourceDef\<close>.  Objects live in a store of references, since a service
  hands out the same resource objects again and again.  A panic becomes PyO3's
  \<open>PanicException\<close>.  Each object owns a runtime of its own, so the methods that block on it
  do so without \<open>new_runtime\<close>.  The calls come from one thread at a time.
\<close>

section \<open>Exceptions\<close>

datatype py_class =
    PyRuntimeError | PyQrmiError | PyEnvVarNotSetError | PyConfigError
  | PyUnsupportedResourceTypeError | PyUnsupportedPayloadError | PyUnsupportedFunctionError
  | PyTaskNotReadyError | PyInvalidInputError | PyResourceNotFoundError | PyTaskNotFoundError
  | PyAuthenticationFailedError

text \<open>The bases given to \<open>create_exception!\<close>, and what an \<open>except\<close> clause catches.\<close>

fun py_base :: "py_class \<Rightarrow> py_class option" where
  "py_base PyRuntimeError = None"
| "py_base PyQrmiError = Some PyRuntimeError"
| "py_base _ = Some PyQrmiError"

definition caught_by :: "py_class \<Rightarrow> py_class \<Rightarrow> bool" where
  "caught_by c d \<longleftrightarrow> c = d \<or> py_base c = Some d \<or> Option.bind (py_base c) py_base = Some d"

text \<open>\<open>Warned\<close> is the exception of \<open>warnings.warn\<close> when the filter makes it one.\<close>

datatype py_error = Raised py_class string | Warned string

definition to_py_err :: "qrmi_error \<Rightarrow> py_error" where
  "to_py_err err = (let msg = error_display err in
     case kind err of
       error_kind.EnvVarNotSet \<Rightarrow> Raised PyEnvVarNotSetError msg
     | error_kind.ParseError \<Rightarrow> Raised PyConfigError msg
     | error_kind.MissingConfigKey \<Rightarrow> Raised PyConfigError msg
     | error_kind.InvalidConfig \<Rightarrow> Raised PyConfigError msg
     | error_kind.UnsupportedResourceType \<Rightarrow> Raised PyUnsupportedResourceTypeError msg
     | error_kind.UnsupportedPayload \<Rightarrow> Raised PyUnsupportedPayloadError msg
     | error_kind.UnsupportedFunction \<Rightarrow> Raised PyUnsupportedFunctionError msg
     | error_kind.TaskNotReady \<Rightarrow> Raised PyTaskNotReadyError msg
     | error_kind.InvalidInput \<Rightarrow> Raised PyInvalidInputError msg
     | error_kind.ResourceNotFound \<Rightarrow> Raised PyResourceNotFoundError msg
     | error_kind.TaskNotFound \<Rightarrow> Raised PyTaskNotFoundError msg
     | error_kind.AuthenticationFailed \<Rightarrow> Raised PyAuthenticationFailedError msg
     | error_kind.Other \<Rightarrow> Raised PyQrmiError msg)"

section \<open>Resource types\<close>

datatype py_resource_type =
    PyIBMQuantumSystem | PyIBMQiskitRuntimeService | PyIBMQuantumComputeService | PyPasqalCloud
  | PyPasqalLocal | PyAliceBobFelis | PyIQMServer | PyOQTOPUS | PyMaestroLocal

fun from_py_type :: "py_resource_type \<Rightarrow> resource_type" where
  "from_py_type PyIBMQuantumSystem = IBMQuantumSystem"
| "from_py_type PyIBMQiskitRuntimeService = QiskitRuntimeService"
| "from_py_type PyIBMQuantumComputeService = IBMQuantumComputeService"
| "from_py_type PyPasqalCloud = resource_type.PasqalCloud"
| "from_py_type PyPasqalLocal = resource_type.PasqalLocal"
| "from_py_type PyAliceBobFelis = resource_type.AliceBobFelis"
| "from_py_type PyIQMServer = resource_type.IQMServer"
| "from_py_type PyOQTOPUS = OQTOPUS"
| "from_py_type PyMaestroLocal = resource_type.MaestroLocal"

fun to_py_type :: "resource_type \<Rightarrow> py_resource_type" where
  "to_py_type IBMQuantumSystem = PyIBMQuantumSystem"
| "to_py_type QiskitRuntimeService = PyIBMQiskitRuntimeService"
| "to_py_type IBMQuantumComputeService = PyIBMQuantumComputeService"
| "to_py_type resource_type.PasqalCloud = PyPasqalCloud"
| "to_py_type resource_type.PasqalLocal = PyPasqalLocal"
| "to_py_type resource_type.AliceBobFelis = PyAliceBobFelis"
| "to_py_type resource_type.IQMServer = PyIQMServer"
| "to_py_type OQTOPUS = PyOQTOPUS"
| "to_py_type resource_type.MaestroLocal = PyMaestroLocal"

lemma py_type_roundtrip [simp]: "from_py_type (to_py_type t) = t" "to_py_type (from_py_type p) = p"
  by (cases t; simp) (cases p; simp)

text \<open>The derived \<open>Debug\<close> of the Python enumeration.\<close>

fun debug_py_type :: "py_resource_type \<Rightarrow> string" where
  "debug_py_type PyIBMQuantumSystem = ''IBMQuantumSystem''"
| "debug_py_type PyIBMQiskitRuntimeService = ''IBMQiskitRuntimeService''"
| "debug_py_type PyIBMQuantumComputeService = ''IBMQuantumComputeService''"
| "debug_py_type PyPasqalCloud = ''PasqalCloud''"
| "debug_py_type PyPasqalLocal = ''PasqalLocal''"
| "debug_py_type PyAliceBobFelis = ''AliceBobFelis''"
| "debug_py_type PyIQMServer = ''IQMServer''"
| "debug_py_type PyOQTOPUS = ''OQTOPUS''"
| "debug_py_type PyMaestroLocal = ''MaestroLocal''"

section \<open>Objects\<close>

text \<open>\<open>PyQuantumResource\<close>, \<open>PyResourceProvider\<close>, \<open>PyQRMIService\<close>, \<open>PyConfig\<close>.\<close>

type_synonym ref = nat

datatype (plugins only: code) ('r, 'p) py_object =
    ResourceObj 'r
  | ProviderObj 'p
  | ServiceObj "string \<rightharpoonup> ref"
  | ConfigObj "string \<rightharpoonup> resource_def"

record ('r, 'p, 'w) py_state =
  py_objects :: "ref \<rightharpoonup> ('r, 'p) py_object"
  next_ref :: ref
  py_world :: 'w

text \<open>\<open>NoSuchMethod\<close>: the reference is not to an object of the method's class.\<close>

datatype py_fault = Exn py_error | NoSuchMethod

type_synonym ('r, 'p, 'w, 'a) py_prog = "(('r, 'p, 'w) py_state, py_fault, 'a) loop_prog"

definition py_raise :: "py_error \<Rightarrow> ('r, 'p, 'w, 'a) py_prog" where
  "py_raise e = prompt (throw (Exn e))"

definition py_give :: "'a \<Rightarrow> ('r, 'p, 'w, 'a) py_prog" where
  "py_give a = prompt (ret a)"

text \<open>\<open>py.detach(|| rt.block_on(m))\<close>, with the error converted.\<close>

definition detached :: "('w, qrmi_error, 'a) loop_prog \<Rightarrow> ('r, 'p, 'w, 'a) py_prog" where
  "detached m = (\<lambda>s. case m (py_world s) of
      None \<Rightarrow> None
    | Some (r, w) \<Rightarrow> Some (case r of
          Ok a \<Rightarrow> (Ok a, s\<lparr>py_world := w\<rparr>)
        | Err e \<Rightarrow> (Err (Exn (to_py_err e)), s\<lparr>py_world := w\<rparr>)
        | Panic \<Rightarrow> (Panic, s\<lparr>py_world := w\<rparr>)))"

definition new_object :: "('r, 'p) py_object \<Rightarrow> ('r, 'p, 'w, ref) py_prog" where
  "new_object x = (\<lambda>s. Some (Ok (next_ref s),
     s\<lparr>py_objects := (py_objects s)(next_ref s \<mapsto> x), next_ref := Suc (next_ref s)\<rparr>))"

text \<open>\<open>Runtime::new().expect(..)\<close>.\<close>

definition py_runtime :: "('r, 'p, 'w) rust_side \<Rightarrow> ('r, 'p, 'w, unit) py_prog" where
  "py_runtime B = (\<lambda>s. if rs_new_runtime B (py_world s) then py_give () s else prompt panic s)"

definition self_resource :: "ref \<Rightarrow> ('r, 'p, 'w, 'r) py_prog" where
  "self_resource q = (\<lambda>s. case py_objects s q of
      Some (ResourceObj r) \<Rightarrow> py_give r s | _ \<Rightarrow> prompt (throw NoSuchMethod) s)"

definition self_provider :: "ref \<Rightarrow> ('r, 'p, 'w, 'p) py_prog" where
  "self_provider q = (\<lambda>s. case py_objects s q of
      Some (ProviderObj p) \<Rightarrow> py_give p s | _ \<Rightarrow> prompt (throw NoSuchMethod) s)"

definition self_service :: "ref \<Rightarrow> ('r, 'p, 'w, string \<rightharpoonup> ref) py_prog" where
  "self_service q = (\<lambda>s. case py_objects s q of
      Some (ServiceObj m) \<Rightarrow> py_give m s | _ \<Rightarrow> prompt (throw NoSuchMethod) s)"

definition self_config :: "ref \<Rightarrow> ('r, 'p, 'w, string \<rightharpoonup> resource_def) py_prog" where
  "self_config q = (\<lambda>s. case py_objects s q of
      Some (ConfigObj m) \<Rightarrow> py_give m s | _ \<Rightarrow> prompt (throw NoSuchMethod) s)"

section \<open>The class QuantumResource\<close>

text \<open>\<open>from_inner\<close>.\<close>

definition py_from_inner :: "('r, 'p, 'w) rust_side \<Rightarrow> 'r \<Rightarrow> ('r, 'p, 'w, ref) py_prog" where
  "py_from_inner B r = chain (py_runtime B) (\<lambda>_. new_object (ResourceObj r))"

definition py_resource_new ::
    "('r, 'p, 'w) rust_side \<Rightarrow> string \<Rightarrow> py_resource_type \<Rightarrow> ('r, 'p, 'w, ref) py_prog" where
  "py_resource_new B resource_id ty =
     chain (detached (prompt (create_resource (ctors (rs_service B)) (from_py_type ty) resource_id)))
       (\<lambda>qrmi. chain (py_runtime B) (\<lambda>_. new_object (ResourceObj qrmi)))"

definition py_from_config ::
    "('r, 'p, 'w) rust_side \<Rightarrow> string \<Rightarrow> py_resource_type \<Rightarrow> config_map \<Rightarrow> ('r, 'p, 'w, ref) py_prog" where
  "py_from_config B resource_id ty config =
     chain (detached (prompt (create_resource_from_config (rs_config_ctors B) (from_py_type ty) resource_id config)))
       (\<lambda>qrmi. chain (py_runtime B) (\<lambda>_. new_object (ResourceObj qrmi)))"

text \<open>The surroundings of \<open>is_accessible\<close>: \<open>warnings.warn\<close>, and the exception it raises.\<close>

type_synonym 'w py_warn = "'w \<Rightarrow> string option \<times> 'w"

definition warn_deprecated :: "'w py_warn \<Rightarrow> ('r, 'p, 'w, unit) py_prog" where
  "warn_deprecated warn = (\<lambda>s. case warn (py_world s) of (exn, w) \<Rightarrow>
     (case exn of
        None \<Rightarrow> py_give () (s\<lparr>py_world := w\<rparr>)
      | Some text \<Rightarrow> py_raise (Warned text) (s\<lparr>py_world := w\<rparr>)))"

definition py_is_accessible ::
    "'w py_warn \<Rightarrow> ('r, 'p, 'w) rust_side \<Rightarrow> ref \<Rightarrow> ('r, 'p, 'w, bool) py_prog" where
  "py_is_accessible warn B q =
     chain (self_resource q) (\<lambda>r. chain (warn_deprecated warn) (\<lambda>_. detached (do_is_accessible B r)))"

definition py_status :: "('r, 'p, 'w) rust_side \<Rightarrow> ref \<Rightarrow> ('r, 'p, 'w, resource_status) py_prog" where
  "py_status B q = chain (self_resource q) (\<lambda>r. detached (do_status B r))"

definition py_resource_id :: "('r, 'p, 'w) rust_side \<Rightarrow> ref \<Rightarrow> ('r, 'p, 'w, string) py_prog" where
  "py_resource_id B q = chain (self_resource q) (\<lambda>r. detached (do_resource_id B r))"

definition py_type_of ::
    "('r, 'p, 'w) rust_side \<Rightarrow> ref \<Rightarrow> ('r, 'p, 'w, py_resource_type) py_prog" where
  "py_type_of B q =
     chain (self_resource q) (\<lambda>r. chain (detached (do_resource_type B r)) (\<lambda>v. py_give (to_py_type v)))"

definition py_acquire :: "('r, 'p, 'w) rust_side \<Rightarrow> ref \<Rightarrow> ('r, 'p, 'w, string) py_prog" where
  "py_acquire B q = chain (self_resource q) (\<lambda>r. detached (do_acquire B r))"

definition py_release :: "('r, 'p, 'w) rust_side \<Rightarrow> ref \<Rightarrow> string \<Rightarrow> ('r, 'p, 'w, unit) py_prog" where
  "py_release B q i = chain (self_resource q) (\<lambda>r. detached (do_release B r i))"

definition py_task_start :: "('r, 'p, 'w) rust_side \<Rightarrow> ref \<Rightarrow> payload \<Rightarrow> ('r, 'p, 'w, string) py_prog" where
  "py_task_start B q p = chain (self_resource q) (\<lambda>r. detached (do_task_start B r p))"

definition py_task_stop :: "('r, 'p, 'w) rust_side \<Rightarrow> ref \<Rightarrow> string \<Rightarrow> ('r, 'p, 'w, unit) py_prog" where
  "py_task_stop B q t = chain (self_resource q) (\<lambda>r. detached (do_task_stop B r t))"

definition py_task_status ::
    "('r, 'p, 'w) rust_side \<Rightarrow> ref \<Rightarrow> string \<Rightarrow> ('r, 'p, 'w, task_status) py_prog" where
  "py_task_status B q t = chain (self_resource q) (\<lambda>r. detached (do_task_status B r t))"

definition py_task_result :: "('r, 'p, 'w) rust_side \<Rightarrow> ref \<Rightarrow> string \<Rightarrow> ('r, 'p, 'w, string) py_prog" where
  "py_task_result B q t = chain (self_resource q) (\<lambda>r. detached (do_task_result B r t))"

definition py_task_logs :: "('r, 'p, 'w) rust_side \<Rightarrow> ref \<Rightarrow> string \<Rightarrow> ('r, 'p, 'w, string) py_prog" where
  "py_task_logs B q t = chain (self_resource q) (\<lambda>r. detached (do_task_logs B r t))"

definition py_target :: "('r, 'p, 'w) rust_side \<Rightarrow> ref \<Rightarrow> ('r, 'p, 'w, string) py_prog" where
  "py_target B q = chain (self_resource q) (\<lambda>r. detached (do_target B r))"

definition py_metadata ::
    "('r, 'p, 'w) rust_side \<Rightarrow> ref \<Rightarrow> ('r, 'p, 'w, string \<rightharpoonup> string) py_prog" where
  "py_metadata B q = chain (self_resource q)
     (\<lambda>r. detached (\<lambda>w. case do_metadata B r w of (m, w') \<Rightarrow> Some (Ok m, w')))"

text \<open>\<open>Drop\<close>: the runtime is shut down without waiting, and the object is gone.\<close>

definition py_drop :: "ref \<Rightarrow> ('r, 'p, 'w, unit) py_prog" where
  "py_drop q = prompt (modify (\<lambda>s. s\<lparr>py_objects := (py_objects s)(q := None)\<rparr>))"

section \<open>The class ResourceProvider\<close>

definition py_create_provider ::
    "('r, 'p, 'w) rust_side \<Rightarrow> py_resource_type \<Rightarrow> config_map \<Rightarrow> ('w, qrmi_error, 'p) prog" where
  "py_create_provider B ty environment = (case ty of
      PyIBMQiskitRuntimeService \<Rightarrow> new_runtime_provider B environment
    | PyIBMQuantumComputeService \<Rightarrow> new_compute_provider B environment
    | PyIBMQuantumSystem \<Rightarrow> new_system_provider B environment
    | _ \<Rightarrow> throw (UnsupportedResourceType (debug_py_type ty)))"

definition py_provider_new ::
    "('r, 'p, 'w) rust_side \<Rightarrow> py_resource_type \<Rightarrow> config_map \<Rightarrow> ('r, 'p, 'w, ref) py_prog" where
  "py_provider_new B ty environment =
     chain (detached (prompt (py_create_provider B ty environment))) (\<lambda>inner.
     chain (py_runtime B) (\<lambda>_. new_object (ProviderObj inner)))"

fun py_wrap_all :: "('r, 'p, 'w) rust_side \<Rightarrow> 'r list \<Rightarrow> ('r, 'p, 'w, ref list) py_prog" where
  "py_wrap_all B [] = py_give []"
| "py_wrap_all B (r # rs) =
     chain (py_from_inner B r) (\<lambda>a. chain (py_wrap_all B rs) (\<lambda>as. py_give (a # as)))"

definition py_provider_resources ::
    "('r, 'p, 'w) rust_side \<Rightarrow> ref \<Rightarrow> string option \<Rightarrow> ('r, 'p, 'w, ref list) py_prog" where
  "py_provider_resources B q filters =
     chain (self_provider q) (\<lambda>p. chain (detached (do_resources B p filters)) (py_wrap_all B))"

definition py_provider_least_busy ::
    "('r, 'p, 'w) rust_side \<Rightarrow> ref \<Rightarrow> string option \<Rightarrow> ('r, 'p, 'w, ref option) py_prog" where
  "py_provider_least_busy B q filters =
     chain (self_provider q) (\<lambda>p. chain (detached (do_least_busy B p filters)) (\<lambda>resource.
       case resource of
         None \<Rightarrow> py_give None
       | Some r \<Rightarrow> chain (py_from_inner B r) (\<lambda>a. py_give (Some a))))"

section \<open>The class QRMIService\<close>

definition py_service_new :: "('r, 'p, 'w) rust_side \<Rightarrow> ('r, 'p, 'w, ref) py_prog" where
  "py_service_new B =
     chain (py_runtime B) (\<lambda>_.
     chain (detached (\<lambda>w. prompt (service_new (rs_service B) (rs_environ B w)) w)) (\<lambda>m.
     chain (py_wrap_all B (map (\<lambda>k. the (m k)) (keys_of B m))) (\<lambda>refs.
       new_object (ServiceObj (map_of (zip (keys_of B m) refs))))))"

definition py_service_resources :: "('r, 'p, 'w) rust_side \<Rightarrow> ref \<Rightarrow> ('r, 'p, 'w, ref list) py_prog" where
  "py_service_resources B q =
     chain (self_service q) (\<lambda>m. py_give (map snd (entries_of B m)))"

definition py_service_resource :: "ref \<Rightarrow> string \<Rightarrow> ('r, 'p, 'w, ref option) py_prog" where
  "py_service_resource q resource_id = chain (self_service q) (\<lambda>m. py_give (m resource_id))"

section \<open>The classes Config and ResourceDef\<close>

definition py_config_load :: "('r, 'p, 'w) rust_side \<Rightarrow> string \<Rightarrow> ('r, 'p, 'w, ref) py_prog" where
  "py_config_load B path = (\<lambda>s. case config_load (rs_open B (py_world s)) (rs_parse B) path of
      Inr inner \<Rightarrow> new_object (ConfigObj inner) s
    | Inl e \<Rightarrow> py_raise (Raised PyRuntimeError e) s)"

definition py_resource_map :: "ref \<Rightarrow> ('r, 'p, 'w, string \<rightharpoonup> resource_def) py_prog" where
  "py_resource_map q = chain (self_config q) py_give"

definition py_def_name :: "resource_def \<Rightarrow> string" where
  "py_def_name d = rd_name d"

definition py_def_resource_type :: "resource_def \<Rightarrow> py_resource_type" where
  "py_def_resource_type d = to_py_type (rd_type d)"

definition py_def_is_dynamic :: "resource_def \<Rightarrow> bool" where
  "py_def_is_dynamic d = rd_is_dynamic d"

definition py_def_environment :: "resource_def \<Rightarrow> string \<rightharpoonup> string" where
  "py_def_environment d = rd_environment d"

end
