(* ===== verification/PyContracts.thy ===== *)
theory PyContracts
  imports PyBinding CContracts
begin

text \<open>
  What the Python binding promises: its methods are the operations of the trait, it
  reports every failure as the C binding does, and a service keeps its resource objects.
\<close>

declare outcome.case_cong [cong del]

section \<open>The methods are the operations of the trait\<close>

definition py_valued :: "('a \<Rightarrow> trait_value) \<Rightarrow> ('r, 'p, 'w, 'a) py_prog \<Rightarrow> ('r, 'p, 'w, trait_value) py_prog" where
  "py_valued f m = chain m (\<lambda>a. py_give (f a))"

fun py_method ::
    "'w py_warn \<Rightarrow> ('r, 'p, 'w) rust_side \<Rightarrow> ref \<Rightarrow> trait_op \<Rightarrow> ('r, 'p, 'w, trait_value) py_prog" where
  "py_method warn B q OpAccessible = py_valued VBool (py_is_accessible warn B q)"
| "py_method warn B q OpStatus = py_valued VStatus (py_status B q)"
| "py_method warn B q OpId = py_valued VString (py_resource_id B q)"
| "py_method warn B q OpType = py_valued (\<lambda>t. VType (from_py_type t)) (py_type_of B q)"
| "py_method warn B q OpAcquire = py_valued VString (py_acquire B q)"
| "py_method warn B q (OpRelease t) = py_valued (\<lambda>_. VUnit) (py_release B q t)"
| "py_method warn B q (OpStart p) = py_valued VString (py_task_start B q p)"
| "py_method warn B q (OpStop t) = py_valued (\<lambda>_. VUnit) (py_task_stop B q t)"
| "py_method warn B q (OpTask t) = py_valued VTask (py_task_status B q t)"
| "py_method warn B q (OpResult t) = py_valued VString (py_task_result B q t)"
| "py_method warn B q (OpLogs t) = py_valued VString (py_task_logs B q t)"
| "py_method warn B q OpTarget = py_valued VString (py_target B q)"
| "py_method warn B q OpMetadata = py_valued VMap (py_metadata B q)"

lemma on_self: "py_objects s q = Some (ResourceObj r) \<Longrightarrow> chain (self_resource q) f s = f r s"
  by (simp add: chain_def self_resource_def py_give_def prompt_def ret_def)

lemma py_valued_detached: "py_valued f (detached m) s = detached (valued f m) s"
  by (auto simp: py_valued_def valued_def detached_def chain_def py_give_def prompt_def ret_def
      split: option.split prod.split outcome.split)

lemma py_valued_chain: "py_valued g (chain m (\<lambda>v. py_give (h v))) = py_valued (\<lambda>v. g (h v)) m"
  by (rule ext) (auto simp: py_valued_def chain_def py_give_def prompt_def ret_def
      split: option.split prod.split outcome.split)

lemma py_valued_self:
  assumes "py_objects s q = Some (ResourceObj r)"
  shows "py_valued f (chain (self_resource q) k) s = py_valued f (k r) s"
  using on_self [OF assms, of k] by (simp add: py_valued_def chain_def [of "chain (self_resource q) k"] chain_def [of "k r"])

lemma py_method_runs:
  assumes "py_objects s q = Some (ResourceObj r)" and "x \<noteq> OpAccessible"
  shows "py_method warn B q x s = detached (trait_run B r x) s"
  using assms(2)
  by (cases x) (simp_all add: py_status_def py_resource_id_def py_acquire_def py_release_def py_task_start_def
    py_task_stop_def py_task_status_def py_task_result_def py_task_logs_def py_target_def py_metadata_def
    py_type_of_def py_valued_self [OF assms(1)] py_valued_chain py_valued_detached)

section \<open>Exceptions and return codes\<close>

text \<open>The exception class that stands for a return code of the C binding.\<close>

fun class_of_code :: "return_code \<Rightarrow> py_class" where
  "class_of_code EnvVarNotSetError = PyEnvVarNotSetError"
| "class_of_code ParseErrorCode = PyConfigError"
| "class_of_code MissingConfigKeyError = PyConfigError"
| "class_of_code InvalidConfigError = PyConfigError"
| "class_of_code UnsupportedResourceTypeError = PyUnsupportedResourceTypeError"
| "class_of_code UnsupportedPayloadError = PyUnsupportedPayloadError"
| "class_of_code UnsupportedFunctionError = PyUnsupportedFunctionError"
| "class_of_code TaskNotReadyError = PyTaskNotReadyError"
| "class_of_code InvalidInputError = PyInvalidInputError"
| "class_of_code ResourceNotFoundError = PyResourceNotFoundError"
| "class_of_code TaskNotFoundError = PyTaskNotFoundError"
| "class_of_code AuthenticationFailedError = PyAuthenticationFailedError"
| "class_of_code _ = PyQrmiError"

lemma to_py_err_class:
  "to_py_err e = Raised (class_of_code (return_code_of_kind (kind e))) (error_display e)"
  by (cases "kind e") (simp_all add: to_py_err_def)

lemma class_of_code_caught: "caught_by (class_of_code c) PyQrmiError"
  by (cases c) (simp_all add: caught_by_def)


text \<open>
  Loading a configuration in Python: the failure is a plain \<open>RuntimeError\<close>, which
  an \<open>except QrmiError\<close> clause does not catch, while every error of a resource, a
  provider or the service is caught by it.
\<close>

lemma config_error_escapes:
  assumes "py_config_load B path s = Some (Err f, t)"
  shows "\<exists>m. f = Exn (Raised PyRuntimeError m) \<and> \<not> caught_by PyRuntimeError PyQrmiError
    \<and> (\<forall>e. \<exists>cls. to_py_err e = Raised cls (error_display e) \<and> caught_by cls PyQrmiError)"
proof -
  have "f = Exn (Raised PyRuntimeError m)"
    if "config_load (rs_open B (py_world s)) (rs_parse B) path = Inl m" for m
    using assms that by (simp add: py_config_load_def py_raise_def prompt_def throw_def)
  moreover have "\<exists>m. config_load (rs_open B (py_world s)) (rs_parse B) path = Inl m"
    using assms by (cases "config_load (rs_open B (py_world s)) (rs_parse B) path")
      (auto simp: py_config_load_def new_object_def)
  moreover have "\<not> caught_by PyRuntimeError PyQrmiError" by (simp add: caught_by_def)
  ultimately show ?thesis using to_py_err_class class_of_code_caught by blast
qed

section \<open>Runs of a Python program\<close>

text \<open>
  What a program does with the classes.  An object goes (\<open>Drop\<close>) when nothing refers to
  it: no service object, and the program does not hold it.
\<close>

inductive py_step ::
    "'w py_warn \<Rightarrow> ('r, 'p, 'w) rust_side \<Rightarrow> ref set \<Rightarrow> ('r, 'p, 'w) py_state \<Rightarrow> ('r, 'p, 'w) py_state \<Rightarrow> bool"
  for warn B held where
  a_method: "py_method warn B q x s = Some (a, t) \<Longrightarrow> py_step warn B held s t"
| new: "py_resource_new B i ty s = Some (b, t) \<Longrightarrow> py_step warn B held s t"
| from_config: "py_from_config B i ty cfg s = Some (b, t) \<Longrightarrow> py_step warn B held s t"
| provider: "py_provider_new B ty cfg s = Some (b, t) \<Longrightarrow> py_step warn B held s t"
| resources: "py_provider_resources B q fl s = Some (c, t) \<Longrightarrow> py_step warn B held s t"
| least_busy: "py_provider_least_busy B q fl s = Some (d, t) \<Longrightarrow> py_step warn B held s t"
| service: "py_service_new B s = Some (b, t) \<Longrightarrow> py_step warn B held s t"
| service_list: "py_service_resources B q s = Some (c, t) \<Longrightarrow> py_step warn B held s t"
| service_get: "py_service_resource q i s = Some (d, t) \<Longrightarrow> py_step warn B held s t"
| load_config: "py_config_load B path s = Some (b, t) \<Longrightarrow> py_step warn B held s t"
| config_map: "py_resource_map q s = Some (e, t) \<Longrightarrow> py_step warn B held s t"
| collect: "q \<notin> held \<Longrightarrow> (\<And>v m. py_objects s v = Some (ServiceObj m) \<Longrightarrow> q \<notin> ran m) \<Longrightarrow>
    py_drop q s = Some (f, t) \<Longrightarrow> py_step warn B held s t"
| elsewhere: "py_step warn B held s (s\<lparr>py_world := w\<rparr>)"

inductive py_runs ::
    "'w py_warn \<Rightarrow> ('r, 'p, 'w) rust_side \<Rightarrow> ref set \<Rightarrow> ('r, 'p, 'w) py_state \<Rightarrow> ('r, 'p, 'w) py_state \<Rightarrow> bool"
  for warn B held s where
  py_starts: "py_runs warn B held s s"
| py_goes_on: "py_runs warn B held s t \<Longrightarrow> py_step warn B held t u \<Longrightarrow> py_runs warn B held s u"

text \<open>References are given once, and objects stay what they are while they exist.\<close>

definition fresh_refs :: "('r, 'p, 'w) py_state \<Rightarrow> bool" where
  "fresh_refs s \<longleftrightarrow> (\<forall>q. next_ref s \<le> q \<longrightarrow> py_objects s q = None)"

definition grows :: "('r, 'p, 'w) py_state \<Rightarrow> ('r, 'p, 'w) py_state \<Rightarrow> bool" where
  "grows s t \<longleftrightarrow> next_ref s \<le> next_ref t \<and> (\<forall>q < next_ref s. py_objects t q = py_objects s q)
     \<and> (fresh_refs s \<longrightarrow> fresh_refs t)"

interpretation objects: step_order "grows :: ('r, 'p, 'w) py_state \<Rightarrow> ('r, 'p, 'w) py_state \<Rightarrow> bool"
  by unfold_locales (auto simp: grows_def)

named_theorems growing \<open>programs that only add objects\<close>

lemma growing_steps [growing]:
  "keeps grows (py_give a)" "keeps grows (py_raise e)" "keeps grows (detached m)" "keeps grows (new_object x)"
  "keeps grows (py_runtime B)" "keeps grows (self_resource q)" "keeps grows (self_provider q)"
  "keeps grows (self_service q)" "keeps grows (self_config q)" "keeps grows (warn_deprecated wn)"
  "keeps grows (py_config_load B path)"
  by (auto simp: keeps_def yields_def grows_def fresh_refs_def py_give_def py_raise_def detached_def new_object_def
      py_runtime_def self_resource_def self_provider_def self_service_def self_config_def warn_deprecated_def
      py_config_load_def prompt_def ret_def throw_def panic_def
      split: option.splits prod.splits outcome.splits if_splits py_object.splits sum.splits)

lemmas growing_rules = objects.keeps_chain growing_steps

lemma growing_wrap [growing]: "keeps grows (py_wrap_all B rs)"
  by (induction rs) (auto simp: py_from_inner_def intro: growing_rules)

lemma growing_wrapped [growing]:
  "keeps grows (case resource of None \<Rightarrow> py_give None | Some r \<Rightarrow> chain (py_from_inner B r) (\<lambda>a. py_give (Some a)))"
  by (auto simp: py_from_inner_def intro: growing_rules split: option.split)

lemma growing_calls [growing]:
  "keeps grows (py_method warn B q x)" "keeps grows (py_resource_new B i ty)" "keeps grows (py_from_config B i ty cfg)"
  "keeps grows (py_provider_new B ty cfg)" "keeps grows (py_provider_resources B q fl)"
  "keeps grows (py_provider_least_busy B q fl)" "keeps grows (py_service_new B)"
  "keeps grows (py_service_resources B q)" "keeps grows (py_service_resource q i)" "keeps grows (py_resource_map q)"
  subgoal by (cases x) (auto simp: py_valued_def py_status_def py_resource_id_def py_acquire_def py_release_def
    py_task_start_def py_task_stop_def py_task_status_def py_task_result_def py_task_logs_def py_target_def
    py_metadata_def py_type_of_def py_is_accessible_def intro!: growing_rules)
  by (auto simp: py_resource_new_def py_from_config_def py_provider_new_def py_provider_resources_def
    py_provider_least_busy_def py_service_new_def py_service_resources_def py_service_resource_def py_resource_map_def
    intro!: growing_rules growing_wrap growing_wrapped)

lemma py_step_grows:
  "py_step warn B held s t \<Longrightarrow> grows s t \<or> (\<exists>q. q \<notin> held \<and> (\<forall>v m. py_objects s v = Some (ServiceObj m) \<longrightarrow> q \<notin> ran m)
     \<and> t = s\<lparr>py_objects := (py_objects s)(q := None)\<rparr>)"
proof (induction rule: py_step.induct)
  case (collect q s f t)
  then have "t = s\<lparr>py_objects := (py_objects s)(q := None)\<rparr>" by (simp add: py_drop_def prompt_def modify_def)
  with collect(1,2) show ?case by blast
next
  case (elsewhere s w)
  then show ?case by (simp add: grows_def fresh_refs_def)
qed (auto dest: keepsD [OF growing_steps(11)] keepsD [OF growing_calls(1)] keepsD [OF growing_calls(2)]
   keepsD [OF growing_calls(3)] keepsD [OF growing_calls(4)] keepsD [OF growing_calls(5)] keepsD [OF growing_calls(6)]
   keepsD [OF growing_calls(7)] keepsD [OF growing_calls(8)] keepsD [OF growing_calls(9)] keepsD [OF growing_calls(10)])

section \<open>The objects of a service\<close>

lemma wrap_all_refs:
  "py_wrap_all B rs s = Some (Ok refs, t) \<Longrightarrow>
     refs = [next_ref s ..< next_ref s + length rs] \<and> next_ref t = next_ref s + length rs
     \<and> (\<forall>i < length rs. py_objects t (next_ref s + i) = Some (ResourceObj (rs ! i)))
     \<and> (\<forall>q < next_ref s. py_objects t q = py_objects s q)"
proof (induction rs arbitrary: s refs)
  case Nil
  then show ?case by (simp add: py_give_def prompt_def ret_def)
next
  case (Cons r rs)
  let ?s1 = "s\<lparr>py_objects := (py_objects s)(next_ref s \<mapsto> ResourceObj r), next_ref := Suc (next_ref s)\<rparr>"
  from Cons.prems obtain as where rest: "py_wrap_all B rs ?s1 = Some (Ok as, t)" and refs: "refs = next_ref s # as"
    by (auto simp: chain_Some py_from_inner_def py_runtime_def new_object_def py_give_def prompt_def ret_def panic_def
        split: if_splits)
  have IH: "as = [Suc (next_ref s) ..< Suc (next_ref s + length rs)]" "next_ref t = Suc (next_ref s + length rs)"
    "\<And>i. i < length rs \<Longrightarrow> py_objects t (Suc (next_ref s + i)) = Some (ResourceObj (rs ! i))"
    "\<And>q. q < Suc (next_ref s) \<Longrightarrow> py_objects t q = (if q = next_ref s then Some (ResourceObj r) else py_objects s q)"
    using Cons.IH [OF rest] by (simp_all del: upt_Suc)
  have "py_objects t (next_ref s + i) = Some (ResourceObj ((r # rs) ! i))" if "i < length (r # rs)" for i
    using IH(3,4) that by (cases i) simp_all
  moreover have "[next_ref s ..< Suc (next_ref s + length rs)] = next_ref s # [Suc (next_ref s) ..< Suc (next_ref s + length rs)]"
    by (rule upt_conv_Cons) simp
  ultimately show ?case using IH refs by (simp del: upt_Suc)
qed

text \<open>A service that the program keeps keeps its objects.\<close>

lemma service_kept:
  assumes "py_runs warn B {svc} s1 s2" and "fresh_refs s1" and "py_objects s1 svc = Some (ServiceObj m)"
  shows "fresh_refs s2 \<and> py_objects s2 svc = Some (ServiceObj m) \<and> next_ref s1 \<le> next_ref s2
    \<and> (\<forall>q \<in> ran m. q < next_ref s1 \<longrightarrow> py_objects s2 q = py_objects s1 q)"
  using assms
proof (induction rule: py_runs.induct)
  case py_starts
  then show ?case by simp
next
  case (py_goes_on t u)
  then have I: "fresh_refs t" "py_objects t svc = Some (ServiceObj m)" "next_ref s1 \<le> next_ref t"
    "\<forall>q \<in> ran m. q < next_ref s1 \<longrightarrow> py_objects t q = py_objects s1 q" by blast+
  have lt: "svc < next_ref t" using I(1,2) by (metis fresh_refs_def leI option.distinct(1))
  from py_step_grows [OF py_goes_on(2)] show ?case
  proof
    assume "grows t u"
    then show ?thesis using I lt unfolding grows_def by (metis (no_types, lifting) dual_order.strict_trans1 le_trans)
  next
    assume "\<exists>q. q \<notin> {svc} \<and> (\<forall>v m. py_objects t v = Some (ServiceObj m) \<longrightarrow> q \<notin> ran m)
       \<and> u = t\<lparr>py_objects := (py_objects t)(q := None)\<rparr>"
    then obtain q where q: "q \<noteq> svc" "q \<notin> ran m" "u = t\<lparr>py_objects := (py_objects t)(q := None)\<rparr>"
      using I(2) by blast
    then show ?thesis using I by (auto simp: fresh_refs_def)
  qed
qed

text \<open>
  C12. The resources of a Python service: under each name it has the resource that
  \<open>QRMIService::new\<close> found, and \<open>resource(name)\<close> gives the same object whenever it is asked,
  whatever the program does in between with it, with other objects and with other services,
  as long as it keeps the service; a session acquired on the object is not lost.
\<close>

theorem service_same_objects:
  assumes "py_service_new B s0 = Some (Ok svc, s1)" and "fresh_refs s0"
    and "\<And>found w. service_new (rs_service B) (rs_environ B (py_world s0)) (py_world s0) = (Ok found, w) \<Longrightarrow>
      distinct (keys_of B found) \<and> set (keys_of B found) = dom found"
    and "py_runs warn B {svc} s1 s2"
  shows "\<exists>found w m. service_new (rs_service B) (rs_environ B (py_world s0)) (py_world s0) = (Ok found, w)
    \<and> py_service_resource svc name s1 = Some (Ok (m name), s1)
    \<and> py_service_resource svc name s2 = Some (Ok (m name), s2)
    \<and> (case m name of
         None \<Rightarrow> found name = None
       | Some q \<Rightarrow> \<exists>r. found name = Some r \<and> py_objects s1 q = Some (ResourceObj r) \<and> py_objects s2 q = Some (ResourceObj r))"
proof -
  let ?svc = "service_new (rs_service B) (rs_environ B (py_world s0)) (py_world s0)"
  from assms(1) obtain found w refs s3 where
    new: "?svc = (Ok found, w)" and
    wrap: "py_wrap_all B (map (\<lambda>k. the (found k)) (keys_of B found)) (s0\<lparr>py_world := w\<rparr>) = Some (Ok refs, s3)" and
    made: "new_object (ServiceObj (map_of (zip (keys_of B found) refs))) s3 = Some (Ok svc, s1)"
    by (auto simp: py_service_new_def chain_Some py_runtime_def detached_def prompt_def py_give_def ret_def panic_def
        split: if_splits option.splits prod.splits outcome.splits)
  let ?ks = "keys_of B found" and ?n = "next_ref s0"
  let ?m = "map_of (zip ?ks refs)"
  have ks: "distinct ?ks" "set ?ks = dom found"
    using assms(3) [OF new] by simp_all
  from wrap_all_refs [OF wrap] have
    refs: "refs = [?n ..< ?n + length ?ks]" "next_ref s3 = ?n + length ?ks" and
    objs: "\<And>i. i < length ?ks \<Longrightarrow> py_objects s3 (?n + i) = Some (ResourceObj (the (found (?ks ! i))))"
    by (simp_all del: upt_Suc)
  have s1: "svc = next_ref s3" "s1 = s3\<lparr>py_objects := (py_objects s3)(svc \<mapsto> ServiceObj ?m), next_ref := Suc svc\<rparr>"
    using made by (auto simp: new_object_def)
  have entry: "\<exists>i < length ?ks. ?ks ! i = k \<and> q = ?n + i" if "?m k = Some q" for k q
    using map_of_SomeD [OF that] refs(1) by (auto simp: set_zip simp del: upt_Suc)
  have obj1: "\<exists>r. found k = Some r \<and> py_objects s1 q = Some (ResourceObj r)"
      and below: "q < svc" if "?m k = Some q" for k q
  proof -
    from entry [OF that] obtain i where i: "i < length ?ks" "?ks ! i = k" "q = ?n + i" by auto
    then have "k \<in> dom found" using ks(2) nth_mem by blast
    then obtain r where "found k = Some r" by auto
    then show "\<exists>r. found k = Some r \<and> py_objects s1 q = Some (ResourceObj r)" "q < svc"
      using i objs [OF i(1)] refs(2) s1 by auto
  qed
  have kept: "py_objects s2 svc = Some (ServiceObj ?m) \<and> (\<forall>k q. ?m k = Some q \<longrightarrow> py_objects s2 q = py_objects s1 q)"
  proof -
    have "fresh_refs s1" using keepsD [OF growing_calls(7) assms(1)] assms(2) by (simp add: grows_def)
    moreover have "py_objects s1 svc = Some (ServiceObj ?m)" by (simp add: s1(2))
    moreover have "q < next_ref s1" if "?m k = Some q" for k q using below [OF that] s1(2) by simp
    ultimately show ?thesis using service_kept [OF assms(4)] by (metis ranI)
  qed
  have "found name = None" if "?m name = None"
    using that ks(2) refs(1) by (auto simp: map_of_zip_is_None dom_def simp del: upt_Suc)
  moreover have "py_service_resource svc name s1 = Some (Ok (?m name), s1)" "py_service_resource svc name s2 = Some (Ok (?m name), s2)"
    using kept by (simp_all add: py_service_resource_def self_service_def chain_def py_give_def prompt_def ret_def s1)
  ultimately show ?thesis
    using new obj1 [of name] kept by (intro exI [of _ found] exI [of _ w] exI [of _ ?m]) (auto split: option.split)
qed

end
