(* ===== verification/Logging.thy ===== *)
theory Logging
  imports Loops CHeap
begin

text \<open>
  Logging (\<open>src/src/common/logging.rs\<close>): the records of the \<open>log\<close> crate go to
  \<open>env_logger\<close>, and from there to the sink that the C or the Python side has registered,
  or to standard error.  The adapters of the two bindings are here as well:
  \<open>qrmi_log_callback_set\<close> of \<open>src/src/cext.rs\<close>, \<open>python_log_sink\<close> and
  \<open>set_log_callback\<close> of \<open>src/src/pyext.rs\<close>.

  A sink runs code of the host, which may log again, set another sink, or drop the last
  reference to a Python object.  So the operations of one thread are lists of actions, and
  a sink gives the list of the actions it performs.  \<open>LOG_SINK\<close> is behind a lock; a
  thread that waits for a lock it holds itself gets stuck, the error \<open>WouldBlock\<close>.  A
  run that never ends, for instance a sink that logs on every record, is \<open>None\<close>.
\<close>

section \<open>Records, sinks, actions\<close>

datatype severity = LevelError | LevelWarn | LevelInfo | LevelDebug | LevelTrace

fun level_str :: "severity \<Rightarrow> string" where
  "level_str LevelError = ''ERROR''"
| "level_str LevelWarn = ''WARN''"
| "level_str LevelInfo = ''INFO''"
| "level_str LevelDebug = ''DEBUG''"
| "level_str LevelTrace = ''TRACE''"

record log_record =
  rec_level :: severity
  rec_target :: string
  rec_args :: string

text \<open>The closures that the bindings make of a C function, of \<open>python_log_sink\<close> and of a
  Python callable.\<close>

datatype ('f, 'o) log_sink = CFunction 'f | PythonLogging | PythonCallable 'o

datatype ('f, 'o) log_action =
    Emit log_record
  | CCallbackSet "'f option"
  | PyCallbackSet "'o option"
  | PyImport
  | EntryPoint

text \<open>Who receives the records of the process, \<open>log::set_logger\<close>: at most one logger.\<close>

datatype registered = NoLogger | OurLogger | OtherLogger

text \<open>
  \<open>sink_arc\<close> is the \<open>Arc\<close> in \<open>LOG_SINK\<close>, with the number that tells it from the
  other ones, \<open>in_flight\<close> the numbers of the clones that \<open>dispatch_to_sink\<close> holds.
\<close>

record ('f, 'o, 'w) log_state =
  init_done :: bool
  registered :: registered
  sink_arc :: "(nat \<times> ('f, 'o) log_sink) option"
  next_arc :: nat
  in_flight :: "nat list"
  lock_readers :: nat
  lock_writer :: bool
  lock_poisoned :: bool
  host :: 'w

text \<open>
  The surroundings: \<open>RUST_LOG\<close>'s filter, the C functions, the interpreter.
  \<open>attached\<close> says whether \<open>Python::try_attach\<close> succeeds, \<open>logger_for\<close> gives
  \<open>logging.getLogger(target)\<close>, \<open>None\<close> when the import or the call raises, and
  \<open>object_del\<close> what dropping the last reference to an object runs.
\<close>

record ('f, 'o, 'l, 'w) log_env =
  log_enabled :: "log_record \<Rightarrow> bool"
  to_stderr :: "log_record \<Rightarrow> 'w \<Rightarrow> 'w"
  to_other_logger :: "log_record \<Rightarrow> 'w \<Rightarrow> 'w"
  c_function :: "'f \<Rightarrow> string \<Rightarrow> string \<Rightarrow> string \<Rightarrow> 'w \<Rightarrow> ('f, 'o) log_action list \<times> 'w"
  attached :: "'w \<Rightarrow> bool"
  logger_for :: "string \<Rightarrow> 'w \<Rightarrow> 'l option \<times> 'w"
  logger_log :: "'l \<Rightarrow> int \<Rightarrow> string \<Rightarrow> 'w \<Rightarrow> ('f, 'o) log_action list \<times> 'w"
  call_object :: "'o \<Rightarrow> string \<Rightarrow> string \<Rightarrow> string \<Rightarrow> 'w \<Rightarrow> ('f, 'o) log_action list \<times> 'w"
  object_del :: "'o \<Rightarrow> 'w \<Rightarrow> ('f, 'o) log_action list \<times> 'w"

datatype lock_error = WouldBlock

type_synonym ('f, 'o, 'w, 'a) log_prog = "(('f, 'o, 'w) log_state, lock_error, 'a) loop_prog"

text \<open>How a list of actions is performed: the argument for the recursion.\<close>

type_synonym ('f, 'o, 'w) perform = "('f, 'o) log_action list \<Rightarrow> ('f, 'o, 'w, unit) log_prog"

section \<open>The lock\<close>

text \<open>The guard of a poisoned lock is dropped at once.\<close>

definition read_sink :: "('f, 'o, 'w, (nat \<times> ('f, 'o) log_sink) option option) log_prog" where
  "read_sink = (\<lambda>s. if lock_writer s then Some (Err WouldBlock, s)
     else Some (Ok (if lock_poisoned s then None else Some (sink_arc s)),
       if lock_poisoned s then s else s\<lparr>lock_readers := lock_readers s + 1\<rparr>))"

definition drop_read_guard :: "('f, 'o, 'w, unit) log_prog" where
  "drop_read_guard = prompt (modify (\<lambda>s. s\<lparr>lock_readers := lock_readers s - 1\<rparr>))"

definition write_guard :: "('f, 'o, 'w, bool) log_prog" where
  "write_guard = (\<lambda>s. if lock_writer s \<or> lock_readers s > 0 then Some (Err WouldBlock, s)
     else Some (Ok (\<not> lock_poisoned s), if lock_poisoned s then s else s\<lparr>lock_writer := True\<rparr>))"

definition drop_write_guard :: "('f, 'o, 'w, unit) log_prog" where
  "drop_write_guard = prompt (modify (\<lambda>s. s\<lparr>lock_writer := False\<rparr>))"

text \<open>Effects of the host.\<close>

definition by_host :: "('w \<Rightarrow> 'a \<times> 'w) \<Rightarrow> ('f, 'o, 'w, 'a) log_prog" where
  "by_host f = (\<lambda>s. case f (host s) of (a, w) \<Rightarrow> Some (Ok a, s\<lparr>host := w\<rparr>))"

section \<open>Sinks\<close>

text \<open>
  Dropping an \<open>Arc\<close>: the closure goes with its last owner.  Only the one of a Python
  callable owns something, a reference to the object.
\<close>

definition drop_arc ::
    "('f, 'o, 'l, 'w) log_env \<Rightarrow> ('f, 'o, 'w) perform \<Rightarrow> nat \<times> ('f, 'o) log_sink \<Rightarrow> ('f, 'o, 'w, unit) log_prog" where
  "drop_arc E run a = (\<lambda>s.
     if fst a \<in> set (in_flight s) \<or> map_option fst (sink_arc s) = Some (fst a) then Some (Ok (), s)
     else (case snd a of
         PythonCallable obj \<Rightarrow> chain (by_host (object_del E obj)) run s
       | _ \<Rightarrow> Some (Ok (), s)))"

text \<open>\<open>set_log_sink\<close>: the old sink is dropped by the assignment, under the lock.\<close>

definition set_log_sink ::
    "('f, 'o, 'l, 'w) log_env \<Rightarrow> ('f, 'o, 'w) perform \<Rightarrow> ('f, 'o) log_sink option \<Rightarrow> ('f, 'o, 'w, bool) log_prog" where
  "set_log_sink E run sink =
     chain write_guard (\<lambda>usable.
       if \<not> usable then prompt (ret False)
       else chain (\<lambda>s. Some (Ok (sink_arc s), s\<lparr>sink_arc := map_option (Pair (next_arc s)) sink,
                next_arc := Suc (next_arc s)\<rparr>)) (\<lambda>old.
            chain (case old of Some a \<Rightarrow> drop_arc E run a | None \<Rightarrow> prompt (ret ())) (\<lambda>_.
            chain drop_write_guard (\<lambda>_. prompt (ret True)))))"

text \<open>The adapter of \<open>qrmi_log_callback_set\<close>.\<close>

definition c_adapter ::
    "('f, 'o, 'l, 'w) log_env \<Rightarrow> ('f, 'o, 'w) perform \<Rightarrow> 'f \<Rightarrow> log_record \<Rightarrow> ('f, 'o, 'w, unit) log_prog" where
  "c_adapter E run f r =
     chain (by_host (c_function E f (sanitized_cstring (level_str (rec_level r)))
       (sanitized_cstring (rec_target r)) (sanitized_cstring (rec_args r)))) run"

text \<open>\<open>python_log_sink\<close>, with the level numbers of Python's \<open>logging\<close>.\<close>

fun py_level :: "severity \<Rightarrow> int" where
  "py_level LevelError = 40"
| "py_level LevelWarn = 30"
| "py_level LevelInfo = 20"
| "py_level LevelDebug = 10"
| "py_level LevelTrace = 10"

definition python_log_sink ::
    "('f, 'o, 'l, 'w) log_env \<Rightarrow> ('f, 'o, 'w) perform \<Rightarrow> log_record \<Rightarrow> ('f, 'o, 'w, unit) log_prog" where
  "python_log_sink E run r = (\<lambda>s.
     if attached E (host s)
     then chain (by_host (logger_for E (rec_target r))) (\<lambda>logger. case logger of
         None \<Rightarrow> prompt (ret ())
       | Some l \<Rightarrow> chain (by_host (logger_log E l (py_level (rec_level r)) (rec_args r))) run) s
     else Some (Ok (), s))"

text \<open>The closure of \<open>set_log_callback\<close>; an exception is printed by the callee's side.\<close>

definition python_callable ::
    "('f, 'o, 'l, 'w) log_env \<Rightarrow> ('f, 'o, 'w) perform \<Rightarrow> 'o \<Rightarrow> log_record \<Rightarrow> ('f, 'o, 'w, unit) log_prog" where
  "python_callable E run obj r = (\<lambda>s.
     if attached E (host s)
     then chain (by_host (call_object E obj (level_str (rec_level r)) (rec_target r) (rec_args r))) run s
     else Some (Ok (), s))"

definition call_sink ::
    "('f, 'o, 'l, 'w) log_env \<Rightarrow> ('f, 'o, 'w) perform \<Rightarrow> ('f, 'o) log_sink \<Rightarrow> log_record \<Rightarrow> ('f, 'o, 'w, unit) log_prog" where
  "call_sink E run k r = (case k of
      CFunction f \<Rightarrow> c_adapter E run f r
    | PythonLogging \<Rightarrow> python_log_sink E run r
    | PythonCallable obj \<Rightarrow> python_callable E run obj r)"

section \<open>Dispatch\<close>

text \<open>\<open>dispatch_to_sink\<close>: the handle is cloned, and the lock released, before the sink runs.\<close>

definition dispatch_to_sink ::
    "('f, 'o, 'l, 'w) log_env \<Rightarrow> ('f, 'o, 'w) perform \<Rightarrow> log_record \<Rightarrow> ('f, 'o, 'w, bool) log_prog" where
  "dispatch_to_sink E run r =
     chain read_sink (\<lambda>guard. case guard of
         None \<Rightarrow> prompt (ret False)
       | Some sink \<Rightarrow>
           chain (prompt (modify (\<lambda>s. s\<lparr>in_flight := (case sink of Some a \<Rightarrow> [fst a] | None \<Rightarrow> []) @ in_flight s\<rparr>))) (\<lambda>_.
           chain drop_read_guard (\<lambda>_. case sink of
               None \<Rightarrow> prompt (ret False)
             | Some a \<Rightarrow>
                 chain (call_sink E run (snd a) r) (\<lambda>_.
                 chain (prompt (modify (\<lambda>s. s\<lparr>in_flight := remove1 (fst a) (in_flight s)\<rparr>))) (\<lambda>_.
                 chain (drop_arc E run a) (\<lambda>_. prompt (ret True)))))))"

text \<open>A record of the \<open>log\<close> macros: \<open>initialize\<close>'s format closure when the logger is ours.\<close>

definition emit ::
    "('f, 'o, 'l, 'w) log_env \<Rightarrow> ('f, 'o, 'w) perform \<Rightarrow> log_record \<Rightarrow> ('f, 'o, 'w, unit) log_prog" where
  "emit E run r = (\<lambda>s. case registered s of
      NoLogger \<Rightarrow> Some (Ok (), s)
    | OtherLogger \<Rightarrow> by_host (\<lambda>w. ((), to_other_logger E r w)) s
    | OurLogger \<Rightarrow>
        if log_enabled E r
        then chain (dispatch_to_sink E run r) (\<lambda>handled.
          if handled then prompt (ret ()) else by_host (\<lambda>w. ((), to_stderr E r w))) s
        else Some (Ok (), s))"

text \<open>\<open>initialize\<close>: once, and \<open>try_init\<close> gives way to a logger that is there.\<close>

definition initialize :: "('f, 'o, 'w, unit) log_prog" where
  "initialize = prompt (modify (\<lambda>s. if init_done s then s
     else s\<lparr>init_done := True,
            registered := (if registered s = NoLogger then OurLogger else registered s)\<rparr>))"

text \<open>\<open>qrmi_log_callback_set\<close>, \<open>set_log_callback\<close> and the initialisation of the Python
  module; the results are the return code and \<open>PyResult\<close>.\<close>

definition qrmi_log_callback_set ::
    "('f, 'o, 'l, 'w) log_env \<Rightarrow> ('f, 'o, 'w) perform \<Rightarrow> 'f option \<Rightarrow> ('f, 'o, 'w, return_code) log_prog" where
  "qrmi_log_callback_set E run callback =
     chain (set_log_sink E run (map_option CFunction callback)) (\<lambda>ok.
     chain initialize (\<lambda>_. prompt (ret (if ok then Success else Error))))"

definition set_log_callback ::
    "('f, 'o, 'l, 'w) log_env \<Rightarrow> ('f, 'o, 'w) perform \<Rightarrow> 'o option \<Rightarrow> ('f, 'o, 'w, string + unit) log_prog" where
  "set_log_callback E run callback =
     chain initialize (\<lambda>_.
     chain (set_log_sink E run (map_option PythonCallable callback)) (\<lambda>ok.
       prompt (ret (if ok then Inr () else Inl ''Failed to set log callback''))))"

definition module_init_logging ::
    "('f, 'o, 'l, 'w) log_env \<Rightarrow> ('f, 'o, 'w) perform \<Rightarrow> ('f, 'o, 'w, unit) log_prog" where
  "module_init_logging E run =
     chain initialize (\<lambda>_. chain (set_log_sink E run (Some PythonLogging)) (\<lambda>_. prompt (ret ())))"

definition log_act ::
    "('f, 'o, 'l, 'w) log_env \<Rightarrow> ('f, 'o, 'w) perform \<Rightarrow> ('f, 'o) log_action \<Rightarrow> ('f, 'o, 'w, unit) log_prog" where
  "log_act E run a = (case a of
      Emit r \<Rightarrow> emit E run r
    | CCallbackSet c \<Rightarrow> chain (qrmi_log_callback_set E run c) (\<lambda>_. prompt (ret ()))
    | PyCallbackSet c \<Rightarrow> chain (set_log_callback E run c) (\<lambda>_. prompt (ret ()))
    | PyImport \<Rightarrow> module_init_logging E run
    | EntryPoint \<Rightarrow> initialize)"

section \<open>Runs\<close>

lemma mono_chain [partial_function_mono]:
  assumes "\<And>s. mono_option (\<lambda>f. m f s)" and "\<And>a s. mono_option (\<lambda>f. k f a s)"
  shows "mono_option (\<lambda>f. chain (m f) (k f) s)"
proof -
  have "chain (m f) (k f) s = Option.bind (m f s) (\<lambda>y. case fst y of
      Ok a \<Rightarrow> k f a (snd y) | Err e \<Rightarrow> Some (Err e, snd y) | Panic \<Rightarrow> Some (Panic, snd y))" for f
    by (simp add: chain_def split: option.split prod.split)
  moreover have "mono_option (\<lambda>f. case fst y of
      Ok a \<Rightarrow> k f a (snd y) | Err e \<Rightarrow> Some (Err e, snd y) | Panic \<Rightarrow> Some (Panic, snd y))" for y
    by (cases "fst y") (simp_all add: assms option.const_mono)
  ultimately show ?thesis by (simp add: bind_mono assms(1))
qed

lemma mono_if_prog [partial_function_mono]:
  assumes "mono_option (\<lambda>f. m f s)" and "mono_option (\<lambda>f. k f s)"
  shows "mono_option (\<lambda>f. (if b then m f else k f) s)"
  using assms by (cases b) simp_all

lemma mono_option_prog [partial_function_mono]:
  assumes "mono_option (\<lambda>f. m f s)" and "\<And>x. mono_option (\<lambda>f. k f x s)"
  shows "mono_option (\<lambda>f. (case v of None \<Rightarrow> m f | Some x \<Rightarrow> k f x) s)"
  using assms by (cases v) simp_all

lemma mono_sink_prog [partial_function_mono]:
  assumes "\<And>x. mono_option (\<lambda>f. m f x s)" and "mono_option (\<lambda>f. k f s)" and "\<And>x. mono_option (\<lambda>f. n f x s)"
  shows "mono_option (\<lambda>f. (case v of CFunction x \<Rightarrow> m f x | PythonLogging \<Rightarrow> k f | PythonCallable x \<Rightarrow> n f x) s)"
  using assms by (cases v) simp_all

lemmas mono_progs = mono_chain mono_if_prog mono_option_prog mono_sink_prog option.const_mono if_mono

lemma mono_drop_arc [partial_function_mono]:
  assumes "\<And>xs s. mono_option (\<lambda>f. run f xs s)"
  shows "mono_option (\<lambda>f. drop_arc E (run f) a s)"
proof -
  have "mono_option (\<lambda>f. case snd a of PythonCallable obj \<Rightarrow> chain (by_host (object_del E obj)) (run f) s
      | _ \<Rightarrow> Some (Ok (), s))"
    by (cases "snd a") (simp_all add: option.const_mono mono_chain assms)
  then show ?thesis unfolding drop_arc_def by (intro if_mono option.const_mono)
qed

lemma mono_set_log_sink [partial_function_mono]:
  assumes "\<And>xs s. mono_option (\<lambda>f. run f xs s)"
  shows "mono_option (\<lambda>f. set_log_sink E (run f) k s)"
  unfolding set_log_sink_def by (intro mono_progs mono_drop_arc assms)

lemma mono_call_sink [partial_function_mono]:
  assumes "\<And>xs s. mono_option (\<lambda>f. run f xs s)"
  shows "mono_option (\<lambda>f. call_sink E (run f) k r s)"
  unfolding call_sink_def c_adapter_def python_log_sink_def python_callable_def
  by (intro mono_progs assms)

lemma mono_emit [partial_function_mono]:
  assumes "\<And>xs s. mono_option (\<lambda>f. run f xs s)"
  shows "mono_option (\<lambda>f. emit E (run f) r s)"
proof -
  have "mono_option (\<lambda>f. dispatch_to_sink E (run f) r s)" for s
    unfolding dispatch_to_sink_def by (intro mono_progs mono_call_sink mono_drop_arc assms)
  then show ?thesis unfolding emit_def
    by (cases "registered s") (auto intro!: if_mono mono_chain option.const_mono)
qed

lemma mono_log_act [partial_function_mono]:
  assumes "\<And>xs s. mono_option (\<lambda>f. run f xs s)"
  shows "mono_option (\<lambda>f. log_act E (run f) a s)"
  unfolding log_act_def qrmi_log_callback_set_def set_log_callback_def module_init_logging_def
  by (cases a) (auto intro!: mono_chain option.const_mono mono_set_log_sink mono_emit assms)

partial_function (option) log_run ::
    "('f, 'o, 'l, 'w) log_env \<Rightarrow> ('f, 'o) log_action list \<Rightarrow> ('f, 'o, 'w, unit) log_prog" where
  "log_run E acts s = (case acts of
      [] \<Rightarrow> Some (Ok (), s)
    | a # rest \<Rightarrow> chain (log_act E (log_run E) a) (\<lambda>_. log_run E rest) s)"

section \<open>The lock is never waited for by its owner\<close>

definition unlocked :: "('f, 'o, 'w) log_state \<Rightarrow> bool" where
  "unlocked s \<longleftrightarrow> lock_readers s = 0 \<and> \<not> lock_writer s"

definition calm :: "('f, 'o, 'w, 'a) log_prog \<Rightarrow> ('f, 'o, 'w) log_state \<Rightarrow> bool" where
  "calm m s \<longleftrightarrow> yields m s (\<lambda>r t. case r of Ok a \<Rightarrow> unlocked t | Err e \<Rightarrow> False | Panic \<Rightarrow> False)"

definition unstuck :: "('f, 'o, 'w, 'a) log_prog \<Rightarrow> bool" where
  "unstuck m \<longleftrightarrow> (\<forall>s. unlocked s \<longrightarrow> calm m s)"

text \<open>Dropping a callable does nothing but give memory back.\<close>

definition silent_drops :: "('f, 'o, 'l, 'w) log_env \<Rightarrow> bool" where
  "silent_drops E \<longleftrightarrow> (\<forall>obj w. fst (object_del E obj w) = [])"

definition performer :: "('f, 'o, 'w) perform \<Rightarrow> bool" where
  "performer run \<longleftrightarrow> (\<forall>acts. unstuck (run acts)) \<and> (\<forall>s. yields (run []) s (\<lambda>r t. r = Ok () \<and> t = s))"

named_theorems unsticking \<open>programs that do not get stuck\<close>

lemma calm_chain: "calm m s \<Longrightarrow> (\<And>a. unstuck (k a)) \<Longrightarrow> calm (chain m k) s"
  unfolding calm_def yields_chain
  apply (erule yields_mono)
  subgoal for r t by (cases r) (simp_all add: unstuck_def calm_def)
  done

lemma calm_after:
  assumes "yields m s (\<lambda>r t. r = Ok a \<and> P t)" and "\<And>t. P t \<Longrightarrow> calm (k a) t"
  shows "calm (chain m k) s"
  unfolding calm_def yields_chain using assms(1)
  apply (rule yields_mono)
  subgoal for r t using assms(2) [of t] by (cases r) (simp_all add: calm_def)
  done

lemma unstuck_chain [unsticking]: "unstuck m \<Longrightarrow> (\<And>a. unstuck (k a)) \<Longrightarrow> unstuck (chain m k)"
  by (simp add: unstuck_def calm_chain)

lemma unstuck_basic [unsticking]:
  "unstuck (prompt (ret a))" "unstuck (by_host h)"
  "unstuck (prompt (modify (\<lambda>s. s\<lparr>in_flight := f s\<rparr>)))" "unstuck initialize"
  by (auto simp: unstuck_def calm_def yields_def prompt_def ret_def by_host_def modify_def initialize_def
      unlocked_def split: prod.splits)

lemma unstuck_run [unsticking]: "performer run \<Longrightarrow> unstuck (run acts)"
  by (simp add: performer_def)

lemma unstuck_branches [unsticking]:
  "unstuck m \<Longrightarrow> unstuck k \<Longrightarrow> unstuck (if b then m else k)"
  "unstuck m \<Longrightarrow> (\<And>x. unstuck (f x)) \<Longrightarrow> unstuck (case v of None \<Rightarrow> m | Some x \<Rightarrow> f x)"
  by (simp_all split: option.split)

lemma unstuck_host_run: "performer run \<Longrightarrow> unstuck (chain (by_host h) run)"
  by (intro unstuck_chain unstuck_basic unstuck_run)

lemma calm_drop_arc:
  assumes "performer run" and s: "unlocked s"
  shows "calm (drop_arc E run a) s"
proof -
  have stay: "calm (\<lambda>s. Some (Ok (), s)) s" using s by (simp add: calm_def yields_def)
  have run: "calm (chain (by_host (object_del E obj)) run) s" for obj
    using s unstuck_host_run [OF assms(1)] by (simp add: unstuck_def)
  show ?thesis
    using stay run unfolding drop_arc_def calm_def yields_def by (cases "snd a") auto
qed

lemma unstuck_drop_arc [unsticking]: "performer run \<Longrightarrow> unstuck (drop_arc E run a)"
  by (simp add: unstuck_def calm_drop_arc)

text \<open>Under the lock, a silent drop leaves the lock to its owner.\<close>

lemma drop_arc_silent:
  assumes "performer run" and "silent_drops E"
  shows "yields (drop_arc E run a) s (\<lambda>r t. r = Ok () \<and> (\<exists>w. t = s\<lparr>host := w\<rparr>))"
proof -
  have "yields (chain (by_host (object_del E obj)) run) s (\<lambda>r t. r = Ok () \<and> (\<exists>w. t = s\<lparr>host := w\<rparr>))" for obj
  proof -
    obtain w where w: "object_del E obj (host s) = ([], w)"
      using assms(2) by (metis silent_drops_def prod.collapse)
    have "chain (by_host (object_del E obj)) run s = run [] (s\<lparr>host := w\<rparr>)"
      by (simp add: chain_def by_host_def w)
    moreover have "yields (run []) (s\<lparr>host := w\<rparr>) (\<lambda>r t. r = Ok () \<and> (\<exists>w. t = s\<lparr>host := w\<rparr>))"
      by (rule yields_mono [OF conjunct2 [OF assms(1) [unfolded performer_def], rule_format]]) auto
    ultimately show ?thesis by (simp add: yields_def)
  qed
  moreover have "\<exists>w. s = s\<lparr>host := w\<rparr>" by (rule exI [of _ "host s"]) simp
  ultimately show ?thesis unfolding drop_arc_def yields_def by (cases "snd a") auto
qed

lemma calm_set_log_sink:
  assumes "performer run" and "silent_drops E" and s: "unlocked s"
  shows "calm (set_log_sink E run k) s"
proof (cases "lock_poisoned s")
  case True
  then show ?thesis
    using s by (simp add: calm_def yields_def set_log_sink_def chain_def write_guard_def unlocked_def prompt_def ret_def)
next
  case False
  define t where "t = s\<lparr>lock_writer := True, sink_arc := map_option (Pair (next_arc s)) k, next_arc := Suc (next_arc s)\<rparr>"
  let ?drop = "case sink_arc s of Some a \<Rightarrow> drop_arc E run a | None \<Rightarrow> prompt (ret ())"
  have "set_log_sink E run k s = chain ?drop (\<lambda>_. chain drop_write_guard (\<lambda>_. prompt (ret True))) t"
    using False s by (simp add: set_log_sink_def chain_step write_guard_def unlocked_def t_def)
  moreover have "yields ?drop t (\<lambda>r u. r = Ok () \<and> (\<exists>w. u = t\<lparr>host := w\<rparr>))"
  proof (cases "sink_arc s")
    case None
    then show ?thesis by (auto simp: lwp wp intro: exI [of _ "host t"])
  next
    case (Some a)
    then show ?thesis using drop_arc_silent [OF assms(1,2)] by simp
  qed
  then have "calm (chain ?drop (\<lambda>_. chain drop_write_guard (\<lambda>_. prompt (ret True)))) t"
  proof (rule calm_after)
    fix u assume "\<exists>w. u = t\<lparr>host := w\<rparr>"
    then show "calm (chain drop_write_guard (\<lambda>_. prompt (ret True))) u"
      using s by (auto simp: calm_def yields_def t_def unlocked_def chain_def drop_write_guard_def prompt_def modify_def ret_def)
  qed
  ultimately show ?thesis by (simp add: calm_def yields_def)
qed

lemma unstuck_set_log_sink [unsticking]:
  "performer run \<Longrightarrow> silent_drops E \<Longrightarrow> unstuck (set_log_sink E run k)"
  by (simp add: unstuck_def calm_set_log_sink)

lemma unstuck_adapters [unsticking]:
  assumes "performer run"
  shows "unstuck (call_sink E run k r)"
proof -
  have "unstuck (\<lambda>s. Some (Ok (), s))" by (simp add: unstuck_def calm_def yields_def)
  then have may: "unstuck m \<Longrightarrow> unstuck (\<lambda>s. if attached E (host s) then m s else Some (Ok (), s))" for m
    by (simp add: unstuck_def calm_def yields_def)
  show ?thesis unfolding call_sink_def c_adapter_def python_log_sink_def python_callable_def
    by (cases k) (simp_all, (intro may unsticking assms unstuck_host_run)+)
qed

text \<open>What \<open>dispatch_to_sink\<close> does once it has the handle: the lock is free.\<close>

lemma dispatch_steps:
  assumes "unlocked s"
  shows "dispatch_to_sink E run r s =
    (if lock_poisoned s then Some (Ok False, s)
     else (case sink_arc s of
         None \<Rightarrow> Some (Ok False, s)
       | Some a \<Rightarrow> chain (call_sink E run (snd a) r) (\<lambda>_.
           chain (prompt (modify (\<lambda>s. s\<lparr>in_flight := remove1 (fst a) (in_flight s)\<rparr>))) (\<lambda>_.
           chain (drop_arc E run a) (\<lambda>_. prompt (ret True)))) (s\<lparr>in_flight := fst a # in_flight s\<rparr>)))"
  using assms
  by (cases s; cases "sink_arc s")
     (simp_all add: dispatch_to_sink_def chain_step read_sink_def unlocked_def drop_read_guard_def
        prompt_def modify_def ret_def)

lemma calm_dispatch:
  assumes "performer run" and s: "unlocked s"
  shows "calm (dispatch_to_sink E run r) s"
proof (cases "lock_poisoned s \<or> sink_arc s = None")
  case True
  then show ?thesis using s by (auto simp: calm_def yields_def dispatch_steps)
next
  case False
  then obtain a where a: "sink_arc s = Some a" "\<not> lock_poisoned s" by auto
  let ?rest = "chain (call_sink E run (snd a) r) (\<lambda>_.
      chain (prompt (modify (\<lambda>s. s\<lparr>in_flight := remove1 (fst a) (in_flight s)\<rparr>))) (\<lambda>_.
      chain (drop_arc E run a) (\<lambda>_. prompt (ret True))))"
  have "unstuck ?rest" by (intro unsticking assms(1))
  then have "calm ?rest (s\<lparr>in_flight := fst a # in_flight s\<rparr>)"
    using s by (simp add: unstuck_def unlocked_def)
  then show ?thesis using a s by (simp add: calm_def yields_def dispatch_steps)
qed

lemma unstuck_log_act:
  assumes "performer run" and "silent_drops E"
  shows "unstuck (log_act E run a)"
proof (cases a)
  case (Emit r)
  have d: "unstuck (chain (dispatch_to_sink E run r) (\<lambda>handled.
      if handled then prompt (ret ()) else by_host (\<lambda>w. ((), to_stderr E r w))))"
    by (intro unstuck_chain unstuck_branches unstuck_basic) (simp add: unstuck_def calm_dispatch assms(1))
  have h: "unstuck (by_host (\<lambda>w. ((), to_other_logger E r w)))" by (rule unstuck_basic)
  have "calm (emit E run r) s" if "unlocked s" for s
    using d h that by (cases "registered s") (auto simp: emit_def unstuck_def calm_def yields_def)
  then show ?thesis by (simp add: log_act_def Emit unstuck_def)
next
  case (CCallbackSet c)
  show ?thesis unfolding CCallbackSet log_act_def log_action.case qrmi_log_callback_set_def
    by (intro unsticking assms)
next
  case (PyCallbackSet c)
  show ?thesis unfolding PyCallbackSet log_act_def log_action.case set_log_callback_def
    by (intro unsticking assms)
next
  case PyImport
  show ?thesis unfolding PyImport log_act_def log_action.case module_init_logging_def
    by (intro unsticking assms)
next
  case EntryPoint
  show ?thesis unfolding EntryPoint log_act_def log_action.case by (rule unsticking)
qed

definition performed ::
    "('f, 'o, 'l, 'w) log_env \<Rightarrow> ('f, 'o) log_action list \<Rightarrow> ('f, 'o, 'w) log_state
     \<Rightarrow> (lock_error, unit) outcome \<times> ('f, 'o, 'w) log_state \<Rightarrow> bool" where
  "performed E acts s y \<longleftrightarrow> silent_drops E \<longrightarrow>
     (acts = [] \<longrightarrow> y = (Ok (), s)) \<and> (unlocked s \<longrightarrow> fst y = Ok () \<and> unlocked (snd y))"

lemma performedI:
  assumes "\<And>acts s y. run acts s = Some y \<Longrightarrow> performed E acts s y" and "silent_drops E"
  shows "performer run"
  unfolding performer_def unstuck_def calm_def yields_def
  using assms(1) assms(2) unfolding performed_def by fastforce

lemma log_run_performed:
  fixes E :: "('f, 'o, 'l, 'w) log_env"
  assumes "log_run E acts s = Some y"
  shows "performed E acts s y"
proof (rule log_run.raw_induct [OF _ assms])
  fix run :: "('f, 'o, 'l, 'w) log_env \<Rightarrow> ('f, 'o, 'w) perform"
    and E :: "('f, 'o, 'l, 'w) log_env" and acts and s :: "('f, 'o, 'w) log_state" and y
  assume IH: "\<And>E acts s y. run E acts s = Some y \<Longrightarrow> performed E acts s y"
    and step: "(case acts of [] \<Rightarrow> Some (Ok (), s)
      | a # rest \<Rightarrow> chain (log_act E (run E) a) (\<lambda>_. run E rest) s) = Some y"
  show "performed E acts s y"
  proof (cases acts)
    case Nil
    then show ?thesis using step by (auto simp: performed_def)
  next
    case (Cons a rest)
    have "unstuck (chain (log_act E (run E) a) (\<lambda>_. run E rest))" if "silent_drops E"
    proof -
      have p: "performer (run E)" using IH that by (rule performedI)
      show ?thesis by (intro unstuck_chain unstuck_log_act unstuck_run p that)
    qed
    then show ?thesis using step Cons unfolding performed_def unstuck_def calm_def yields_def
      by (cases y; cases "fst y") fastforce+
  qed
qed

lemma performer_log_run: "silent_drops E \<Longrightarrow> performer (log_run E)"
  using log_run_performed by (rule performedI)


lemma log_run_Cons: "log_run E (a # rest) s = chain (log_act E (log_run E) a) (\<lambda>_. log_run E rest) s"
  by (subst log_run.simps) simp

lemma log_run_Nil [simp]: "log_run E [] s = Some (Ok (), s)"
  by (subst log_run.simps) simp

text \<open>
  C24. The case that the proviso excludes: \<open>set_log_sink\<close> drops the old sink while it holds
  the lock.  When the last reference to a registered Python callable is dropped by
  registering another one, and the destructor of the object makes the library log, the
  thread waits for its own lock.
\<close>

theorem replacing_callable_stuck:
  assumes "unlocked s" and "\<not> lock_poisoned s" and "init_done s" and "registered s = OurLogger"
    and "sink_arc s = Some (n, PythonCallable obj)" and "n < next_arc s" and "n \<notin> set (in_flight s)"
    and "object_del E obj (host s) = (Emit r # more_acts, w)" and "log_enabled E r"
  shows "\<exists>t. log_run E [PyCallbackSet c] s = Some (Err WouldBlock, t)"
proof -
  let ?t = "s\<lparr>lock_writer := True, sink_arc := map_option (Pair (next_arc s)) (map_option PythonCallable c),
    next_arc := Suc (next_arc s)\<rparr>"
  have "log_run E (Emit r # more_acts) (?t\<lparr>host := w\<rparr>) = Some (Err WouldBlock, ?t\<lparr>host := w\<rparr>)"
    using assms by (simp add: log_run_Cons chain_def log_act_def emit_def dispatch_to_sink_def read_sink_def)
  then have "drop_arc E (log_run E) (n, PythonCallable obj) ?t = Some (Err WouldBlock, ?t\<lparr>host := w\<rparr>)"
    using assms by (cases c) (simp_all add: drop_arc_def chain_def by_host_def)
  then have "set_log_sink E (log_run E) (map_option PythonCallable c) s = Some (Err WouldBlock, ?t\<lparr>host := w\<rparr>)"
    using assms by (simp add: set_log_sink_def chain_def write_guard_def unlocked_def)
  then have "log_act E (log_run E) (PyCallbackSet c) s = Some (Err WouldBlock, ?t\<lparr>host := w\<rparr>)"
    using assms by (simp add: log_act_def set_log_callback_def chain_def initialize_def prompt_def modify_def)
  then show ?thesis by (simp add: log_run_Cons chain_def)
qed

text \<open>Setting a sink when the one before, if any, was a C function.\<close>

lemma set_log_sink_step:
  assumes "unlocked s" and "\<not> lock_poisoned s" and "\<forall>a obj. sink_arc s = Some a \<longrightarrow> snd a \<noteq> PythonCallable obj"
  shows "set_log_sink E run k s =
    Some (Ok True, s\<lparr>sink_arc := map_option (Pair (next_arc s)) k, next_arc := Suc (next_arc s)\<rparr>)"
proof -
  have "drop_arc E run a t = Some (Ok (), t)" if "sink_arc s = Some a" for a t
    using assms(3) that by (cases "snd a") (auto simp: drop_arc_def)
  then show ?thesis using assms(1,2)
    by (cases s; cases "sink_arc s")
       (simp_all add: set_log_sink_def chain_def write_guard_def drop_write_guard_def prompt_def ret_def modify_def unlocked_def)
qed

lemma log_run_step:
  "log_act E (log_run E) a s = Some (Ok (), t) \<Longrightarrow> log_run E (a # rest) s = log_run E rest t"
  by (simp add: log_run_Cons chain_def)

lemma level_str_no_NUL: "filter (\<lambda>c. c \<noteq> NUL) (level_str l) = level_str l"
  by (cases l; simp only:; code_simp)

lemma initialize_step:
  "initialize s = Some (Ok (), if init_done s then s else s\<lparr>init_done := True,
     registered := (if registered s = NoLogger then OurLogger else registered s)\<rparr>)"
  by (simp add: initialize_def prompt_def modify_def)

text \<open>
  A C host's callback: after \<open>qrmi_log_callback_set\<close>, in a process without another
  logger, a record that the filter accepts reaches the function once, as level, target and
  message without NULs, and nothing else; after it is cleared, records go to standard error
  again.  A process that had a logger of its own keeps it, and the function is not called.
\<close>

lemma records_reach_callback:
  assumes "unlocked s" and "\<not> lock_poisoned s" and "sink_arc s = None"
    and "init_done s \<longrightarrow> registered s \<noteq> NoLogger" and "log_enabled E r"
    and "c_function E f (level_str (rec_level r)) (filter (\<lambda>c. c \<noteq> NUL) (rec_target r))
        (filter (\<lambda>c. c \<noteq> NUL) (rec_args r)) (host s) = ([], w)"
  shows "\<exists>t u. log_run E [CCallbackSet (Some f), Emit r] s = Some (Ok (), t)
    \<and> host t = (if registered s = OtherLogger then to_other_logger E r (host s) else w)
    \<and> log_run E [CCallbackSet None, Emit r] t = Some (Ok (), u)
    \<and> host u = (if registered s = OtherLogger then to_other_logger E r (host t) else to_stderr E r (host t))"
proof -
  let ?now = "if registered s = OtherLogger then OtherLogger else OurLogger"
  let ?set = "\<lambda>n k s. s\<lparr>sink_arc := k, next_arc := n, init_done := True, registered := ?now\<rparr>"
  let ?s1 = "?set (Suc (next_arc s)) (Some (next_arc s, CFunction f)) s"
  let ?w = "if registered s = OtherLogger then to_other_logger E r (host s) else w"
  let ?t = "?s1\<lparr>host := ?w\<rparr>"
  let ?t1 = "?t\<lparr>sink_arc := None, next_arc := Suc (Suc (next_arc s))\<rparr>"
  have set1: "log_act E (log_run E) (CCallbackSet (Some f)) s = Some (Ok (), ?s1)"
    using assms(1-4) set_log_sink_step [of s E "log_run E"]
    by (cases s; cases "registered s")
       (auto simp: log_act_def qrmi_log_callback_set_def chain_def initialize_step prompt_def ret_def)
  have call: "log_act E (log_run E) (Emit r) ?s1 = Some (Ok (), ?t)"
    using assms dispatch_steps [of ?s1 E "log_run E" r]
    by (cases s)
       (auto simp: log_act_def emit_def chain_def call_sink_def c_adapter_def sanitized_cstring level_str_no_NUL
         by_host_def drop_arc_def prompt_def ret_def modify_def unlocked_def)
  have clear: "log_act E (log_run E) (CCallbackSet None) ?t = Some (Ok (), ?t1)"
    using assms(1,2) set_log_sink_step [of ?t E "log_run E" None]
    by (simp add: log_act_def qrmi_log_callback_set_def chain_def initialize_step prompt_def ret_def unlocked_def)
  have last: "log_act E (log_run E) (Emit r) ?t1 = Some (Ok (), ?t1\<lparr>host :=
      if registered s = OtherLogger then to_other_logger E r ?w else to_stderr E r ?w\<rparr>)"
    using assms(1,2,5) dispatch_steps [of ?t1 E "log_run E" r]
    by (cases "registered s = OtherLogger")
       (simp_all add: log_act_def emit_def chain_def by_host_def prompt_def ret_def unlocked_def)
  have "log_run E [CCallbackSet (Some f), Emit r] s = Some (Ok (), ?t)"
    unfolding log_run_step [OF set1] log_run_step [OF call] by (rule log_run_Nil)
  moreover have "log_run E [CCallbackSet None, Emit r] ?t = Some (Ok (), ?t1\<lparr>host :=
      if registered s = OtherLogger then to_other_logger E r ?w else to_stderr E r ?w\<rparr>)"
    unfolding log_run_step [OF clear] log_run_step [OF last] by (rule log_run_Nil)
  moreover have "host ?t = ?w" by simp
  ultimately show ?thesis by (intro exI [of _ ?t] exI conjI) (assumption | simp)+
qed

end
