(* ===== verification/WitnessesPy.thy ===== *)
theory WitnessesPy
  imports WitnessesC PyContracts Logging
begin

text \<open>The theorems on the Python binding and on logging at concrete inputs.\<close>

declare outcome.case_cong [cong del]

section \<open>Logging\<close>

text \<open>One C function, which writes the message down, and a Python object whose destructor
  logs when \<open>loud\<close>.\<close>

definition slow_record :: log_record where
  "slow_record = \<lparr>rec_level = LevelWarn, rec_target = ''qrmi'', rec_args = ''slow''\<rparr>"

definition sample_host :: "bool \<Rightarrow> (unit, unit, unit, string list) log_env" where
  "sample_host loud = \<lparr>log_enabled = (\<lambda>_. True), to_stderr = (\<lambda>r w. ''stderr'' # w),
     to_other_logger = (\<lambda>r w. ''other'' # w), c_function = (\<lambda>_ l t m w. ([], m # w)), attached = (\<lambda>_. True),
     logger_for = (\<lambda>_ w. (None, w)), logger_log = (\<lambda>_ _ _ w. ([], w)), call_object = (\<lambda>_ _ _ _ w. ([], w)),
     object_del = (\<lambda>_ w. (if loud then [Emit slow_record] else [], w))\<rparr>"

definition bare :: "(unit, unit, string list) log_state" where
  "bare = \<lparr>init_done = False, registered = NoLogger, sink_arc = None, next_arc = 0, in_flight = [],
     lock_readers = 0, lock_writer = False, lock_poisoned = False, host = []\<rparr>"

lemma slow_text: "filter (\<lambda>c. c \<noteq> NUL) (rec_args slow_record) = ''slow''"
  unfolding slow_record_def log_record.select_convs by code_simp


definition with_callable :: "(unit, unit, string list) log_state" where
  "with_callable = bare\<lparr>init_done := True, registered := OurLogger, sink_arc := Some (0, PythonCallable ()), next_arc := 1\<rparr>"

theorem replacing_callable_stuck_witness:
  "\<exists>t. log_run (sample_host True) [PyCallbackSet None] with_callable = Some (Err WouldBlock, t)"
  by (rule replacing_callable_stuck [of with_callable 0 "()" "sample_host True" slow_record "[]" "[]"])
    (simp_all add: with_callable_def bare_def unlocked_def sample_host_def)

section \<open>The Python binding\<close>

definition py_sample :: "(nat, nat, string list) py_state" where
  "py_sample = \<lparr>py_objects = [0 \<mapsto> ResourceObj 7], next_ref = 1, py_world = []\<rparr>"


text \<open>A job with one resource, and a program that asks for it after acquiring it.\<close>

definition job_env :: env where
  "job_env k = (if k = ''QRMI_JOB_QPU_RESOURCES'' then Value ''a''
     else if k = ''QRMI_JOB_QPU_TYPES'' then Value ''oqtopus'' else NotPresent)"

definition job_side :: "(nat, nat, string list) rust_side" where
  "job_side = sample_side\<lparr>rs_environ := (\<lambda>_. job_env)\<rparr>"

lemma job_service: "service_new (rs_service job_side) job_env w = (Ok [''a'' \<mapsto> 7], w)"
proof -
  have "split_str '','' ''a'' = [''a'']" "split_str '','' ''oqtopus'' = [''oqtopus'']" "trim ''a'' = ''a''"
    by code_simp+
  then show ?thesis
    by (simp add: service_new_def get_job_qpu_resources_and_types_def job_env_list_def job_env_def andthen_def
        from_result_def from_qpu_type_str_def job_side_def sample_side_def sample_ctors_def idle_def ret_def Let_def)
qed

definition started :: "(nat, nat, string list) py_state" where
  "started = \<lparr>py_objects = [0 \<mapsto> ResourceObj 7, 1 \<mapsto> ServiceObj [''a'' \<mapsto> 0]], next_ref = 2, py_world = []\<rparr>"

definition empty_program :: "(nat, nat, string list) py_state" where
  "empty_program = \<lparr>py_objects = (\<lambda>_. None), next_ref = 0, py_world = []\<rparr>"

lemma job_keys: "keys_of job_side [''a'' \<mapsto> (x :: 'a)] = [''a'']"
    "keys_of job_side (\<lambda>k. if k = ''a'' then Some y else None) = [''a'']"
  by (simp_all add: keys_of_def job_side_def sample_side_def dom_if)

lemma job_started: "py_service_new job_side empty_program = Some (Ok 1, started)"
proof -
  have "rs_environ job_side w = job_env" "rs_new_runtime job_side w" for w
    by (simp_all add: job_side_def sample_side_def)
  then show ?thesis
    by (simp add: py_service_new_def chain_def py_runtime_def py_from_inner_def detached_def prompt_def job_service
        job_keys new_object_def py_give_def ret_def empty_program_def started_def fun_upd_def)
       (simp add: job_keys fun_eq_iff)
qed

theorem service_same_objects_witness:
  "\<exists>s2. py_runs (\<lambda>w. (None, w)) job_side {1} started s2 \<and> py_world s2 = [''token'']
    \<and> py_service_resource 1 ''a'' s2 = Some (Ok (Some 0), s2) \<and> py_objects s2 0 = Some (ResourceObj 7)"
proof -
  let ?warn = "\<lambda>w :: string list. (None, w)"
  let ?s2 = "started\<lparr>py_world := [''token'']\<rparr>"
  have "py_method ?warn job_side 0 (OpRelease ''token'') started = Some (Ok VUnit, ?s2)"
    by (simp add: py_valued_def py_release_def self_resource_def chain_def detached_def started_def py_give_def
        prompt_def ret_def job_side_def sample_side_def modify_def)
  then have run: "py_runs ?warn job_side {1} started ?s2"
    by (rule py_goes_on [OF py_starts a_method])
  have keys: "distinct (keys_of job_side found) \<and> set (keys_of job_side found) = dom found"
    if "service_new (rs_service job_side) (rs_environ job_side (py_world empty_program)) (py_world empty_program) = (Ok found, w)"
    for found w
  proof -
    have "found = [''a'' \<mapsto> 7]" using that job_service by (simp add: job_side_def)
    then show ?thesis by (simp add: job_keys)
  qed
  have "fresh_refs empty_program" by (simp add: fresh_refs_def empty_program_def)
  have "\<exists>found w m. service_new (rs_service job_side) (rs_environ job_side (py_world empty_program)) (py_world empty_program) = (Ok found, w)
    \<and> py_service_resource 1 ''a'' started = Some (Ok (m ''a''), started)
    \<and> py_service_resource 1 ''a'' ?s2 = Some (Ok (m ''a''), ?s2)
    \<and> (case m ''a'' of None \<Rightarrow> found ''a'' = None
       | Some q \<Rightarrow> \<exists>r. found ''a'' = Some r \<and> py_objects started q = Some (ResourceObj r) \<and> py_objects ?s2 q = Some (ResourceObj r))"
    by (rule service_same_objects [OF job_started \<open>fresh_refs empty_program\<close> _ run]) (rule keys)
  then obtain found w m where new: "service_new (rs_service job_side) (rs_environ job_side (py_world empty_program))
      (py_world empty_program) = (Ok found, w)"
    and here: "py_service_resource 1 ''a'' started = Some (Ok (m ''a''), started)"
    and get: "py_service_resource 1 ''a'' ?s2 = Some (Ok (m ''a''), ?s2)"
    and obj: "case m ''a'' of None \<Rightarrow> found ''a'' = None | Some q \<Rightarrow> \<exists>r. found ''a'' = Some r
      \<and> py_objects started q = Some (ResourceObj r) \<and> py_objects ?s2 q = Some (ResourceObj r)" by blast
  have "m ''a'' = Some 0"
    using here by (simp add: py_service_resource_def self_service_def chain_def started_def py_give_def prompt_def ret_def)
  moreover have "found ''a'' = Some 7" using new job_service [of "py_world empty_program"] by (auto simp: job_side_def)
  ultimately show ?thesis using run get obj by (intro exI [of _ ?s2]) auto
qed

end
