(* ===== verification/QcApi.thy ===== *)
theory QcApi
  imports RestClient
begin

text \<open>
  The generated client of
  the IBM Quantum Compute and Qiskit Runtime services (\<open>quantum_compute_client/src/apis\<close>):
  one definition per function, with the steps of its request in the order of the code.
  \<open>decode\<close> is \<open>serde_json::from_str\<close> at the type of the result,
  and a body is the JSON value that its model serializes to.
\<close>

section \<open>\<open>accounts_api.rs\<close>\<close>

definition get_account ::
    "'w http \<Rightarrow> rest_config \<Rightarrow> (string \<Rightarrow> string + 'a) \<Rightarrow> string
     \<Rightarrow> string option \<Rightarrow> string option \<Rightarrow> 'w
     \<Rightarrow> (api_error + 'a) \<times> 'w" where
  "get_account H cfg decode p_path_id p_header_ibm_api_version p_query_plan_id =
     send H (build_request GET (rc_base_path cfg @ ''/v1/accounts/'' @ urlencode H p_path_id)
        [opt_query ''plan_id'' p_query_plan_id, agent_header cfg,
         opt_header ''IBM-API-Version'' p_header_ibm_api_version, bearer_header cfg, service_crn cfg,
         accept_json])
       (json_reply ''application/octet-stream'' ''models::GetAccount200Response'' decode)"

section \<open>\<open>analytics_api.rs\<close>\<close>

definition analytics_filters ::
    "'w http \<Rightarrow> rest_config \<Rightarrow> (string \<Rightarrow> string + 'a)
     \<Rightarrow> string option \<Rightarrow> string list option \<Rightarrow> 'w
     \<Rightarrow> (api_error + 'a) \<times> 'w" where
  "analytics_filters H cfg decode p_header_ibm_api_version p_query_instance =
     send H (build_request GET (rc_base_path cfg @ ''/analytics/filters'')
        [opt_query_multi ''instance'' p_query_instance, agent_header cfg,
         opt_header ''IBM-API-Version'' p_header_ibm_api_version, bearer_header cfg, service_crn cfg,
         accept_json])
       (json_reply ''application/json'' ''models::AnalyticsFilters200Response'' decode)"

definition analytics_usage ::
    "'w http \<Rightarrow> rest_config \<Rightarrow> (string \<Rightarrow> string + 'a)
     \<Rightarrow> string option \<Rightarrow> string list option \<Rightarrow> string option
     \<Rightarrow> string option \<Rightarrow> string list option \<Rightarrow> string list option
     \<Rightarrow> bool option \<Rightarrow> string list option \<Rightarrow> 'w
     \<Rightarrow> (api_error + 'a) \<times> 'w" where
  "analytics_usage H cfg decode p_header_ibm_api_version p_query_instance p_query_interval_start
   p_query_interval_end p_query_backend p_query_user_id p_query_simulators p_query_plan =
     send H (build_request GET (rc_base_path cfg @ ''/analytics/usage'')
        [opt_query_multi ''instance'' p_query_instance, opt_query ''interval_start'' p_query_interval_start,
         opt_query ''interval_end'' p_query_interval_end, opt_query_multi ''backend'' p_query_backend,
         opt_query_multi ''user_id'' p_query_user_id,
         opt_query ''simulators'' (map_option show_bool p_query_simulators),
         opt_query_multi ''plan'' p_query_plan, agent_header cfg,
         opt_header ''IBM-API-Version'' p_header_ibm_api_version, bearer_header cfg, service_crn cfg,
         accept_json])
       (json_reply ''application/json'' ''models::AnalyticsUsage200Response'' decode)"

definition get_usage_analytics_grouped ::
    "'w http \<Rightarrow> rest_config \<Rightarrow> (string \<Rightarrow> string + 'a) \<Rightarrow> string
     \<Rightarrow> string option \<Rightarrow> string list option \<Rightarrow> string option
     \<Rightarrow> string option \<Rightarrow> string list option \<Rightarrow> string list option
     \<Rightarrow> bool option \<Rightarrow> string list option \<Rightarrow> 'w
     \<Rightarrow> (api_error + 'a) \<times> 'w" where
  "get_usage_analytics_grouped H cfg decode p_query_group_by p_header_ibm_api_version p_query_instance
   p_query_interval_start p_query_interval_end p_query_backend p_query_user_id p_query_simulators
   p_query_plan =
     send H (build_request GET (rc_base_path cfg @ ''/analytics/usage_grouped'')
        [add_query ''group_by'' p_query_group_by, opt_query_multi ''instance'' p_query_instance,
         opt_query ''interval_start'' p_query_interval_start, opt_query ''interval_end'' p_query_interval_end,
         opt_query_multi ''backend'' p_query_backend, opt_query_multi ''user_id'' p_query_user_id,
         opt_query ''simulators'' (map_option show_bool p_query_simulators),
         opt_query_multi ''plan'' p_query_plan, agent_header cfg,
         opt_header ''IBM-API-Version'' p_header_ibm_api_version, bearer_header cfg, service_crn cfg,
         accept_json])
       (json_reply ''application/json'' ''models::GetUsageAnalyticsGrouped200Response'' decode)"

definition get_usage_analytics_grouped_by_date ::
    "'w http \<Rightarrow> rest_config \<Rightarrow> (string \<Rightarrow> string + 'a) \<Rightarrow> string
     \<Rightarrow> string option \<Rightarrow> string list option \<Rightarrow> string option
     \<Rightarrow> string option \<Rightarrow> string list option \<Rightarrow> string list option
     \<Rightarrow> bool option \<Rightarrow> string list option \<Rightarrow> 'w
     \<Rightarrow> (api_error + 'a) \<times> 'w" where
  "get_usage_analytics_grouped_by_date H cfg decode p_query_group_by p_header_ibm_api_version
   p_query_instance p_query_interval_start p_query_interval_end p_query_backend p_query_user_id
   p_query_simulators p_query_plan =
     send H (build_request GET (rc_base_path cfg @ ''/analytics/usage_grouped_by_date'')
        [add_query ''group_by'' p_query_group_by, opt_query_multi ''instance'' p_query_instance,
         opt_query ''interval_start'' p_query_interval_start, opt_query ''interval_end'' p_query_interval_end,
         opt_query_multi ''backend'' p_query_backend, opt_query_multi ''user_id'' p_query_user_id,
         opt_query ''simulators'' (map_option show_bool p_query_simulators),
         opt_query_multi ''plan'' p_query_plan, agent_header cfg,
         opt_header ''IBM-API-Version'' p_header_ibm_api_version, bearer_header cfg, service_crn cfg,
         accept_json])
       (json_reply ''application/json'' ''models::GetUsageAnalyticsGroupedByDate200Response'' decode)"

section \<open>\<open>backends_api.rs\<close>\<close>

definition get_backend_configuration ::
    "'w http \<Rightarrow> rest_config \<Rightarrow> (string \<Rightarrow> string + 'a) \<Rightarrow> string
     \<Rightarrow> string option \<Rightarrow> 'w \<Rightarrow> (api_error + 'a) \<times> 'w" where
  "get_backend_configuration H cfg decode p_path_id p_header_ibm_api_version =
     send H (build_request GET (rc_base_path cfg @ ''/backends/'' @ urlencode H p_path_id
          @ ''/configuration'')
        [agent_header cfg, opt_header ''IBM-API-Version'' p_header_ibm_api_version, bearer_header cfg,
         service_crn cfg, accept_json])
       (json_reply ''application/json'' ''std::collections::HashMap&lt;String, serde_json::Value&gt;'' decode)"

definition get_backend_defaults ::
    "'w http \<Rightarrow> rest_config \<Rightarrow> (string \<Rightarrow> string + 'a) \<Rightarrow> string
     \<Rightarrow> string option \<Rightarrow> 'w \<Rightarrow> (api_error + 'a) \<times> 'w" where
  "get_backend_defaults H cfg decode p_path_id p_header_ibm_api_version =
     send H (build_request GET (rc_base_path cfg @ ''/backends/'' @ urlencode H p_path_id @ ''/defaults'')
        [agent_header cfg, opt_header ''IBM-API-Version'' p_header_ibm_api_version, bearer_header cfg,
         service_crn cfg, accept_json])
       (json_reply ''application/json'' ''std::collections::HashMap&lt;String, serde_json::Value&gt;'' decode)"

definition get_backend_properties ::
    "'w http \<Rightarrow> rest_config \<Rightarrow> (string \<Rightarrow> string + 'a) \<Rightarrow> string
     \<Rightarrow> string option \<Rightarrow> string option \<Rightarrow> string option \<Rightarrow> 'w
     \<Rightarrow> (api_error + 'a) \<times> 'w" where
  "get_backend_properties H cfg decode p_path_id p_header_ibm_api_version p_query_updated_before
   p_query_calibration_id =
     send H (build_request GET (rc_base_path cfg @ ''/backends/'' @ urlencode H p_path_id @ ''/properties'')
        [opt_query ''updated_before'' p_query_updated_before,
         opt_query ''calibration_id'' p_query_calibration_id, agent_header cfg,
         opt_header ''IBM-API-Version'' p_header_ibm_api_version, bearer_header cfg, service_crn cfg,
         accept_json])
       (json_reply ''application/json'' ''std::collections::HashMap&lt;String, serde_json::Value&gt;'' decode)"

definition get_backend_status ::
    "'w http \<Rightarrow> rest_config \<Rightarrow> (string \<Rightarrow> string + 'a) \<Rightarrow> string
     \<Rightarrow> string option \<Rightarrow> 'w \<Rightarrow> (api_error + 'a) \<times> 'w" where
  "get_backend_status H cfg decode p_path_id p_header_ibm_api_version =
     send H (build_request GET (rc_base_path cfg @ ''/backends/'' @ urlencode H p_path_id @ ''/status'')
        [accept_json, agent_header cfg, opt_header ''IBM-API-Version'' p_header_ibm_api_version,
         bearer_header cfg, service_crn cfg])
       (json_reply ''application/json'' ''models::BackendStatusResponse'' decode)"

definition list_backends ::
    "'w http \<Rightarrow> rest_config \<Rightarrow> (string \<Rightarrow> string + 'a)
     \<Rightarrow> string option \<Rightarrow> 'w \<Rightarrow> (api_error + 'a) \<times> 'w" where
  "list_backends H cfg decode p_header_ibm_api_version =
     send H (build_request GET (rc_base_path cfg @ ''/backends'')
        [agent_header cfg, opt_header ''IBM-API-Version'' p_header_ibm_api_version, bearer_header cfg,
         service_crn cfg, accept_json])
       (json_reply ''application/json'' ''models::BackendsResponseV2'' decode)"

section \<open>\<open>instances_api.rs\<close>\<close>

definition get_instance ::
    "'w http \<Rightarrow> rest_config \<Rightarrow> (string \<Rightarrow> string + 'a)
     \<Rightarrow> string option \<Rightarrow> 'w \<Rightarrow> (api_error + 'a) \<times> 'w" where
  "get_instance H cfg decode p_header_ibm_api_version =
     send H (build_request GET (rc_base_path cfg @ ''/instance'')
        [agent_header cfg, opt_header ''IBM-API-Version'' p_header_ibm_api_version, bearer_header cfg,
         service_crn cfg, accept_json])
       (json_reply ''application/json'' ''models::GetInstance200Response'' decode)"

definition get_instance_configuration ::
    "'w http \<Rightarrow> rest_config \<Rightarrow> (string \<Rightarrow> string + 'a)
     \<Rightarrow> string option \<Rightarrow> 'w \<Rightarrow> (api_error + 'a) \<times> 'w" where
  "get_instance_configuration H cfg decode p_header_ibm_api_version =
     send H (build_request GET (rc_base_path cfg @ ''/instances/configuration'')
        [agent_header cfg, opt_header ''IBM-API-Version'' p_header_ibm_api_version, bearer_header cfg,
         service_crn cfg, accept_json])
       (json_reply ''application/json'' ''models::GetInstanceConfiguration200Response'' decode)"

definition get_usage ::
    "'w http \<Rightarrow> rest_config \<Rightarrow> (string \<Rightarrow> string + 'a)
     \<Rightarrow> string option \<Rightarrow> 'w \<Rightarrow> (api_error + 'a) \<times> 'w" where
  "get_usage H cfg decode p_header_ibm_api_version =
     send H (build_request GET (rc_base_path cfg @ ''/v1/instances/usage'')
        [agent_header cfg, opt_header ''IBM-API-Version'' p_header_ibm_api_version, bearer_header cfg,
         service_crn cfg, accept_json])
       (json_reply ''application/octet-stream'' ''models::GetUsage200Response'' decode)"

definition replace_instance_configuration ::
    "'w http \<Rightarrow> rest_config \<Rightarrow> string option \<Rightarrow> json \<Rightarrow> 'w
     \<Rightarrow> (api_error + unit) \<times> 'w" where
  "replace_instance_configuration H cfg p_header_ibm_api_version p_body_instance_update =
     send H (build_request PUT (rc_base_path cfg @ ''/instances/configuration'')
        [agent_header cfg, opt_header ''IBM-API-Version'' p_header_ibm_api_version, bearer_header cfg,
         service_crn cfg, accept_json, json_body p_body_instance_update])
       unit_reply"

section \<open>\<open>jobs_api.rs\<close>\<close>

definition cancel_job_jid ::
    "'w http \<Rightarrow> rest_config \<Rightarrow> string \<Rightarrow> string option
     \<Rightarrow> string option \<Rightarrow> 'w \<Rightarrow> (api_error + unit) \<times> 'w" where
  "cancel_job_jid H cfg p_path_id p_header_parent_job_id p_header_ibm_api_version =
     send H (build_request POST (rc_base_path cfg @ ''/jobs/'' @ urlencode H p_path_id @ ''/cancel'')
        [accept_json, add_header ''content-length'' ''0'', agent_header cfg,
         opt_header ''Parent-Job-Id'' p_header_parent_job_id,
         opt_header ''IBM-API-Version'' p_header_ibm_api_version, bearer_header cfg, service_crn cfg])
       unit_reply"

definition create_job ::
    "'w http \<Rightarrow> rest_config \<Rightarrow> (string \<Rightarrow> string + 'a)
     \<Rightarrow> string option \<Rightarrow> string option \<Rightarrow> json \<Rightarrow> 'w
     \<Rightarrow> (api_error + 'a) \<times> 'w" where
  "create_job H cfg decode p_header_ibm_api_version p_header_parent_job_id p_body_create_job_request =
     send H (build_request POST (rc_base_path cfg @ ''/jobs'')
        [accept_json, agent_header cfg, opt_header ''IBM-API-Version'' p_header_ibm_api_version,
         opt_header ''Parent-Job-Id'' p_header_parent_job_id, bearer_header cfg, service_crn cfg,
         json_body p_body_create_job_request])
       (json_reply ''application/json'' ''models::CreateJob200Response'' decode)"

definition delete_job ::
    "'w http \<Rightarrow> rest_config \<Rightarrow> string \<Rightarrow> string option \<Rightarrow> 'w
     \<Rightarrow> (api_error + unit) \<times> 'w" where
  "delete_job H cfg p_path_id p_header_ibm_api_version =
     send H (build_request DELETE (rc_base_path cfg @ ''/jobs/'' @ urlencode H p_path_id)
        [accept_json, agent_header cfg, opt_header ''IBM-API-Version'' p_header_ibm_api_version,
         bearer_header cfg, service_crn cfg])
       unit_reply"

definition get_interim_results_jid ::
    "'w http \<Rightarrow> rest_config \<Rightarrow> (string \<Rightarrow> string + string)
     \<Rightarrow> string \<Rightarrow> string option \<Rightarrow> 'w
     \<Rightarrow> (api_error + string) \<times> 'w" where
  "get_interim_results_jid H cfg decode p_path_id p_header_ibm_api_version =
     send H (build_request GET (rc_base_path cfg @ ''/jobs/'' @ urlencode H p_path_id @ ''/interim_results'')
        [accept_json, agent_header cfg, opt_header ''IBM-API-Version'' p_header_ibm_api_version,
         bearer_header cfg, service_crn cfg])
       (text_reply ''application/json'' decode)"

definition get_job ::
    "'w http \<Rightarrow> rest_config \<Rightarrow> (string \<Rightarrow> string + 'a) \<Rightarrow> string
     \<Rightarrow> string option \<Rightarrow> bool option \<Rightarrow> 'w
     \<Rightarrow> (api_error + 'a) \<times> 'w" where
  "get_job H cfg decode p_path_id p_header_ibm_api_version p_query_exclude_params =
     send H (build_request GET (rc_base_path cfg @ ''/jobs/'' @ urlencode H p_path_id)
        [accept_json, opt_query ''exclude_params'' (map_option show_bool p_query_exclude_params),
         agent_header cfg, opt_header ''IBM-API-Version'' p_header_ibm_api_version, bearer_header cfg,
         service_crn cfg])
       (json_reply ''application/json'' ''models::JobResponse'' decode)"

definition get_job_metrics_jid ::
    "'w http \<Rightarrow> rest_config \<Rightarrow> (string \<Rightarrow> string + 'a) \<Rightarrow> string
     \<Rightarrow> string option \<Rightarrow> 'w \<Rightarrow> (api_error + 'a) \<times> 'w" where
  "get_job_metrics_jid H cfg decode p_path_id p_header_ibm_api_version =
     send H (build_request GET (rc_base_path cfg @ ''/jobs/'' @ urlencode H p_path_id @ ''/metrics'')
        [accept_json, agent_header cfg, opt_header ''IBM-API-Version'' p_header_ibm_api_version,
         bearer_header cfg, service_crn cfg])
       (json_reply ''application/json'' ''models::JobMetrics'' decode)"

definition get_job_results_jid ::
    "'w http \<Rightarrow> rest_config \<Rightarrow> (string \<Rightarrow> string + string)
     \<Rightarrow> string \<Rightarrow> string option \<Rightarrow> 'w
     \<Rightarrow> (api_error + string) \<times> 'w" where
  "get_job_results_jid H cfg decode p_path_id p_header_ibm_api_version =
     send H (build_request GET (rc_base_path cfg @ ''/jobs/'' @ urlencode H p_path_id @ ''/results'')
        [accept_json, agent_header cfg, opt_header ''IBM-API-Version'' p_header_ibm_api_version,
         bearer_header cfg, service_crn cfg])
       (text_reply ''application/json'' decode)"

definition get_job_logs_jid ::
    "'w http \<Rightarrow> rest_config \<Rightarrow> (string \<Rightarrow> string + string)
     \<Rightarrow> string \<Rightarrow> string option \<Rightarrow> 'w
     \<Rightarrow> (api_error + string) \<times> 'w" where
  "get_job_logs_jid H cfg decode p_path_id p_header_ibm_api_version =
     send H (build_request GET (rc_base_path cfg @ ''/jobs/'' @ urlencode H p_path_id @ ''/logs'')
        [accept_json, agent_header cfg, opt_header ''IBM-API-Version'' p_header_ibm_api_version,
         bearer_header cfg, service_crn cfg])
       (text_reply ''application/json'' decode)"

definition get_transpiled_circuits_jid ::
    "'w http \<Rightarrow> rest_config \<Rightarrow> (string \<Rightarrow> string + 'a) \<Rightarrow> string
     \<Rightarrow> string option \<Rightarrow> 'w \<Rightarrow> (api_error + 'a) \<times> 'w" where
  "get_transpiled_circuits_jid H cfg decode p_path_id p_header_ibm_api_version =
     send H (build_request GET (rc_base_path cfg @ ''/jobs/'' @ urlencode H p_path_id
          @ ''/transpiled_circuits'')
        [accept_json, agent_header cfg, opt_header ''IBM-API-Version'' p_header_ibm_api_version,
         bearer_header cfg, service_crn cfg])
       (json_reply ''application/json'' ''models::JobsTranspiledCircuitsResponse'' decode)"

definition list_jobs ::
    "'w http \<Rightarrow> rest_config \<Rightarrow> (string \<Rightarrow> string + 'a)
     \<Rightarrow> string option \<Rightarrow> i32 option \<Rightarrow> i32 option \<Rightarrow> bool option
     \<Rightarrow> string option \<Rightarrow> string option \<Rightarrow> string option
     \<Rightarrow> string option \<Rightarrow> string option \<Rightarrow> string list option
     \<Rightarrow> string option \<Rightarrow> bool option \<Rightarrow> 'w
     \<Rightarrow> (api_error + 'a) \<times> 'w" where
  "list_jobs H cfg decode p_header_ibm_api_version p_query_limit p_query_offset p_query_pending
   p_query_program p_query_backend p_query_created_after p_query_created_before p_query_sort p_query_tags
   p_query_session_id p_query_exclude_params =
     send H (build_request GET (rc_base_path cfg @ ''/jobs'')
        [accept_json, opt_query ''limit'' (map_option show_i32 p_query_limit),
         opt_query ''offset'' (map_option show_i32 p_query_offset),
         opt_query ''pending'' (map_option show_bool p_query_pending), opt_query ''program'' p_query_program,
         opt_query ''backend'' p_query_backend, opt_query ''created_after'' p_query_created_after,
         opt_query ''created_before'' p_query_created_before, opt_query ''sort'' p_query_sort,
         opt_query_multi ''tags'' p_query_tags, opt_query ''session_id'' p_query_session_id,
         opt_query ''exclude_params'' (map_option show_bool p_query_exclude_params), agent_header cfg,
         opt_header ''IBM-API-Version'' p_header_ibm_api_version, bearer_header cfg, service_crn cfg])
       (json_reply ''application/json'' ''models::JobsResponse'' decode)"

definition replace_job_tags ::
    "'w http \<Rightarrow> rest_config \<Rightarrow> string \<Rightarrow> string option \<Rightarrow> json
     \<Rightarrow> 'w \<Rightarrow> (api_error + unit) \<times> 'w" where
  "replace_job_tags H cfg p_path_id p_header_ibm_api_version p_body_replace_job_tags_request =
     send H (build_request PUT (rc_base_path cfg @ ''/jobs/'' @ urlencode H p_path_id @ ''/tags'')
        [accept_json, agent_header cfg, opt_header ''IBM-API-Version'' p_header_ibm_api_version,
         bearer_header cfg, service_crn cfg, json_body p_body_replace_job_tags_request])
       unit_reply"

section \<open>\<open>sessions_api.rs\<close>\<close>

definition create_session ::
    "'w http \<Rightarrow> rest_config \<Rightarrow> (string \<Rightarrow> string + 'a)
     \<Rightarrow> string option \<Rightarrow> json \<Rightarrow> 'w
     \<Rightarrow> (api_error + 'a) \<times> 'w" where
  "create_session H cfg decode p_header_ibm_api_version p_body_create_session_request =
     send H (build_request POST (rc_base_path cfg @ ''/sessions'')
        [agent_header cfg, opt_header ''IBM-API-Version'' p_header_ibm_api_version, bearer_header cfg,
         service_crn cfg, accept_json, json_body p_body_create_session_request])
       (json_reply ''application/json'' ''models::CreateSession200Response'' decode)"

definition delete_session_close ::
    "'w http \<Rightarrow> rest_config \<Rightarrow> string \<Rightarrow> string option \<Rightarrow> 'w
     \<Rightarrow> (api_error + unit) \<times> 'w" where
  "delete_session_close H cfg p_path_id p_header_ibm_api_version =
     send H (build_request DELETE (rc_base_path cfg @ ''/sessions/'' @ urlencode H p_path_id @ ''/close'')
        [agent_header cfg, opt_header ''IBM-API-Version'' p_header_ibm_api_version, bearer_header cfg,
         service_crn cfg, accept_json])
       unit_reply"

definition get_session ::
    "'w http \<Rightarrow> rest_config \<Rightarrow> (string \<Rightarrow> string + 'a) \<Rightarrow> string
     \<Rightarrow> string option \<Rightarrow> 'w \<Rightarrow> (api_error + 'a) \<times> 'w" where
  "get_session H cfg decode p_path_id p_header_ibm_api_version =
     send H (build_request GET (rc_base_path cfg @ ''/sessions/'' @ urlencode H p_path_id)
        [agent_header cfg, opt_header ''IBM-API-Version'' p_header_ibm_api_version, bearer_header cfg,
         service_crn cfg, accept_json])
       (json_reply ''application/json'' ''models::CreateSession200Response'' decode)"

definition update_session ::
    "'w http \<Rightarrow> rest_config \<Rightarrow> string \<Rightarrow> string option \<Rightarrow> json
     \<Rightarrow> 'w \<Rightarrow> (api_error + unit) \<times> 'w" where
  "update_session H cfg p_path_id p_header_ibm_api_version p_body_update_session_request =
     send H (build_request PATCH (rc_base_path cfg @ ''/sessions/'' @ urlencode H p_path_id)
        [agent_header cfg, opt_header ''IBM-API-Version'' p_header_ibm_api_version, bearer_header cfg,
         service_crn cfg, accept_json, json_body p_body_update_session_request])
       unit_reply"

section \<open>\<open>tags_api.rs\<close>\<close>

definition list_tags ::
    "'w http \<Rightarrow> rest_config \<Rightarrow> (string \<Rightarrow> string + 'a) \<Rightarrow> string
     \<Rightarrow> string \<Rightarrow> string option \<Rightarrow> 'w
     \<Rightarrow> (api_error + 'a) \<times> 'w" where
  "list_tags H cfg decode p_query_type p_query_search p_header_ibm_api_version =
     send H (build_request GET (rc_base_path cfg @ ''/tags'')
        [add_query ''type'' p_query_type, add_query ''search'' p_query_search, agent_header cfg,
         opt_header ''IBM-API-Version'' p_header_ibm_api_version, bearer_header cfg, service_crn cfg,
         accept_json])
       (json_reply ''application/json'' ''models::ListTags200Response'' decode)"

section \<open>\<open>versions_api.rs\<close>\<close>

definition get_versions ::
    "'w http \<Rightarrow> rest_config \<Rightarrow> (string \<Rightarrow> string + 'a) \<Rightarrow> 'w
     \<Rightarrow> (api_error + 'a) \<times> 'w" where
  "get_versions H cfg decode =
     send H (build_request GET (rc_base_path cfg @ ''/v1/versions'')
        [agent_header cfg, bearer_header cfg, service_crn cfg, accept_json])
       (json_reply ''application/json'' ''models::VersionResponse'' decode)"

section \<open>\<open>workloads_api.rs\<close>\<close>

definition find_instance_workloads ::
    "'w http \<Rightarrow> rest_config \<Rightarrow> (string \<Rightarrow> string + 'a)
     \<Rightarrow> string option \<Rightarrow> string option \<Rightarrow> string option
     \<Rightarrow> string option \<Rightarrow> string option \<Rightarrow> string option
     \<Rightarrow> string option \<Rightarrow> string option \<Rightarrow> string list option
     \<Rightarrow> string option \<Rightarrow> string option \<Rightarrow> string option
     \<Rightarrow> string list option \<Rightarrow> 'w \<Rightarrow> (api_error + 'a) \<times> 'w" where
  "find_instance_workloads H cfg decode p_header_ibm_api_version p_query_user p_query_sort p_query_limit
   p_query_previous p_query_next p_query_backend p_query_search p_query_status p_query_mode
   p_query_created_after p_query_created_before p_query_tags =
     send H (build_request GET (rc_base_path cfg @ ''/workloads'')
        [opt_query ''user'' p_query_user, opt_query ''sort'' p_query_sort, opt_query ''limit'' p_query_limit,
         opt_query ''previous'' p_query_previous, opt_query ''next'' p_query_next,
         opt_query ''backend'' p_query_backend, opt_query ''search'' p_query_search,
         opt_query_multi ''status'' p_query_status, opt_query ''mode'' p_query_mode,
         opt_query ''created_after'' p_query_created_after,
         opt_query ''created_before'' p_query_created_before, opt_query_multi ''tags'' p_query_tags,
         agent_header cfg, opt_header ''IBM-API-Version'' p_header_ibm_api_version, bearer_header cfg,
         service_crn cfg, accept_json])
       (json_reply ''application/json'' ''models::FindInstanceWorkloads200Response'' decode)"

end
