(* ===== verification/IqmApi.thy ===== *)
theory IqmApi
  imports RestClient
begin

text \<open>
  The generated client of
  IQM Server (\<open>iqm_client/src/apis\<close>):
  one definition per function, with the steps of its request in the order of the code.
  \<open>decode\<close> is \<open>serde_json::from_str\<close> at the type of the result,
  and a body is the JSON value that its model serializes to.
\<close>

section \<open>\<open>calibration_sets_api.rs\<close>\<close>

definition get_calibration_set_v1 ::
    "'w http \<Rightarrow> rest_config \<Rightarrow> string \<Rightarrow> string \<Rightarrow> 'w
     \<Rightarrow> (api_error + string) \<times> 'w" where
  "get_calibration_set_v1 H cfg p_path_qc p_path_cal_set =
     send H (build_request GET (rc_base_path cfg @ ''/api/v1/calibration-sets/'' @ p_path_qc @ ''/''
          @ p_path_cal_set)
        [agent_header cfg, bearer_header cfg])
       bytes_reply"

definition get_dynamic_quantum_architecture_v1 ::
    "'w http \<Rightarrow> rest_config \<Rightarrow> string \<Rightarrow> string \<Rightarrow> 'w
     \<Rightarrow> (api_error + string) \<times> 'w" where
  "get_dynamic_quantum_architecture_v1 H cfg p_path_qc p_path_cal_set =
     send H (build_request GET (rc_base_path cfg @ ''/api/v1/calibration-sets/'' @ p_path_qc @ ''/''
          @ p_path_cal_set @ ''/dynamic-quantum-architecture'')
        [agent_header cfg, bearer_header cfg])
       bytes_reply"

definition get_quality_metrics_v1 ::
    "'w http \<Rightarrow> rest_config \<Rightarrow> string \<Rightarrow> string \<Rightarrow> 'w
     \<Rightarrow> (api_error + string) \<times> 'w" where
  "get_quality_metrics_v1 H cfg p_path_qc p_path_cal_set =
     send H (build_request GET (rc_base_path cfg @ ''/api/v1/calibration-sets/'' @ p_path_qc @ ''/''
          @ p_path_cal_set @ ''/metrics'')
        [agent_header cfg, bearer_header cfg])
       bytes_reply"

section \<open>\<open>jobs_api.rs\<close>\<close>

definition cancel_job_v1 ::
    "'w http \<Rightarrow> rest_config \<Rightarrow> (string \<Rightarrow> string + 'a) \<Rightarrow> string
     \<Rightarrow> 'w \<Rightarrow> (api_error + 'a) \<times> 'w" where
  "cancel_job_v1 H cfg decode p_path_job_id =
     send H (build_request POST (rc_base_path cfg @ ''/api/v1/jobs/'' @ urlencode H p_path_job_id
          @ ''/cancel'')
        [agent_header cfg, bearer_header cfg])
       (json_reply ''application/octet-stream'' ''models::IqmServerJob'' decode)"

definition delete_job_v1 ::
    "'w http \<Rightarrow> rest_config \<Rightarrow> string \<Rightarrow> 'w
     \<Rightarrow> (api_error + unit) \<times> 'w" where
  "delete_job_v1 H cfg p_path_job_id =
     send H (build_request DELETE (rc_base_path cfg @ ''/api/v1/jobs/'' @ urlencode H p_path_job_id)
        [agent_header cfg, bearer_header cfg])
       unit_reply"

definition get_job_payload_v1 ::
    "'w http \<Rightarrow> rest_config \<Rightarrow> string \<Rightarrow> 'w
     \<Rightarrow> (api_error + string) \<times> 'w" where
  "get_job_payload_v1 H cfg p_path_job_id =
     send H (build_request GET (rc_base_path cfg @ ''/api/v1/jobs/'' @ urlencode H p_path_job_id
          @ ''/payload'')
        [agent_header cfg, bearer_header cfg])
       bytes_reply"

definition get_job_v1 ::
    "'w http \<Rightarrow> rest_config \<Rightarrow> (string \<Rightarrow> string + 'a) \<Rightarrow> string
     \<Rightarrow> bool option \<Rightarrow> i32 option \<Rightarrow> 'w
     \<Rightarrow> (api_error + 'a) \<times> 'w" where
  "get_job_v1 H cfg decode p_path_job_id p_query_wait_until_terminal p_query_timeout_seconds =
     send H (build_request GET (rc_base_path cfg @ ''/api/v1/jobs/'' @ urlencode H p_path_job_id)
        [opt_query ''wait_until_terminal'' (map_option show_bool p_query_wait_until_terminal),
         opt_query ''timeout_seconds'' (map_option show_i32 p_query_timeout_seconds), agent_header cfg,
         bearer_header cfg])
       (json_reply ''application/octet-stream'' ''models::IqmServerJob'' decode)"

definition job_get_artifacts ::
    "'w http \<Rightarrow> rest_config \<Rightarrow> string \<Rightarrow> string \<Rightarrow> 'w
     \<Rightarrow> (api_error + string) \<times> 'w" where
  "job_get_artifacts H cfg p_path_job_id p_path_artifact_type =
     send H (build_request GET (rc_base_path cfg @ ''/api/v1/jobs/'' @ urlencode H p_path_job_id
          @ ''/artifacts/'' @ urlencode H p_path_artifact_type)
        [agent_header cfg, bearer_header cfg])
       bytes_reply"

definition job_submit ::
    "'w http \<Rightarrow> rest_config \<Rightarrow> (string \<Rightarrow> string + 'a) \<Rightarrow> string
     \<Rightarrow> string \<Rightarrow> bool option \<Rightarrow> string option \<Rightarrow> json
     \<Rightarrow> 'w \<Rightarrow> (api_error + 'a) \<times> 'w" where
  "job_submit H cfg decode p_path_qc p_path_job_type p_query_use_timeslot p_query_tag p_body_body =
     send H (build_request POST (rc_base_path cfg @ ''/api/v1/jobs/'' @ p_path_qc @ ''/''
          @ urlencode H p_path_job_type)
        [opt_query ''use_timeslot'' (map_option show_bool p_query_use_timeslot), opt_query ''tag'' p_query_tag,
         agent_header cfg, bearer_header cfg, json_body p_body_body])
       (json_reply ''application/octet-stream'' ''models::IqmServerJob'' decode)"

section \<open>\<open>quantum_computers_api.rs\<close>\<close>

definition book_qc_timeslot_v1 ::
    "'w http \<Rightarrow> rest_config \<Rightarrow> (string \<Rightarrow> string + 'a) \<Rightarrow> string
     \<Rightarrow> json \<Rightarrow> 'w \<Rightarrow> (api_error + 'a) \<times> 'w" where
  "book_qc_timeslot_v1 H cfg decode p_path_qc p_body_iqm_server_book_timeslots_request =
     send H (build_request POST (rc_base_path cfg @ ''/api/v1/quantum-computers/'' @ p_path_qc
          @ ''/timeslots'')
        [agent_header cfg, bearer_header cfg, json_body p_body_iqm_server_book_timeslots_request])
       (json_reply ''application/octet-stream'' ''models::IqmServerBookTimeslotsResponse'' decode)"

definition get_all_qcs_v1 ::
    "'w http \<Rightarrow> rest_config \<Rightarrow> (string \<Rightarrow> string + 'a) \<Rightarrow> 'w
     \<Rightarrow> (api_error + 'a) \<times> 'w" where
  "get_all_qcs_v1 H cfg decode =
     send H (build_request GET (rc_base_path cfg @ ''/api/v1/quantum-computers'')
        [agent_header cfg, bearer_header cfg])
       (json_reply ''application/octet-stream'' ''models::IqmServerQuantumComputerList'' decode)"

definition get_qc_health_v1 ::
    "'w http \<Rightarrow> rest_config \<Rightarrow> (string \<Rightarrow> string + 'a) \<Rightarrow> string
     \<Rightarrow> 'w \<Rightarrow> (api_error + 'a) \<times> 'w" where
  "get_qc_health_v1 H cfg decode p_path_qc =
     send H (build_request GET (rc_base_path cfg @ ''/api/v1/quantum-computers/'' @ p_path_qc @ ''/health'')
        [agent_header cfg, bearer_header cfg])
       (json_reply ''application/octet-stream'' ''models::IqmServerQcHealthStatus'' decode)"

definition get_qc_limits_v1 ::
    "'w http \<Rightarrow> rest_config \<Rightarrow> (string \<Rightarrow> string + 'a) \<Rightarrow> string
     \<Rightarrow> 'w \<Rightarrow> (api_error + 'a) \<times> 'w" where
  "get_qc_limits_v1 H cfg decode p_path_qc =
     send H (build_request GET (rc_base_path cfg @ ''/api/v1/quantum-computers/'' @ p_path_qc @ ''/limits'')
        [agent_header cfg, bearer_header cfg])
       (json_reply ''application/octet-stream'' ''models::IqmServerQcLimits'' decode)"

definition get_qc_queue_v1 ::
    "'w http \<Rightarrow> rest_config \<Rightarrow> (string \<Rightarrow> string + 'a) \<Rightarrow> string
     \<Rightarrow> string option \<Rightarrow> string option \<Rightarrow> 'w
     \<Rightarrow> (api_error + 'a) \<times> 'w" where
  "get_qc_queue_v1 H cfg decode p_path_qc p_query_timerange_start p_query_timerange_end =
     send H (build_request GET (rc_base_path cfg @ ''/api/v1/quantum-computers/'' @ p_path_qc
          @ ''/queue-availability'')
        [opt_query ''timerange_start'' p_query_timerange_start,
         opt_query ''timerange_end'' p_query_timerange_end, agent_header cfg, bearer_header cfg])
       (json_reply ''application/octet-stream'' ''models::IqmServerQcQueueOverview'' decode)"

definition get_qc_timeslots_v1 ::
    "'w http \<Rightarrow> rest_config \<Rightarrow> (string \<Rightarrow> string + 'a) \<Rightarrow> string
     \<Rightarrow> string option \<Rightarrow> string option \<Rightarrow> 'w
     \<Rightarrow> (api_error + 'a) \<times> 'w" where
  "get_qc_timeslots_v1 H cfg decode p_path_qc p_query_timerange_start p_query_timerange_end =
     send H (build_request GET (rc_base_path cfg @ ''/api/v1/quantum-computers/'' @ p_path_qc
          @ ''/timeslots'')
        [opt_query ''timerange_start'' p_query_timerange_start,
         opt_query ''timerange_end'' p_query_timerange_end, agent_header cfg, bearer_header cfg])
       (json_reply ''application/octet-stream'' ''models::IqmServerQcTimeslots'' decode)"

definition qc_get_artifacts ::
    "'w http \<Rightarrow> rest_config \<Rightarrow> string \<Rightarrow> string \<Rightarrow> 'w
     \<Rightarrow> (api_error + string) \<times> 'w" where
  "qc_get_artifacts H cfg p_path_qc p_path_artifact_type =
     send H (build_request GET (rc_base_path cfg @ ''/api/v1/quantum-computers/'' @ p_path_qc
          @ ''/artifacts/'' @ urlencode H p_path_artifact_type)
        [agent_header cfg, bearer_header cfg])
       bytes_reply"

definition get_qc_v1 ::
    "'w http \<Rightarrow> rest_config \<Rightarrow> (string \<Rightarrow> string + 'a) \<Rightarrow> string
     \<Rightarrow> 'w \<Rightarrow> (api_error + 'a) \<times> 'w" where
  "get_qc_v1 H cfg decode p_path_qc =
     send H (build_request GET (rc_base_path cfg @ ''/api/v1/quantum-computers/'' @ p_path_qc)
        [agent_header cfg, bearer_header cfg])
       (json_reply ''application/octet-stream'' ''models::IqmServerQuantumComputerDetails'' decode)"

section \<open>\<open>token_management_api.rs\<close>\<close>

definition activate_api_token_v1 ::
    "'w http \<Rightarrow> rest_config \<Rightarrow> (string \<Rightarrow> string + 'a) \<Rightarrow> json
     \<Rightarrow> 'w \<Rightarrow> (api_error + 'a) \<times> 'w" where
  "activate_api_token_v1 H cfg decode p_body_iqm_server_api_token_activate_request =
     send H (build_request POST (rc_base_path cfg @ ''/api/v1/tokens/current/activate'')
        [agent_header cfg, bearer_header cfg, json_body p_body_iqm_server_api_token_activate_request])
       (json_reply ''application/octet-stream'' ''models::IqmServerApiTokenActivateResult'' decode)"

definition get_api_tokens_v1 ::
    "'w http \<Rightarrow> rest_config \<Rightarrow> (string \<Rightarrow> string + 'a) \<Rightarrow> 'w
     \<Rightarrow> (api_error + 'a) \<times> 'w" where
  "get_api_tokens_v1 H cfg decode =
     send H (build_request GET (rc_base_path cfg @ ''/api/v1/tokens'')
        [agent_header cfg, bearer_header cfg])
       (json_reply ''application/octet-stream'' ''models::IqmServerTokenList'' decode)"

definition refresh_api_token_v1 ::
    "'w http \<Rightarrow> rest_config \<Rightarrow> (string \<Rightarrow> string + 'a) \<Rightarrow> json
     \<Rightarrow> 'w \<Rightarrow> (api_error + 'a) \<times> 'w" where
  "refresh_api_token_v1 H cfg decode p_body_iqm_server_api_token_refresh_request =
     send H (build_request POST (rc_base_path cfg @ ''/api/v1/tokens/current/refresh'')
        [agent_header cfg, bearer_header cfg, json_body p_body_iqm_server_api_token_refresh_request])
       (json_reply ''application/octet-stream'' ''models::IqmServerCreatedApiToken'' decode)"

definition revoke_api_token_v1 ::
    "'w http \<Rightarrow> rest_config \<Rightarrow> (string \<Rightarrow> string + 'a) \<Rightarrow> string
     \<Rightarrow> 'w \<Rightarrow> (api_error + 'a) \<times> 'w" where
  "revoke_api_token_v1 H cfg decode p_path_id =
     send H (build_request POST (rc_base_path cfg @ ''/api/v1/tokens/'' @ urlencode H p_path_id @ ''/revoke'')
        [agent_header cfg, bearer_header cfg])
       (json_reply ''application/octet-stream'' ''models::IqmServerApiTokenRevokeResult'' decode)"

end
