(* ===== verification/FelisApi.thy ===== *)
theory FelisApi
  imports RestClient
begin

text \<open>
  The generated client of
  Alice \& Bob Felis (\<open>alice_bob_felis_client/felis_generated/src/apis\<close>):
  one definition per function, with the steps of its request in the order of the code.
  \<open>decode\<close> is \<open>serde_json::from_str\<close> at the type of the result,
  and a body is the JSON value that its model serializes to.
\<close>

section \<open>\<open>health_service.rs\<close>\<close>

definition check_health ::
    "'w http \<Rightarrow> rest_config \<Rightarrow> (string \<Rightarrow> string + string)
     \<Rightarrow> string option \<Rightarrow> 'w \<Rightarrow> (api_error + string) \<times> 'w" where
  "check_health H cfg decode p_header_authorization =
     send H (build_request GET (rc_base_path cfg @ ''/v1/health/'')
        [agent_header cfg, opt_header ''authorization'' p_header_authorization, basic_login cfg])
       (text_reply ''application/octet-stream'' decode)"

section \<open>\<open>jobs_service.rs\<close>\<close>

definition cancel_job ::
    "'w http \<Rightarrow> rest_config \<Rightarrow> (string \<Rightarrow> string + 'a) \<Rightarrow> string
     \<Rightarrow> string option \<Rightarrow> 'w \<Rightarrow> (api_error + 'a) \<times> 'w" where
  "cancel_job H cfg decode p_path_job_id p_header_authorization =
     send H (build_request DELETE (rc_base_path cfg @ ''/v1/jobs/'' @ urlencode H p_path_job_id)
        [agent_header cfg, opt_header ''authorization'' p_header_authorization, basic_login cfg])
       (json_reply ''application/octet-stream'' ''models::ExternalJob'' decode)"

definition create_job ::
    "'w http \<Rightarrow> rest_config \<Rightarrow> (string \<Rightarrow> string + 'a) \<Rightarrow> json
     \<Rightarrow> string option \<Rightarrow> 'w \<Rightarrow> (api_error + 'a) \<times> 'w" where
  "create_job H cfg decode p_body_create_external_job p_header_authorization =
     send H (build_request POST (rc_base_path cfg @ ''/v1/jobs/'')
        [agent_header cfg, opt_header ''authorization'' p_header_authorization, basic_login cfg,
         json_body p_body_create_external_job])
       (json_reply ''application/octet-stream'' ''models::ExternalJob'' decode)"

definition download_input ::
    "'w http \<Rightarrow> rest_config \<Rightarrow> (string \<Rightarrow> string + 'a) \<Rightarrow> string
     \<Rightarrow> string option \<Rightarrow> 'w \<Rightarrow> (api_error + 'a) \<times> 'w" where
  "download_input H cfg decode p_path_job_id p_header_authorization =
     send H (build_request GET (rc_base_path cfg @ ''/v1/jobs/'' @ urlencode H p_path_job_id @ ''/input'')
        [agent_header cfg, opt_header ''authorization'' p_header_authorization, basic_login cfg])
       (json_reply ''application/octet-stream'' ''serde_json::Value'' decode)"

definition download_memory ::
    "'w http \<Rightarrow> rest_config \<Rightarrow> (string \<Rightarrow> string + 'a) \<Rightarrow> string
     \<Rightarrow> string option \<Rightarrow> 'w \<Rightarrow> (api_error + 'a) \<times> 'w" where
  "download_memory H cfg decode p_path_job_id p_header_authorization =
     send H (build_request GET (rc_base_path cfg @ ''/v1/jobs/'' @ urlencode H p_path_job_id @ ''/memory'')
        [agent_header cfg, opt_header ''authorization'' p_header_authorization, basic_login cfg])
       (json_reply ''application/octet-stream'' ''serde_json::Value'' decode)"

definition download_output ::
    "'w http \<Rightarrow> rest_config \<Rightarrow> (string \<Rightarrow> string + string)
     \<Rightarrow> string \<Rightarrow> string option \<Rightarrow> 'w
     \<Rightarrow> (api_error + string) \<times> 'w" where
  "download_output H cfg decode p_path_job_id p_header_authorization =
     send H (build_request GET (rc_base_path cfg @ ''/v1/jobs/'' @ urlencode H p_path_job_id @ ''/output'')
        [agent_header cfg, opt_header ''authorization'' p_header_authorization, basic_login cfg])
       (text_reply ''application/octet-stream'' decode)"

definition download_transpiled ::
    "'w http \<Rightarrow> rest_config \<Rightarrow> (string \<Rightarrow> string + 'a) \<Rightarrow> string
     \<Rightarrow> string option \<Rightarrow> 'w \<Rightarrow> (api_error + 'a) \<times> 'w" where
  "download_transpiled H cfg decode p_path_job_id p_header_authorization =
     send H (build_request GET (rc_base_path cfg @ ''/v1/jobs/'' @ urlencode H p_path_job_id
          @ ''/transpiled'')
        [agent_header cfg, opt_header ''authorization'' p_header_authorization, basic_login cfg])
       (json_reply ''application/octet-stream'' ''serde_json::Value'' decode)"

definition get_job ::
    "'w http \<Rightarrow> rest_config \<Rightarrow> (string \<Rightarrow> string + 'a) \<Rightarrow> string
     \<Rightarrow> string option \<Rightarrow> 'w \<Rightarrow> (api_error + 'a) \<times> 'w" where
  "get_job H cfg decode p_path_job_id p_header_authorization =
     send H (build_request GET (rc_base_path cfg @ ''/v1/jobs/'' @ urlencode H p_path_job_id)
        [agent_header cfg, opt_header ''authorization'' p_header_authorization, basic_login cfg])
       (json_reply ''application/octet-stream'' ''models::ExternalJob'' decode)"

definition get_job_metrics ::
    "'w http \<Rightarrow> rest_config \<Rightarrow> (string \<Rightarrow> string + 'a) \<Rightarrow> string
     \<Rightarrow> string option \<Rightarrow> 'w \<Rightarrow> (api_error + 'a) \<times> 'w" where
  "get_job_metrics H cfg decode p_path_job_id p_header_authorization =
     send H (build_request GET (rc_base_path cfg @ ''/v1/jobs/'' @ urlencode H p_path_job_id @ ''/metrics'')
        [agent_header cfg, opt_header ''authorization'' p_header_authorization, basic_login cfg])
       (json_reply ''application/octet-stream'' ''models::ExternalJobMetrics'' decode)"

definition list_jobs ::
    "'w http \<Rightarrow> rest_config \<Rightarrow> (string \<Rightarrow> string + 'a)
     \<Rightarrow> i32 option \<Rightarrow> i32 option \<Rightarrow> string option \<Rightarrow> 'w
     \<Rightarrow> (api_error + 'a) \<times> 'w" where
  "list_jobs H cfg decode p_query_page p_query_limit p_header_authorization =
     send H (build_request GET (rc_base_path cfg @ ''/v1/jobs/'')
        [opt_query ''page'' (map_option show_i32 p_query_page),
         opt_query ''limit'' (map_option show_i32 p_query_limit), agent_header cfg,
         opt_header ''authorization'' p_header_authorization, basic_login cfg])
       (json_reply ''application/octet-stream'' ''Vec&lt;models::ExternalJob&gt;'' decode)"

definition upload_input ::
    "'w http \<Rightarrow> rest_config \<Rightarrow> (string \<Rightarrow> string + 'a) \<Rightarrow> string
     \<Rightarrow> string option \<Rightarrow> 'w \<Rightarrow> (api_error + 'a) \<times> 'w" where
  "upload_input H cfg decode p_path_job_id p_header_authorization =
     send H (build_request POST (rc_base_path cfg @ ''/v1/jobs/'' @ urlencode H p_path_job_id @ ''/input'')
        [agent_header cfg, opt_header ''authorization'' p_header_authorization, basic_login cfg, multipart_empty])
       (json_reply ''application/octet-stream'' ''serde_json::Value'' decode)"

section \<open>\<open>targets_service.rs\<close>\<close>

definition list_target_availabilities ::
    "'w http \<Rightarrow> rest_config \<Rightarrow> (string \<Rightarrow> string + 'a) \<Rightarrow> string
     \<Rightarrow> i32 option \<Rightarrow> i32 option \<Rightarrow> 'w
     \<Rightarrow> (api_error + 'a) \<times> 'w" where
  "list_target_availabilities H cfg decode p_path_target p_query_limit p_query_offset =
     send H (build_request GET (rc_base_path cfg @ ''/v1/targets/'' @ urlencode H p_path_target
          @ ''/availabilities'')
        [opt_query ''limit'' (map_option show_i32 p_query_limit),
         opt_query ''offset'' (map_option show_i32 p_query_offset), agent_header cfg, basic_login cfg])
       (json_reply ''application/octet-stream'' ''Vec&lt;models::TargetAvailability&gt;'' decode)"

definition list_targets ::
    "'w http \<Rightarrow> rest_config \<Rightarrow> (string \<Rightarrow> string + 'a) \<Rightarrow> 'w
     \<Rightarrow> (api_error + 'a) \<times> 'w" where
  "list_targets H cfg decode =
     send H (build_request GET (rc_base_path cfg @ ''/v1/targets/'')
        [agent_header cfg, basic_login cfg])
       (json_reply ''application/octet-stream'' ''Vec&lt;models::TargetConfiguration&gt;'' decode)"

definition target_status ::
    "'w http \<Rightarrow> rest_config \<Rightarrow> (string \<Rightarrow> string + 'a) \<Rightarrow> string
     \<Rightarrow> 'w \<Rightarrow> (api_error + 'a) \<times> 'w" where
  "target_status H cfg decode p_path_target =
     send H (build_request GET (rc_base_path cfg @ ''/v1/targets/'' @ urlencode H p_path_target
          @ ''/health'')
        [agent_header cfg, basic_login cfg])
       (json_reply ''application/octet-stream'' ''models::TargetStatus'' decode)"

end
