(* ===== verification/HttpClients.thy ===== *)
theory HttpClients
  imports QcApi IqmApi FelisApi StartContracts Felis IqmServer
begin

text \<open>
  The clients that the resources of IBM, IQM and Alice \& Bob use, built from the functions
  of the generated REST clients with the arguments of the calls in
  \<open>src/ibm/quantum_compute_service.rs\<close>, \<open>src/iqm/server.rs\<close> and \<open>src/alice_bob/felis.rs\<close>.
  The reading and writing of the models as JSON are parameters.
\<close>

section \<open>The settings of a resource\<close>

definition qc_rest :: "api_config \<Rightarrow> rest_config" where
  "qc_rest c = qc_default_config
     \<lparr>rc_base_path := base_path c, rc_bearer := bearer_access_token c, rc_crn := crn c\<rparr>"

definition iqm_rest :: "iqm_server \<Rightarrow> rest_config" where
  "iqm_rest R = iqm_default_config\<lparr>rc_base_path := iqm_base_path R, rc_bearer := iqm_token R\<rparr>"

definition felis_rest :: "felis \<Rightarrow> rest_config" where
  "felis_rest R = felis_default_config\<lparr>rc_base_path := felis_base_path R, rc_basic_auth := felis_basic_auth R\<rparr>"

section \<open>IBM\<close>

text \<open>
  \<open>read_params\<close> is \<open>serde_json::from_value\<close> at the input type of a program; \<open>status_error\<close>
  the error of \<open>error_for_status\<close>.
\<close>

record qc_models =
  read_status :: "string \<Rightarrow> string + string option"
  read_devices :: "string \<Rightarrow> string + device_info list option"
  read_jobs :: "string \<Rightarrow> string + job_response list option"
  read_session_response :: "string \<Rightarrow> string + session_response"
  read_created :: "string \<Rightarrow> string + string"
  read_job :: "string \<Rightarrow> string + job_status"
  read_text :: "string \<Rightarrow> string + string"
  read_document :: "string \<Rightarrow> string + json"
  read_token :: "string \<Rightarrow> string + string \<times> u64 \<times> u64"
  read_params :: "string \<Rightarrow> json \<Rightarrow> string + json"
  status_error :: "rest_response \<Rightarrow> string"
  write_session_request :: "session_request \<Rightarrow> json"
  write_job_request :: "job_request \<Rightarrow> json"
  write_accepting :: "bool \<Rightarrow> json"

definition token_request :: "string \<Rightarrow> string \<Rightarrow> rest_request" where
  "token_request api_key iam_endpoint = build_request POST (iam_endpoint @ ''/identity/token'')
     [add_header ''Content-Type'' ''application/x-www-form-urlencoded'',
      form_body [(''grant_type'', ''urn:ibm:params:oauth:grant-type:apikey''), (''apikey'', api_key)]]"

definition http_fetch_token ::
    "'w http \<Rightarrow> qc_models \<Rightarrow> string \<Rightarrow> string \<Rightarrow> 'w \<Rightarrow> (string + string \<times> u64 \<times> u64) \<times> 'w" where
  "http_fetch_token H M api_key iam_endpoint w =
     (let rq = token_request api_key iam_endpoint in
      case build_error H rq of
        Some e \<Rightarrow> (Inl e, w)
      | None \<Rightarrow> (case http_execute H rq w of
            (Inl e, w') \<Rightarrow> (Inl e, w')
          | (Inr rsp, w') \<Rightarrow>
              (if is_failure (rsp_status rsp) then Inl (status_error M rsp)
               else (case rsp_body rsp of Inl e \<Rightarrow> Inl e | Inr content \<Rightarrow> read_token M content), w')))"

definition http_ibm_client :: "'w http \<Rightarrow> ('w \<Rightarrow> u64) \<Rightarrow> json_lib \<Rightarrow> qc_models \<Rightarrow> 'w ibm_client" where
  "http_ibm_client H clock serde M =
     \<lparr>ibm_iam = \<lparr>unix_now = clock, fetch_access_token = http_fetch_token H M\<rparr>,
      ibm_serde = serde, typed_params = read_params M,
      api_backend_status = (\<lambda>c name. get_backend_status H (qc_rest c) (read_status M) name None),
      api_list_backends = (\<lambda>c. QcApi.list_backends H (qc_rest c) (read_devices M) (Some ''2025-01-01'')),
      api_list_jobs = (\<lambda>c q. QcApi.list_jobs H (qc_rest c) (read_jobs M) (jq_version q) (jq_limit q)
        (jq_offset q) (jq_pending q) None (jq_backend q) None None (jq_sort q) None (jq_session q)
        (jq_exclude_params q)),
      api_get_session = (\<lambda>c sid version. QcApi.get_session H (qc_rest c) (read_session_response M) sid version),
      api_create_session = (\<lambda>c rq. QcApi.create_session H (qc_rest c) (read_created M) None
        (write_session_request M rq)),
      api_close_session = (\<lambda>c sid. delete_session_close H (qc_rest c) sid None),
      api_update_session = (\<lambda>c sid b. update_session H (qc_rest c) sid None (write_accepting M b)),
      api_create_job = (\<lambda>c rq. QcApi.create_job H (qc_rest c) (read_created M) None None (write_job_request M rq)),
      api_get_job = (\<lambda>c tid. QcApi.get_job H (qc_rest c) (read_job M) tid None None),
      api_cancel_job = (\<lambda>c tid. cancel_job_jid H (qc_rest c) tid None None),
      api_job_results = (\<lambda>c tid. get_job_results_jid H (qc_rest c) (read_text M) tid None),
      api_job_logs = (\<lambda>c tid. get_job_logs_jid H (qc_rest c) (read_text M) tid None),
      api_configuration = (\<lambda>c name. get_backend_configuration H (qc_rest c) (read_document M) name None),
      api_properties = (\<lambda>c name cal. get_backend_properties H (qc_rest c) (read_document M) name None None cal)\<rparr>"

section \<open>IQM\<close>

text \<open>The fields of \<open>iqm_client\<close> that are no requests are given as the client \<open>C\<close>.\<close>

record iqm_models =
  read_iqm_job :: "string \<Rightarrow> string + iqm_job"
  read_iqm_job_id :: "string \<Rightarrow> string + string"

definition http_fetch_qc ::
    "'w http \<Rightarrow> iqm_server \<Rightarrow> string \<Rightarrow> 'w \<Rightarrow> (string + nat \<times> string \<times> (string + string)) \<times> 'w" where
  "http_fetch_qc H R url w =
     (let rq = build_request GET url [agent_header (iqm_rest R), bearer_header (iqm_rest R)] in
      case build_error H rq of
        Some e \<Rightarrow> (Inl e, w)
      | None \<Rightarrow> (case http_execute H rq w of
            (Inl e, w') \<Rightarrow> (Inl e, w')
          | (Inr rsp, w') \<Rightarrow> (Inr (rsp_status rsp, rsp_shown rsp, rsp_body rsp), w')))"

definition http_iqm_client :: "'w http \<Rightarrow> iqm_models \<Rightarrow> 'w iqm_client \<Rightarrow> 'w iqm_client" where
  "http_iqm_client H M C = C
     \<lparr>fetch_qc := http_fetch_qc H,
      api_job_submit := (\<lambda>R jt ts tag job. job_submit H (iqm_rest R) (read_iqm_job_id M) (iqm_backend R) jt ts tag job),
      api_get_iqm_job := (\<lambda>R tid wait secs. get_job_v1 H (iqm_rest R) (read_iqm_job M) tid (Some wait)
        (map_option of_nat secs)),
      api_cancel_iqm_job := (\<lambda>R tid w. case cancel_job_v1 H (iqm_rest R) (read_iqm_job M) tid w of
        (r, w') \<Rightarrow> (map_sum id (\<lambda>_. ()) r, w')),
      api_job_artifact := (\<lambda>R. job_get_artifacts H (iqm_rest R)),
      api_qc_artifact := (\<lambda>R. qc_get_artifacts H (iqm_rest R) (iqm_backend R)),
      api_dynamic_architecture := (\<lambda>R. get_dynamic_quantum_architecture_v1 H (iqm_rest R) (iqm_backend R)
        (iqm_calibration_set R)),
      api_calibration_set := (\<lambda>R. get_calibration_set_v1 H (iqm_rest R) (iqm_backend R) (iqm_calibration_set R)),
      api_quality_metrics := (\<lambda>R. get_quality_metrics_v1 H (iqm_rest R) (iqm_backend R) (iqm_calibration_set R))\<rparr>"

section \<open>Felis\<close>

text \<open>
  The multipart request of \<open>upload_input\<close>, which is not generated, carries the program as
  the one part \<open>input\<close>, a file of that name.
\<close>

record felis_models =
  read_felis_job :: "string \<Rightarrow> string + event_type list"
  read_felis_job_id :: "string \<Rightarrow> string + string"
  read_output :: "string \<Rightarrow> string + string"
  read_targets :: "string \<Rightarrow> string + (string \<times> json) list"

definition http_post_input ::
    "'w http \<Rightarrow> felis \<Rightarrow> string \<Rightarrow> string \<Rightarrow> 'w \<Rightarrow> (string + nat \<times> string \<times> string option \<times> (string + string)) \<times> 'w" where
  "http_post_input H R url input w =
     (let rq = build_request POST url
          [agent_header (felis_rest R), basic_login (felis_rest R), input_form input] in
      case build_error H rq of
        Some e \<Rightarrow> (Inl e, w)
      | None \<Rightarrow> (case http_execute H rq w of
            (Inl e, w') \<Rightarrow> (Inl e, w')
          | (Inr rsp, w') \<Rightarrow> (Inr (rsp_status rsp, rsp_shown rsp, rsp_content_type rsp, rsp_body rsp), w')))"

definition http_felis_client :: "'w http \<Rightarrow> json_lib \<Rightarrow> felis_models \<Rightarrow> 'w felis_client" where
  "http_felis_client H serde M =
     \<lparr>felis_serde = serde, felis_urlencode = urlencode H,
      api_create_felis_job = (\<lambda>R doc. FelisApi.create_job H (felis_rest R) (read_felis_job_id M) doc None),
      post_input = http_post_input H,
      api_get_events = (\<lambda>R tid. FelisApi.get_job H (felis_rest R) (read_felis_job M) tid None),
      api_cancel_felis_job = (\<lambda>R tid w. case FelisApi.cancel_job H (felis_rest R) (read_felis_job M) tid None w of
        (r, w') \<Rightarrow> (map_sum id (\<lambda>_. ()) r, w')),
      api_download_output = (\<lambda>R tid. download_output H (felis_rest R) (read_output M) tid None),
      api_list_targets = (\<lambda>R. list_targets H (felis_rest R) (read_targets M))\<rparr>"

end
