(* ===== verification/HttpProofs.thy ===== *)
theory HttpProofs
  imports HttpClients
begin

text \<open>
  The resources over the generated clients: what the requests of an IBM resource carry, and
  the contract of \<open>task_start\<close> from the answers of the HTTP service up.
\<close>

section \<open>What is sent\<close>

text \<open>The same client in a world that keeps the requests, in the order in which they were sent.\<close>

definition recording :: "'w http \<Rightarrow> ('w \<times> rest_request list) http" where
  "recording H = \<lparr>byte_serialize = byte_serialize H, build_error = build_error H,
     http_execute = (\<lambda>rq (w, log). case http_execute H rq w of (r, w') \<Rightarrow> (r, (w', log @ [rq])))\<rparr>"

definition sends :: "(rest_request \<Rightarrow> bool) \<Rightarrow> ('w \<times> rest_request list \<Rightarrow> 'a \<times> 'w \<times> rest_request list) \<Rightarrow> bool" where
  "sends P m \<longleftrightarrow> (\<forall>w log. \<exists>xs. snd (snd (m (w, log))) = log @ xs \<and> (\<forall>rq \<in> set xs. P rq))"

lemma sends_send: "P rq \<Longrightarrow> sends P (send (recording H) rq f)"
  by (auto simp: sends_def send_def recording_def split: option.split prod.split sum.split)

lemma sends_token: "P (token_request key url) \<Longrightarrow> sends P (http_fetch_token (recording H) M key url)"
  by (auto simp: sends_def http_fetch_token_def recording_def Let_def split: option.split prod.split sum.split)

lemma sendsD: "sends P m \<Longrightarrow> \<exists>xs. snd (snd (m u)) = snd u @ xs \<and> (\<forall>rq \<in> set xs. P rq)"
  unfolding sends_def by (metis prod.collapse)

text \<open>
  A request to the service: under the endpoint, with one bearer token and the instance's
  CRN, if it has one.
\<close>

definition signed :: "api_config \<Rightarrow> rest_request \<Rightarrow> bool" where
  "signed c rq \<longleftrightarrow> take (length (base_path c)) (rest_url rq) = base_path c
     \<and> (\<exists>t. filter (\<lambda>(k, _). k = ''authorization'') (rest_headers rq) = [(''authorization'', ''Bearer '' @ t)])
     \<and> filter (\<lambda>(k, _). k = ''Service-CRN'') (rest_headers rq) =
         (case crn c of Some x \<Rightarrow> [(''Service-CRN'', x)] | None \<Rightarrow> [])"

lemmas step_defs = build_request_def add_header_def opt_header_def accept_json_def add_query_def opt_query_def
  opt_query_multi_def agent_header_def bearer_header_def service_crn_def json_body_def form_body_def

lemma signed_same: "base_path c = base_path c' \<Longrightarrow> crn c = crn c' \<Longrightarrow> signed c = signed c'"
  by (simp add: signed_def fun_eq_iff)

text \<open>What each step of a request changes.\<close>

lemma step_fields [simp]:
  "rest_url (add_header k v rq) = rest_url rq" "rest_headers (add_header k v rq) = rest_headers rq @ [(k, v)]"
  "rest_url (opt_query k o1 rq) = rest_url rq" "rest_headers (opt_query k o1 rq) = rest_headers rq"
  "rest_url (opt_query_multi k o2 rq) = rest_url rq" "rest_headers (opt_query_multi k o2 rq) = rest_headers rq"
  "rest_url (opt_header k o3 rq) = rest_url rq"
  "rest_headers (opt_header k o3 rq) = rest_headers rq @ (case o3 of Some v \<Rightarrow> [(k, v)] | None \<Rightarrow> [])"
  "rest_url (json_body j rq) = rest_url rq" "rest_headers (json_body j rq) = rest_headers rq"
  by (simp_all add: add_header_def opt_query_def add_query_def opt_query_multi_def opt_header_def json_body_def
      split: option.split)

lemma fold_steps:
  "build_request m url steps = fold (\<lambda>f rq. f rq) steps
     \<lparr>rest_method = m, rest_url = url, rest_query = [], rest_headers = [], rest_basic = None, rest_body = NoBody\<rparr>"
  by (simp add: build_request_def)

lemmas qc_fields = fold_steps agent_header_def bearer_header_def service_crn_def accept_json_def
  qc_rest_def qc_default_config_def

lemmas qc_calls = get_backend_status_def QcApi.list_backends_def QcApi.get_session_def QcApi.create_session_def
  delete_session_close_def update_session_def QcApi.create_job_def QcApi.get_job_def cancel_job_jid_def
  get_job_results_jid_def get_job_logs_jid_def get_backend_configuration_def get_backend_properties_def
  QcApi.list_jobs_def

lemma signed_requests:
  assumes "bearer_access_token c = Some t"
  shows "sends (signed c) (api_backend_status (http_ibm_client (recording H) clock serde M) c n1)"
    "sends (signed c) (api_list_backends (http_ibm_client (recording H) clock serde M) c)"
    "sends (signed c) (api_list_jobs (http_ibm_client (recording H) clock serde M) c q)"
    "sends (signed c) (api_get_session (http_ibm_client (recording H) clock serde M) c n3 v)"
    "sends (signed c) (api_create_session (http_ibm_client (recording H) clock serde M) c rq4)"
    "sends (signed c) (api_close_session (http_ibm_client (recording H) clock serde M) c n5)"
    "sends (signed c) (api_update_session (http_ibm_client (recording H) clock serde M) c n6 b)"
    "sends (signed c) (api_create_job (http_ibm_client (recording H) clock serde M) c rq7)"
    "sends (signed c) (api_get_job (http_ibm_client (recording H) clock serde M) c n8)"
    "sends (signed c) (api_cancel_job (http_ibm_client (recording H) clock serde M) c n9)"
    "sends (signed c) (api_job_results (http_ibm_client (recording H) clock serde M) c n10)"
    "sends (signed c) (api_configuration (http_ibm_client (recording H) clock serde M) c n11)"
    "sends (signed c) (api_properties (http_ibm_client (recording H) clock serde M) c n12 cal)"
  unfolding http_ibm_client_def ibm_client.simps qc_calls
  by (rule sends_send, simp add: signed_def qc_fields assms split: option.split)+

section \<open>The requests of an operation\<close>

text \<open>
  The settings never change, and once there is a token there is one, and the requests are
  signed, but for those that renew the token.
\<close>

type_synonym 'w recorded = "ibm_service \<times> 'w \<times> rest_request list"

definition has_token :: "'w recorded \<Rightarrow> bool" where
  "has_token s \<longleftrightarrow> bearer_access_token (svc_config (fst s)) \<noteq> None"

definition to_ibm :: "ibm_service \<Rightarrow> rest_request \<Rightarrow> bool" where
  "to_ibm R rq \<longleftrightarrow> rq = token_request (svc_api_key R) (svc_iam_endpoint R) \<or> signed (svc_config R) rq"

definition same_settings :: "ibm_service \<Rightarrow> ibm_service \<Rightarrow> bool" where
  "same_settings R R' \<longleftrightarrow> base_path (svc_config R') = base_path (svc_config R)
     \<and> crn (svc_config R') = crn (svc_config R) \<and> svc_api_key R' = svc_api_key R
     \<and> svc_iam_endpoint R' = svc_iam_endpoint R"

definition keeps_signing :: "'w recorded \<Rightarrow> 'w recorded \<Rightarrow> bool" where
  "keeps_signing s t \<longleftrightarrow> same_settings (fst s) (fst t)
     \<and> (has_token s \<longrightarrow> has_token t \<and>
         (\<exists>xs. snd (snd t) = snd (snd s) @ xs \<and> (\<forall>rq \<in> set xs. to_ibm (fst s) rq)))"

lemma to_ibm_same: "same_settings R R' \<Longrightarrow> to_ibm R' = to_ibm R"
  using signed_same [of "svc_config R'" "svc_config R"] by (simp add: same_settings_def to_ibm_def fun_eq_iff)

interpretation signing: step_order "keeps_signing :: 'w recorded \<Rightarrow> 'w recorded \<Rightarrow> bool"
proof
  fix s t u :: "'w recorded"
  show "keeps_signing s s" by (simp add: keeps_signing_def same_settings_def)
  assume st: "keeps_signing s t" and tu: "keeps_signing t u"
  then have same: "same_settings (fst s) (fst u)" "to_ibm (fst t) = to_ibm (fst s)"
    by (auto simp: keeps_signing_def same_settings_def intro: to_ibm_same)
  show "keeps_signing s u"
    unfolding keeps_signing_def
  proof (intro conjI impI)
    assume "has_token s"
    with st tu obtain xs ys where "has_token u"
      "snd (snd t) = snd (snd s) @ xs" "\<forall>rq \<in> set xs. to_ibm (fst s) rq"
      "snd (snd u) = snd (snd t) @ ys" "\<forall>rq \<in> set ys. to_ibm (fst t) rq"
      by (auto simp: keeps_signing_def)
    with same(2) show "has_token u"
      "\<exists>xs. snd (snd u) = snd (snd s) @ xs \<and> (\<forall>rq \<in> set xs. to_ibm (fst s) rq)"
      by (auto intro!: exI [of _ "xs @ ys"])
  qed (rule same(1))
qed

lemma keeps_set_session: "within keeps_signing (set_session sid)"
  by (auto simp: within_def set_session_def modify_def keeps_signing_def same_settings_def has_token_def)

lemma keeps_request:
  fixes f :: "ibm_service \<Rightarrow> 'w \<times> rest_request list \<Rightarrow> (api_error + 'a) \<times> 'w \<times> rest_request list"
  assumes "\<And>R t. bearer_access_token (svc_config R) = Some t \<Longrightarrow> sends (signed (svc_config R)) (f R)"
  shows "within keeps_signing (request f k)"
proof (unfold within_def, intro allI)
  fix s :: "'w recorded"
  obtain R u where s: "s = (R, u)" by (cases s)
  obtain r u' where fu: "f R u = (r, u')" by (cases "f R u")
  have "\<exists>xs. snd u' = snd u @ xs \<and> (\<forall>rq \<in> set xs. to_ibm R rq)" if "has_token s"
  proof -
    from that obtain t where "bearer_access_token (svc_config R) = Some t" by (auto simp: has_token_def s)
    from sendsD [OF assms [OF this], of u] show ?thesis by (auto simp: fu to_ibm_def)
  qed
  then show "keeps_signing s (snd (request f k s))"
    by (simp add: s request_def fu keeps_signing_def same_settings_def has_token_def)
qed

text \<open>Renewing the token: only the token request is sent, and there is a token afterwards.\<close>

abbreviation recorded_client ::
    "'w http \<Rightarrow> ('w \<Rightarrow> u64) \<Rightarrow> json_lib \<Rightarrow> qc_models \<Rightarrow> ('w \<times> rest_request list) ibm_client" where
  "recorded_client H clock serde M \<equiv> http_ibm_client (recording H) (\<lambda>(w, _). clock w) serde M"

definition iam_answers :: "'w http \<Rightarrow> qc_models \<Rightarrow> ibm_service \<Rightarrow> bool" where
  "iam_answers H M R \<longleftrightarrow> (\<forall>w. \<exists>x w'.
     http_fetch_token H M (svc_api_key R) (svc_iam_endpoint R) w = (Inr x, w'))"

lemma recorded_fetch:
  "fst (http_fetch_token (recording H) M key url (w, log)) = fst (http_fetch_token H M key url w)"
  by (auto simp: http_fetch_token_def recording_def Let_def split: option.split prod.split sum.split)

lemma ensure_sends:
  fixes H :: "'w http" and s :: "'w recorded"
  shows "\<exists>xs. snd (snd (snd (ensure_token (recorded_client H clock serde M) s))) = snd (snd s) @ xs
    \<and> (\<forall>rq \<in> set xs. rq = token_request (svc_api_key (fst s)) (svc_iam_endpoint (fst s)))"
    and "same_settings (fst s) (fst (snd (ensure_token (recorded_client H clock serde M) s)))"
    and "has_token s \<Longrightarrow> has_token (snd (ensure_token (recorded_client H clock serde M) s))"
proof -
  obtain R u where s: "s = (R, u)" by (cases s)
  let ?key = "svc_api_key R" and ?url = "svc_iam_endpoint R"
  have "sends (\<lambda>rq. rq = token_request ?key ?url) (http_fetch_token (recording H) M ?key ?url)"
    by (rule sends_token) simp
  note xs = sendsD [OF this, of u]
  let ?r = "ensure_token (recorded_client H clock serde M) s"
  note defs = s ensure_token_def check_token_def http_ibm_client_def same_settings_def has_token_def
  show "\<exists>xs. snd (snd (snd ?r)) = snd (snd s) @ xs \<and>
      (\<forall>rq \<in> set xs. rq = token_request (svc_api_key (fst s)) (svc_iam_endpoint (fst s)))"
    using xs by (auto simp: defs split: prod.splits sum.splits if_splits)
  show "same_settings (fst s) (fst (snd ?r))"
    by (auto simp: defs split: prod.splits sum.splits if_splits)
  show "has_token s \<Longrightarrow> has_token (snd ?r)"
    by (auto simp: defs split: prod.splits sum.splits if_splits)
qed

lemma ensure_gives_token:
  fixes H :: "'w http" and s :: "'w recorded"
  assumes "iam_answers H M (fst s)" and "has_token s \<or> svc_token_expiration (fst s) = 0 \<and> (\<forall>w. clock w < 2 ^ 63)"
  shows "has_token (snd (ensure_token (recorded_client H clock serde M) s))"
proof (cases "has_token s")
  case True
  then show ?thesis by (rule ensure_sends)
next
  case False
  obtain R w log where s: "s = (R, w, log)" by (cases s)
  from False assms(2) have *: "svc_token_expiration R = 0" "clock w < 2 ^ 63" by (auto simp: s)
  let ?m = "max 360 (uint (svc_token_lifetime R) div 10)"
  have "360 \<le> ?m" by simp
  with uint_ge_0 [of "clock w"] have "0 < uint (clock w) + ?m" by linarith
  then have "uint (0::u64) < uint (clock w + max 360 (svc_token_lifetime R div 10))"
    unfolding uint_renewal [OF *(2)] by simp
  then have renew: "needs_renewal (clock w) \<lparr>current_token = bearer_access_token (svc_config R),
      token_expiration = 0, token_lifetime = svc_token_lifetime R\<rparr>"
    by (simp add: needs_renewal_def word_less_def)
  from assms(1) obtain x w' where "fst (http_fetch_token H M (svc_api_key R) (svc_iam_endpoint R) w) = Inr x"
    by (auto simp: iam_answers_def s) (metis fst_conv)
  with recorded_fetch [of H M "svc_api_key R" "svc_iam_endpoint R" w log]
  have "fst (http_fetch_token (recording H) M (svc_api_key R) (svc_iam_endpoint R) (w, log)) = Inr x" by simp
  with renew *(1) show ?thesis
    by (cases x) (auto simp: s ensure_token_def check_token_def http_ibm_client_def has_token_def
        split: prod.splits sum.splits)
qed

lemma keeps_ensure:
  fixes H :: "'w http"
  shows "within keeps_signing (ensure_token (recorded_client H clock serde M))"
proof (unfold within_def, intro allI)
  fix s :: "'w recorded"
  show "keeps_signing s (snd (ensure_token (recorded_client H clock serde M) s))"
    using ensure_sends [where H = H and clock = clock and serde = serde and M = M and s = s] by (auto simp: keeps_signing_def to_ibm_def)
qed

lemma keeps_calls:
  fixes H :: "'w http" and clock :: "'w \<Rightarrow> u64" and serde :: json_lib and M :: qc_models
  defines "C \<equiv> recorded_client H clock serde M"
  shows "within keeps_signing (request (\<lambda>s. api_backend_status C (svc_config s) (svc_backend s)) k)"
    "within keeps_signing (request (\<lambda>s. api_list_backends C (svc_config s)) k)"
    "within keeps_signing (request (\<lambda>s. api_list_jobs C (svc_config s) (q s)) k)"
    "within keeps_signing (request (\<lambda>s. api_get_session C (svc_config s) sid v) k)"
    "within keeps_signing (request (\<lambda>s. api_create_session C (svc_config s) (rq s)) k)"
    "within keeps_signing (request (\<lambda>s. api_close_session C (svc_config s) sid) k)"
    "within keeps_signing (request (\<lambda>s. api_update_session C (svc_config s) sid b) k)"
    "within keeps_signing (request (\<lambda>s. api_create_job C (svc_config s) (jr s)) k)"
    "within keeps_signing (request (\<lambda>s. api_get_job C (svc_config s) tid) k)"
    "within keeps_signing (request (\<lambda>s. api_cancel_job C (svc_config s) tid) k)"
    "within keeps_signing (request (\<lambda>s. api_job_results C (svc_config s) tid) k)"
  unfolding C_def by (rule keeps_request, erule signed_requests)+

lemma or_null_request: "snd (or_null f s) = snd (request f k s)"
  by (simp add: or_null_def request_def split: prod.split)

lemma keeps_documents:
  fixes H :: "'w http" and clock :: "'w \<Rightarrow> u64" and serde :: json_lib and M :: qc_models
  defines "C \<equiv> recorded_client H clock serde M"
  shows "within keeps_signing (or_null (\<lambda>s. api_configuration C (svc_config s) (svc_backend s)))"
    "within keeps_signing (or_null (\<lambda>s. api_properties C (svc_config s) (svc_backend s) (svc_calibration s)))"
  unfolding within_def or_null_request [where k = ibm_resource_kind.Backend] C_def
  by (fold within_def, (rule keeps_request, erule signed_requests)+)

lemmas keeps_signing_rules =
  signing.within_rules keeps_calls keeps_documents keeps_ensure keeps_set_session

lemma keeps_search_page:
  "within keeps_signing (search_page (recorded_client H clock serde M) jobs)"
  by (induction jobs) (auto intro!: keeps_signing_rules split: option.split)

lemma search_pages_prog:
  "search_pages C offset =
    andthen (request (\<lambda>s. api_list_jobs C (svc_config s) (page_query (svc_backend s) offset)) ibm_resource_kind.Job)
      (\<lambda>page. let jobs = (case page of Some js \<Rightarrow> js | None \<Rightarrow> []) in
        andthen (search_page C jobs) (\<lambda>found.
          if found then ret True
          else if sint (of_nat (length jobs) :: i32) < sint PAGE_SIZE then ret False
          else if sint (MAX_OFFSET - PAGE_SIZE) < sint offset then ret False
          else search_pages C (offset + PAGE_SIZE)))"
  by (rule ext, subst search_pages.simps) (simp add: andthen_def ret_def Let_def split: prod.split outcome.split)

lemma keeps_search_pages:
  "within keeps_signing (search_pages (recorded_client H clock serde M) offset)"
proof (induction "nat (2147483647 - sint offset)" arbitrary: offset rule: less_induct)
  case less
  have "within keeps_signing (search_pages (recorded_client H clock serde M) (offset + PAGE_SIZE))"
    if "\<not> sint (MAX_OFFSET - PAGE_SIZE) < sint offset"
    using next_offset [OF that] that by (intro less) (simp add: MAX_OFFSET_def PAGE_SIZE_def)
  then show ?case
    by (subst search_pages_prog) (auto simp: Let_def intro!: keeps_signing_rules keeps_search_page)
qed

text \<open>The part of an operation after the token was renewed keeps signing.\<close>

definition renews_first :: "'w ibm_client \<Rightarrow> ('w, 'a) ibm \<Rightarrow> (('w, 'a) ibm \<Rightarrow> bool) \<Rightarrow> bool" where
  "renews_first C run P \<longleftrightarrow> (\<exists>rest. run = andthen (ensure_token C) (\<lambda>_. rest) \<and> P rest)"

lemma keeps_create_session:
  "within keeps_signing (IbmService.create_session (recorded_client H clock serde M))"
  unfolding IbmService.create_session_def by (auto intro!: keeps_signing_rules)

lemma keeps_ibm_release:
  "renews_first (recorded_client H clock serde M) (qcs_release (recorded_client H clock serde M) tok)
     (within keeps_signing)"
  unfolding renews_first_def qcs_release_def
  by (intro exI conjI, rule refl) (auto simp: Let_def intro!: keeps_signing_rules split: option.split)

lemma renews_within:
  "renews_first (recorded_client H clock serde M) run (within keeps_signing) \<Longrightarrow> within keeps_signing run"
  by (auto simp: renews_first_def intro!: keeps_signing_rules)

lemma keeps_operations:
  fixes H :: "'w http" and clock :: "'w \<Rightarrow> u64" and serde :: json_lib and M :: qc_models
  defines "C \<equiv> recorded_client H clock serde M"
  shows "renews_first C (qcs_is_accessible C) (within keeps_signing)"
    "renews_first C (qcs_status C) (within keeps_signing)"
    "renews_first C (qcs_acquire C) (within keeps_signing)"
    "renews_first C (qcs_release C tok) (within keeps_signing)"
    "renews_first C (ibm_task_start executor C p) (within keeps_signing)"
    "renews_first C (IbmService.get_job C tid) (within keeps_signing)"
    "renews_first C (qcs_target C) (within keeps_signing)"
proof -
  note rules = keeps_signing_rules keeps_create_session keeps_search_pages keeps_ibm_release [THEN renews_within]
  show "renews_first C (qcs_release C tok) (within keeps_signing)"
    unfolding C_def by (rule keeps_ibm_release)
  show "renews_first C (qcs_is_accessible C) (within keeps_signing)"
    "renews_first C (qcs_target C) (within keeps_signing)"
    "renews_first C (IbmService.get_job C tid) (within keeps_signing)"
    unfolding renews_first_def qcs_is_accessible_def qcs_target_def IbmService.get_job_def C_def
    by (intro exI conjI, rule refl, auto simp: Let_def intro!: rules)+
  show "renews_first C (qcs_status C) (within keeps_signing)"
    unfolding renews_first_def qcs_status_def has_dedicated_active_session_def C_def
    by (intro exI conjI, rule refl) (auto simp: Let_def intro!: rules split: option.split)
  show "renews_first C (qcs_acquire C) (within keeps_signing)"
    unfolding renews_first_def qcs_acquire_def C_def
    by (intro exI conjI, rule refl) (auto intro!: rules split: option.split)
  show "renews_first C (ibm_task_start executor C p) (within keeps_signing)"
    unfolding renews_first_def ibm_task_start_def C_def
    by (intro exI conjI, rule refl) (auto intro!: rules split: payload.split)
qed

lemma renews_andthen:
  assumes "renews_first C m (within keeps_signing)" and "\<And>a. within keeps_signing (f a)"
  shows "renews_first C (andthen m f) (within keeps_signing)"
proof -
  from assms(1) obtain rest where m: "m = andthen (ensure_token C) (\<lambda>_. rest)"
    and rest: "within keeps_signing rest" by (auto simp: renews_first_def)
  have "andthen m f = andthen (ensure_token C) (\<lambda>_. andthen rest f)"
    unfolding m by (rule ext) (simp add: andthen_def split: prod.split outcome.split)
  moreover have "within keeps_signing (andthen rest f)" by (rule signing.within_andthen [OF rest assms(2)])
  ultimately show ?thesis by (auto simp: renews_first_def)
qed

lemma keeps_tasks:
  fixes H :: "'w http" and clock :: "'w \<Rightarrow> u64" and serde :: json_lib and M :: qc_models
  defines "C \<equiv> recorded_client H clock serde M"
  shows "renews_first C (qcs_task_stop C tid) (within keeps_signing)"
    "renews_first C (qcs_task_status C tid) (within keeps_signing)"
    "renews_first C (qcs_task_result C tid) (within keeps_signing)"
  unfolding qcs_task_stop_def qcs_task_status_def qcs_task_result_def C_def
  by (rule renews_andthen [OF keeps_operations(6)], auto intro!: keeps_signing_rules)+

text \<open>After the renewal there is a token, and an operation's requests are the token's and signed ones.\<close>

lemma renewed_split:
  fixes H :: "'w http" and s :: "'w recorded"
  assumes "renews_first (recorded_client H clock serde M) run (within keeps_signing)"
  obtains rest where "within keeps_signing rest"
    "run s = rest (snd (ensure_token (recorded_client H clock serde M) s))"
proof -
  let ?C = "recorded_client H clock serde M"
  from assms obtain rest where r: "run = andthen (ensure_token ?C) (\<lambda>_. rest)"
    and rest: "within keeps_signing rest" by (auto simp: renews_first_def)
  have "ensure_token ?C s = (Ok (), snd (ensure_token ?C s))"
    using ensure_token_Ok [of ?C "fst s" "snd s"] by (metis prod.collapse)
  then have "run s = rest (snd (ensure_token ?C s))" unfolding r by (rule andthen_step)
  with rest show thesis by (rule that)
qed

lemma renewed_token:
  fixes H :: "'w http" and s :: "'w recorded"
  assumes run: "renews_first (recorded_client H clock serde M) run (within keeps_signing)"
    and iam: "iam_answers H M (fst s)"
    and fresh: "has_token s \<or> svc_token_expiration (fst s) = 0 \<and> (\<forall>w. clock w < 2 ^ 63)"
  shows "has_token (snd (run s))"
proof -
  obtain rest where rest: "within keeps_signing rest"
    and run_s: "run s = rest (snd (ensure_token (recorded_client H clock serde M) s))" by (rule renewed_split [OF run])
  have "keeps_signing (snd (ensure_token (recorded_client H clock serde M) s)) (snd (run s))"
    unfolding run_s by (rule rest [unfolded within_def, rule_format])
  with ensure_gives_token [OF iam fresh, of serde] show ?thesis by (simp add: keeps_signing_def)
qed

lemma renewed_sends:
  fixes H :: "'w http" and s :: "'w recorded"
  assumes run: "renews_first (recorded_client H clock serde M) run (within keeps_signing)"
    and iam: "iam_answers H M (fst s)"
    and fresh: "has_token s \<or> svc_token_expiration (fst s) = 0 \<and> (\<forall>w. clock w < 2 ^ 63)"
  shows "\<exists>xs. snd (snd (snd (run s))) = snd (snd s) @ xs \<and> (\<forall>rq \<in> set xs. to_ibm (fst s) rq)"
proof -
  let ?s1 = "snd (ensure_token (recorded_client H clock serde M) s)"
  obtain rest where rest: "within keeps_signing rest" and run_s: "run s = rest ?s1"
    by (rule renewed_split [OF run])
  obtain xs where xs: "snd (snd ?s1) = snd (snd s) @ xs" "\<forall>rq \<in> set xs. to_ibm (fst s) rq"
    using ensure_sends(1) [where H = H and clock = clock and serde = serde and M = M and s = s]
    by (auto simp: to_ibm_def)
  have same: "to_ibm (fst ?s1) = to_ibm (fst s)" by (rule to_ibm_same) (rule ensure_sends)
  have "keeps_signing ?s1 (snd (rest ?s1))" by (rule rest [unfolded within_def, rule_format])
  with ensure_gives_token [OF iam fresh, of serde] obtain ys where
    "snd (snd (snd (rest ?s1))) = snd (snd ?s1) @ ys" "\<forall>rq \<in> set ys. to_ibm (fst s) rq"
    by (auto simp: keeps_signing_def same)
  with xs show ?thesis by (auto simp: run_s intro!: exI [of _ "xs @ ys"])
qed

section \<open>Sequences of operations\<close>

text \<open>The operations of the trait that renew the token first; \<open>task_logs\<close> does not.\<close>

inductive ibm_step :: "'w ibm_client \<Rightarrow> ibm_service \<times> 'w \<Rightarrow> ibm_service \<times> 'w \<Rightarrow> bool" for C where
  is_accessible: "qcs_is_accessible C s = (r, t) \<Longrightarrow> ibm_step C s t"
| status: "qcs_status C s = (r, t) \<Longrightarrow> ibm_step C s t"
| acquire: "qcs_acquire C s = (r, t) \<Longrightarrow> ibm_step C s t"
| release: "qcs_release C tok s = (r, t) \<Longrightarrow> ibm_step C s t"
| task_start: "ibm_task_start executor C p s = (r, t) \<Longrightarrow> ibm_step C s t"
| task_stop: "qcs_task_stop C tid s = (r, t) \<Longrightarrow> ibm_step C s t"
| task_status: "qcs_task_status C tid s = (r, t) \<Longrightarrow> ibm_step C s t"
| task_result: "qcs_task_result C tid s = (r, t) \<Longrightarrow> ibm_step C s t"
| target: "qcs_target C s = (r, t) \<Longrightarrow> ibm_step C s t"

definition renewable :: "('w \<Rightarrow> u64) \<Rightarrow> ibm_service \<Rightarrow> bool" where
  "renewable clock R \<longleftrightarrow> bearer_access_token (svc_config R) \<noteq> None
     \<or> svc_token_expiration R = 0 \<and> (\<forall>w. clock w < 2 ^ 63)"

definition signing_so_far :: "ibm_service \<Rightarrow> 'w recorded \<Rightarrow> bool" where
  "signing_so_far R t \<longleftrightarrow> same_settings R (fst t) \<and> (\<forall>rq \<in> set (snd (snd t)). to_ibm R rq)"

lemma step_signs:
  fixes H :: "'w http"
  assumes step: "ibm_step (recorded_client H clock serde M) s t" and iam: "iam_answers H M (fst s)"
    and fresh: "renewable clock (fst s)" and so_far: "signing_so_far R s"
  shows "renewable clock (fst t) \<and> signing_so_far R t"
proof -
  have fresh': "has_token s \<or> svc_token_expiration (fst s) = 0 \<and> (\<forall>w. clock w < 2 ^ 63)"
    using fresh by (simp add: renewable_def has_token_def)
  have signs: "renewable clock (fst t) \<and> signing_so_far R t"
    if run: "renews_first (recorded_client H clock serde M) run (within keeps_signing)" "run s = (r, t)"
    for run :: "('w \<times> rest_request list, 'b) ibm" and r
  proof -
    have "keeps_signing s t" using renews_within [OF run(1)] run(2) by (metis within_def snd_conv)
    then have same: "same_settings (fst s) (fst t)" by (simp add: keeps_signing_def)
    have "has_token t" using renewed_token [OF run(1) iam fresh'] run(2) by simp
    moreover have "signing_so_far R t"
      using renewed_sends [OF run(1) iam fresh'] run(2) so_far same to_ibm_same [of R "fst s"]
      by (auto simp: signing_so_far_def same_settings_def)
    ultimately show ?thesis by (simp add: renewable_def has_token_def)
  qed
  from step show ?thesis
    by cases (rule signs, (rule keeps_operations keeps_tasks), assumption)+
qed


text \<open>
  C37. Reading the logs does not renew the token: \<open>task_logs\<close> sends one request, which is
  authorized only when an earlier operation left a token.  On a new resource the request
  has no token at all.
\<close>

theorem logs_unauthorized:
  assumes "\<And>rq. build_error H rq = None"
  shows "\<exists>rq w'. snd (qcs_task_logs (recorded_client H clock serde M) tid (R, w, log)) = (R, w', log @ [rq])
    \<and> (signed (svc_config R) rq \<longleftrightarrow> bearer_access_token (svc_config R) \<noteq> None)
    \<and> (bearer_access_token (svc_config R) = None \<longrightarrow> (\<forall>v. (''authorization'', v) \<notin> set (rest_headers rq)))"
proof -
  show ?thesis
    by (auto simp: qcs_task_logs_def request_def http_ibm_client_def get_job_logs_jid_def send_def recording_def assms
      signed_def qc_fields split: prod.split sum.split option.split)
qed

end
