(* ===== verification/HttpStart.thy ===== *)
theory HttpStart
  imports HttpProofs
begin

text \<open>
  The contract of \<open>task_start\<close> for IBM, IQM and Alice \& Bob, from the answers of the HTTP
  service up, and the path parameters of the requests.
\<close>

section \<open>Refused requests\<close>

text \<open>
  What is relied on of the services: a client error creates no job, and renewing a token
  creates none.
\<close>

definition refusals_harmless :: "'w http \<Rightarrow> ('w \<Rightarrow> 't) \<Rightarrow> bool" where
  "refusals_harmless H jobs \<longleftrightarrow>
     (\<forall>rq w rsp w'. http_execute H rq w = (Inr rsp, w') \<longrightarrow> 400 \<le> rsp_status rsp \<longrightarrow> rsp_status rsp < 500
        \<longrightarrow> jobs w' = jobs w)
     \<and> (\<forall>key url w. jobs (snd (http_execute H (token_request key url) w)) = jobs w)"

lemma typed_reply_error:
  assumes "typed_reply fb as_text target decode rsp = Inl (ResponseError st sh body)"
    and "\<And>content. as_text content \<noteq> Inl (ResponseError st sh body)"
  shows "rsp_status rsp = st"
  using assms by (auto simp: typed_reply_def refuse_def Let_def map_sum_Inl
      split: if_splits sum.splits content_type.splits)

lemma json_reply_error: "json_reply fb target decode rsp = Inl (ResponseError st sh body) \<Longrightarrow> rsp_status rsp = st"
  unfolding json_reply_def by (erule typed_reply_error) simp

lemma send_refused:
  assumes "refusals_harmless H jobs" and "send H rq (json_reply fb target decode) w = (Inl (ResponseError st sh body), w')"
    and "400 \<le> st" "st < 500"
  shows "jobs w' = jobs w"
  using assms by (auto simp: send_def refusals_harmless_def split: option.splits prod.splits sum.splits
      dest!: json_reply_error)

lemma fetch_token_harmless:
  "refusals_harmless H jobs \<Longrightarrow> jobs (snd (http_fetch_token H M key url w)) = jobs w"
  by (auto simp: http_fetch_token_def refusals_harmless_def Let_def split: option.split prod.split sum.split)
    (metis snd_conv)+

lemma http_ibm_careful:
  assumes "refusals_harmless H jobs"
  shows "ibm_careful (http_ibm_client H clock serde M) (\<lambda>s. jobs (snd s))"
  unfolding ibm_careful_def http_ibm_client_def QcApi.create_job_def
  by (intro exI [of _ jobs] conjI) (auto simp: fetch_token_harmless [OF assms] elim!: send_refused [OF assms])

lemma http_iqm_careful:
  assumes "refusals_harmless H jobs"
  shows "iqm_careful (http_iqm_client H M C, R) jobs"
  by (auto simp: iqm_careful_def http_iqm_client_def job_submit_def elim!: send_refused [OF assms])

lemma http_felis_careful:
  assumes "refusals_harmless H jobs"
  shows "felis_careful (http_felis_client H serde M, R) jobs"
  by (auto simp: felis_careful_def http_felis_client_def FelisApi.create_job_def elim!: send_refused [OF assms])

text \<open>The laws of the contract, on the clients over HTTP.\<close>

interpretation http_ibm_start: start_contract
  "\<lambda>(H, clock, serde, M) p. prompt (ibm_task_start executor (http_ibm_client H clock serde M) p)"
  "\<lambda>(H, _) tasks. \<exists>jobs. tasks = (\<lambda>s. jobs (snd s)) \<and> refusals_harmless H jobs" for executor
  by unfold_locales (auto simp: prompt_def dest: ibm_refused [OF http_ibm_careful])

interpretation http_iqm_start: start_contract
  "\<lambda>(H, M, C, R) p. prompt (iqm_task_start (http_iqm_client H M C) R p)" "\<lambda>(H, _). refusals_harmless H"
  by unfold_locales (auto simp: prompt_def dest: iqm_refused [OF http_iqm_careful])

interpretation http_felis_start: start_contract
  "\<lambda>(H, serde, M, R) p. prompt (felis_task_start (http_felis_client H serde M) R p)"
  "\<lambda>(H, _). refusals_harmless H"
  by unfold_locales (auto simp: prompt_def dest: felis_refused [OF http_felis_careful])

text \<open>
  C10. The contract of \<open>task_start\<close> holds from the wire up, through the generated clients,
  for the three vendors that use them: when a refusal by a client error creates no job,
  an error of any kind but \<open>Other\<close> means that no job was created, also when the
  answer cannot be read, has an unknown content type or is lost on the way.
\<close>

theorem http_start_contracts:
  assumes "refusals_harmless H jobs" and "kind e \<noteq> error_kind.Other"
    and "ibm_task_start executor (http_ibm_client H clock serde Q) p (I, w) = (Err e, (I', w'))
      \<or> iqm_task_start (http_iqm_client H IM C) R p w = (Err e, w')
      \<or> felis_task_start (http_felis_client H serde FM) F p w = (Err e, w')"
  shows "jobs w' = jobs w"
  using assms(3)
proof (elim disjE)
  assume "ibm_task_start executor (http_ibm_client H clock serde Q) p (I, w) = (Err e, (I', w'))"
  with http_ibm_start.refused [of "(H, clock, serde, Q)" "\<lambda>s. jobs (snd s)" executor p "(I, w)" e "(I', w')"] assms(1,2)
  show ?thesis by (auto simp: prompt_def)
next
  assume "iqm_task_start (http_iqm_client H IM C) R p w = (Err e, w')"
  with http_iqm_start.refused [of "(H, IM, C, R)" jobs p w e w'] assms(1,2) show ?thesis by (simp add: prompt_def)
next
  assume "felis_task_start (http_felis_client H serde FM) F p w = (Err e, w')"
  with http_felis_start.refused [of "(H, serde, FM, F)" jobs p w e w'] assms(1,2) show ?thesis by (simp add: prompt_def)
qed

section \<open>Path parameters\<close>

text \<open>
  The percent encoder of the \<open>url\<close> crate, as it is documented: the form encoding of the URL
  standard, where a space is a plus sign.
\<close>

definition unreserved :: "char \<Rightarrow> bool" where
  "unreserved c \<longleftrightarrow> (let b = of_char c :: nat in 48 \<le> b \<and> b \<le> 57 \<or> 65 \<le> b \<and> b \<le> 90 \<or> 97 \<le> b \<and> b \<le> 122
     \<or> c \<in> set ''*-._'')"

definition upper_hex :: "nat \<Rightarrow> char" where
  "upper_hex d = (if d < 10 then char_of (48 + d) else char_of (55 + d))"

definition form_byte :: "char \<Rightarrow> string" where
  "form_byte c = (if unreserved c then [c] else if c = CHR '' '' then ''+''
     else [CHR ''%'', upper_hex (of_char c div 16), upper_hex (of_char c mod 16)])"

definition encodes_forms :: "'w http \<Rightarrow> bool" where
  "encodes_forms H \<longleftrightarrow> byte_serialize H = (\<lambda>s. concat (map form_byte s))"

text \<open>What a server reads in a segment of a path: percent signs are decoded, and only these.\<close>

definition hex_value :: "char \<Rightarrow> nat" where
  "hex_value c = (let b = of_char c in if b < 58 then b - 48 else b - 55)"

fun percent_decode :: "string \<Rightarrow> string" where
  "percent_decode (c # a # b # s) =
     (if c = CHR ''%'' then char_of (16 * hex_value a + hex_value b) # percent_decode s
      else c # percent_decode (a # b # s))"
| "percent_decode s = s"

lemma percent_decode_plain: "c \<noteq> CHR ''%'' \<Longrightarrow> percent_decode (c # s) = c # percent_decode s"
  by (cases s rule: percent_decode.cases) auto

lemma hex_value_digit: "d < 16 \<Longrightarrow> hex_value (upper_hex d) = d"
  by (auto simp: hex_value_def upper_hex_def Let_def)

lemma decode_byte: "percent_decode (form_byte c @ s) = (if c = CHR '' '' then CHR ''+'' else c) # percent_decode s"
proof -
  have "of_char c < (256 :: nat)" by simp
  then have "(of_char c :: nat) div 16 < 16" by (simp add: less_mult_imp_div_less)
  then have "16 * hex_value (upper_hex (of_char c div 16)) + hex_value (upper_hex (of_char c mod 16)) = of_char c"
    by (simp add: hex_value_digit)
  moreover have "unreserved c \<Longrightarrow> c \<noteq> CHR ''%''" "\<not> unreserved CHR '' ''" by (auto simp: unreserved_def Let_def)
  ultimately show ?thesis by (auto simp: form_byte_def percent_decode_plain)
qed

lemma decode_encoded:
  "percent_decode (concat (map form_byte s)) = map (\<lambda>c. if c = CHR '' '' then CHR ''+'' else c) s"
  by (induction s) (simp_all add: decode_byte)

lemma upper_hex_delimiters: "d < 16 \<Longrightarrow> upper_hex d \<notin> {CHR ''/'', CHR ''?'', CHR ''#''}"
  by (auto simp: upper_hex_def char_of_eq_iff take_bit_eq_mod split: if_splits)

lemma form_byte_delimiters: "set (form_byte c) \<inter> {CHR ''/'', CHR ''?'', CHR ''#''} = {}"
proof -
  have "(of_char c :: nat) div 16 < 16" by (simp add: less_mult_imp_div_less)
  note digits = upper_hex_delimiters [OF this] upper_hex_delimiters [of "of_char c mod 16"]
  have "\<not> unreserved CHR ''/''" "\<not> unreserved CHR ''?''" "\<not> unreserved CHR ''#''"
    by (simp_all add: unreserved_def Let_def)
  then have "unreserved c \<Longrightarrow> c \<notin> {CHR ''/'', CHR ''?'', CHR ''#''}" by auto
  then show ?thesis using digits by (cases "unreserved c") (auto simp: form_byte_def)
qed

lemma form_bytes_delimiters: "set (concat (map form_byte s)) \<inter> {CHR ''/'', CHR ''?'', CHR ''#''} = {}"
proof (induction s)
  case (Cons c s)
  then show ?case using form_byte_delimiters [of c] by (simp only: list.map concat.simps set_append Int_Un_distrib2) simp
qed simp

lemma map_plus_same: "map (\<lambda>c. if c = CHR '' '' then CHR ''+'' else c) s = s \<longleftrightarrow> CHR '' '' \<notin> set s"
  by (induction s) auto


end
