(* ===== verification/WitnessesHttp.thy ===== *)
theory WitnessesHttp
  imports HttpProofs HttpStart
begin

text \<open>The properties of the resources over the generated clients at concrete inputs.\<close>

text \<open>A service that answers every request the same way, in a world that counts the jobs.\<close>

definition sample_answer :: "nat \<Rightarrow> rest_response" where
  "sample_answer st = \<lparr>rsp_status = st, rsp_shown = [], rsp_content_type = Some ''application/json'', rsp_body = Inr ''x''\<rparr>"

definition sample_http :: "nat \<Rightarrow> nat http" where
  "sample_http st = \<lparr>byte_serialize = (\<lambda>s. concat (map form_byte s)), build_error = (\<lambda>_. None),
     http_execute = (\<lambda>rq n. (Inr (sample_answer st),
       if st < 300 \<and> rest_method rq = POST \<and> rest_headers rq \<noteq> [(''Content-Type'', ''application/x-www-form-urlencoded'')]
       then Suc n else n))\<rparr>"

definition sample_qc_models :: qc_models where
  "sample_qc_models = \<lparr>read_status = (\<lambda>_. Inr (Some ''active'')), read_devices = (\<lambda>_. Inr None),
     read_jobs = (\<lambda>_. Inr None), read_session_response = (\<lambda>_. Inl []), read_created = Inr,
     read_job = (\<lambda>_. Inr JobRunning), read_text = Inr, read_document = (\<lambda>_. Inr JNull),
     read_token = (\<lambda>t. Inr (t, 5000, 3600)), read_params = (\<lambda>_. Inr), status_error = (\<lambda>_. []),
     write_session_request = (\<lambda>_. JNull), write_job_request = (\<lambda>_. JNull), write_accepting = (\<lambda>_. JNull)\<rparr>"

definition sample_serde :: json_lib where
  "sample_serde = \<lparr>jparse = (\<lambda>_. Inr JNull), jdump = (\<lambda>_. []), jfrac_u64 = (\<lambda>_. None)\<rparr>"

definition sample_qc :: ibm_service where
  "sample_qc = \<lparr>svc_config = \<lparr>base_path = ''https://q'', bearer_access_token = None, crn = Some ''crn:1''\<rparr>,
     svc_backend = ''b'', svc_session = None, svc_calibration = None, svc_timeout_secs = None,
     svc_session_mode = ''dedicated'', svc_session_max_ttl = 28800, svc_api_key = ''k'',
     svc_iam_endpoint = ''https://iam'', svc_token_expiration = 0, svc_token_lifetime = 0\<rparr>"

abbreviation "sample_qc_client \<equiv> recorded_client (sample_http 200) (\<lambda>_. 1000) sample_serde sample_qc_models"

definition sample_start :: "(qrmi_error, string) outcome \<times> nat recorded" where
  "sample_start = ibm_task_start True sample_qc_client (QiskitPrimitive [] ''executor'') (sample_qc, 0, [])"

lemmas sample_http_defs = sample_http_def sample_answer_def sample_qc_models_def sample_serde_def sample_qc_def

lemma sample_start_log:
  "\<exists>rq. snd (snd (snd sample_start)) = [token_request ''k'' ''https://iam'', rq]
     \<and> rest_method rq = POST \<and> rest_url rq = ''https://q/jobs''"
  by (simp add: sample_start_def ibm_task_start_def ensure_token_def check_token_def needs_renewal_def
      http_ibm_client_def http_fetch_token_def recording_def sample_http_defs is_failure_def program_params_def
      request_def QcApi.create_job_def send_def json_reply_def typed_reply_def content_type_from_def prog_defs
      token_request_def build_request_def step_defs qc_rest_def qc_default_config_def Let_def)


theorem logs_unauthorized_witness:
  "\<exists>rq. snd (snd (snd (qcs_task_logs sample_qc_client ''j'' (sample_qc, 0, [])))) = [rq]
     \<and> \<not> signed (svc_config sample_qc) rq"
proof -
  have "build_error (sample_http 200) rq = None" for rq by (simp add: sample_http_def)
  from logs_unauthorized [OF this, of "\<lambda>_. 1000" sample_serde sample_qc_models "''j''" sample_qc 0 "[]"]
  show ?thesis by (auto simp: sample_qc_def)
qed

lemma sample_refused:
  "felis_task_start (http_felis_client (sample_http 400) sample_serde
       \<lparr>read_felis_job = (\<lambda>_. Inr []), read_felis_job_id = Inr, read_output = Inr, read_targets = (\<lambda>_. Inr [])\<rparr>)
     \<lparr>felis_base_path = [], felis_basic_auth = None, felis_backend = [], felis_target = []\<rparr>
     (payload.AliceBobFelis [] []) n = (Err (InvalidInput ''x''), n)"
  by (simp add: felis_task_start_def felis_call_def call_api_def http_felis_client_def FelisApi.create_job_def send_def
      json_reply_def typed_reply_def refuse_def is_failure_def sample_http_defs prog_defs Let_def)

theorem http_start_contracts_witness:
  "snd (felis_task_start (http_felis_client (sample_http 400) sample_serde
       \<lparr>read_felis_job = (\<lambda>_. Inr []), read_felis_job_id = Inr, read_output = Inr, read_targets = (\<lambda>_. Inr [])\<rparr>)
     \<lparr>felis_base_path = [], felis_basic_auth = None, felis_backend = [], felis_target = []\<rparr>
     (payload.AliceBobFelis [] []) 3) = 3"
proof -
  have "refusals_harmless (sample_http 400) (\<lambda>n. n)" by (simp add: refusals_harmless_def sample_http_def)
  from http_start_contracts [OF this _ disjI2 [OF disjI2 [OF sample_refused [of 3]]]] sample_refused [of 3]
  show ?thesis by simp
qed


end
