(* ===== verification/OqtopusBridge.thy ===== *)
theory OqtopusBridge
  imports Oqtopus CHeap
begin

text \<open>
  The Python bridge of OQTOPUS (\<open>dependencies/oqtopus/src/lib.rs\<close>): the C functions that
  the resource loads at run time, and the resource's side of a call with its pointers
  (\<open>src/oqtopus/lib.rs\<close>).  Python is a parameter: objects, exceptions and what the
  interpreter does with them, in a world that it changes.  Memory is the one of CHeap.
\<close>

section \<open>Python\<close>

text \<open>
  A call may raise an exception, or panic.  Arguments are a list and an optional dictionary
  of keywords.  \<open>py_error_attr\<close> reads an attribute of the value of an exception,
  \<open>py_display\<close> shows the exception as \<open>PyErr\<close> does, and \<open>py_traceback\<close> formats its
  traceback, if it has one and that can be done.
\<close>

record ('w, 'o, 'e) python =
  py_initialize :: "'w \<Rightarrow> 'w"
  py_import :: "string \<Rightarrow> ('w, 'e, 'o) prog"
  py_getattr :: "'o \<Rightarrow> string \<Rightarrow> ('w, 'e, 'o) prog"
  py_hasattr :: "'o \<Rightarrow> string \<Rightarrow> ('w, 'e, bool) prog"
  py_call :: "'o \<Rightarrow> 'o list \<Rightarrow> 'o option \<Rightarrow> ('w, 'e, 'o) prog"
  py_call_method :: "'o \<Rightarrow> string \<Rightarrow> 'o list \<Rightarrow> 'o option \<Rightarrow> ('w, 'e, 'o) prog"
  py_text :: "string \<Rightarrow> 'o"
  py_extract_text :: "'o \<Rightarrow> ('w, 'e, string) prog"
  py_extract_int :: "'o \<Rightarrow> ('w, 'e, int) prog"
  py_cast_dict :: "'o \<Rightarrow> ('w, 'e, 'o) prog"
  py_new_dict :: "('w, 'e, 'o) prog"
  py_get_item :: "'o \<Rightarrow> string \<Rightarrow> ('w, 'e, 'o option) prog"
  py_set_item :: "'o \<Rightarrow> string \<Rightarrow> 'o \<Rightarrow> ('w, 'e, unit) prog"
  py_items :: "'o \<Rightarrow> ('w, 'e, ('o \<times> 'o) list) prog"
  py_run_hello :: "('w, 'e, unit) prog"
  py_error_value :: "'e \<Rightarrow> 'o"
  py_display :: "'e \<Rightarrow> 'w \<Rightarrow> string \<times> 'w"
  py_traceback :: "'e \<Rightarrow> 'w \<Rightarrow> string option \<times> 'w"
  py_runtime_error :: "string \<Rightarrow> 'e"
  py_value_error :: "string \<Rightarrow> 'e"

definition display_error :: "('w, 'o, 'e) python \<Rightarrow> 'e \<Rightarrow> ('w, 'f, string) prog" where
  "display_error P e = (\<lambda>w. case py_display P e w of (msg, w') \<Rightarrow> (Ok msg, w'))"

definition traceback_text :: "('w, 'o, 'e) python \<Rightarrow> 'e \<Rightarrow> ('w, 'f, string) prog" where
  "traceback_text P e = (\<lambda>w. case py_traceback P e w of
     (tb, w') \<Rightarrow> (Ok (case tb of Some text \<Rightarrow> text | None \<Rightarrow> []), w'))"

text \<open>\<open>m.ok()?\<close> and \<open>if let Ok(x) = m\<close>: an exception is dropped.\<close>

definition if_ok :: "('w, 'e, 'a) prog \<Rightarrow> ('a \<Rightarrow> ('w, 'e, 'b) prog) \<Rightarrow> ('w, 'e, 'b) prog \<Rightarrow> ('w, 'e, 'b) prog" where
  "if_ok m f g = attempt m (\<lambda>r. case r of Inr x \<Rightarrow> f x | Inl _ \<Rightarrow> g)"

text \<open>\<open>o.getattr(a)?.getattr(b)?...\<close>\<close>

fun py_path :: "('w, 'o, 'e) python \<Rightarrow> 'o \<Rightarrow> string list \<Rightarrow> ('w, 'e, 'o) prog" where
  "py_path P obj [] = ret obj"
| "py_path P obj (a # as) = andthen (py_getattr P obj a) (\<lambda>x. py_path P x as)"

section \<open>Calling the client\<close>

text \<open>The settings that the client wants as frozen sets.\<close>

fun freeze :: "('w, 'o, 'e) python \<Rightarrow> 'o \<Rightarrow> 'o \<Rightarrow> string list \<Rightarrow> ('w, 'e, unit) prog" where
  "freeze P builtins kwargs [] = ret ()"
| "freeze P builtins kwargs (key # keys) =
     andthen (py_get_item P kwargs key) (\<lambda>item.
     andthen (case item of
         Some val \<Rightarrow> andthen (py_call_method P builtins ''frozenset'' [val] None) (\<lambda>frozen.
           py_set_item P kwargs key frozen)
       | None \<Rightarrow> ret ()) (\<lambda>_. freeze P builtins kwargs keys))"

definition build_client :: "('w, 'o, 'e) python \<Rightarrow> string \<Rightarrow> ('w, 'e, 'o) prog" where
  "build_client P config_json =
     andthen (py_import P ''oqtopus_client'') (\<lambda>oqtopus.
     andthen (py_import P ''json'') (\<lambda>json_mod.
     andthen (py_call_method P json_mod ''loads'' [py_text P config_json] None) (\<lambda>config_dict.
     andthen (py_cast_dict P config_dict) (\<lambda>kwargs.
     andthen (py_import P ''builtins'') (\<lambda>builtins.
     andthen (freeze P builtins kwargs [''retry_status_codes'', ''retry_methods'']) (\<lambda>_.
     andthen (py_path P oqtopus [''services'', ''config'', ''OqtopusConfig'']) (\<lambda>config_cls.
     andthen (py_call P config_cls [] (Some kwargs)) (\<lambda>config.
     andthen (py_path P oqtopus [''services'', ''client'', ''OqtopusClient'']) (\<lambda>client_cls.
       py_call P client_cls [config] None)))))))))"

definition extract_user_api_error :: "('w, 'o, 'e) python \<Rightarrow> 'e \<Rightarrow> ('w, 'e, (int \<times> string) option) prog" where
  "extract_user_api_error P err =
     if_ok (py_getattr P (py_error_value P err) ''status_code'') (\<lambda>c.
     if_ok (py_extract_int P c) (\<lambda>status_code.
     if_ok (py_getattr P (py_error_value P err) ''message'') (\<lambda>m.
     if_ok (py_extract_text P m) (\<lambda>message. ret (Some (status_code, message)))
       (ret None)) (ret None)) (ret None)) (ret None)"

definition job_spec_cls :: "('w, 'o, 'e) python \<Rightarrow> ('w, 'e, 'o) prog" where
  "job_spec_cls P = andthen (py_import P ''oqtopus_client'') (\<lambda>oqtopus.
     py_path P oqtopus [''services'', ''job_spec'', ''OqtopusJobSpec''])"

definition model_dump :: "('w, 'o, 'e) python \<Rightarrow> 'o \<Rightarrow> ('w, 'e, 'o) prog" where
  "model_dump P value =
     andthen (py_new_dict P) (\<lambda>kwargs.
     andthen (py_set_item P kwargs ''mode'' (py_text P ''json'')) (\<lambda>_.
       py_call_method P value ''model_dump'' [] (Some kwargs)))"

definition normalize_value :: "('w, 'o, 'e) python \<Rightarrow> 'o \<Rightarrow> ('w, 'e, 'o) prog" where
  "normalize_value P value =
     andthen (py_hasattr P value ''model_dump'') (\<lambda>dumps.
     if dumps then model_dump P value
     else andthen (py_hasattr P value ''to_dict'') (\<lambda>has.
       if has then py_call_method P value ''to_dict'' [] None else ret value))"

text \<open>\<open>json.dumps(value, default=str)\<close>.\<close>

definition dump_text :: "('w, 'o, 'e) python \<Rightarrow> 'o \<Rightarrow> 'o \<Rightarrow> 'o \<Rightarrow> ('w, 'e, string) prog" where
  "dump_text P json_mod str_fn value =
     andthen (py_new_dict P) (\<lambda>kwargs.
     andthen (py_set_item P kwargs ''default'' str_fn) (\<lambda>_.
     andthen (py_call_method P json_mod ''dumps'' [value] (Some kwargs)) (py_extract_text P)))"

definition device_to_json :: "('w, 'o, 'e) python \<Rightarrow> 'o \<Rightarrow> ('w, 'e, string) prog" where
  "device_to_json P device =
     andthen (py_getattr P device ''raw'') (\<lambda>raw.
     andthen (model_dump P raw) (\<lambda>dumped.
     andthen (py_cast_dict P dumped) (\<lambda>device_dict.
     andthen (py_import P ''json'') (\<lambda>json_mod.
     andthen (py_import P ''builtins'') (\<lambda>builtins.
     andthen (py_get_item P device_dict ''device_info'') (\<lambda>info.
     andthen (case info of
         None \<Rightarrow> ret ()
       | Some info \<Rightarrow>
           if_ok (py_extract_text P info) (\<lambda>text.
           if_ok (py_call_method P json_mod ''loads'' [py_text P text] None) (\<lambda>parsed.
             py_set_item P device_dict ''device_info'' parsed) (ret ())) (ret ())) (\<lambda>_.
     andthen (py_getattr P builtins ''str'') (\<lambda>str_fn.
       dump_text P json_mod str_fn device_dict))))))))"

section \<open>The entry points\<close>

type_synonym ('w, 'e) bridge_body = "string \<Rightarrow> string \<Rightarrow> ('w, 'e, string) prog"

definition get_device_status :: "('w, 'o, 'e) python \<Rightarrow> ('w, 'e) bridge_body" where
  "get_device_status P device_id config_json =
     andthen (build_client P config_json) (\<lambda>client.
     andthen (py_call_method P client ''get_device'' [py_text P device_id] None) (\<lambda>device.
     andthen (py_getattr P device ''status'') (py_extract_text P)))"

definition cancel_job :: "('w, 'o, 'e) python \<Rightarrow> ('w, 'e) bridge_body" where
  "cancel_job P job_id config_json =
     andthen (build_client P config_json) (\<lambda>client.
     andthen (py_call_method P client ''cancel_job'' [py_text P job_id] None) (\<lambda>response.
     andthen (py_getattr P response ''message'') (py_extract_text P)))"

definition get_job_status :: "('w, 'o, 'e) python \<Rightarrow> ('w, 'e) bridge_body" where
  "get_job_status P job_id config_json =
     andthen (build_client P config_json) (\<lambda>client.
     andthen (py_call_method P client ''get_job_status'' [py_text P job_id] None) (\<lambda>response.
     andthen (py_getattr P response ''status'') (py_extract_text P)))"

definition get_device_json :: "('w, 'o, 'e) python \<Rightarrow> ('w, 'e) bridge_body" where
  "get_device_json P device_id config_json =
     andthen (build_client P config_json) (\<lambda>client.
     andthen (py_call_method P client ''get_device'' [py_text P device_id] None) (device_to_json P))"

text \<open>The attributes of the result under their names without leading underscores.\<close>

fun copy_attributes :: "('w, 'o, 'e) python \<Rightarrow> 'o \<Rightarrow> ('o \<times> 'o) list \<Rightarrow> ('w, 'e, unit) prog" where
  "copy_attributes P result_dict [] = ret ()"
| "copy_attributes P result_dict ((key, val) # kvs) =
     andthen (py_extract_text P key) (\<lambda>key_str.
     let name = dropWhile (\<lambda>c. c = CHR ''_'') key_str in
     andthen (if name = ''client'' then ret ()
       else andthen (normalize_value P val) (\<lambda>normalized. py_set_item P result_dict name normalized)) (\<lambda>_.
       copy_attributes P result_dict kvs))"

definition get_job_result_json :: "('w, 'o, 'e) python \<Rightarrow> ('w, 'e) bridge_body" where
  "get_job_result_json P job_id config_json =
     andthen (build_client P config_json) (\<lambda>client.
     andthen (py_call_method P client ''get_job_result'' [py_text P job_id] None) (\<lambda>job_result.
     andthen (py_import P ''builtins'') (\<lambda>builtins.
     andthen (py_call_method P builtins ''vars'' [job_result] None) (\<lambda>vars.
     andthen (py_cast_dict P vars) (\<lambda>raw_vars.
     andthen (py_new_dict P) (\<lambda>result_dict.
     andthen (py_items P raw_vars) (\<lambda>kvs.
     andthen (copy_attributes P result_dict kvs) (\<lambda>_.
     andthen (py_getattr P builtins ''str'') (\<lambda>str_fn.
     andthen (py_new_dict P) (\<lambda>kwargs.
     andthen (py_set_item P kwargs ''default'' str_fn) (\<lambda>_.
     andthen (py_import P ''json'') (\<lambda>json_mod.
     andthen (py_call_method P json_mod ''dumps'' [result_dict] (Some kwargs)) (py_extract_text P)))))))))))))"

fun first_text :: "('w, 'o, 'e) python \<Rightarrow> 'o \<Rightarrow> string list \<Rightarrow> ('w, 'e, string) prog" where
  "first_text P as_dict [] = throw (py_value_error P ''could not find job_id in submit_job response'')"
| "first_text P as_dict (key # keys) =
     andthen (py_get_item P as_dict key) (\<lambda>item. case item of
         Some val \<Rightarrow> if_ok (py_extract_text P val) ret (first_text P as_dict keys)
       | None \<Rightarrow> first_text P as_dict keys)"

definition submit_job :: "('w, 'o, 'e) python \<Rightarrow> ('w, 'e) bridge_body" where
  "submit_job P job_spec_json config_json =
     andthen (build_client P config_json) (\<lambda>client.
     andthen (py_import P ''json'') (\<lambda>json_mod.
     andthen (py_call_method P json_mod ''loads'' [py_text P job_spec_json] None) (\<lambda>loaded.
     andthen (py_cast_dict P loaded) (\<lambda>spec_dict.
     andthen (job_spec_cls P) (\<lambda>cls.
     andthen (py_call P cls [] (Some spec_dict)) (\<lambda>job_spec.
     andthen (py_call_method P client ''submit_job'' [job_spec] None) (\<lambda>response.
       let from_dict = andthen (py_call_method P response ''to_dict'' [] None) (\<lambda>d.
             andthen (py_cast_dict P d) (\<lambda>as_dict. first_text P as_dict [''job_id'', ''id'', ''jobId''])) in
       if_ok (py_getattr P response ''job_id'') (\<lambda>job_id. if_ok (py_extract_text P job_id) ret from_dict)
         from_dict)))))))"

text \<open>The exported functions that the resource calls, by their symbols.\<close>

definition bridge_functions :: "('w, 'o, 'e) python \<Rightarrow> string \<rightharpoonup> ('w, 'e) bridge_body" where
  "bridge_functions P = map_of
     [(''get_device_status'', get_device_status P), (''cancel_job'', cancel_job P),
      (''get_job_status'', get_job_status P), (''get_device_json'', get_device_json P),
      (''get_job_result_json'', get_job_result_json P), (''submit_job'', submit_job P)]"

section \<open>A call through the C interface\<close>

definition show_int :: "int \<Rightarrow> string" where
  "show_int i = (if i < 0 then ''-'' @ show_nat (nat (- i)) else show_nat (nat i))"

text \<open>Under the GIL, with what an exception becomes.\<close>

definition attached :: "('w, 'o, 'e) python \<Rightarrow> ('w, 'e) bridge_body \<Rightarrow> ('w, 'e) bridge_body" where
  "attached P f arg config_json =
     andthen (modify (py_initialize P)) (\<lambda>_.
     attempt (f arg config_json) (\<lambda>r. case r of
         Inr v \<Rightarrow> ret v
       | Inl e \<Rightarrow> andthen (extract_user_api_error P e) (\<lambda>api. case api of
             Some (st, message) \<Rightarrow> throw (py_runtime_error P
               (''api error: status='' @ show_int st @ '' message='' @ message))
           | None \<Rightarrow> andthen (traceback_text P e) (\<lambda>tb.
               andthen (display_error P e) (\<lambda>msg. throw (py_runtime_error P (msg @ [nl] @ tb)))))))"

text \<open>\<open>catch_unwind\<close>: \<open>None\<close> for a panic.\<close>

definition caught :: "('r, 'p, 'w, 'a) c_prog \<Rightarrow> ('r, 'p, 'w, 'a option) c_prog" where
  "caught m = (\<lambda>s. case m s of
      None \<Rightarrow> None
    | Some (Ok a, s') \<Rightarrow> Some (Ok (Some a), s')
    | Some (Panic, s') \<Rightarrow> Some (Ok None, s')
    | Some (Err e, s') \<Rightarrow> Some (Err e, s'))"

definition in_python :: "('w, 'e, 'a) prog \<Rightarrow> ('r, 'p, 'w, 'e + 'a) c_prog" where
  "in_python m = on_world (prompt (attempt m ret))"

definition set_error :: "addr \<Rightarrow> string \<Rightarrow> ('r, 'p, 'w, unit) c_prog" where
  "set_error out_error msg =
     (if out_error = null then give ()
      else chain (raw_cstring (case cstring_new msg of Some b \<Rightarrow> b | None \<Rightarrow> ''error (invalid utf8)'')) (\<lambda>a.
        store ptr_of out_error (PtrVar a)))"

definition run_bridge_call ::
    "('w, 'o, 'e) python \<Rightarrow> addr \<Rightarrow> addr \<Rightarrow> addr \<Rightarrow> addr \<Rightarrow> ('w, 'e) bridge_body \<Rightarrow> ('r, 'p, 'w, int) c_prog" where
  "run_bridge_call P arg config_json out out_error f =
     chain (caught (chain (load text_of arg) (\<lambda>a. chain (load text_of config_json) (\<lambda>c.
       in_python (attached P f (to_string_lossy a) (to_string_lossy c)))))) (\<lambda>result. case result of
         Some (Inr v) \<Rightarrow>
           chain (raw_cstring (case cstring_new v of Some b \<Rightarrow> b | None \<Rightarrow> ''(contains invalid data)'')) (\<lambda>p.
           chain (store ptr_of out (PtrVar p)) (\<lambda>_. give 0))
       | Some (Inl e) \<Rightarrow>
           chain (on_world (prompt (display_error P e))) (\<lambda>msg.
           chain (set_error out_error (''python error: '' @ msg)) (\<lambda>_. give (-1)))
       | None \<Rightarrow> chain (set_error out_error ''panicked while calling python'') (\<lambda>_. give (-1)))"

definition py_bridge_free_string :: "addr \<Rightarrow> ('r, 'p, 'w, unit) c_prog" where
  "py_bridge_free_string ptr =
     (if ptr = null then give () else chain (free cstring_of ptr) (\<lambda>_. give ()))"

text \<open>\<open>test\<close>, a smoke test of the bridge; the messages go to the error stream.\<close>

definition bridge_test :: "('w, 'o, 'e) python \<Rightarrow> ('r, 'p, 'w, int) c_prog" where
  "bridge_test P =
     chain (caught (in_python (andthen (modify (py_initialize P)) (\<lambda>_. py_run_hello P)))) (\<lambda>result. case result of
         Some (Inr _) \<Rightarrow> give 0
       | Some (Inl e) \<Rightarrow> chain (on_world (prompt (display_error P e))) (\<lambda>_. give (-1))
       | None \<Rightarrow> give (-1))"

section \<open>The resource's side\<close>

text \<open>
  The same call with its pointers: the resource looks the function up, gives it the two
  strings and the addresses of two local variables, copies the string that it finds in one
  of them and gives it back to the bridge.  \<open>missing\<close> is the linker's message.
\<close>

definition free_string :: "addr \<Rightarrow> ('r, 'p, 'w, unit) c_prog" where
  "free_string ptr = (if ptr = null then give () else py_bridge_free_string ptr)"

definition take_error_string :: "addr \<Rightarrow> ('r, 'p, 'w, string) c_prog" where
  "take_error_string err_ptr =
     (if err_ptr = null then give ''unknown error''
      else chain (load text_of err_ptr) (\<lambda>msg. chain (free_string err_ptr) (\<lambda>_. give (to_string_lossy msg))))"

definition call_bridge_c ::
    "('w, 'o, 'e) python \<Rightarrow> (string \<Rightarrow> string) \<Rightarrow> addr \<Rightarrow> string \<Rightarrow> addr \<Rightarrow> ('r, 'p, 'w, qrmi_error + string) c_prog" where
  "call_bridge_c P missing config_json symbol arg = (case bridge_functions P symbol of
      None \<Rightarrow> give (Inl (anyhow (''symbol not found: '' @ missing symbol)))
    | Some f \<Rightarrow>
        chain (alloc (PtrVar null)) (\<lambda>out_var. chain (alloc (PtrVar null)) (\<lambda>err_var.
        chain (run_bridge_call P arg config_json out_var err_var f) (\<lambda>r.
        chain (free ptr_of out_var) (\<lambda>out_ptr. chain (free ptr_of err_var) (\<lambda>err_ptr.
        if r \<noteq> 0 then chain (take_error_string err_ptr) (\<lambda>msg.
          give (Inl (anyhow (symbol @ '' failed: '' @ msg))))
        else chain (load text_of out_ptr) (\<lambda>v. chain (free_string out_ptr) (\<lambda>_.
          give (Inr (to_string_lossy v))))))))))"

definition bridged_c ::
    "('w, 'o, 'e) python \<Rightarrow> (string \<Rightarrow> string) \<Rightarrow> addr \<Rightarrow> string \<Rightarrow> string \<Rightarrow> string \<Rightarrow>
     ('r, 'p, 'w, qrmi_error + string) c_prog" where
  "bridged_c P missing config_json what symbol arg = (case c_text what arg of
      Inl e \<Rightarrow> give (Inl e)
    | Inr c \<Rightarrow> chain (alloc (CStr c)) (\<lambda>arg_ptr.
        chain (call_bridge_c P missing config_json symbol arg_ptr) (\<lambda>r.
        chain (free cstring_of arg_ptr) (\<lambda>_. give r))))"

section \<open>The call refines its specification\<close>

text \<open>What a call means without pointers: the reply that the model of the resource uses.\<close>

definition bridge_reply ::
    "('w, 'o, 'e) python \<Rightarrow> ('w, 'e) bridge_body \<Rightarrow> string \<Rightarrow> string \<Rightarrow> 'w \<Rightarrow> oq_reply \<times> 'w" where
  "bridge_reply P f arg config_json w =
     (case attached P f (to_string_lossy arg) (to_string_lossy config_json) w of
        (Ok v, w') \<Rightarrow> (\<lparr>or_ret = 0,
          or_out = (case cstring_new v of Some b \<Rightarrow> b | None \<Rightarrow> ''(contains invalid data)''), or_err = None\<rparr>, w')
      | (Err e, w') \<Rightarrow> (case py_display P e w' of (msg, w'') \<Rightarrow>
          (\<lparr>or_ret = -1, or_out = [],
            or_err = Some (case cstring_new (''python error: '' @ msg) of Some b \<Rightarrow> b
              | None \<Rightarrow> ''error (invalid utf8)'')\<rparr>, w''))
      | (Panic, w') \<Rightarrow> (\<lparr>or_ret = -1, or_out = [], or_err = Some ''panicked while calling python''\<rparr>, w'))"

definition with_bridge :: "('w, 'o, 'e) python \<Rightarrow> (string \<Rightarrow> string) \<Rightarrow> 'w oq_env \<Rightarrow> 'w oq_env" where
  "with_bridge P missing E = E\<lparr>lossy := to_string_lossy, bridge := (\<lambda>symbol. case bridge_functions P symbol of
      None \<Rightarrow> Inl (missing symbol) | Some f \<Rightarrow> Inr (bridge_reply P f))\<rparr>"

definition tidy :: "('r, 'p, 'w) c_state \<Rightarrow> bool" where
  "tidy s \<longleftrightarrow> 0 < brk s \<and> (\<forall>a \<ge> brk s. heap s a = None)"

text \<open>A run that leaves the memory as it was, but for the addresses used up.\<close>

definition leaves ::
    "('r, 'p, 'w, 'a) c_prog \<Rightarrow> ('r, 'p, 'w) c_state \<Rightarrow> 'a \<Rightarrow> 'w \<Rightarrow> bool" where
  "leaves m s a w \<longleftrightarrow> (\<exists>n. m s = Some (Ok a, s\<lparr>world := w, brk := n\<rparr>) \<and> brk s \<le> n)"

lemmas step_simps = chain_def load_def store_def alloc_def free_def give_def prompt_def ret_def on_world_def

lemma raw_cstring_ok: "NUL \<notin> set b \<Longrightarrow> raw_cstring b = alloc (CStr b)"
  by (simp add: raw_cstring_def cstring_new_def)

lemma cstring_or:
  "NUL \<notin> set d \<Longrightarrow> raw_cstring (case cstring_new v of Some b \<Rightarrow> b | None \<Rightarrow> d) =
     alloc (CStr (case cstring_new v of Some b \<Rightarrow> b | None \<Rightarrow> d))"
  by (rule raw_cstring_ok) (auto simp: cstring_new_def)

lemma no_NUL:
  "NUL \<notin> set ''(contains invalid data)''" "NUL \<notin> set ''error (invalid utf8)''"
  "NUL \<notin> set ''panicked while calling python''"
  by (simp_all only: NUL_def; code_simp)+

lemma chain_assoc: "chain m (\<lambda>p. chain (f p) (\<lambda>_. g)) = chain (chain m f) (\<lambda>_. g)"
  by (rule ext) (simp add: chain_def split: option.split prod.split outcome.split)

lemma stored_string:
  assumes "heap s var = Some (PtrVar q)" and "var \<noteq> brk s" and "NUL \<notin> set d"
  shows "chain (raw_cstring (case cstring_new v of Some b \<Rightarrow> b | None \<Rightarrow> d)) (\<lambda>a. store ptr_of var (PtrVar a)) s =
    Some (Ok (), s\<lparr>heap := (heap s)(brk s \<mapsto> CStr (case cstring_new v of Some b \<Rightarrow> b | None \<Rightarrow> d), var \<mapsto> PtrVar (brk s)),
      brk := Suc (brk s)\<rparr>)"
  using assms by (simp add: cstring_or step_simps)

lemma set_error_run:
  assumes "heap s var = Some (PtrVar q)" and "var \<noteq> brk s" and "var \<noteq> null"
  shows "set_error var msg s = Some (Ok (), s\<lparr>heap := (heap s)(brk s \<mapsto>
      CStr (case cstring_new msg of Some b \<Rightarrow> b | None \<Rightarrow> ''error (invalid utf8)''), var \<mapsto> PtrVar (brk s)),
      brk := Suc (brk s)\<rparr>)"
  using assms(3) stored_string [OF assms(1,2) no_NUL(2)] by (simp add: set_error_def)

lemma panic_message: "cstring_new ''panicked while calling python'' = Some ''panicked while calling python''"
  using no_NUL(3) by (simp add: cstring_new_def)

lemma caught_call:
  assumes "heap s arg = Some c" and "text_of c = Some a" and "heap s config = Some d" and "text_of d = Some cfg"
  shows "caught (chain (load text_of arg) (\<lambda>a. chain (load text_of config) (\<lambda>c.
      in_python (attached P f (to_string_lossy a) (to_string_lossy c))))) s =
    (case attached P f (to_string_lossy a) (to_string_lossy cfg) (world s) of
       (Ok v, w) \<Rightarrow> Some (Ok (Some (Inr v)), s\<lparr>world := w\<rparr>)
     | (Err e, w) \<Rightarrow> Some (Ok (Some (Inl e)), s\<lparr>world := w\<rparr>)
     | (Panic, w) \<Rightarrow> Some (Ok None, s\<lparr>world := w\<rparr>))"
  using assms by (simp add: caught_def step_simps in_python_def attempt_def split: prod.split outcome.split)

definition replied :: "oq_reply \<Rightarrow> addr \<Rightarrow> addr \<Rightarrow> ('r, 'p, 'w) c_state \<Rightarrow> 'w \<Rightarrow> ('r, 'p, 'w) c_state" where
  "replied reply out_var err_var s w =
     (let (var, text) = (if or_ret reply = 0 then (out_var, or_out reply) else (err_var, the (or_err reply))) in
      s\<lparr>heap := (heap s)(brk s \<mapsto> CStr text, var \<mapsto> PtrVar (brk s)), brk := Suc (brk s), world := w\<rparr>)"

lemma run_bridge_call_run:
  assumes args: "heap s arg = Some c" "text_of c = Some a" "heap s config = Some d" "text_of d = Some cfg"
    and vars: "heap s out_var = Some (PtrVar p)" "heap s err_var = Some (PtrVar q)"
      "out_var \<noteq> brk s" "err_var \<noteq> brk s" "err_var \<noteq> null"
    and reply: "bridge_reply P f a cfg (world s) = (reply, w)"
  shows "run_bridge_call P arg config out_var err_var f s =
    Some (Ok (or_ret reply), replied reply out_var err_var s w)"
proof -
  note call = caught_call [OF args, of P f]
  obtain r w1 where att: "attached P f (to_string_lossy a) (to_string_lossy cfg) (world s) = (r, w1)"
    by (cases "attached P f (to_string_lossy a) (to_string_lossy cfg) (world s)")
  let ?s = "s\<lparr>world := w1\<rparr>"
  show ?thesis
  proof (cases r)
    case (Ok v)
    let ?s = "s\<lparr>world := w1\<rparr>"
    have vs: "heap ?s out_var = Some (PtrVar p)" "out_var \<noteq> brk ?s" using vars by simp_all
    have c: "caught (chain (load text_of arg) (\<lambda>a. chain (load text_of config) (\<lambda>c.
        in_python (attached P f (to_string_lossy a) (to_string_lossy c))))) s = Some (outcome.Ok (Some (Inr v)), ?s)"
      by (simp add: call att Ok)
    show ?thesis
      unfolding run_bridge_call_def
      by (subst chain_step, rule c, simp only: option.case sum.case chain_assoc,
          subst chain_step, rule stored_string [OF vs no_NUL(1)])
        (insert reply, auto simp: bridge_reply_def att Ok replied_def give_step)
  next
    case (Err e)
    obtain msg w2 where d: "py_display P e w1 = (msg, w2)" by (cases "py_display P e w1")
    let ?s = "s\<lparr>world := w1\<rparr>" and ?t = "s\<lparr>world := w2\<rparr>"
    have vs: "heap ?t err_var = Some (PtrVar q)" "err_var \<noteq> brk ?t" using vars by simp_all
    have c: "caught (chain (load text_of arg) (\<lambda>a. chain (load text_of config) (\<lambda>c.
        in_python (attached P f (to_string_lossy a) (to_string_lossy c))))) s = Some (outcome.Ok (Some (Inl e)), ?s)"
      by (simp add: call att Err)
    have m: "on_world (prompt (display_error P e)) ?s = Some (outcome.Ok msg, ?t)"
      by (simp add: on_world_def prompt_def display_error_def d)
    show ?thesis
      unfolding run_bridge_call_def
      by (subst chain_step, rule c, simp only: option.case sum.case,
          subst chain_step, rule m, subst chain_step, rule set_error_run [OF vs vars(5)])
        (insert reply, auto simp: bridge_reply_def att Err d replied_def give_step)
  next
    case Panic
    let ?s = "s\<lparr>world := w1\<rparr>"
    have vs: "heap ?s err_var = Some (PtrVar q)" "err_var \<noteq> brk ?s" using vars by simp_all
    have c: "caught (chain (load text_of arg) (\<lambda>a. chain (load text_of config) (\<lambda>c.
        in_python (attached P f (to_string_lossy a) (to_string_lossy c))))) s = Some (outcome.Ok None, ?s)"
      by (simp add: call att Panic)
    show ?thesis
      unfolding run_bridge_call_def
      by (subst chain_step, rule c, simp only: option.case,
          subst chain_step, rule set_error_run [OF vs vars(5)])
        (insert reply, auto simp: bridge_reply_def att Panic replied_def panic_message give_step)
  qed
qed

lemma heap_restored: "tidy s \<Longrightarrow> brk s \<le> a \<Longrightarrow> heap s a = None"
  by (simp add: tidy_def)

lemma take_error_run:
  assumes "heap s p = Some (CStr b)" and "p \<noteq> null"
  shows "take_error_string p s = Some (Ok (to_string_lossy b), s\<lparr>heap := (heap s)(p := None)\<rparr>)"
  using assms by (simp add: take_error_string_def free_string_def py_bridge_free_string_def step_simps)

lemma bridge_reply_cases:
  assumes "bridge_reply P f a cfg w = (reply, w')"
  shows "or_ret reply = 0 \<and> or_err reply = None \<or> or_ret reply = -1 \<and> (\<exists>m. or_err reply = Some m)"
  using assms by (auto simp: bridge_reply_def split: prod.splits outcome.splits)

lemma two_vars:
  "chain (alloc c) (\<lambda>x. chain (alloc d) (\<lambda>y. k x y)) s = k (brk s) (Suc (brk s))
     (s\<lparr>heap := (heap s)(brk s \<mapsto> c, Suc (brk s) \<mapsto> d), brk := Suc (Suc (brk s))\<rparr>)"
  by (simp add: chain_def alloc_def)

lemma two_freed:
  assumes "heap t x = Some (PtrVar p)" and "heap t y = Some (PtrVar q)" and "x \<noteq> y"
  shows "chain (free ptr_of x) (\<lambda>a. chain (free ptr_of y) (\<lambda>b. k a b)) t =
    k p q (t\<lparr>heap := (heap t)(x := None, y := None)\<rparr>)"
  using assms by (simp add: chain_def free_def)

lemma call_bridge_run:
  assumes tidy: "tidy s" and arg: "heap s arg = Some (CStr a)" and config: "heap s config = Some (CStr (oq_config_json R))"
  shows "\<exists>v w. leaves (call_bridge_c P missing config symbol arg) s v w
    \<and> call_bridge (with_bridge P missing E) R symbol a (world s) = (outcome_of v, w)"
proof (cases "bridge_functions P symbol")
  case None
  then show ?thesis
    by (auto simp: leaves_def call_bridge_c_def give_step call_bridge_def with_bridge_def throw_def
        intro!: exI [of _ "brk s"])
next
  case (Some f)
  let ?b = "brk s"
  obtain reply w where reply: "bridge_reply P f a (oq_config_json R) (world s) = (reply, w)"
    by (cases "bridge_reply P f a (oq_config_json R) (world s)")
  let ?s = "s\<lparr>heap := (heap s)(?b \<mapsto> PtrVar null, Suc ?b \<mapsto> PtrVar null), brk := Suc (Suc ?b)\<rparr>"
  have below: "x < ?b" if "heap s x = Some y" for x y
    using that tidy unfolding tidy_def by (metis not_le option.distinct(1))
  have fresh: "arg < ?b" "config < ?b" "0 < ?b"
    using below [OF arg] below [OF config] tidy by (simp_all add: tidy_def)
  have run: "run_bridge_call P arg config ?b (Suc ?b) f ?s =
      Some (Ok (or_ret reply), replied reply ?b (Suc ?b) ?s w)"
    using fresh arg config reply
    by (intro run_bridge_call_run [where c = "CStr a" and a = a and d = "CStr (oq_config_json R)" and p = null and q = null])
      (auto simp: fun_upd_apply)
  have clean: "heap s ?b = None" "heap s (Suc ?b) = None" "heap s (Suc (Suc ?b)) = None"
    using heap_restored [OF tidy] by simp_all
  let ?t = "replied reply ?b (Suc ?b) ?s w"
  let ?q = "Suc (Suc ?b)"
  define msg_text where "msg_text = (if or_ret reply = 0 then or_out reply else the (or_err reply))"
  define u where "u = s\<lparr>heap := (heap s)(?b := None, Suc ?b := None, ?q \<mapsto> CStr msg_text), brk := Suc ?q, world := w\<rparr>"
  have t: "heap ?t ?b = Some (PtrVar (if or_ret reply = 0 then ?q else null))"
    "heap ?t (Suc ?b) = Some (PtrVar (if or_ret reply = 0 then null else ?q))"
    "?t\<lparr>heap := (heap ?t)(?b := None, Suc ?b := None)\<rparr> = u"
    by (auto simp: replied_def u_def msg_text_def fun_eq_iff)
  have u: "heap u ?q = Some (CStr msg_text)" "?q \<noteq> null" by (simp_all add: u_def)
  have "u\<lparr>heap := (heap u)(?q := None)\<rparr> = s\<lparr>world := w, brk := Suc ?q\<rparr>"
    using clean by (simp add: u_def) (auto simp: fun_eq_iff)
  note freed = this
  have tail: "call_bridge_c P missing config symbol arg s =
    (if or_ret reply \<noteq> 0 then chain (take_error_string (if or_ret reply = 0 then null else ?q)) (\<lambda>msg.
          give (Inl (anyhow (symbol @ '' failed: '' @ msg))))
        else chain (load text_of (if or_ret reply = 0 then ?q else null)) (\<lambda>v.
          chain (free_string (if or_ret reply = 0 then ?q else null)) (\<lambda>_.
          give (Inr (to_string_lossy v))))) u"
    unfolding call_bridge_c_def Some option.case two_vars
    by (rule trans [OF chain_step [where m = "run_bridge_call P arg config ?b (Suc ?b) f" and s = ?s, OF run]],
      rule trans [OF two_freed [OF t(1,2)]], simp, unfold t(3), rule refl)
  have spec: "call_bridge (with_bridge P missing E) R symbol a (world s) =
    (outcome_of (if or_ret reply \<noteq> 0 then Inl (anyhow (symbol @ '' failed: '' @ to_string_lossy msg_text))
       else Inr (to_string_lossy msg_text)), w)"
    using bridge_reply_cases [OF reply]
    by (auto simp: call_bridge_def with_bridge_def Some reply msg_text_def)
  have "call_bridge_c P missing config symbol arg s = Some (Ok
      (if or_ret reply \<noteq> 0 then Inl (anyhow (symbol @ '' failed: '' @ to_string_lossy msg_text))
       else Inr (to_string_lossy msg_text)), s\<lparr>world := w, brk := Suc ?q\<rparr>)"
  proof (cases "or_ret reply = 0")
    case True
    then show ?thesis
      unfolding tail using u freed by (simp add: chain_def load_def free_string_def py_bridge_free_string_def free_def give_step)
  next
    case False
    then show ?thesis
      unfolding tail using take_error_run [OF u] freed by (simp add: chain_def give_step)
  qed
  with spec show ?thesis by (auto simp: leaves_def)
qed

text \<open>
  C7. The call through the C interface of the bridge is the call that the resource is
  modelled with, and it leaves the memory as it found it: every string that the bridge
  hands out is given back exactly once, also when Python raises an exception, when it
  panics, and when the function does not exist; no pointer is used after that, and no
  panic crosses the interface.
\<close>

theorem bridge_call_refines:
  assumes "tidy s" and "heap s config = Some (CStr (oq_config_json R))"
  shows "\<exists>v n w. bridged_c P missing config what symbol arg s = Some (Ok v, s\<lparr>world := w, brk := n\<rparr>)
    \<and> bridged (with_bridge P missing E) R what symbol arg (world s) = (outcome_of v, w)"
proof (cases "c_text what arg")
  case (Inl e)
  then show ?thesis
    by (auto simp: bridged_c_def bridged_def give_step andthen_def from_result_def intro!: exI [of _ "brk s"])
next
  case (Inr c)
  let ?b = "brk s"
  let ?s = "s\<lparr>heap := (heap s)(?b \<mapsto> CStr c), brk := Suc ?b\<rparr>"
  have "tidy ?s" using assms(1) by (auto simp: tidy_def)
  moreover have "config \<noteq> ?b" using assms by (auto simp: tidy_def)
  ultimately obtain v w where run: "leaves (call_bridge_c P missing config symbol ?b) ?s v w"
    and spec: "call_bridge (with_bridge P missing E) R symbol c (world s) = (outcome_of v, w)"
    using call_bridge_run [of ?s ?b c config R P missing symbol E] assms(2) by auto
  from run obtain n where n: "call_bridge_c P missing config symbol ?b ?s = Some (Ok v, ?s\<lparr>world := w, brk := n\<rparr>)"
    by (auto simp: leaves_def)
  have "heap s ?b = None" using assms(1) by (simp add: tidy_def)
  then have "(heap s)(?b := None) = heap s" by auto
  then have "bridged_c P missing config what symbol arg s = Some (Ok v, s\<lparr>world := w, brk := n\<rparr>)"
    by (simp add: bridged_c_def Inr chain_def alloc_def n free_def give_step)
  moreover have "bridged (with_bridge P missing E) R what symbol arg (world s) = (outcome_of v, w)"
    by (simp add: bridged_def Inr andthen_def from_result_def spec)
  ultimately show ?thesis by blast
qed

text \<open>
  C22. The documentation of the entry points allows a null pointer for the output string.
  The code writes through it: whatever a function does, when it succeeds, such a call is
  undefined behaviour.
\<close>

theorem null_output_misused:
  assumes "heap s arg = Some (CStr a)" and "heap s config = Some (CStr cfg)" and "heap s null = None"
    and "0 < brk s" and "attached P f (to_string_lossy a) (to_string_lossy cfg) (world s) = (Ok v, w)"
  shows "\<exists>t. run_bridge_call P arg config null err_var f s = Some (Err Misuse, t)"
proof -
  let ?s = "s\<lparr>world := w\<rparr>"
  have c: "caught (chain (load text_of arg) (\<lambda>a. chain (load text_of config) (\<lambda>c.
      in_python (attached P f (to_string_lossy a) (to_string_lossy c))))) s = Some (outcome.Ok (Some (Inr v)), ?s)"
    using caught_call [OF assms(1) _ assms(2), of a cfg P f] assms(5) by simp
  have "run_bridge_call P arg config null err_var f s =
      chain (chain (raw_cstring (case cstring_new v of Some b \<Rightarrow> b | None \<Rightarrow> ''(contains invalid data)''))
        (\<lambda>p. store ptr_of null (PtrVar p))) (\<lambda>_. give 0) ?s"
    unfolding run_bridge_call_def
    by (subst chain_step, rule c, simp only: option.case sum.case chain_assoc)
  then show ?thesis
    using assms(3,4) by (simp add: chain_def alloc_def store_def cstring_or [OF no_NUL(1)])
qed

end
