(* ===== verification/WitnessesBridge.thy ===== *)
theory WitnessesBridge
  imports OqtopusBridge
begin

text \<open>The properties of the OQTOPUS bridge at concrete inputs.\<close>

text \<open>A Python without the client library, whose exceptions are their messages.\<close>

definition bare_python :: "(unit, unit, string) python" where
  "bare_python = \<lparr>py_initialize = id, py_import = (\<lambda>m. throw (''No module named '' @ m)), py_getattr = (\<lambda>_ _. throw []),
     py_hasattr = (\<lambda>_ _. ret False), py_call = (\<lambda>_ _ _. ret ()), py_call_method = (\<lambda>_ _ _ _. ret ()),
     py_text = (\<lambda>_. ()), py_extract_text = (\<lambda>_. throw []), py_extract_int = (\<lambda>_. throw []), py_cast_dict = ret,
     py_new_dict = ret (), py_get_item = (\<lambda>_ _. ret None), py_set_item = (\<lambda>_ _ _. ret ()), py_items = (\<lambda>_. ret []),
     py_run_hello = ret (), py_error_value = (\<lambda>_. ()), py_display = (\<lambda>e w. (e, w)),
     py_traceback = (\<lambda>_ w. (None, w)), py_runtime_error = id, py_value_error = id\<rparr>"

definition bridge_memory :: "(unit, unit, unit) c_state" where
  "bridge_memory = \<lparr>heap = [1 \<mapsto> CStr ''{}'', 2 \<mapsto> CStr ''j''], brk = 3, last_error = None,
     last_kind = error_kind.Other, world = ()\<rparr>"

definition bare_resource :: oqtopus where
  "bare_resource = \<lparr>oq_device_id = ''d'', oq_config_json = ''{}''\<rparr>"

lemma tidy_memory: "tidy bridge_memory" "heap bridge_memory 1 = Some (CStr (oq_config_json bare_resource))"
  by (simp_all add: tidy_def bridge_memory_def bare_resource_def)

definition no_module :: string where
  "no_module = ''python error: No module named oqtopus_client'' @ [nl]"

lemma no_module_text: "cstring_new no_module = Some no_module" "to_string_lossy no_module = no_module"
proof -
  have "NUL \<notin> set no_module" by (simp only: NUL_def no_module_def; code_simp)
  then show "cstring_new no_module = Some no_module" by (simp add: cstring_new_def)
  have "utf8_ok (map byte no_module)" by (simp only: no_module_def; code_simp)
  then show "to_string_lossy no_module = no_module" by simp
qed

lemma bare_calls:
  "py_import bare_python m = throw (''No module named '' @ m)" "py_getattr bare_python x a = throw []"
  "py_initialize bare_python = id" "py_display bare_python e w = (e, w)" "py_traceback bare_python e w = (None, w)"
  "py_runtime_error bare_python = id"
  by (simp_all add: bare_python_def)

lemma bare_attached:
  "attached bare_python (cancel_job bare_python) j cfg () = (Err (''No module named oqtopus_client'' @ [nl]), ())"
proof -
  have "build_client bare_python cfg () = (Err ''No module named oqtopus_client'', ())"
    unfolding build_client_def bare_calls by (rule andthen_stop) (simp add: throw_def)
  then have "cancel_job bare_python j cfg () = (Err ''No module named oqtopus_client'', ())"
    unfolding cancel_job_def by (rule andthen_stop)
  moreover have "extract_user_api_error bare_python e () = (Ok None, ())" for e
    unfolding extract_user_api_error_def if_ok_def bare_calls by (simp add: attempt_def throw_def ret_def)
  ultimately show ?thesis
    unfolding attached_def traceback_text_def display_error_def bare_calls
    by (simp add: andthen_def attempt_def modify_def throw_def)
qed

lemma bare_cancel:
  "bridged (with_bridge bare_python (\<lambda>_. []) E) bare_resource ''invalid job_id'' ''cancel_job'' ''j'' () =
     (Err (anyhow (''cancel_job failed: '' @ no_module)), ())"
proof -
  have "c_text ''invalid job_id'' ''j'' = Inr ''j''" by (simp add: c_text_def cstring_def; code_simp)
  moreover have "bridge_functions bare_python ''cancel_job'' = Some (cancel_job bare_python)"
    by (simp add: bridge_functions_def)
  moreover have "bridge_reply bare_python (cancel_job bare_python) ''j'' (oq_config_json bare_resource) () =
      (\<lparr>or_ret = -1, or_out = [], or_err = Some no_module\<rparr>, ())"
    using no_module_text(1)
    by (simp add: bridge_reply_def bare_attached bare_calls no_module_def)
  ultimately show ?thesis
    by (simp add: bridged_def call_bridge_def with_bridge_def no_module_text prog_defs)
qed

theorem bridge_call_refines_witness:
  "\<exists>n. bridged_c bare_python (\<lambda>_. []) 1 ''invalid job_id'' ''cancel_job'' ''j'' bridge_memory =
     Some (Ok (Inl (anyhow (''cancel_job failed: '' @ no_module))), bridge_memory\<lparr>brk := n\<rparr>)"
proof -
  obtain v n w where
    "bridged_c bare_python (\<lambda>_. []) 1 ''invalid job_id'' ''cancel_job'' ''j'' bridge_memory =
       Some (Ok v, bridge_memory\<lparr>world := w, brk := n\<rparr>)"
    "bridged (with_bridge bare_python (\<lambda>_. []) undefined) bare_resource ''invalid job_id'' ''cancel_job'' ''j''
       (world bridge_memory) = (outcome_of v, w)"
    using bridge_call_refines [OF tidy_memory, of bare_python "\<lambda>_. []" "''invalid job_id''" "''cancel_job''" "''j''"]
    by blast
  moreover have "outcome_of v = Err e \<Longrightarrow> v = Inl e" for e :: qrmi_error by (cases v) simp_all
  moreover have "bridge_memory\<lparr>world := w\<rparr> = bridge_memory" for w by (simp add: bridge_memory_def)
  ultimately show ?thesis by (auto simp: bare_cancel)
qed

theorem null_output_misused_witness:
  "\<exists>t. run_bridge_call bare_python 2 1 null null (\<lambda>_ _. ret ''ok'') bridge_memory = Some (Err Misuse, t)"
proof -
  have "attached bare_python (\<lambda>_ _. ret ''ok'') a c () = (Ok ''ok'', ())" for a c
    by (simp add: attached_def bare_python_def prog_defs)
  then show ?thesis
    by (intro null_output_misused [where a = "''j''" and cfg = "''{}''" and v = "''ok''" and w = "()"])
      (simp_all add: bridge_memory_def)
qed

end
